(* ===== verification/Prelude.thy ===== *)
theory Prelude
  imports Main "HOL-Library.Word"
begin

text \<open>
  What every theory of the development shares: the outcome of a Rust computation, the
  collections of simplification rules the component proofs draw on, and small facts on
  lists that the string library needs.
\<close>

named_theorems outcome_simps \<open>inversion of a successful or failed chain of question marks\<close>
named_theorems rust_str \<open>facts on the string operations of the standard library\<close>

type_synonym u16 = "16 word"
type_synonym u64 = "64 word"

section \<open>Outcomes\<close>

text \<open>
  A Rust function that returns \<open>Result<T, E>\<close> has three outcomes: \<open>Ok\<close>, \<open>Err\<close>, and a
  panic, which unwinds through every caller that has no handler of its own. The
  \<open>?\<close> operator is \<open>and_then\<close>: it goes on with the value, and hands an error or a panic to
  the caller.
\<close>

datatype ('a, 'e) outcome = Ok 'a | Err 'e | Panic

fun and_then :: "('a, 'e) outcome \<Rightarrow> ('a \<Rightarrow> ('b, 'e) outcome) \<Rightarrow> ('b, 'e) outcome" where
  "and_then (Ok x) f = f x"
| "and_then (Err e) f = Err e"
| "and_then Panic f = Panic"

fun ok_or :: "'e \<Rightarrow> 'a option \<Rightarrow> ('a, 'e) outcome" where
  "ok_or e None = Err e"
| "ok_or e (Some x) = Ok x"

fun map_err :: "('e \<Rightarrow> 'f) \<Rightarrow> ('a, 'e) outcome \<Rightarrow> ('a, 'f) outcome" where
  "map_err f (Ok x) = Ok x"
| "map_err f (Err e) = Err (f e)"
| "map_err f Panic = Panic"

text \<open>The result of a library function that never panics.\<close>

fun of_sum :: "'e + 'a \<Rightarrow> ('a, 'e) outcome" where
  "of_sum (Inl e) = Err e"
| "of_sum (Inr x) = Ok x"

fun ok :: "('a, 'e) outcome \<Rightarrow> 'a option" where
  "ok (Ok x) = Some x"
| "ok _ = None"

fun unwrap_or :: "'a \<Rightarrow> 'a option \<Rightarrow> 'a" where
  "unwrap_or d None = d"
| "unwrap_or d (Some x) = x"

fun or_else :: "'a option \<Rightarrow> 'a option \<Rightarrow> 'a option" where
  "or_else None y = y"
| "or_else (Some x) y = Some x"

lemma and_then_Ok_iff [outcome_simps]:
  "and_then r f = Ok y \<longleftrightarrow> (\<exists>x. r = Ok x \<and> f x = Ok y)"
  by (cases r) auto

lemma and_then_Err_iff [outcome_simps]:
  "and_then r f = Err e \<longleftrightarrow> r = Err e \<or> (\<exists>x. r = Ok x \<and> f x = Err e)"
  by (cases r) auto

lemma and_then_Panic_iff [outcome_simps]:
  "and_then r f = Panic \<longleftrightarrow> r = Panic \<or> (\<exists>x. r = Ok x \<and> f x = Panic)"
  by (cases r) auto

lemma ok_or_Ok_iff [outcome_simps]: "ok_or e v = Ok x \<longleftrightarrow> v = Some x"
  by (cases v) auto

lemma ok_or_Err_iff [outcome_simps]: "ok_or e v = Err e' \<longleftrightarrow> v = None \<and> e' = e"
  by (cases v) auto

lemma ok_or_not_Panic [simp]: "ok_or e v \<noteq> Panic"
  by (cases v) auto

lemma map_err_Ok_iff [outcome_simps]: "map_err f r = Ok x \<longleftrightarrow> r = Ok x"
  by (cases r) auto

lemma map_err_Err_iff [outcome_simps]: "map_err f r = Err e \<longleftrightarrow> (\<exists>e'. r = Err e' \<and> e = f e')"
  by (cases r) auto

lemma map_err_Panic_iff [outcome_simps]: "map_err f r = Panic \<longleftrightarrow> r = Panic"
  by (cases r) auto

lemma of_sum_Ok_iff [outcome_simps]: "of_sum v = Ok x \<longleftrightarrow> v = Inr x"
  by (cases v) auto

lemma of_sum_Err_iff [outcome_simps]: "of_sum v = Err e \<longleftrightarrow> v = Inl e"
  by (cases v) auto

lemma of_sum_not_Panic [simp]: "of_sum v \<noteq> Panic"
  by (cases v) auto

lemma ok_Some_iff [outcome_simps]: "ok r = Some x \<longleftrightarrow> r = Ok x"
  by (cases r) auto

lemma unwrap_or_SomeD: "v = Some x \<Longrightarrow> unwrap_or d v = x"
  by simp

lemma or_else_None2 [simp]: "or_else v None = v"
  by (cases v) auto

section \<open>Lists\<close>

lemma dropWhile_no_head [simp]: "(case xs of [] \<Rightarrow> True | x # _ \<Rightarrow> \<not> P x) \<Longrightarrow> dropWhile P xs = xs"
  by (cases xs) auto

lemma butlast_snoc_last: "xs \<noteq> [] \<Longrightarrow> butlast xs @ [last xs] = xs"
  by simp

text \<open>All values, or none when one is missing (\<open>collect\<close> into an \<open>Option\<close>).\<close>

fun all_some :: "'a option list \<Rightarrow> 'a list option" where
  "all_some [] = Some []"
| "all_some (None # r) = None"
| "all_some (Some x # r) = map_option (Cons x) (all_some r)"

lemma all_some_Some [simp]: "all_some (map (\<lambda>x. Some (f x)) xs) = Some (map f xs)"
  by (induction xs) simp_all

end
