(* ===== verification/Utf8.thy ===== *)
theory Utf8
  imports Rust_Str
begin

text \<open>
  Well-formed UTF-8. A Rust \<open>String\<close> always holds well-formed UTF-8;
  \<open>String::from_utf8\<close> and \<open>decode_utf8\<close> check it and fail otherwise. The table is that of
  the Unicode standard, as \<open>core::str\<close> has it. The lemmas say that the check is compatible
  with joining, and with cutting at an ASCII character.
\<close>

definition ascii :: "char \<Rightarrow> bool" where
  "ascii c \<longleftrightarrow> byte c < 128"

lemma graphic_ascii: "graphic c \<Longrightarrow> ascii c"
  by (simp add: graphic_def ascii_def)

definition continuation :: "char \<Rightarrow> bool" where
  "continuation c \<longleftrightarrow> 128 \<le> byte c \<and> byte c \<le> 191"

definition in_range :: "nat \<Rightarrow> nat \<Rightarrow> char \<Rightarrow> bool" where
  "in_range lo hi c \<longleftrightarrow> lo \<le> byte c \<and> byte c \<le> hi"

text \<open>The tail of a character after its first two bytes: how many continuation bytes follow.\<close>

fun take_continuations :: "nat \<Rightarrow> string \<Rightarrow> string option" where
  "take_continuations 0 s = Some s"
| "take_continuations (Suc n) [] = None"
| "take_continuations (Suc n) (c # cs) = (if continuation c then take_continuations n cs else None)"

text \<open>The range of the second byte and the number of further bytes, by the first byte.\<close>

definition lead_byte :: "nat \<Rightarrow> (nat \<times> nat \<times> nat) option" where
  "lead_byte b =
     (if 0xC2 \<le> b \<and> b \<le> 0xDF then Some (0x80, 0xBF, 0)
      else if b = 0xE0 then Some (0xA0, 0xBF, 1)
      else if b = 0xED then Some (0x80, 0x9F, 1)
      else if 0xE1 \<le> b \<and> b \<le> 0xEF then Some (0x80, 0xBF, 1)
      else if b = 0xF0 then Some (0x90, 0xBF, 2)
      else if 0xF1 \<le> b \<and> b \<le> 0xF3 then Some (0x80, 0xBF, 2)
      else if b = 0xF4 then Some (0x80, 0x8F, 2)
      else None)"

fun utf8_step :: "string \<Rightarrow> string option" where
  "utf8_step [] = None"
| "utf8_step (c # cs) =
     (if ascii c then Some cs
      else case lead_byte (byte c) of
             None \<Rightarrow> None
           | Some (lo, hi, n) \<Rightarrow>
               (case cs of
                  [] \<Rightarrow> None
                | d # ds \<Rightarrow> if in_range lo hi d then take_continuations n ds else None))"

lemma take_continuations_length: "take_continuations n s = Some r \<Longrightarrow> length r \<le> length s"
  by (induction n s rule: take_continuations.induct) (auto split: if_splits)

lemma utf8_step_length: "utf8_step s = Some r \<Longrightarrow> length r < length s"
  by (cases s)
    (auto split: if_splits option.splits list.splits dest!: take_continuations_length)

function utf8_valid :: "string \<Rightarrow> bool" where
  "utf8_valid s \<longleftrightarrow>
     (if s = [] then True
      else case utf8_step s of None \<Rightarrow> False | Some r \<Rightarrow> utf8_valid r)"
  by pat_completeness auto
termination
  by (relation "measure length") (auto dest: utf8_step_length)

declare utf8_valid.simps [simp del]

lemma utf8_valid_Nil [simp]: "utf8_valid []"
  by (simp add: utf8_valid.simps)

lemma utf8_valid_step:
  "s \<noteq> [] \<Longrightarrow> utf8_valid s \<longleftrightarrow> (\<exists>r. utf8_step s = Some r \<and> utf8_valid r)"
  by (subst utf8_valid.simps) (auto split: option.splits)

lemma utf8_valid_ascii_Cons [simp]: "ascii c \<Longrightarrow> utf8_valid (c # s) = utf8_valid s"
  by (simp add: utf8_valid.simps [of "c # s"])

lemma utf8_valid_all_ascii: "\<forall>c \<in> set s. ascii c \<Longrightarrow> utf8_valid s"
  by (induction s) auto

lemma take_continuations_append:
  "take_continuations n s = Some r \<Longrightarrow> take_continuations n (s @ t) = Some (r @ t)"
  by (induction n s rule: take_continuations.induct) (auto split: if_splits)

lemma utf8_step_append: "utf8_step s = Some r \<Longrightarrow> utf8_step (s @ t) = Some (r @ t)"
  by (cases s)
    (auto split: if_splits option.splits list.splits dest: take_continuations_append)

lemma utf8_valid_append [simp]: "utf8_valid s \<Longrightarrow> utf8_valid t \<Longrightarrow> utf8_valid (s @ t)"
proof (induction s rule: utf8_valid.induct)
  case (1 s)
  show ?case
  proof (cases "s = []")
    case True
    with 1 show ?thesis by simp
  next
    case False
    with 1 obtain r where r: "utf8_step s = Some r" "utf8_valid r"
      by (auto simp: utf8_valid_step)
    with 1 False have "utf8_valid (r @ t)" by simp
    with r False show ?thesis by (auto simp: utf8_valid_step dest: utf8_step_append)
  qed
qed

text \<open>An ASCII byte is no continuation byte, so no character reaches across it.\<close>

lemma ascii_not_in_range: "ascii c \<Longrightarrow> 128 \<le> lo \<Longrightarrow> \<not> in_range lo hi c"
  by (auto simp: ascii_def in_range_def)

lemma lead_byte_range: "lead_byte b = Some (lo, hi, n) \<Longrightarrow> 128 \<le> lo"
  by (auto simp: lead_byte_def split: if_splits)

lemma take_continuations_cut:
  "take_continuations n (s @ c # t) = Some r \<Longrightarrow> ascii c \<Longrightarrow>
     \<exists>s'. take_continuations n s = Some s' \<and> r = s' @ c # t"
proof (induction n s rule: take_continuations.induct)
  case (2 n)
  then show ?case by (auto simp: ascii_def continuation_def split: if_splits)
qed (auto split: if_splits)

lemma utf8_step_cut:
  assumes "utf8_step (s @ c # t) = Some r" and "ascii c" and "s \<noteq> []"
  shows "\<exists>s'. utf8_step s = Some s' \<and> r = s' @ c # t"
proof -
  obtain a as where s: "s = a # as" using assms(3) by (cases s) auto
  show ?thesis
  proof (cases "ascii a")
    case True
    with assms(1) s show ?thesis by auto
  next
    case False
    with assms(1) s obtain lo hi n where lead: "lead_byte (byte a) = Some (lo, hi, n)"
      by (auto split: option.splits)
    show ?thesis
    proof (cases as)
      case Nil
      with assms(1,2) s False lead show ?thesis
        using ascii_not_in_range lead_byte_range by fastforce
    next
      case (Cons d ds)
      with assms(1) s False lead have "in_range lo hi d"
        and "take_continuations n (ds @ c # t) = Some r"
        by (auto split: if_splits)
      with take_continuations_cut [OF _ assms(2)] Cons s False lead show ?thesis by auto
    qed
  qed
qed

lemma utf8_valid_cut:
  "utf8_valid (s @ c # t) \<Longrightarrow> ascii c \<Longrightarrow> utf8_valid s \<and> utf8_valid t"
proof (induction s rule: utf8_valid.induct)
  case (1 s)
  show ?case
  proof (cases "s = []")
    case True
    with 1 show ?thesis by simp
  next
    case False
    with 1 obtain r where r: "utf8_step (s @ c # t) = Some r" "utf8_valid r"
      by (auto simp: utf8_valid_step)
    then obtain s' where "utf8_step s = Some s'" and "r = s' @ c # t"
      using utf8_step_cut [OF r(1)] 1 False by blast
    with r 1 False show ?thesis by (auto simp: utf8_valid_step)
  qed
qed

definition from_utf8 :: "string \<Rightarrow> string option" where
  "from_utf8 bytes = (if utf8_valid bytes then Some bytes else None)"

lemma from_utf8_Some_iff [rust_str]: "from_utf8 b = Some s \<longleftrightarrow> utf8_valid b \<and> s = b"
  by (auto simp: from_utf8_def)

lemma ascii_digit_ascii [simp]: "ascii_digit c \<Longrightarrow> ascii c"
  by (simp add: ascii_digit_def ascii_def)

lemma utf8_valid_show_u16 [simp]: "utf8_valid (show_u16 w)"
  by (rule utf8_valid_all_ascii) (auto dest: show_u16_digits)

lemma utf8_valid_join:
  "utf8_valid sep \<Longrightarrow> \<forall>p \<in> set ps. utf8_valid p \<Longrightarrow> utf8_valid (join sep ps)"
  by (induction sep ps rule: join.induct) (auto simp: utf8_valid_append)

text \<open>Optional strings.\<close>

definition valid_opt :: "string option \<Rightarrow> bool" where
  "valid_opt v \<longleftrightarrow> (case v of None \<Rightarrow> True | Some s \<Rightarrow> utf8_valid s)"

lemma valid_opt_simps [simp]: "valid_opt None" "valid_opt (Some s) \<longleftrightarrow> utf8_valid s"
  by (simp_all add: valid_opt_def)

text \<open>Lower-casing ASCII letters keeps the encoding of all other characters.\<close>

lemma lower_char_ascii [simp]: "ascii (ascii_lower_char c) = ascii c"
  by (auto simp: ascii_def ascii_lower_char_def)

lemma lower_char_not_ascii [simp]: "\<not> ascii c \<Longrightarrow> ascii_lower_char c = c"
  by (auto simp: ascii_def ascii_lower_char_def)

lemma lower_char_range: "128 \<le> lo \<Longrightarrow> in_range lo hi (ascii_lower_char c) = in_range lo hi c"
  by (cases "ascii c") (simp_all add: ascii_not_in_range)

lemma lower_char_continuation [simp]: "continuation (ascii_lower_char c) = continuation c"
  by (cases "ascii c") (auto simp: continuation_def ascii_def ascii_lower_char_def)

lemma take_continuations_lower:
  "take_continuations n (map ascii_lower_char s) = map_option (map ascii_lower_char) (take_continuations n s)"
  by (induction n s rule: take_continuations.induct) auto

lemma utf8_step_lower:
  "utf8_step (map ascii_lower_char s) = map_option (map ascii_lower_char) (utf8_step s)"
  by (cases s)
    (auto simp: lower_char_range take_continuations_lower dest!: lead_byte_range
      split: option.splits list.splits)

lemma utf8_valid_lower [simp]: "utf8_valid s \<Longrightarrow> utf8_valid (to_ascii_lowercase s)"
proof (induction s rule: utf8_valid.induct)
  case (1 s)
  then show ?case
    by (cases "s = []")
      (auto simp: to_ascii_lowercase_def utf8_valid_step utf8_step_lower)
qed

end
