(* ===== verification/Model.thy ===== *)
theory Model
  imports Utf8 "HOL-Library.Finite_Map"
begin

text \<open>
  The intermediate model of \<open>proxy-core\<close>: the error types of \<open>error.rs\<close> and the node type of
  \<open>model.rs\<close> with the conversions of \<open>Protocol\<close> and \<open>Crypto\<close> from and to text. The first
  group of lemmas relates the two directions of these conversions.
\<close>

section \<open>Errors\<close>

datatype parse_error =
  UnsupportedProtocol
  | InvalidUri string
  | InvalidBase64 string
  | InvalidPort
  | MissingField string
  | InvalidValue string string

datatype serialize_error =
  SerUnsupportedProtocol string
  | SerMissingField string
  | InvalidTemplate string

section \<open>Protocols\<close>

datatype protocol =
  Ss | Ssr | Socks5 | Http | Vmess | Vless | Trojan | Hysteria | Hysteria2 | Tuic | Wireguard

fun protocol_as_str :: "protocol \<Rightarrow> string" where
  "protocol_as_str Ss = ''ss''"
| "protocol_as_str Ssr = ''ssr''"
| "protocol_as_str Socks5 = ''socks5''"
| "protocol_as_str Http = ''http''"
| "protocol_as_str Vmess = ''vmess''"
| "protocol_as_str Vless = ''vless''"
| "protocol_as_str Trojan = ''trojan''"
| "protocol_as_str Hysteria = ''hysteria''"
| "protocol_as_str Hysteria2 = ''hysteria2''"
| "protocol_as_str Tuic = ''tuic''"
| "protocol_as_str Wireguard = ''wireguard''"

definition protocol_from_str :: "string \<Rightarrow> protocol option" where
  "protocol_from_str s =
     (let l = to_ascii_lowercase s in
      if l = ''ss'' then Some Ss
      else if l = ''ssr'' then Some Ssr
      else if l = ''socks5'' then Some Socks5
      else if l = ''socks'' then Some Socks5
      else if l = ''http'' then Some Http
      else if l = ''https'' then Some Http
      else if l = ''vmess'' then Some Vmess
      else if l = ''vless'' then Some Vless
      else if l = ''trojan'' then Some Trojan
      else if l = ''hysteria'' \<or> l = ''hy1'' then Some Hysteria
      else if l = ''hysteria2'' \<or> l = ''hy2'' then Some Hysteria2
      else if l = ''tuic'' then Some Tuic
      else if l = ''wireguard'' then Some Wireguard
      else None)"

text \<open>The kind a node has when nothing sets it: the variant marked as the default.\<close>

definition protocol_default :: protocol where
  "protocol_default = Ss"

section \<open>Ciphers\<close>

datatype crypto =
  Aes256Gcm | Aes128Gcm | Chacha20IetfPoly1305 | Aes128Cfb | Aes192Cfb | Aes256Cfb
  | Chacha20Ietf | Salsa20 | Rc4Md5 | Plain | Raw string

definition crypto_from_str :: "string \<Rightarrow> crypto" where
  "crypto_from_str s =
     (let l = to_ascii_lowercase s in
      if l = ''aes-256-gcm'' then Aes256Gcm
      else if l = ''aes-128-gcm'' then Aes128Gcm
      else if l = ''chacha20-ietf-poly1305'' then Chacha20IetfPoly1305
      else if l = ''aes-128-cfb'' then Aes128Cfb
      else if l = ''aes-192-cfb'' then Aes192Cfb
      else if l = ''aes-256-cfb'' then Aes256Cfb
      else if l = ''chacha20-ietf'' then Chacha20Ietf
      else if l = ''salsa20'' then Salsa20
      else if l = ''rc4-md5'' then Rc4Md5
      else if l = ''2022-blake3-aes-256-gcm'' \<or> l = ''none'' \<or> l = ''plain'' then Plain
      else Raw l)"

fun crypto_as_str :: "crypto \<Rightarrow> string" where
  "crypto_as_str Aes256Gcm = ''aes-256-gcm''"
| "crypto_as_str Aes128Gcm = ''aes-128-gcm''"
| "crypto_as_str Chacha20IetfPoly1305 = ''chacha20-ietf-poly1305''"
| "crypto_as_str Aes128Cfb = ''aes-128-cfb''"
| "crypto_as_str Aes192Cfb = ''aes-192-cfb''"
| "crypto_as_str Aes256Cfb = ''aes-256-cfb''"
| "crypto_as_str Chacha20Ietf = ''chacha20-ietf''"
| "crypto_as_str Salsa20 = ''salsa20''"
| "crypto_as_str Rc4Md5 = ''rc4-md5''"
| "crypto_as_str Plain = ''plain''"
| "crypto_as_str (Raw s) = s"

text \<open>The ciphers that survive a trip through their text: all but a raw text that names another.\<close>

definition crypto_normal :: "crypto \<Rightarrow> bool" where
  "crypto_normal c \<longleftrightarrow> crypto_from_str (crypto_as_str c) = c"

section \<open>Transport, TLS and nodes\<close>

record websocket_config =
  ws_path :: string
  ws_host :: "string option"
  ws_headers :: "(string, string) fmap"

record grpc_config =
  grpc_service_name :: string

record http_upgrade_config =
  hu_path :: string
  hu_host :: "string option"

record transport =
  tr_websocket :: "websocket_config option"
  tr_grpc :: "grpc_config option"
  tr_http_upgrade :: "http_upgrade_config option"

record tls_settings =
  tls_enabled :: bool
  tls_sni :: "string option"
  tls_alpn :: "string list"
  tls_insecure :: bool
  tls_fingerprint :: "string option"

record proxy_node =
  nd_name :: string
  nd_kind :: protocol
  nd_server :: string
  nd_port :: u16
  nd_crypto :: "crypto option"
  nd_password :: "string option"
  nd_uuid :: "string option"
  nd_alter_id :: "u16 option"
  nd_tls :: "tls_settings option"
  nd_transport :: "transport option"

text \<open>\<open>..Default::default()\<close> in the struct expressions of the source.\<close>

definition transport_default :: transport where
  "transport_default = \<lparr>tr_websocket = None, tr_grpc = None, tr_http_upgrade = None\<rparr>"

definition node_default :: proxy_node where
  "node_default = \<lparr>nd_name = [], nd_kind = protocol_default, nd_server = [], nd_port = 0,
     nd_crypto = None, nd_password = None, nd_uuid = None, nd_alter_id = None,
     nd_tls = None, nd_transport = None\<rparr>"

definition node_new :: "string \<Rightarrow> protocol \<Rightarrow> string \<Rightarrow> u16 \<Rightarrow> proxy_node" where
  "node_new name kind server port = node_default
     \<lparr>nd_name := name, nd_kind := kind, nd_server := server, nd_port := port\<rparr>"

section \<open>Conversions to text and back\<close>

lemma protocol_as_str_lower [simp]:
  "to_ascii_lowercase (protocol_as_str p) = protocol_as_str p"
  by (cases p) (simp_all add: to_ascii_lowercase_def ascii_lower_char_def)

lemma protocol_from_as_str [simp]: "protocol_from_str (protocol_as_str p) = Some p"
  by (cases p) (simp_all add: protocol_from_str_def to_ascii_lowercase_def ascii_lower_char_def)

lemma protocol_as_str_inject: "protocol_as_str p = protocol_as_str q \<Longrightarrow> p = q"
  by (metis protocol_from_as_str option.inject)

lemma crypto_from_str_lower: "crypto_from_str (to_ascii_lowercase s) = crypto_from_str s"
  by (simp add: crypto_from_str_def)

lemma crypto_from_as_str:
  "\<not> (\<exists>s. c = Raw s) \<Longrightarrow> crypto_from_str (crypto_as_str c) = c"
  by (cases c) (simp_all add: crypto_from_str_def to_ascii_lowercase_def ascii_lower_char_def)

lemma crypto_from_str_Raw: "crypto_from_str s = Raw r \<Longrightarrow> r = to_ascii_lowercase s"
  by (auto simp: crypto_from_str_def Let_def split: if_splits)

lemma crypto_from_str_normal [simp]: "crypto_normal (crypto_from_str s)"
proof (cases "\<exists>r. crypto_from_str s = Raw r")
  case True
  then obtain r where r: "crypto_from_str s = Raw r" by blast
  then have "r = to_ascii_lowercase s" by (rule crypto_from_str_Raw)
  with r show ?thesis by (simp add: crypto_normal_def crypto_from_str_lower)
next
  case False
  then show ?thesis unfolding crypto_normal_def by (rule crypto_from_as_str)
qed

lemma crypto_normalD [simp]: "crypto_normal c \<Longrightarrow> crypto_from_str (crypto_as_str c) = c"
  by (simp add: crypto_normal_def)

text \<open>A cipher read from a text is one of the known ones, or the text in lower case.\<close>

lemma crypto_from_str_text:
  "crypto_as_str (crypto_from_str s) = ''plain'' \<or>
   crypto_as_str (crypto_from_str s) = to_ascii_lowercase s"
  by (auto simp: crypto_from_str_def Let_def)

end
