(* ===== verification/Crates.thy ===== *)
theory Crates
  imports Utf8
begin

text \<open>
  The interface to the third-party crates. Their code is not part of the repository, so each
  function the program calls is a field of the record \<open>crates\<close>, which every definition that
  depends on it takes as an argument. What the program relies on is stated as a locale per
  crate, in terms of the crates' documentation: RFC 4648 for \<open>base64\<close>, the percent-encoding
  of the URL standard for \<open>percent-encoding\<close>, and print-then-parse for \<open>serde_json\<close>.
  The values of \<open>serde_json\<close> and \<open>serde_yaml_ng\<close> are data the program takes apart and
  builds itself, so they are datatypes.
\<close>

section \<open>Document values\<close>

text \<open>A JSON number is kept as the text its \<open>to_string\<close> prints; objects keep their entries in order.\<close>

datatype json =
  JNull | JBool bool | JNumber string | JString string
  | JArray "json list" | JObject "(string \<times> json) list"

text \<open>
  A YAML document; tags are looked through by every accessor, so they do not appear. Numbers
  are integers, or the text of any other number.
\<close>

datatype yaml =
  YNull | YBool bool | YInt int | YFloat string | YString string
  | YSequence "yaml list" | YMapping "(yaml \<times> yaml) list"

fun json_get :: "string \<Rightarrow> json \<Rightarrow> json option" where
  "json_get k (JObject m) = map_of m k"
| "json_get k _ = None"

fun yaml_get :: "string \<Rightarrow> yaml \<Rightarrow> yaml option" where
  "yaml_get k (YMapping m) = map_of m (YString k)"
| "yaml_get k _ = None"

fun as_str :: "yaml \<Rightarrow> string option" where
  "as_str (YString s) = Some s"
| "as_str _ = None"

fun as_bool :: "yaml \<Rightarrow> bool option" where
  "as_bool (YBool b) = Some b"
| "as_bool _ = None"

fun as_u64 :: "yaml \<Rightarrow> nat option" where
  "as_u64 (YInt i) = (if 0 \<le> i \<and> i < 2 ^ 64 then Some (nat i) else None)"
| "as_u64 _ = None"

fun as_sequence :: "yaml \<Rightarrow> yaml list option" where
  "as_sequence (YSequence xs) = Some xs"
| "as_sequence _ = None"

text \<open>Inserting into a map of either kind: a present key keeps its place.\<close>

fun map_insert :: "'k \<Rightarrow> 'v \<Rightarrow> ('k \<times> 'v) list \<Rightarrow> ('k \<times> 'v) list" where
  "map_insert k v [] = [(k, v)]"
| "map_insert k v ((k', v') # m) =
     (if k' = k then (k, v) # m else (k', v') # map_insert k v m)"

lemma map_of_map_insert [simp]: "map_of (map_insert k v m) = (map_of m)(k \<mapsto> v)"
  by (induction m) auto

lemma keys_map_insert: "fst ` set (map_insert k v m) = insert k (fst ` set m)"
proof (induction m)
  case Nil
  then show ?case by simp
next
  case (Cons x m)
  then show ?case by (cases x) (auto split: if_splits)
qed

lemma distinct_map_insert: "distinct (map fst m) \<Longrightarrow> distinct (map fst (map_insert k v m))"
proof (induction m)
  case Nil
  then show ?case by simp
next
  case (Cons x m)
  then show ?case
    using keys_map_insert [of k v m] by (cases x) (auto simp: image_iff)
qed

lemma map_insert_absent: "k \<notin> fst ` set m \<Longrightarrow> map_insert k v m = m @ [(k, v)]"
  by (induction m) auto

section \<open>The functions of the crates\<close>

record crates =
  b64_decode :: "string \<Rightarrow> string option"
  b64_encode :: "string \<Rightarrow> string"
  b64_encode_no_pad :: "string \<Rightarrow> string"
  b64_encode_url_no_pad :: "string \<Rightarrow> string"
  pct_encode :: "(char \<Rightarrow> bool) \<Rightarrow> string \<Rightarrow> string"
  pct_decode :: "string \<Rightarrow> string"
  json_from_str :: "string \<Rightarrow> json option"
  json_to_string :: "json \<Rightarrow> string option"
  yaml_from_str :: "string \<Rightarrow> string + yaml"
  yaml_to_string :: "yaml \<Rightarrow> string + string"

section \<open>base64: the standard alphabet, with and without padding, and the URL-safe one\<close>

definition b64_alphabet :: "char \<Rightarrow> bool" where
  "b64_alphabet c \<longleftrightarrow> ascii_alphanumeric c \<or> c = CHR ''+'' \<or> c = CHR ''/''"

definition url_safe_char :: "char \<Rightarrow> char" where
  "url_safe_char c = (if c = CHR ''+'' then CHR ''-'' else if c = CHR ''/'' then CHR ''_'' else c)"

text \<open>Three bytes become four characters; one or two bytes left over become two or three.\<close>

lemma b64_length_cases:
  fixes m :: nat
  obtains q where "m = 3 * q" and "(4 * m + 2) div 3 = 4 * q"
    | q where "m = 3 * q + 1" and "(4 * m + 2) div 3 = 4 * q + 2"
    | q where "m = 3 * q + 2" and "(4 * m + 2) div 3 = 4 * q + 3"
proof -
  obtain q r where m: "m = 3 * q + r" and "r < 3"
    by (metis mod_less_divisor mult_div_mod_eq zero_less_numeral)
  then consider "r = 0" | "r = 1" | "r = 2" by linarith
  then show ?thesis
  proof cases
    case 1
    then have "(4 * m + 2) div 3 = 4 * q" using m by linarith
    with 1 m show ?thesis using that(1) by simp
  next
    case 2
    then have "(4 * m + 2) div 3 = 4 * q + 2" using m by linarith
    with 2 m show ?thesis using that(2) by simp
  next
    case 3
    then have "(4 * m + 2) div 3 = 4 * q + 3" using m by linarith
    with 3 m show ?thesis using that(3) by simp
  qed
qed

text \<open>How many padding characters complete a group of four.\<close>

lemma mod4_cases:
  fixes q :: nat
  shows "4 * q mod 4 = 0" and "(4 * q + 2) mod 4 = 2" and "(4 * q + 3) mod 4 = 3"
  by (simp, simp only: mod_mult_self4, simp, simp only: mod_mult_self4, simp)

lemma b64_group_length:
  fixes m :: nat
  defines "n \<equiv> (4 * m + 2) div 3"
  shows "n mod 4 \<noteq> 1" and "n = 0 \<longleftrightarrow> m = 0"
    and "n + (4 - n mod 4) mod 4 = 4 * ((m + 2) div 3)"
proof -
  have "n mod 4 \<noteq> 1 \<and> (n = 0 \<longleftrightarrow> m = 0) \<and> n + (4 - n mod 4) mod 4 = 4 * ((m + 2) div 3)"
  proof (cases m rule: b64_length_cases)
    case (1 q)
    then have "n = 4 * q" by (simp only: n_def)
    with 1(1) show ?thesis by simp
  next
    case (2 q)
    then have n: "n = 4 * q + 2" by (simp only: n_def)
    then have "n mod 4 = 2" by (simp only: mod4_cases)
    moreover have "(m + 2) div 3 = q + 1" using 2(1) by linarith
    ultimately show ?thesis using n 2(1) by simp
  next
    case (3 q)
    then have n: "n = 4 * q + 3" by (simp only: n_def)
    then have "n mod 4 = 3" by (simp only: mod4_cases)
    moreover have "(m + 2) div 3 = q + 1" using 3(1) by linarith
    ultimately show ?thesis using n 3(1) by simp
  qed
  then show "n mod 4 \<noteq> 1" and "n = 0 \<longleftrightarrow> m = 0"
    and "n + (4 - n mod 4) mod 4 = 4 * ((m + 2) div 3)" by blast+
qed

locale base64_crate =
  fixes E :: crates
  assumes b64_decode_encode: "b64_decode E (b64_encode E s) = Some s"
    and b64_padding:
      "b64_encode E s =
         b64_encode_no_pad E s @ replicate ((4 - length (b64_encode_no_pad E s) mod 4) mod 4) CHR ''=''"
    and b64_no_pad_length: "length (b64_encode_no_pad E s) = (4 * length s + 2) div 3"
    and b64_no_pad_alphabet: "c \<in> set (b64_encode_no_pad E s) \<Longrightarrow> b64_alphabet c"
    and b64_url_no_pad: "b64_encode_url_no_pad E s = map url_safe_char (b64_encode_no_pad E s)"
begin

lemma b64_no_pad_mod4: "length (b64_encode_no_pad E s) mod 4 \<noteq> 1"
  using b64_group_length(1) by (simp only: b64_no_pad_length not_False_eq_True)

lemma b64_no_pad_no_equals: "CHR ''='' \<notin> set (b64_encode_no_pad E s)"
  using b64_no_pad_alphabet by (fastforce simp: b64_alphabet_def ascii_alphanumeric_def ascii_digit_def)

lemma b64_no_pad_empty_iff: "b64_encode_no_pad E s = [] \<longleftrightarrow> s = []"
  using b64_group_length(2) [of "length s"] b64_no_pad_length [of s] by (metis length_0_conv)

lemma b64_encode_chars: "c \<in> set (b64_encode E s) \<Longrightarrow> b64_alphabet c \<or> c = CHR ''=''"
  using b64_no_pad_alphabet by (subst (asm) b64_padding) auto

lemma b64_encode_length: "length (b64_encode E s) = 4 * ((length s + 2) div 3)"
proof -
  have "length (b64_encode E s) =
      length (b64_encode_no_pad E s) + (4 - length (b64_encode_no_pad E s) mod 4) mod 4"
    by (subst b64_padding) simp
  then show ?thesis
    by (simp only: b64_no_pad_length b64_group_length(3))
qed

end

section \<open>percent-encoding\<close>

definition hex_digit :: "char \<Rightarrow> bool" where
  "hex_digit c \<longleftrightarrow> ascii_digit c \<or> (65 \<le> byte c \<and> byte c \<le> 70)"

locale percent_crate =
  fixes E :: crates
  assumes pct_decode_encode: "S CHR ''%'' \<Longrightarrow> pct_decode E (pct_encode E S s) = s"
    and pct_encode_chars:
      "c \<in> set (pct_encode E S s) \<Longrightarrow> c = CHR ''%'' \<or> hex_digit c \<or> (ascii c \<and> \<not> S c)"
    and pct_encode_Nil: "pct_encode E S [] = []"
    and pct_decode_plain: "CHR ''%'' \<notin> set s \<Longrightarrow> pct_decode E s = s"

section \<open>serde_json\<close>

text \<open>
  An object of strings, printed and parsed again, has the same entries. (Its entries may come
  back in another order: the map type sorts its keys.)
\<close>

locale json_crate =
  fixes E :: crates
  assumes json_string_object:
    "distinct (map fst m) \<Longrightarrow> \<forall>(k, v) \<in> set m. utf8_valid k \<and> utf8_valid v \<Longrightarrow>
       \<exists>text m'. json_to_string E (JObject (map (\<lambda>(k, v). (k, JString v)) m)) = Some text \<and>
         utf8_valid text \<and>
         json_from_str E text = Some (JObject m') \<and>
         map_of m' = map_of (map (\<lambda>(k, v). (k, JString v)) m)"

locale uri_crates = base64_crate + percent_crate

locale codec_crates = uri_crates + json_crate

end
