(* ===== verification/Uri.thy ===== *)
theory Uri
  imports Model Crates
begin

text \<open>
  The helpers of \<open>uri.rs\<close>: base64 in either alphabet with or without padding, percent
  encoding, the split of an authority at its last at sign, and host and port. The lemmas
  inside the crates' locales give the round trips every protocol rests on.
\<close>

section \<open>base64\<close>

fun rposition :: "(char \<Rightarrow> bool) \<Rightarrow> string \<Rightarrow> nat option" where
  "rposition P [] = None"
| "rposition P (c # cs) =
     (case rposition P cs of
        Some i \<Rightarrow> Some (Suc i)
      | None \<Rightarrow> if P c then Some 0 else None)"

definition max_base64_len :: nat where
  "max_base64_len = 4 * 1024 * 1024"

text \<open>The closure that maps the URL-safe alphabet to the standard one.\<close>

definition std_char :: "char \<Rightarrow> char" where
  "std_char b = (if b = CHR ''-'' then CHR ''+'' else if b = CHR ''_'' then CHR ''/'' else b)"

definition decode_base64_url :: "crates \<Rightarrow> string \<Rightarrow> (string, parse_error) outcome" where
  "decode_base64_url E s =
     (if length s > max_base64_len then Err (InvalidBase64 s)
      else
        let t = trim s;
            content_end = (case rposition (\<lambda>b. b \<noteq> CHR ''='') t of None \<Rightarrow> 0 | Some i \<Rightarrow> i + 1);
            buf = map std_char (take content_end t);
            decode = (\<lambda>b. ok_or (InvalidBase64 s) (b64_decode E b))
        in if length buf mod 4 = 2 then decode (buf @ ''=='')
           else if length buf mod 4 = 3 then decode (buf @ ''='')
           else if length buf mod 4 = 1 then Err (InvalidBase64 s)
           else decode buf)"

definition decode_base64_url_string :: "crates \<Rightarrow> string \<Rightarrow> (string, parse_error) outcome" where
  "decode_base64_url_string E s =
     and_then (decode_base64_url E s) (\<lambda>bytes. ok_or (InvalidBase64 s) (from_utf8 bytes))"

section \<open>Percent encoding\<close>

definition percent_decode :: "crates \<Rightarrow> string \<Rightarrow> (string, parse_error) outcome" where
  "percent_decode E s = ok_or (InvalidUri s) (from_utf8 (pct_decode E s))"

text \<open>\<open>NON_ALPHANUMERIC\<close> without the four marks; bytes that are not ASCII are always encoded.\<close>

definition urlencode_set :: "char \<Rightarrow> bool" where
  "urlencode_set c \<longleftrightarrow> \<not> ascii_alphanumeric c \<and> c \<notin> {CHR ''-'', CHR ''.'', CHR ''_'', CHR ''~''}"

definition urlencode :: "crates \<Rightarrow> string \<Rightarrow> string" where
  "urlencode E s = pct_encode E urlencode_set s"

section \<open>Authority, host and port\<close>

definition split_authority :: "string \<Rightarrow> string \<times> string" where
  "split_authority auth =
     (case rsplit_once CHR ''@'' auth of
        Some (userinfo, hostpart) \<Rightarrow> (userinfo, hostpart)
      | None \<Rightarrow> ([], auth))"

definition parse_host_port :: "string \<Rightarrow> (string \<times> u16, parse_error) outcome" where
  "parse_host_port s =
     and_then
       (case strip_prefix ''['' s of
          Some rest \<Rightarrow>
            and_then (ok_or (InvalidUri s) (split_once CHR '']'' rest)) (\<lambda>(host, after).
            and_then (ok_or (InvalidUri s) (strip_prefix '':'' after)) (\<lambda>port_str.
            Ok (host, port_str)))
        | None \<Rightarrow> ok_or (InvalidUri s) (rsplit_once CHR '':'' s))
       (\<lambda>(host, port_str).
          and_then (ok_or InvalidPort (parse_u16 port_str)) (\<lambda>port. Ok (host, port)))"

section \<open>Decoding base64\<close>

lemma rposition_None_iff: "rposition P s = None \<longleftrightarrow> (\<forall>c \<in> set s. \<not> P c)"
  by (induction s) (auto split: option.splits)

lemma rposition_snoc:
  "rposition P (s @ [c]) = (if P c then Some (length s) else rposition P s)"
  by (induction s) auto

text \<open>The index arithmetic keeps the text up to its last character other than the padding.\<close>

lemma take_content_end:
  "take (case rposition (\<lambda>b. b \<noteq> c) t of None \<Rightarrow> 0 | Some i \<Rightarrow> i + 1) t = trim_end_matches c t"
proof (induction t rule: rev_induct)
  case Nil
  then show ?case by (simp add: trim_end_matches_def)
next
  case (snoc x xs)
  have "rposition (\<lambda>b. b \<noteq> c) xs = Some i \<Longrightarrow> i < length xs" for i
    by (induction xs arbitrary: i) (auto split: option.splits if_splits)
  with snoc show ?case
    by (auto simp: rposition_snoc trim_end_matches_def split: option.splits)
qed

lemma decode_base64_url_alt:
  "decode_base64_url E s =
     (if length s > max_base64_len then Err (InvalidBase64 s)
      else let buf = map std_char (trim_end_matches CHR ''='' (trim s)) in
        if length buf mod 4 = 1 then Err (InvalidBase64 s)
        else ok_or (InvalidBase64 s)
               (b64_decode E (buf @ replicate ((4 - length buf mod 4) mod 4) CHR ''='')))"
proof -
  have *: "replicate ((4 - n mod 4) mod 4) CHR ''='' =
      (if n mod 4 = 2 then ''=='' else if n mod 4 = 3 then ''='' else [])"
    if "n mod 4 \<noteq> 1" for n :: nat
  proof -
    have "n mod 4 < 4" by simp
    with that consider "n mod 4 = 0" | "n mod 4 = 2" | "n mod 4 = 3" by linarith
    then show ?thesis by cases (simp_all add: numeral_2_eq_2)
  qed
  show ?thesis
    unfolding decode_base64_url_def take_content_end Let_def using * by auto
qed

lemma decode_base64_url_not_Panic [simp]: "decode_base64_url E s \<noteq> Panic"
  by (simp add: decode_base64_url_alt Let_def)

lemma decode_base64_url_string_not_Panic [simp]: "decode_base64_url_string E s \<noteq> Panic"
  by (auto simp: decode_base64_url_string_def outcome_simps)

lemma decode_base64_url_Err: "decode_base64_url E s = Err e \<Longrightarrow> e = InvalidBase64 s"
  by (auto simp: decode_base64_url_alt Let_def outcome_simps split: if_splits)

lemma decode_base64_url_string_Err: "decode_base64_url_string E s = Err e \<Longrightarrow> e = InvalidBase64 s"
  by (auto simp: decode_base64_url_string_def outcome_simps dest: decode_base64_url_Err)

lemma decode_base64_url_string_valid: "decode_base64_url_string E s = Ok r \<Longrightarrow> utf8_valid r"
  by (auto simp: decode_base64_url_string_def outcome_simps rust_str)

lemma b64_alphabet_graphic: "b64_alphabet c \<Longrightarrow> graphic c"
  by (auto simp: b64_alphabet_def ascii_alphanumeric_def ascii_digit_def graphic_def)

lemma std_char_alphabet: "b64_alphabet c \<Longrightarrow> std_char c = c"
  by (auto simp: b64_alphabet_def std_char_def ascii_alphanumeric_def ascii_digit_def)

lemma std_url_safe_char: "b64_alphabet c \<Longrightarrow> std_char (url_safe_char c) = c"
  by (auto simp: b64_alphabet_def std_char_def url_safe_char_def ascii_alphanumeric_def
      ascii_digit_def)

lemma url_safe_char_graphic: "b64_alphabet c \<Longrightarrow> graphic (url_safe_char c)"
  by (auto simp: url_safe_char_def graphic_def dest: b64_alphabet_graphic)

lemma url_safe_char_not_equals: "b64_alphabet c \<Longrightarrow> url_safe_char c \<noteq> CHR ''=''"
  by (auto simp: b64_alphabet_def url_safe_char_def ascii_alphanumeric_def ascii_digit_def)

lemma trim_all_graphic: "\<forall>c \<in> set s. graphic c \<Longrightarrow> trim s = s"
  by (cases "s = []") (auto intro: trim_graphic)

lemma trim_end_matches_absent: "c \<notin> set s \<Longrightarrow> trim_end_matches c s = s"
  by (metis last_in_set trim_end_matches_id)

lemma trim_end_matches_replicate:
  "c \<notin> set s \<Longrightarrow> trim_end_matches c (s @ replicate n c) = s"
proof -
  assume "c \<notin> set s"
  have "dropWhile (\<lambda>x. x = c) (replicate n c @ rev s) = dropWhile (\<lambda>x. x = c) (rev s)"
    by (rule dropWhile_append2) simp
  then show ?thesis
    using trim_end_matches_absent [OF \<open>c \<notin> set s\<close>] by (simp add: trim_end_matches_def)
qed

context base64_crate
begin

lemma decode_base64_url_body:
  assumes "map std_char (trim_end_matches CHR ''='' (trim w)) = b64_encode_no_pad E s"
    and "length w \<le> max_base64_len"
  shows "decode_base64_url E w = Ok s"
  using assms b64_no_pad_mod4 [of s] b64_decode_encode [of s]
  by (simp add: decode_base64_url_alt Let_def b64_padding [symmetric])

lemma map_std_no_pad [simp]: "map std_char (b64_encode_no_pad E s) = b64_encode_no_pad E s"
  by (rule map_idI) (auto intro: std_char_alphabet b64_no_pad_alphabet)

lemma decode_no_pad:
  "length (b64_encode_no_pad E s) \<le> max_base64_len \<Longrightarrow>
     decode_base64_url E (b64_encode_no_pad E s) = Ok s"
  by (rule decode_base64_url_body)
    (simp_all add: trim_all_graphic b64_alphabet_graphic b64_no_pad_alphabet
      trim_end_matches_absent b64_no_pad_no_equals)

lemma decode_url_no_pad:
  assumes "length (b64_encode_url_no_pad E s) \<le> max_base64_len"
  shows "decode_base64_url E (b64_encode_url_no_pad E s) = Ok s"
proof (rule decode_base64_url_body)
  have g: "trim (b64_encode_url_no_pad E s) = b64_encode_url_no_pad E s"
    by (rule trim_all_graphic) (auto simp: b64_url_no_pad url_safe_char_graphic b64_no_pad_alphabet)
  have "CHR ''='' \<notin> set (b64_encode_url_no_pad E s)"
    using url_safe_char_not_equals b64_no_pad_alphabet by (fastforce simp: b64_url_no_pad)
  then have "trim_end_matches CHR ''='' (b64_encode_url_no_pad E s) = b64_encode_url_no_pad E s"
    by (rule trim_end_matches_absent)
  moreover have "map std_char (b64_encode_url_no_pad E s) = b64_encode_no_pad E s"
    unfolding b64_url_no_pad map_map
    by (rule map_idI) (simp add: std_url_safe_char b64_no_pad_alphabet)
  ultimately show "map std_char (trim_end_matches CHR ''='' (trim (b64_encode_url_no_pad E s)))
      = b64_encode_no_pad E s"
    using g by simp
qed (fact assms)

lemma decode_padded:
  assumes "length (b64_encode E s) \<le> max_base64_len"
  shows "decode_base64_url E (b64_encode E s) = Ok s"
proof (rule decode_base64_url_body)
  have "\<forall>c \<in> set (b64_encode E s). graphic c"
  proof
    fix c assume "c \<in> set (b64_encode E s)"
    then consider "b64_alphabet c" | "c = CHR ''=''" using b64_encode_chars by blast
    then show "graphic c" by cases (simp_all add: b64_alphabet_graphic, simp add: graphic_def)
  qed
  then have "trim (b64_encode E s) = b64_encode E s" by (rule trim_all_graphic)
  then show "map std_char (trim_end_matches CHR ''='' (trim (b64_encode E s)))
      = b64_encode_no_pad E s"
    by (simp, subst b64_padding, simp add: trim_end_matches_replicate b64_no_pad_no_equals)
qed (fact assms)

lemmas decode_string_simps =
  decode_base64_url_string_def decode_no_pad decode_url_no_pad decode_padded from_utf8_def

end

section \<open>Percent encoding\<close>

lemma percent_decode_not_Panic [simp]: "percent_decode E s \<noteq> Panic"
  by (simp add: percent_decode_def)

lemma percent_decode_valid: "percent_decode E s = Ok r \<Longrightarrow> utf8_valid r"
  by (auto simp: percent_decode_def outcome_simps rust_str)

lemma percent_decode_Err: "percent_decode E s = Err e \<Longrightarrow> e = InvalidUri s"
  by (auto simp: percent_decode_def outcome_simps)

text \<open>The characters \<open>urlencode\<close> can write: none of the delimiters of a link.\<close>

definition urlencode_char :: "char \<Rightarrow> bool" where
  "urlencode_char c \<longleftrightarrow> ascii_alphanumeric c \<or> c \<in> {CHR ''%'', CHR ''-'', CHR ''.'', CHR ''_'', CHR ''~''}"

lemma urlencode_char_graphic: "urlencode_char c \<Longrightarrow> graphic c"
  by (auto simp: urlencode_char_def ascii_alphanumeric_def ascii_digit_def graphic_def)

lemma urlencode_char_ascii: "urlencode_char c \<Longrightarrow> ascii c"
  by (auto simp: urlencode_char_def ascii_alphanumeric_def ascii_digit_def ascii_def)

context percent_crate
begin

lemma urlencode_chars: "c \<in> set (urlencode E s) \<Longrightarrow> urlencode_char c"
  unfolding urlencode_def
  by (drule pct_encode_chars)
    (auto simp: urlencode_char_def urlencode_set_def hex_digit_def ascii_alphanumeric_def)

lemma urlencode_absent [simp]: "\<not> urlencode_char c \<Longrightarrow> c \<notin> set (urlencode E s)"
  by (auto dest: urlencode_chars)

lemma pct_decode_urlencode: "pct_decode E (urlencode E s) = s"
  unfolding urlencode_def
  by (rule pct_decode_encode) (simp add: urlencode_set_def ascii_alphanumeric_def ascii_digit_def)

lemma percent_decode_urlencode [simp]: "utf8_valid s \<Longrightarrow> percent_decode E (urlencode E s) = Ok s"
  by (simp add: percent_decode_def pct_decode_urlencode from_utf8_def)

lemma urlencode_Nil [simp]: "urlencode E [] = []"
  by (simp add: urlencode_def pct_encode_Nil)

lemma urlencode_empty_iff [simp]: "urlencode E s = [] \<longleftrightarrow> s = []"
  using pct_decode_urlencode [of s] pct_decode_plain [of "[]"] by auto

lemma percent_decode_plain:
  "CHR ''%'' \<notin> set s \<Longrightarrow> utf8_valid s \<Longrightarrow> percent_decode E s = Ok s"
  by (simp add: percent_decode_def pct_decode_plain from_utf8_def)

lemma utf8_valid_urlencode [simp]: "utf8_valid (urlencode E s)"
  by (rule utf8_valid_all_ascii) (auto dest: urlencode_chars urlencode_char_ascii)

end

section \<open>Authority, host and port\<close>

lemma split_authority_append [simp]:
  "CHR ''@'' \<notin> set h \<Longrightarrow> split_authority (u @ CHR ''@'' # h) = (u, h)"
  by (simp add: split_authority_def)

lemma split_authority_pair [simp]:
  "CHR ''@'' \<notin> set h \<Longrightarrow>
     split_authority (u @ CHR '':'' # p @ CHR ''@'' # h) = (u @ CHR '':'' # p, h)"
  using split_authority_append [of h "u @ CHR '':'' # p"] by simp

lemma split_authority_absent [simp]: "CHR ''@'' \<notin> set h \<Longrightarrow> split_authority h = ([], h)"
  by (simp add: split_authority_def)

lemma split_authority_host: "split_authority s = (u, h) \<Longrightarrow> CHR ''@'' \<notin> set h"
  by (auto simp: split_authority_def rust_str split: option.splits)

text \<open>A host that can be written before a port: it does not look like a bracketed address.\<close>

definition plain_host :: "string \<Rightarrow> bool" where
  "plain_host h \<longleftrightarrow> \<not> starts_with ''['' h"

lemma starts_with_single [simp]: "starts_with [c] s \<longleftrightarrow> s \<noteq> [] \<and> hd s = c"
  by (cases s) (auto simp: starts_with_def)

lemma strip_prefix_single: "strip_prefix [c] s = (if s \<noteq> [] \<and> hd s = c then Some (tl s) else None)"
  by (cases s) auto

lemma parse_host_port_show [simp]:
  assumes "plain_host h"
  shows "parse_host_port (h @ CHR '':'' # show_u16 p) = Ok (h, p)"
proof -
  have "strip_prefix ''['' (h @ CHR '':'' # show_u16 p) = None"
    using assms by (cases h) (auto simp: plain_host_def)
  moreover have "CHR '':'' \<notin> set (show_u16 p)"
    by (rule show_u16_absent) (simp add: ascii_digit_def)
  ultimately show ?thesis by (simp add: parse_host_port_def)
qed

lemma parse_host_port_bracketed [simp]:
  assumes "CHR '']'' \<notin> set h"
  shows "parse_host_port (CHR ''['' # h @ CHR '']'' # CHR '':'' # show_u16 p) = Ok (h, p)"
  using assms by (simp add: parse_host_port_def)

lemma parse_host_port_not_Panic [simp]: "parse_host_port s \<noteq> Panic"
  by (auto simp: parse_host_port_def outcome_simps split: option.splits)

text \<open>What a successful parse says of its input, and which errors it can give.\<close>

lemma parse_host_port_OkD:
  "parse_host_port s = Ok (h, p) \<Longrightarrow>
     \<exists>ps. parse_u16 ps = Some p \<and>
       (s = CHR ''['' # h @ CHR '']'' # CHR '':'' # ps \<and> CHR '']'' \<notin> set h \<or>
        s = h @ CHR '':'' # ps \<and> plain_host s)"
  by (auto simp: parse_host_port_def outcome_simps rust_str strip_prefix_single plain_host_def
      split: option.splits if_splits) (metis list.collapse)

lemma parse_host_port_Err: "parse_host_port s = Err e \<Longrightarrow> e = InvalidUri s \<or> e = InvalidPort"
  by (auto simp: parse_host_port_def outcome_simps split: option.splits)

end
