(* ===== verification/Links.thy ===== *)
theory Links
  imports Uri
begin

text \<open>
  What the share links of all protocols have in common. The query loop is the
  \<open>for kv in q.split('&')\<close> that each parser contains, with the protocol's \<open>match\<close> as an
  argument; the transport and TLS blocks are those of \<open>vless.rs\<close> and \<open>trojan.rs\<close>, which have
  the same text. The locale \<open>link_protocol\<close> is the contract of a protocol module: a parser and
  a serializer for one kind of node, where parsing what was serialized gives the node back up
  to a stated loss.
\<close>

section \<open>The query loop\<close>

fun query_loop :: "crates \<Rightarrow> (string \<Rightarrow> string \<Rightarrow> 's \<Rightarrow> 's) \<Rightarrow> string list \<Rightarrow> 's \<Rightarrow> 's" where
  "query_loop E arm [] s = s"
| "query_loop E arm (kv # kvs) s =
     (case split_once CHR ''='' kv of
        None \<Rightarrow> query_loop E arm kvs s
      | Some (k, v) \<Rightarrow> query_loop E arm kvs (arm k (unwrap_or [] (ok (percent_decode E v))) s))"

definition run_query :: "crates \<Rightarrow> (string \<Rightarrow> string \<Rightarrow> 's \<Rightarrow> 's) \<Rightarrow> string option \<Rightarrow> 's \<Rightarrow> 's" where
  "run_query E arm query s =
     (case query of None \<Rightarrow> s | Some q \<Rightarrow> query_loop E arm (split_on CHR ''&'' q) s)"

text \<open>\<open>v == "1" || v == "true"\<close>\<close>

definition is_true :: "string \<Rightarrow> bool" where
  "is_true v \<longleftrightarrow> v = ''1'' \<or> v = ''true''"

text \<open>\<open>v.filter(|s| !s.is_empty())\<close>\<close>

definition drop_empty :: "string option \<Rightarrow> string option" where
  "drop_empty v = (if v = Some [] then None else v)"

section \<open>Transport, as vless and trojan links write it\<close>

definition link_transport :: "string \<Rightarrow> string \<Rightarrow> string option \<Rightarrow> transport option" where
  "link_transport net path host =
     (if net = ''ws'' \<or> net = ''websocket'' then
        Some (transport_default
          \<lparr>tr_websocket := Some \<lparr>ws_path = path, ws_host = host, ws_headers = fmempty\<rparr>\<rparr>)
      else if net = ''grpc'' then
        Some (transport_default
          \<lparr>tr_grpc := Some \<lparr>grpc_service_name = trim_start_matches CHR ''/'' path\<rparr>\<rparr>)
      else if net = ''httpupgrade'' then
        Some (transport_default \<lparr>tr_http_upgrade := Some \<lparr>hu_path = path, hu_host = host\<rparr>\<rparr>)
      else None)"

text \<open>The triple of network, host and path that a serializer takes from the transport.\<close>

definition net_host_path :: "transport option \<Rightarrow> string \<times> string \<times> string" where
  "net_host_path tr =
     (case tr of
        None \<Rightarrow> (''tcp'', [], [])
      | Some t \<Rightarrow>
          (case tr_websocket t of
             Some ws \<Rightarrow> (''ws'', unwrap_or [] (ws_host ws), ws_path ws)
           | None \<Rightarrow>
               (case tr_grpc t of
                  Some g \<Rightarrow> (''grpc'', [], ''/'' @ grpc_service_name g)
                | None \<Rightarrow>
                    (case tr_http_upgrade t of
                       Some h \<Rightarrow> (''httpupgrade'', unwrap_or [] (hu_host h), hu_path h)
                     | None \<Rightarrow> (''tcp'', [], [])))))"

text \<open>The mutable locals of the two parsers' query loops, with their initial values.\<close>

record link_params =
  lp_security :: string
  lp_sni :: "string option"
  lp_fp :: "string option"
  lp_net :: string
  lp_path :: string
  lp_host :: "string option"
  lp_alpn :: "string list"
  lp_insecure :: bool

definition link_params_init :: link_params where
  "link_params_init = \<lparr>lp_security = [], lp_sni = None, lp_fp = None, lp_net = ''tcp'',
     lp_path = [], lp_host = None, lp_alpn = [], lp_insecure = False\<rparr>"

definition link_param :: "string \<Rightarrow> string \<Rightarrow> link_params \<Rightarrow> link_params" where
  "link_param k v p =
     (if k = ''security'' then p\<lparr>lp_security := v\<rparr>
      else if k = ''sni'' then p\<lparr>lp_sni := Some v\<rparr>
      else if k = ''fp'' then p\<lparr>lp_fp := Some v\<rparr>
      else if k = ''type'' then p\<lparr>lp_net := v\<rparr>
      else if k = ''path'' then p\<lparr>lp_path := v\<rparr>
      else if k = ''host'' then p\<lparr>lp_host := Some v\<rparr>
      else if k = ''alpn'' then p\<lparr>lp_alpn := split_on CHR '','' v\<rparr>
      else if k = ''allowInsecure'' then p\<lparr>lp_insecure := is_true v\<rparr>
      else p)"

definition link_tls :: "link_params \<Rightarrow> tls_settings" where
  "link_tls p = \<lparr>tls_enabled = True, tls_sni = or_else (lp_sni p) (lp_host p),
     tls_alpn = lp_alpn p, tls_insecure = lp_insecure p, tls_fingerprint = lp_fp p\<rparr>"

text \<open>The tail of every serializer: the name after a number sign, unless it is empty.\<close>

definition push_name :: "string \<Rightarrow> string \<Rightarrow> string" where
  "push_name name out = (if name \<noteq> [] then out @ CHR ''#'' # name else out)"

section \<open>Reading back what was written\<close>

lemma cut_push_name [simp]:
  "CHR ''#'' \<notin> set b \<Longrightarrow> cut CHR ''#'' (push_name n b) = (b, if n = [] then None else Some n)"
  by (simp add: push_name_def)

lemma unwrap_or_if [simp]: "unwrap_or [] (if n = [] then None else Some n) = n"
  by simp

text \<open>A parameter as written: a key, an equals sign, a value without the delimiters.\<close>

definition param :: "string \<times> string \<Rightarrow> string" where
  "param kv = fst kv @ CHR ''='' # snd kv"

definition link_safe :: "string \<Rightarrow> bool" where
  "link_safe s \<longleftrightarrow> (\<forall>c \<in> set s. graphic c \<and> c \<notin> {CHR ''#'', CHR ''&'', CHR ''?'', CHR ''@''})"

definition params_ok :: "(string \<times> string) list \<Rightarrow> bool" where
  "params_ok kvs \<longleftrightarrow> (\<forall>(k, v) \<in> set kvs. link_safe k \<and> CHR ''='' \<notin> set k \<and> link_safe v)"

definition query_suffix :: "(string \<times> string) list \<Rightarrow> string" where
  "query_suffix kvs = (if kvs = [] then [] else CHR ''?'' # join ''&'' (map param kvs))"

lemma params_ok_Nil [simp]: "params_ok []"
  by (simp add: params_ok_def)

lemma params_ok_Cons [simp]:
  "params_ok ((k, v) # kvs) \<longleftrightarrow> link_safe k \<and> CHR ''='' \<notin> set k \<and> link_safe v \<and> params_ok kvs"
  by (auto simp: params_ok_def)

lemma params_ok_append [simp]: "params_ok (a @ b) \<longleftrightarrow> params_ok a \<and> params_ok b"
  by (auto simp: params_ok_def)

lemma link_safe_Nil [simp]: "link_safe []"
  by (simp add: link_safe_def)

lemma link_safe_append [simp]: "link_safe (a @ b) \<longleftrightarrow> link_safe a \<and> link_safe b"
  by (auto simp: link_safe_def)

lemma link_safe_Cons [simp]:
  "link_safe (c # s) \<longleftrightarrow>
     graphic c \<and> c \<notin> {CHR ''#'', CHR ''&'', CHR ''?'', CHR ''@''} \<and> link_safe s"
  by (auto simp: link_safe_def)

lemma link_safe_absent:
  "link_safe s \<Longrightarrow> c \<in> {CHR ''#'', CHR ''&'', CHR ''?'', CHR ''@''} \<Longrightarrow> c \<notin> set s"
  by (auto simp: link_safe_def)

lemma link_safe_param:
  "params_ok kvs \<Longrightarrow> p \<in> set (map param kvs) \<Longrightarrow> link_safe p"
  by (auto simp: params_ok_def param_def graphic_def)

lemma query_suffix_chars:
  assumes "params_ok kvs" and "c \<in> set (query_suffix kvs)"
  shows "graphic c \<and> c \<noteq> CHR ''#'' \<and> c \<noteq> CHR ''@''"
proof -
  have "c = CHR ''?'' \<or> c = CHR ''&'' \<or> (\<exists>p \<in> set (map param kvs). c \<in> set p)"
    using assms(2) set_join [of "''&''" "map param kvs"]
    by (auto simp: query_suffix_def split: if_splits)
  then show ?thesis
    using link_safe_param [OF assms(1)] by (auto simp: link_safe_def graphic_def)
qed

lemma query_suffix_absent [simp]:
  "params_ok kvs \<Longrightarrow> CHR ''#'' \<notin> set (query_suffix kvs)"
  "params_ok kvs \<Longrightarrow> CHR ''@'' \<notin> set (query_suffix kvs)"
  using query_suffix_chars by blast+

lemma cut_query_suffix [simp]:
  "CHR ''?'' \<notin> set h \<Longrightarrow>
     cut CHR ''?'' (h @ query_suffix kvs)
       = (h, if kvs = [] then None else Some (join ''&'' (map param kvs)))"
  by (simp add: query_suffix_def)

lemma query_loop_params:
  "params_ok kvs \<Longrightarrow>
     query_loop E arm (map param kvs) s =
       fold (\<lambda>(k, v). arm k (unwrap_or [] (ok (percent_decode E v)))) kvs s"
  by (induction kvs arbitrary: s) (auto simp: params_ok_def param_def)

lemma run_query_params:
  assumes "params_ok kvs"
  shows "run_query E arm (if kvs = [] then None else Some (join ''&'' (map param kvs))) s =
    fold (\<lambda>(k, v). arm k (unwrap_or [] (ok (percent_decode E v)))) kvs s"
proof (cases "kvs = []")
  case True
  then show ?thesis by (simp add: run_query_def)
next
  case False
  have "split_on CHR ''&'' (join ''&'' (map param kvs)) = map param kvs"
  proof (rule split_on_join)
    show "\<forall>p \<in> set (map param kvs). CHR ''&'' \<notin> set p"
      using link_safe_param [OF assms] link_safe_absent by blast
  qed (use False in simp)
  with False show ?thesis by (simp add: run_query_def query_loop_params assms)
qed

text \<open>Parameters appended one by one, each after an ampersand, are the joined list.\<close>

lemma join_ampersand:
  "join ''&'' (p # ps) = p @ concat (map (\<lambda>q. CHR ''&'' # q) ps)"
proof (induction ps arbitrary: p)
  case Nil
  then show ?case by simp
next
  case (Cons q ps)
  then show ?case by (simp only: join.simps list.map concat.simps append_Cons append_Nil append.assoc)
qed

section \<open>Hosts and names\<close>

text \<open>
  A server that can stand in a link: no delimiter of the link, no bracket at its start, no
  line break. A name that can: no line break, and no white space at its end.
\<close>

definition server_ok :: "string \<Rightarrow> bool" where
  "server_ok h \<longleftrightarrow> plain_host h \<and> utf8_valid h \<and>
     set h \<inter> {CHR ''#'', CHR ''?'', CHR ''@'', CHR 0x0A, CHR 0x0D} = {}"

definition name_ok :: "string \<Rightarrow> bool" where
  "name_ok n \<longleftrightarrow> utf8_valid n \<and> CHR 0x0A \<notin> set n \<and> CHR 0x0D \<notin> set n \<and> trim_end n = n"

lemma server_ok_valid [simp]: "server_ok h \<Longrightarrow> plain_host h" "server_ok h \<Longrightarrow> utf8_valid h"
  by (simp_all add: server_ok_def)

lemma server_ok_absent [simp]:
  "server_ok h \<Longrightarrow> CHR ''#'' \<notin> set h" "server_ok h \<Longrightarrow> CHR ''?'' \<notin> set h"
  "server_ok h \<Longrightarrow> CHR ''@'' \<notin> set h" "server_ok h \<Longrightarrow> CHR 0x0A \<notin> set h"
  "server_ok h \<Longrightarrow> CHR 0x0D \<notin> set h"
  unfolding server_ok_def by auto

lemma show_u16_link_absent [simp]:
  "CHR ''#'' \<notin> set (show_u16 p)" "CHR ''?'' \<notin> set (show_u16 p)" "CHR ''@'' \<notin> set (show_u16 p)"
  "CHR ''/'' \<notin> set (show_u16 p)" "CHR '':'' \<notin> set (show_u16 p)"
  "CHR 0x0A \<notin> set (show_u16 p)" "CHR 0x0D \<notin> set (show_u16 p)"
  by (rule show_u16_absent, simp add: ascii_digit_def)+

definition line_ok :: "string \<Rightarrow> bool" where
  "line_ok u \<longleftrightarrow> u \<noteq> [] \<and> graphic (hd u) \<and> trim u = u \<and> utf8_valid u
     \<and> CHR 0x0A \<notin> set u \<and> CHR 0x0D \<notin> set u"

text \<open>A name without white space at its end keeps its end when it follows a number sign.\<close>

lemma white_space_no_graphic: "p \<in> set white_space \<Longrightarrow> c \<in> set p \<Longrightarrow> \<not> graphic c"
  by (auto simp: white_space_def graphic_def)

lemma strip_any_None_iff: "strip_any ws s = None \<longleftrightarrow> (\<forall>p \<in> set ws. strip_prefix p s = None)"
  by (induction ws) (auto split: option.splits)

lemma strip_any_shorter:
  "\<forall>p \<in> set ws. p \<noteq> [] \<Longrightarrow> strip_any ws s = Some r \<Longrightarrow> length r < length s"
  by (induction ws) (auto simp: strip_prefix_Some_iff split: option.splits)

lemma trim_codes_fixed:
  assumes "trim_codes ws s = s" and "\<forall>p \<in> set ws. p \<noteq> []"
  shows "strip_any ws s = None"
proof (rule ccontr)
  assume "strip_any ws s \<noteq> None"
  then obtain r where r: "strip_any ws s = Some r" by blast
  then have lt: "length r < length s" using strip_any_shorter assms(2) by blast
  then have "trim_codes ws r = s" using r assms(1) by (subst (asm) trim_codes.simps) simp
  moreover obtain a where "r = a @ trim_codes ws r" using trim_codes_suffix by blast
  then have "length (trim_codes ws r) \<le> length r" by (metis length_append le_add2)
  ultimately show False using lt by simp
qed

lemma strip_prefix_append_None:
  assumes "strip_prefix p s = None" and "c \<notin> set p"
  shows "strip_prefix p (s @ c # t) = None"
  using assms by (induction p s rule: strip_prefix.induct) auto

lemma trim_end_after:
  assumes "trim_end n = n" and "graphic c"
  shows "trim_end (b @ c # n) = b @ c # n"
proof -
  have ne: "\<forall>p \<in> set (map rev white_space). p \<noteq> []"
    by (auto simp: white_space_def)
  have "trim_codes (map rev white_space) (rev n) = rev n"
    using assms(1) unfolding trim_end_def by (metis rev_rev_ident)
  then have "strip_any (map rev white_space) (rev n) = None"
    using ne by (rule trim_codes_fixed)
  moreover have "c \<notin> set p" if "p \<in> set (map rev white_space)" for p
    using that white_space_no_graphic assms(2) by auto
  ultimately have "strip_any (map rev white_space) (rev n @ c # rev b) = None"
    unfolding strip_any_None_iff by (blast intro: strip_prefix_append_None)
  then have "trim_codes (map rev white_space) (rev (b @ c # n)) = rev (b @ c # n)"
    by (subst trim_codes.simps) simp
  then show ?thesis unfolding trim_end_def by (metis rev_rev_ident)
qed

lemma line_ok_push_name:
  assumes "b \<noteq> []" and "graphic (hd b)" and "graphic (last b)"
    and "CHR 0x0A \<notin> set b" and "CHR 0x0D \<notin> set b" and "utf8_valid b" and "name_ok n"
  shows "line_ok (push_name n b)"
proof -
  have "graphic CHR ''#''" by (simp add: graphic_def)
  then have "trim_end (b @ CHR ''#'' # n) = b @ CHR ''#'' # n"
    using assms(7) by (intro trim_end_after) (auto simp: name_ok_def)
  moreover have "trim_start (b @ CHR ''#'' # n) = b @ CHR ''#'' # n"
    using assms by (intro trim_start_graphic) simp
  moreover have "utf8_valid (b @ CHR ''#'' # n)"
    using assms by (intro utf8_valid_append) (auto simp: name_ok_def ascii_def)
  ultimately show ?thesis
    using assms by (auto simp: line_ok_def push_name_def name_ok_def trim_def
        trim_start_graphic trim_end_graphic)
qed

lemma line_ok_Nil [simp]: "\<not> line_ok []"
  by (simp add: line_ok_def)

lemma name_ok_Nil [simp]: "name_ok []"
  by (simp add: name_ok_def trim_end_graphic)

section \<open>The contract of a protocol module\<close>

text \<open>
  \<open>norm n\<close> is what is left of a node after it was written as a link and read again, and
  \<open>wf n\<close> says that the link can be written without ambiguity.
\<close>

locale link_protocol =
  fixes scheme :: "string list"
    and parse :: "string \<Rightarrow> (proxy_node, parse_error) outcome"
    and serialize :: "proxy_node \<Rightarrow> (string, serialize_error) outcome"
    and kind :: protocol
    and norm :: "proxy_node \<Rightarrow> proxy_node"
    and wf :: "proxy_node \<Rightarrow> bool"
  assumes parse_scheme: "parse u = Ok n \<Longrightarrow> \<exists>p \<in> set scheme. starts_with p u"
    and parse_kind: "parse u = Ok n \<Longrightarrow> nd_kind n = kind"
    and serialize_kind:
      "nd_kind n \<noteq> kind \<Longrightarrow> serialize n = Err (SerUnsupportedProtocol (protocol_as_str (nd_kind n)))"
    and roundtrip: "wf n \<Longrightarrow> \<exists>u. serialize n = Ok u \<and> parse u = Ok (norm n)"
    and serialize_line: "wf n \<Longrightarrow> serialize n = Ok u \<Longrightarrow> line_ok u"
    and norm_wf: "wf n \<Longrightarrow> wf (norm n)"
    and norm_norm: "wf n \<Longrightarrow> norm (norm n) = norm n"
begin

lemma wf_kind: "wf n \<Longrightarrow> nd_kind n = kind"
  using roundtrip [of n] serialize_kind [of n] by fastforce

lemma norm_kind: "wf n \<Longrightarrow> nd_kind (norm n) = kind"
  using norm_wf wf_kind by blast

lemma serialize_parse: "wf n \<Longrightarrow> serialize n = Ok u \<Longrightarrow> parse u = Ok (norm n)"
  using roundtrip [of n] by auto

lemma serialize_scheme: "wf n \<Longrightarrow> serialize n = Ok u \<Longrightarrow> \<exists>p \<in> set scheme. starts_with p u"
  using serialize_parse parse_scheme by blast

text \<open>After one trip through text nothing more is lost.\<close>

lemma stable:
  assumes "wf n"
  shows "\<exists>u. serialize (norm n) = Ok u \<and> parse u = Ok (norm n)"
  using roundtrip [OF norm_wf [OF assms]] norm_norm [OF assms] by simp

end

end
