(* ===== verification/Link_Protocols.thy ===== *)
theory Link_Protocols
  imports Links
begin

text \<open>
  The protocols whose links are URIs with percent-encoded parts: \<open>vless.rs\<close>, \<open>trojan.rs\<close>,
  \<open>hysteria.rs\<close>, \<open>hysteria2.rs\<close>, \<open>tuic.rs\<close> and \<open>wireguard.rs\<close>. Each has its parser and its
  serializer; their round trips are proved in the theory that follows.
\<close>

section \<open>vless\<close>

definition is_vless :: "string \<Rightarrow> bool" where
  "is_vless uri = starts_with ''vless://'' uri"

definition parse_vless :: "crates \<Rightarrow> string \<Rightarrow> (proxy_node, parse_error) outcome" where
  "parse_vless E uri =
     and_then (ok_or UnsupportedProtocol (strip_prefix ''vless://'' uri)) (\<lambda>rest.
     let (auth_and_query, fragment) = cut CHR ''#'' rest;
         (userinfo, host_query) = split_authority auth_and_query;
         (hostpart, query) = cut CHR ''?'' host_query
     in and_then (parse_host_port hostpart) (\<lambda>(server, port).
     let uuid = userinfo in
     if uuid = [] then Err (MissingField ''uuid'')
     else
       let p = run_query E link_param query link_params_init;
           tls = (if lp_security p \<in> {''tls'', ''reality'', ''xtls''} then Some (link_tls p) else None);
           transport = link_transport (lp_net p) (lp_path p) (lp_host p)
       in Ok (node_default
            \<lparr>nd_name := unwrap_or [] fragment, nd_kind := Vless, nd_server := server,
             nd_port := port, nd_uuid := Some uuid, nd_tls := tls, nd_transport := transport\<rparr>)))"

definition serialize_vless :: "crates \<Rightarrow> proxy_node \<Rightarrow> (string, serialize_error) outcome" where
  "serialize_vless E node =
     (if nd_kind node \<noteq> Vless then Err (SerUnsupportedProtocol (protocol_as_str (nd_kind node)))
      else and_then (ok_or (SerMissingField ''uuid'') (nd_uuid node)) (\<lambda>uuid.
      let out = ''vless://'' @ uuid @ ''@'' @ nd_server node @ '':'' @ show_u16 (nd_port node)
                  @ ''?encryption=none'';
          (net, host, path) = net_host_path (nd_transport node);
          out = out @ (if net \<noteq> ''tcp'' then ''&type='' @ net else []);
          out = (case nd_tls node of
                   None \<Rightarrow> out
                 | Some t \<Rightarrow>
                     out @ (if tls_enabled t then ''&security=tls'' else [])
                         @ (case tls_sni t of None \<Rightarrow> [] | Some s \<Rightarrow> ''&sni='' @ urlencode E s)
                         @ (case tls_fingerprint t of None \<Rightarrow> [] | Some fp \<Rightarrow> ''&fp='' @ urlencode E fp)
                         @ (if tls_alpn t \<noteq> [] then ''&alpn='' @ urlencode E (join '','' (tls_alpn t))
                            else []));
          out = out @ (if host \<noteq> [] then ''&host='' @ urlencode E host else [])
                    @ (if path \<noteq> [] then ''&path='' @ urlencode E path else [])
      in Ok (push_name (nd_name node) out)))"

section \<open>trojan\<close>

definition is_trojan :: "string \<Rightarrow> bool" where
  "is_trojan uri = starts_with ''trojan://'' uri"

definition parse_trojan :: "crates \<Rightarrow> string \<Rightarrow> (proxy_node, parse_error) outcome" where
  "parse_trojan E uri =
     and_then (ok_or UnsupportedProtocol (strip_prefix ''trojan://'' uri)) (\<lambda>rest.
     let (auth_and_query, fragment) = cut CHR ''#'' rest;
         (userinfo, host_query) = split_authority auth_and_query;
         (hostpart, query) = cut CHR ''?'' host_query
     in and_then (parse_host_port hostpart) (\<lambda>(server, port).
     and_then (percent_decode E userinfo) (\<lambda>password.
     if password = [] then Err (MissingField ''password'')
     else
       let p = run_query E link_param query link_params_init;
           tls = (if lp_security p = ''none'' then None else Some (link_tls p));
           transport = link_transport (lp_net p) (lp_path p) (lp_host p)
       in Ok (node_default
            \<lparr>nd_name := unwrap_or [] fragment, nd_kind := Trojan, nd_server := server,
             nd_port := port, nd_password := Some password, nd_tls := tls,
             nd_transport := transport\<rparr>))))"

definition serialize_trojan :: "crates \<Rightarrow> proxy_node \<Rightarrow> (string, serialize_error) outcome" where
  "serialize_trojan E node =
     (if nd_kind node \<noteq> Trojan then Err (SerUnsupportedProtocol (protocol_as_str (nd_kind node)))
      else and_then (ok_or (SerMissingField ''password'') (nd_password node)) (\<lambda>password.
      let out = ''trojan://'' @ urlencode E password @ ''@'' @ nd_server node @ '':''
                  @ show_u16 (nd_port node);
          (net, host, path) = net_host_path (nd_transport node);
          query = (case nd_tls node of
                     None \<Rightarrow> []
                   | Some t \<Rightarrow>
                       (if tls_enabled t then [''security=tls''] else [])
                       @ (case tls_sni t of None \<Rightarrow> [] | Some s \<Rightarrow> [''sni='' @ urlencode E s])
                       @ (case tls_fingerprint t of None \<Rightarrow> [] | Some fp \<Rightarrow> [''fp='' @ urlencode E fp])
                       @ (if tls_alpn t \<noteq> [] then [''alpn='' @ urlencode E (join '','' (tls_alpn t))]
                          else []));
          query = query @ (if net \<noteq> ''tcp'' then [''type='' @ net] else [])
                        @ (if host \<noteq> [] then [''host='' @ urlencode E host] else [])
                        @ (if path \<noteq> [] then [''path='' @ urlencode E path] else []);
          out = (if query \<noteq> [] then out @ ''?'' @ join ''&'' query else out)
      in Ok (push_name (nd_name node) out)))"

section \<open>hysteria\<close>

text \<open>The locals of the three loops that read TLS options only.\<close>

record tls_params =
  tp_auth :: "string option"
  tp_sni :: "string option"
  tp_alpn :: "string list"
  tp_insecure :: bool

definition tls_params_init :: tls_params where
  "tls_params_init = \<lparr>tp_auth = None, tp_sni = None, tp_alpn = [], tp_insecure = False\<rparr>"

definition tp_tls :: "tls_params \<Rightarrow> tls_settings" where
  "tp_tls p = \<lparr>tls_enabled = True, tls_sni = tp_sni p, tls_alpn = tp_alpn p,
     tls_insecure = tp_insecure p, tls_fingerprint = None\<rparr>"

definition is_hysteria :: "string \<Rightarrow> bool" where
  "is_hysteria uri = starts_with ''hysteria://'' uri"

definition hysteria_param :: "string \<Rightarrow> string \<Rightarrow> tls_params \<Rightarrow> tls_params" where
  "hysteria_param k v p =
     (if k = ''auth'' then p\<lparr>tp_auth := Some v\<rparr>
      else if k = ''sni'' then p\<lparr>tp_sni := Some v\<rparr>
      else if k = ''alpn'' then p\<lparr>tp_alpn := [v]\<rparr>
      else if k = ''insecure'' then p\<lparr>tp_insecure := is_true v\<rparr>
      else p)"

definition parse_hysteria :: "crates \<Rightarrow> string \<Rightarrow> (proxy_node, parse_error) outcome" where
  "parse_hysteria E uri =
     and_then (ok_or UnsupportedProtocol (strip_prefix ''hysteria://'' uri)) (\<lambda>rest.
     let (host_query, fragment) = cut CHR ''#'' rest;
         (hostpart, query) = cut CHR ''?'' host_query
     in and_then (parse_host_port hostpart) (\<lambda>(server, port).
     let p = run_query E hysteria_param query tls_params_init
     in Ok (node_default
          \<lparr>nd_name := unwrap_or [] fragment, nd_kind := Hysteria, nd_server := server,
           nd_port := port, nd_password := tp_auth p, nd_tls := Some (tp_tls p)\<rparr>)))"

definition serialize_hysteria :: "crates \<Rightarrow> proxy_node \<Rightarrow> (string, serialize_error) outcome" where
  "serialize_hysteria E node =
     (if nd_kind node \<noteq> Hysteria then Err (SerUnsupportedProtocol (protocol_as_str (nd_kind node)))
      else
        let auth = unwrap_or [] (nd_password node);
            out = ''hysteria://'' @ nd_server node @ '':'' @ show_u16 (nd_port node)
                    @ ''?protocol=udp&auth='' @ urlencode E auth;
            out = (case nd_tls node of
                     None \<Rightarrow> out
                   | Some t \<Rightarrow>
                       out @ (case tls_sni t of None \<Rightarrow> [] | Some s \<Rightarrow> ''&sni='' @ urlencode E s)
                           @ (case tls_alpn t of [] \<Rightarrow> [] | a # _ \<Rightarrow> ''&alpn='' @ urlencode E a)
                           @ (if tls_insecure t then ''&insecure=1'' else []));
            out = out @ ''&upmbps=100&downmbps=100&obfs=xorsalsa20''
        in Ok (push_name (nd_name node) out))"

section \<open>hysteria2\<close>

definition is_hysteria2 :: "string \<Rightarrow> bool" where
  "is_hysteria2 uri \<longleftrightarrow> starts_with ''hysteria2://'' uri \<or> starts_with ''hy2://'' uri"

definition hysteria2_param :: "string \<Rightarrow> string \<Rightarrow> tls_params \<Rightarrow> tls_params" where
  "hysteria2_param k v p =
     (if k = ''sni'' then p\<lparr>tp_sni := Some v\<rparr>
      else if k = ''alpn'' then p\<lparr>tp_alpn := [v]\<rparr>
      else if k = ''insecure'' then p\<lparr>tp_insecure := is_true v\<rparr>
      else p)"

definition parse_hysteria2 :: "crates \<Rightarrow> string \<Rightarrow> (proxy_node, parse_error) outcome" where
  "parse_hysteria2 E uri =
     and_then (ok_or UnsupportedProtocol
       (or_else (strip_prefix ''hysteria2://'' uri) (strip_prefix ''hy2://'' uri))) (\<lambda>rest.
     let (auth_query, fragment) = cut CHR ''#'' rest;
         (userinfo, host_query) = split_authority auth_query;
         (hostpart, query) = cut CHR ''?'' host_query
     in and_then (parse_host_port hostpart) (\<lambda>(server, port).
     and_then (if userinfo = [] then Ok None
               else and_then (percent_decode E userinfo) (\<lambda>d. Ok (Some d))) (\<lambda>password.
     let p = run_query E hysteria2_param query tls_params_init
     in Ok (node_default
          \<lparr>nd_name := unwrap_or [] fragment, nd_kind := Hysteria2, nd_server := server,
           nd_port := port, nd_password := password, nd_tls := Some (tp_tls p)\<rparr>))))"

definition serialize_hysteria2 :: "crates \<Rightarrow> proxy_node \<Rightarrow> (string, serialize_error) outcome" where
  "serialize_hysteria2 E node =
     (if nd_kind node \<noteq> Hysteria2 then Err (SerUnsupportedProtocol (protocol_as_str (nd_kind node)))
      else
        let out = ''hysteria2://'' @ urlencode E (unwrap_or [] (nd_password node)) @ ''@''
                    @ nd_server node @ '':'' @ show_u16 (nd_port node);
            query = (case nd_tls node of
                       None \<Rightarrow> []
                     | Some t \<Rightarrow>
                         (case tls_sni t of None \<Rightarrow> [] | Some s \<Rightarrow> [''sni='' @ urlencode E s])
                         @ (case tls_alpn t of [] \<Rightarrow> [] | a # _ \<Rightarrow> [''alpn='' @ urlencode E a])
                         @ (if tls_insecure t then [''insecure=1''] else []));
            out = (if query \<noteq> [] then out @ ''?'' @ join ''&'' query else out)
        in Ok (push_name (nd_name node) out))"

section \<open>tuic\<close>

definition is_tuic :: "string \<Rightarrow> bool" where
  "is_tuic uri = starts_with ''tuic://'' uri"

definition tuic_param :: "string \<Rightarrow> string \<Rightarrow> tls_params \<Rightarrow> tls_params" where
  "tuic_param k v p =
     (if k = ''sni'' then p\<lparr>tp_sni := Some v\<rparr>
      else if k = ''alpn'' then p\<lparr>tp_alpn := split_on CHR '','' v\<rparr>
      else if k = ''allow_insecure'' \<or> k = ''insecure'' then p\<lparr>tp_insecure := is_true v\<rparr>
      else p)"

definition parse_tuic :: "crates \<Rightarrow> string \<Rightarrow> (proxy_node, parse_error) outcome" where
  "parse_tuic E uri =
     and_then (ok_or UnsupportedProtocol (strip_prefix ''tuic://'' uri)) (\<lambda>rest.
     let (auth_query, fragment) = cut CHR ''#'' rest;
         (userinfo, host_query) = split_authority auth_query;
         (hostpart, query) = cut CHR ''?'' host_query
     in and_then (parse_host_port hostpart) (\<lambda>(server, port).
     and_then (ok_or (MissingField ''uuid'') (split_once CHR '':'' userinfo)) (\<lambda>(uuid, password).
     and_then (percent_decode E password) (\<lambda>password.
     let p = run_query E tuic_param query tls_params_init
     in Ok (node_default
          \<lparr>nd_name := unwrap_or [] fragment, nd_kind := Tuic, nd_server := server,
           nd_port := port, nd_uuid := Some uuid, nd_password := Some password,
           nd_tls := Some (tp_tls p)\<rparr>)))))"

definition serialize_tuic :: "crates \<Rightarrow> proxy_node \<Rightarrow> (string, serialize_error) outcome" where
  "serialize_tuic E node =
     (if nd_kind node \<noteq> Tuic then Err (SerUnsupportedProtocol (protocol_as_str (nd_kind node)))
      else
        let uuid = unwrap_or [] (nd_uuid node);
            password = urlencode E (unwrap_or [] (nd_password node));
            out = ''tuic://'' @ uuid @ '':'' @ password @ ''@'' @ nd_server node @ '':''
                    @ show_u16 (nd_port node);
            out = out @ ''?congestion_control=bbr&udp_relay_mode=native'';
            out = (case nd_tls node of
                     None \<Rightarrow> out
                   | Some t \<Rightarrow>
                       out @ (case tls_sni t of None \<Rightarrow> [] | Some s \<Rightarrow> ''&sni='' @ urlencode E s)
                           @ (if tls_alpn t \<noteq> []
                              then ''&alpn='' @ urlencode E (join '','' (tls_alpn t)) else [])
                           @ (if tls_insecure t then ''&allow_insecure=1'' else []))
        in Ok (push_name (nd_name node) out))"

section \<open>wireguard\<close>

text \<open>The locals of the loop: the public key, which the link's user part may have set, and the private one.\<close>

record wireguard_params =
  wp_public_key :: "string option"
  wp_private_key :: "string option"
  wp_ips :: "string list"

definition is_wireguard :: "string \<Rightarrow> bool" where
  "is_wireguard uri = starts_with ''wireguard://'' uri"

definition wireguard_param :: "string \<Rightarrow> string \<Rightarrow> wireguard_params \<Rightarrow> wireguard_params" where
  "wireguard_param k v p =
     (if k = ''publicKey'' then p\<lparr>wp_public_key := Some v\<rparr>
      else if k = ''privateKey'' then p\<lparr>wp_private_key := Some v\<rparr>
      else if k = ''ip'' then p\<lparr>wp_ips := split_on CHR '','' v\<rparr>
      else p)"

definition parse_wireguard :: "crates \<Rightarrow> string \<Rightarrow> (proxy_node, parse_error) outcome" where
  "parse_wireguard E uri =
     and_then (ok_or UnsupportedProtocol (strip_prefix ''wireguard://'' uri)) (\<lambda>rest.
     let (host_query, fragment) = cut CHR ''#'' rest;
         (auth_query, query) = cut CHR ''?'' host_query;
         (userinfo, hostpart) = split_authority auth_query
     in and_then (parse_host_port hostpart) (\<lambda>(server, port).
     and_then (if userinfo = [] then Ok None
               else and_then (percent_decode E userinfo) (\<lambda>d. Ok (Some d))) (\<lambda>public_key.
     let p = run_query E wireguard_param query
               \<lparr>wp_public_key = public_key, wp_private_key = None, wp_ips = []\<rparr>
     in if wp_public_key p = None then Err (MissingField ''publicKey'')
        else Ok (node_default
          \<lparr>nd_name := unwrap_or [] fragment, nd_kind := Wireguard, nd_server := server,
           nd_port := port, nd_uuid := wp_private_key p, nd_password := wp_public_key p\<rparr>))))"

definition serialize_wireguard :: "crates \<Rightarrow> proxy_node \<Rightarrow> (string, serialize_error) outcome" where
  "serialize_wireguard E node =
     (if nd_kind node \<noteq> Wireguard then Err (SerUnsupportedProtocol (protocol_as_str (nd_kind node)))
      else and_then (ok_or (SerMissingField ''publicKey'') (nd_password node)) (\<lambda>pubk.
      and_then (ok_or (SerMissingField ''privateKey'') (nd_uuid node)) (\<lambda>privk.
      let out = ''wireguard://'' @ urlencode E pubk @ ''@'' @ nd_server node @ '':''
                  @ show_u16 (nd_port node);
          out = out @ ''?publicKey='' @ urlencode E pubk;
          out = out @ ''&privateKey='' @ urlencode E privk;
          out = out @ ''&reserved=0,0,0&mtu=1420'';
          out = out @ ''&ip=10.0.0.1/24''
      in Ok (push_name (nd_name node) out))))"

end
