(* ===== verification/B64_Protocols.thy ===== *)
theory B64_Protocols
  imports Links
begin

text \<open>
  The protocols whose links hold base64 or plain credentials: \<open>ss.rs\<close>, \<open>ssr.rs\<close>,
  \<open>vmess.rs\<close>, \<open>socks5.rs\<close> and \<open>http.rs\<close>. Each has its parser and its serializer; their
  round trips are proved in a theory of their own.
\<close>

section \<open>ss\<close>

definition is_ss :: "string \<Rightarrow> bool" where
  "is_ss uri = starts_with ''ss://'' uri"

definition is_known_method :: "string \<Rightarrow> bool" where
  "is_known_method m \<longleftrightarrow> to_ascii_lowercase m \<in>
     {''aes-256-gcm'', ''aes-128-gcm'', ''chacha20-ietf-poly1305'', ''aes-128-cfb'',
      ''aes-192-cfb'', ''aes-256-cfb'', ''chacha20-ietf'', ''salsa20'', ''rc4-md5'',
      ''2022-blake3-aes-256-gcm'', ''2022-blake3-aes-128-gcm'',
      ''2022-blake3-chacha20-poly1305'', ''none'', ''plain''}"

definition parse_userinfo :: "crates \<Rightarrow> string \<Rightarrow> (crypto \<times> string, parse_error) outcome" where
  "parse_userinfo E userinfo =
     (let legacy =
        and_then (decode_base64_url_string E userinfo) (\<lambda>decoded.
        and_then (ok_or (InvalidUri userinfo) (split_once CHR '':'' decoded)) (\<lambda>(method, password).
        Ok (crypto_from_str method, password)))
      in case split_once CHR '':'' userinfo of
           Some (method, rest) \<Rightarrow>
             if is_known_method method
             then and_then (percent_decode E rest) (\<lambda>password. Ok (crypto_from_str method, password))
             else legacy
         | None \<Rightarrow> legacy)"

definition parse_ss :: "crates \<Rightarrow> string \<Rightarrow> (proxy_node, parse_error) outcome" where
  "parse_ss E uri =
     and_then (ok_or UnsupportedProtocol (strip_prefix ''ss://'' uri)) (\<lambda>rest.
     let (auth, fragment) = cut CHR ''#'' rest;
         (userinfo_and_host, query) = cut CHR ''?'' auth;
         (userinfo, hostport) = split_authority userinfo_and_host
     in and_then (parse_host_port (trim_end_matches CHR ''/'' hostport)) (\<lambda>(server, port).
     and_then (parse_userinfo E userinfo) (\<lambda>(crypto, password).
     Ok (node_default
       \<lparr>nd_name := unwrap_or [] fragment, nd_kind := Ss, nd_server := server, nd_port := port,
        nd_crypto := Some crypto, nd_password := Some password\<rparr>))))"

definition serialize_ss :: "crates \<Rightarrow> proxy_node \<Rightarrow> (string, serialize_error) outcome" where
  "serialize_ss E node =
     (if nd_kind node \<noteq> Ss then Err (SerUnsupportedProtocol (protocol_as_str (nd_kind node)))
      else and_then (ok_or (SerMissingField ''crypto'') (nd_crypto node)) (\<lambda>crypto.
      and_then (ok_or (SerMissingField ''password'') (nd_password node)) (\<lambda>password.
      let userinfo = crypto_as_str crypto @ '':'' @ password;
          b64 = b64_encode_no_pad E userinfo;
          out = ''ss://'' @ b64 @ ''@'' @ nd_server node @ '':'' @ show_u16 (nd_port node)
      in Ok (push_name (nd_name node) out))))"

section \<open>ssr\<close>

definition is_ssr :: "string \<Rightarrow> bool" where
  "is_ssr uri = starts_with ''ssr://'' uri"

text \<open>The loop over the parameters: the last \<open>remarks\<close> is the name.\<close>

fun ssr_remarks :: "crates \<Rightarrow> string list \<Rightarrow> string \<Rightarrow> string" where
  "ssr_remarks E [] name = name"
| "ssr_remarks E (kv # kvs) name =
     (let kv = trim_start_matches CHR ''?'' (trim_start_matches CHR ''/'' kv) in
      case split_once CHR ''='' kv of
        Some (k, v) \<Rightarrow>
          if k = ''remarks''
          then ssr_remarks E kvs (unwrap_or [] (ok (decode_base64_url_string E v)))
          else ssr_remarks E kvs name
      | None \<Rightarrow> ssr_remarks E kvs name)"

text \<open>
  The byte before the separator is read by index, which panics when the separator stands at
  the very beginning (in a build with overflow checks the subtraction panics first).
\<close>

definition parse_ssr_decoded :: "crates \<Rightarrow> string \<Rightarrow> (proxy_node, parse_error) outcome" where
  "parse_ssr_decoded E decoded =
     and_then
       (case or_else (find_str ''/?'' decoded) (find_str ''?'' decoded) of
          Some i \<Rightarrow>
            if i = 0 then Panic
            else let end' = (if decoded ! (i - 1) = CHR ''/'' then i - 1 else i)
                 in Ok (take end' decoded, drop i decoded)
        | None \<Rightarrow> Ok (decoded, []))
       (\<lambda>(main, query).
     let parts = split_on CHR '':'' main in
     if length parts < 6 then Err (InvalidUri decoded)
     else
       and_then (ok_or InvalidPort (parse_u16 (parts ! 1))) (\<lambda>port.
       and_then (decode_base64_url_string E (parts ! 5)) (\<lambda>password.
       Ok (node_default
         \<lparr>nd_name := ssr_remarks E (split_on CHR ''&'' query) [], nd_kind := Ssr,
          nd_server := parts ! 0, nd_port := port,
          nd_crypto := Some (crypto_from_str (parts ! 3)), nd_password := Some password\<rparr>))))"

definition parse_ssr :: "crates \<Rightarrow> string \<Rightarrow> (proxy_node, parse_error) outcome" where
  "parse_ssr E uri =
     and_then (ok_or UnsupportedProtocol (strip_prefix ''ssr://'' uri)) (\<lambda>payload.
     and_then (decode_base64_url_string E payload) (parse_ssr_decoded E))"

definition serialize_ssr :: "crates \<Rightarrow> proxy_node \<Rightarrow> (string, serialize_error) outcome" where
  "serialize_ssr E node =
     (if nd_kind node \<noteq> Ssr then Err (SerUnsupportedProtocol (protocol_as_str (nd_kind node)))
      else and_then (ok_or (SerMissingField ''crypto'') (nd_crypto node)) (\<lambda>crypto.
      and_then (ok_or (SerMissingField ''password'') (nd_password node)) (\<lambda>password.
      let pass_b64 = b64_encode_url_no_pad E password;
          remarks_b64 = b64_encode_url_no_pad E (nd_name node);
          plain = nd_server node @ '':'' @ show_u16 (nd_port node) @ '':'' @ ''auth_aes128_md5'' @ '':''
                    @ crypto_as_str crypto @ '':'' @ ''plain'' @ '':'' @ pass_b64 @ ''/?remarks=''
                    @ remarks_b64;
          b64 = b64_encode_url_no_pad E plain
      in Ok (''ssr://'' @ b64))))"

section \<open>socks5 and http\<close>

definition is_socks5 :: "string \<Rightarrow> bool" where
  "is_socks5 uri = starts_with ''socks5://'' uri"

definition split_userpass :: "crates \<Rightarrow> string \<Rightarrow> (string \<times> string, parse_error) outcome" where
  "split_userpass E s =
     and_then (ok_or (InvalidUri s) (split_once CHR '':'' s)) (\<lambda>(u, p).
     and_then (percent_decode E u) (\<lambda>u.
     and_then (percent_decode E p) (\<lambda>p. Ok (u, p))))"

definition parse_socks5 :: "crates \<Rightarrow> string \<Rightarrow> (proxy_node, parse_error) outcome" where
  "parse_socks5 E uri =
     and_then (ok_or UnsupportedProtocol (strip_prefix ''socks5://'' uri)) (\<lambda>rest.
     let (auth, fragment) = cut CHR ''#'' rest;
         (userinfo, hostport) = split_authority auth
     in and_then (parse_host_port hostport) (\<lambda>(server, port).
     and_then (if userinfo = [] then Ok (None, None)
               else and_then (split_userpass E userinfo) (\<lambda>(u, p). Ok (Some u, Some p)))
       (\<lambda>(user, password).
     Ok (node_default
       \<lparr>nd_name := unwrap_or [] fragment, nd_kind := Socks5, nd_server := server, nd_port := port,
        nd_password := password\<rparr>))))"

definition serialize_socks5 :: "proxy_node \<Rightarrow> (string, serialize_error) outcome" where
  "serialize_socks5 node =
     (if nd_kind node \<noteq> Socks5 then Err (SerUnsupportedProtocol (protocol_as_str (nd_kind node)))
      else
        let out = ''socks5://'';
            out = (case nd_password node of
                     Some p \<Rightarrow> out @ nd_server node @ '':'' @ p @ ''@''
                   | None \<Rightarrow> out);
            out = out @ nd_server node @ '':'' @ show_u16 (nd_port node)
        in Ok (push_name (nd_name node) out))"

definition is_http :: "string \<Rightarrow> bool" where
  "is_http uri = starts_with ''http://'' uri"

definition parse_http :: "crates \<Rightarrow> string \<Rightarrow> (proxy_node, parse_error) outcome" where
  "parse_http E uri =
     and_then (ok_or UnsupportedProtocol (strip_prefix ''http://'' uri)) (\<lambda>rest.
     let (auth, fragment) = cut CHR ''#'' rest;
         (userinfo, hostport) = split_authority auth
     in and_then (parse_host_port hostport) (\<lambda>(server, port).
     and_then (if userinfo = [] then Ok None
               else and_then (ok_or (InvalidUri userinfo) (split_once CHR '':'' userinfo)) (\<lambda>(_, p).
                    and_then (percent_decode E p) (\<lambda>p. Ok (Some p))))
       (\<lambda>password.
     Ok (node_default
       \<lparr>nd_name := unwrap_or [] fragment, nd_kind := Http, nd_server := server, nd_port := port,
        nd_password := password\<rparr>))))"

definition serialize_http :: "proxy_node \<Rightarrow> (string, serialize_error) outcome" where
  "serialize_http node =
     (if nd_kind node \<noteq> Http then Err (SerUnsupportedProtocol (protocol_as_str (nd_kind node)))
      else
        let out = ''http://'';
            out = (case nd_password node of
                     Some p \<Rightarrow> out @ nd_server node @ '':'' @ p @ ''@''
                   | None \<Rightarrow> out);
            out = out @ nd_server node @ '':'' @ show_u16 (nd_port node)
        in Ok (push_name (nd_name node) out))"

section \<open>vmess\<close>

definition is_vmess :: "string \<Rightarrow> bool" where
  "is_vmess uri = starts_with ''vmess://'' uri"

text \<open>The closure \<open>get\<close>: texts, numbers and booleans as text, nothing else.\<close>

definition vmess_get :: "json \<Rightarrow> string \<Rightarrow> string option" where
  "vmess_get v k =
     (case json_get k v of
        Some (JString s) \<Rightarrow> Some s
      | Some (JNumber n) \<Rightarrow> Some n
      | Some (JBool b) \<Rightarrow> Some (if b then ''true'' else ''false'')
      | _ \<Rightarrow> None)"

definition vmess_transport :: "string \<Rightarrow> string \<Rightarrow> string option \<Rightarrow> transport option" where
  "vmess_transport net path host =
     (if net = ''ws'' \<or> net = ''websocket'' then
        Some (transport_default
          \<lparr>tr_websocket := Some \<lparr>ws_path = path, ws_host = host, ws_headers = fmempty\<rparr>\<rparr>)
      else if net = ''grpc'' then
        Some (transport_default
          \<lparr>tr_grpc := Some \<lparr>grpc_service_name = trim_start_matches CHR ''/'' path\<rparr>\<rparr>)
      else if net = ''httpupgrade'' \<or> net = ''http'' then
        Some (transport_default \<lparr>tr_http_upgrade := Some \<lparr>hu_path = path, hu_host = host\<rparr>\<rparr>)
      else None)"

definition vmess_node :: "json \<Rightarrow> (proxy_node, parse_error) outcome" where
  "vmess_node v =
     (let get = vmess_get v; name = unwrap_or [] (get ''ps'') in
      and_then (ok_or (MissingField ''add'') (get ''add'')) (\<lambda>server.
      and_then (ok_or InvalidPort (Option.bind (get ''port'') parse_u16)) (\<lambda>port.
      let uuid = get ''id'';
          alter_id = Option.bind (get ''aid'') parse_u16;
          net = unwrap_or ''tcp'' (get ''net'');
          enabled = (get ''tls'' \<in> {Some ''tls'', Some ''xtls'', Some ''reality''}
                       \<or> get ''security'' = Some ''tls'');
          host = get ''host'';
          path = unwrap_or [] (get ''path'');
          sni = or_else (drop_empty (get ''sni'')) host;
          alpn = (case get ''alpn'' of
                    None \<Rightarrow> []
                  | Some a \<Rightarrow> filter (\<lambda>s. s \<noteq> []) (split_on CHR '','' a));
          insecure = (case get ''allowInsecure'' of None \<Rightarrow> False | Some s \<Rightarrow> is_true s);
          fp = drop_empty (get ''fp'');
          tls = (if enabled
                 then Some \<lparr>tls_enabled = True, tls_sni = sni, tls_alpn = alpn,
                            tls_insecure = insecure, tls_fingerprint = fp\<rparr>
                 else None)
      in Ok (node_default
        \<lparr>nd_name := name, nd_kind := Vmess, nd_server := server, nd_port := port,
         nd_uuid := uuid, nd_alter_id := alter_id, nd_tls := tls,
         nd_transport := vmess_transport net path host\<rparr>))))"

definition parse_vmess :: "crates \<Rightarrow> string \<Rightarrow> (proxy_node, parse_error) outcome" where
  "parse_vmess E uri =
     and_then (ok_or UnsupportedProtocol (strip_prefix ''vmess://'' uri)) (\<lambda>payload.
     and_then (decode_base64_url_string E payload) (\<lambda>json_str.
     and_then (ok_or (InvalidUri uri) (json_from_str E json_str)) vmess_node))"

definition vmess_net_host_path :: "transport option \<Rightarrow> string \<times> string \<times> string" where
  "vmess_net_host_path tr =
     (case tr of
        None \<Rightarrow> (''tcp'', [], [])
      | Some t \<Rightarrow>
          (case tr_websocket t of
             Some ws \<Rightarrow> (''ws'', unwrap_or [] (ws_host ws), ws_path ws)
           | None \<Rightarrow>
               (case tr_grpc t of
                  Some g \<Rightarrow> (''grpc'', [], ''/'' @ grpc_service_name g)
                | None \<Rightarrow>
                    (case tr_http_upgrade t of
                       Some h \<Rightarrow> (''http'', unwrap_or [] (hu_host h), hu_path h)
                     | None \<Rightarrow> (''tcp'', [], [])))))"

text \<open>The entries of the object in the order of the \<open>insert\<close> calls, whose keys are all different.\<close>

definition vmess_entries :: "proxy_node \<Rightarrow> (string \<times> string) list" where
  "vmess_entries node =
     (let (net, host, path) = vmess_net_host_path (nd_transport node);
          tls_str = (if (case nd_tls node of None \<Rightarrow> False | Some t \<Rightarrow> tls_enabled t)
                     then ''tls'' else ''none'');
          sni = (case nd_tls node of None \<Rightarrow> [] | Some t \<Rightarrow> unwrap_or [] (tls_sni t));
          alpn = (case nd_tls node of None \<Rightarrow> [] | Some t \<Rightarrow> join '','' (tls_alpn t));
          fp = (case nd_tls node of None \<Rightarrow> [] | Some t \<Rightarrow> unwrap_or [] (tls_fingerprint t));
          insecure = (case nd_tls node of None \<Rightarrow> False | Some t \<Rightarrow> tls_insecure t)
      in [(''v'', ''2''), (''ps'', nd_name node), (''add'', nd_server node),
          (''port'', show_u16 (nd_port node)), (''id'', unwrap_or [] (nd_uuid node)),
          (''aid'', show_u16 (unwrap_or 0 (nd_alter_id node))), (''net'', net),
          (''type'', ''none''), (''path'', path)]
         @ (if host \<noteq> [] then [(''host'', host)] else [])
         @ [(''tls'', tls_str)]
         @ (if sni \<noteq> [] then [(''sni'', sni)] else [])
         @ (if alpn \<noteq> [] then [(''alpn'', alpn)] else [])
         @ (if fp \<noteq> [] then [(''fp'', fp)] else [])
         @ [(''allowInsecure'', if insecure then ''1'' else ''0'')])"

definition string_object :: "(string \<times> string) list \<Rightarrow> json" where
  "string_object m = JObject (map (\<lambda>(k, v). (k, JString v)) m)"

definition serialize_vmess :: "crates \<Rightarrow> proxy_node \<Rightarrow> (string, serialize_error) outcome" where
  "serialize_vmess E node =
     (if nd_kind node \<noteq> Vmess then Err (SerUnsupportedProtocol (protocol_as_str (nd_kind node)))
      else
        and_then (ok_or (SerMissingField ''json'') (json_to_string E (string_object (vmess_entries node))))
          (\<lambda>s. Ok (''vmess://'' @ b64_encode E s)))"

end
