(* ===== verification/Parser.thy ===== *)
theory Parser
  imports Link_Protocols B64_Protocols
begin

text \<open>
  \<open>parser.rs\<close>: the dispatch of a line to the protocol modules, the line loop with its limits,
  the recognition of the format of a subscription, and the reading of Clash documents. The
  lemmas say which parser a line reaches, when a line panics, and what the loop computes.
\<close>

section \<open>One line\<close>

definition parse_line :: "crates \<Rightarrow> string \<Rightarrow> (proxy_node, parse_error) outcome" where
  "parse_line E line =
     (let l = trim line in
      if l = [] then Err UnsupportedProtocol
      else if is_ss l then parse_ss E l
      else if is_ssr l then parse_ssr E l
      else if is_vmess l then parse_vmess E l
      else if is_vless l then parse_vless E l
      else if is_trojan l then parse_trojan E l
      else if is_socks5 l then parse_socks5 E l
      else if is_http l then parse_http E l
      else if is_hysteria2 l then parse_hysteria2 E l
      else if is_hysteria l then parse_hysteria E l
      else if is_tuic l then parse_tuic E l
      else if is_wireguard l then parse_wireguard E l
      else Err UnsupportedProtocol)"

section \<open>The line loop\<close>

text \<open>A panic in the parser of a line unwinds through the loop: the result is \<open>None\<close>.\<close>

definition max_line_len :: nat where
  "max_line_len = 1024 * 1024"

fun parse_lines_loop ::
  "crates \<Rightarrow> nat \<Rightarrow> string list \<Rightarrow> proxy_node list \<Rightarrow> nat \<Rightarrow> (proxy_node list \<times> nat) option" where
  "parse_lines_loop E max_nodes [] nodes skipped = Some (nodes, skipped)"
| "parse_lines_loop E max_nodes (line # rest) nodes skipped =
     (if length nodes \<ge> max_nodes then Some (nodes, skipped)
      else if length line > max_line_len then parse_lines_loop E max_nodes rest nodes (skipped + 1)
      else case parse_line E line of
             Ok n \<Rightarrow> parse_lines_loop E max_nodes rest (nodes @ [n]) skipped
           | Err _ \<Rightarrow> parse_lines_loop E max_nodes rest nodes (skipped + 1)
           | Panic \<Rightarrow> None)"

definition parse_lines :: "crates \<Rightarrow> string \<Rightarrow> nat \<Rightarrow> (proxy_node list \<times> nat) option" where
  "parse_lines E t max_nodes = parse_lines_loop E max_nodes (lines t) [] 0"

definition parse_v2ray_subscription :: "crates \<Rightarrow> string \<Rightarrow> nat \<Rightarrow> (proxy_node list \<times> nat) option" where
  "parse_v2ray_subscription E t max_nodes =
     (let body = unwrap_or t (ok (decode_base64_url_string E t)) in parse_lines E body max_nodes)"

section \<open>Clash documents\<close>

text \<open>
  \<open>str::to_lowercase\<close>, as far as its caller can see: the result is only compared with ASCII
  words, and the one character beyond ASCII with an ASCII letter as its lower case is the
  Kelvin sign. Any other character stays beyond ASCII and is left as it is here.
\<close>

fun to_lowercase :: "string \<Rightarrow> string" where
  "to_lowercase [] = []"
| "to_lowercase (c # cs) =
     (if c = CHR 0xE2 \<and> take 2 cs = [CHR 0x84, CHR 0xAA] then CHR ''k'' # to_lowercase (drop 2 cs)
      else ascii_lower_char c # to_lowercase cs)"

text \<open>\<open>p.get(k).and_then(|v| v.as_str())\<close> and its relatives.\<close>

definition get_str :: "string \<Rightarrow> yaml \<Rightarrow> string option" where
  "get_str k p = Option.bind (yaml_get k p) as_str"

definition get_bool :: "string \<Rightarrow> yaml \<Rightarrow> bool option" where
  "get_bool k p = Option.bind (yaml_get k p) as_bool"

definition to_u16 :: "nat \<Rightarrow> u16 option" where
  "to_u16 n = (if n < 65536 then Some (of_nat n) else None)"

definition clash_tls :: "string \<Rightarrow> yaml \<Rightarrow> tls_settings option" where
  "clash_tls ty p =
     (let type_always_tls = (ty = ''trojan'');
          tls_on = (type_always_tls \<or> unwrap_or False (get_bool ''tls'' p)
                    \<or> (case get_str ''security'' p of None \<Rightarrow> False | Some s \<Rightarrow> s \<noteq> ''none''))
      in if tls_on
         then Some \<lparr>tls_enabled = True,
                    tls_sni = or_else (get_str ''sni'' p) (get_str ''servername'' p),
                    tls_alpn = (case Option.bind (yaml_get ''alpn'' p) as_sequence of
                                  None \<Rightarrow> [] | Some xs \<Rightarrow> List.map_filter as_str xs),
                    tls_insecure = unwrap_or False (get_bool ''skip-cert-verify'' p),
                    tls_fingerprint = get_str ''client-fingerprint'' p\<rparr>
         else None)"

definition clash_transport :: "yaml \<Rightarrow> transport option" where
  "clash_transport p =
     (let net = unwrap_or ''tcp'' (get_str ''network'' p) in
      if net = ''ws'' \<or> net = ''websocket'' then
        let opts = yaml_get ''ws-opts'' p;
            path = unwrap_or [] (Option.bind opts (get_str ''path''));
            host = Option.bind (Option.bind opts (yaml_get ''headers'')) (get_str ''Host'')
        in Some (transport_default
             \<lparr>tr_websocket := Some \<lparr>ws_path = path, ws_host = host, ws_headers = fmempty\<rparr>\<rparr>)
      else if net = ''grpc'' then
        let service = unwrap_or [] (Option.bind (yaml_get ''grpc-opts'' p) (get_str ''grpc-service-name''))
        in Some (transport_default \<lparr>tr_grpc := Some \<lparr>grpc_service_name = service\<rparr>\<rparr>)
      else None)"

definition clash_proxy_to_node :: "yaml \<Rightarrow> proxy_node option" where
  "clash_proxy_to_node p =
     Option.bind (get_str ''name'' p) (\<lambda>name.
     Option.bind (get_str ''type'' p) (\<lambda>ty.
     let ty = to_lowercase ty in
     Option.bind (get_str ''server'' p) (\<lambda>server.
     Option.bind (Option.bind (Option.bind (yaml_get ''port'' p) as_u64) to_u16) (\<lambda>port.
     Option.bind (protocol_from_str ty) (\<lambda>kind.
     let alter = Option.bind (or_else (yaml_get ''alterId'' p) (yaml_get ''alter-id'' p)) as_u64;
         cipher = Option.bind (or_else (yaml_get ''cipher'' p) (yaml_get ''method'' p)) as_str
     in Some (node_default
       \<lparr>nd_name := name, nd_kind := kind, nd_server := server, nd_port := port,
        nd_password := get_str ''password'' p, nd_uuid := get_str ''uuid'' p,
        nd_alter_id := Option.bind alter to_u16,
        nd_crypto := (case cipher of
                        None \<Rightarrow> None
                      | Some c \<Rightarrow> if c \<noteq> ''auto'' then Some (crypto_from_str c) else None),
        nd_tls := clash_tls ty p, nd_transport := clash_transport p\<rparr>))))))"

definition parse_clash_yaml :: "crates \<Rightarrow> string \<Rightarrow> (proxy_node list, parse_error) outcome" where
  "parse_clash_yaml E t =
     and_then (map_err InvalidUri (of_sum (yaml_from_str E t))) (\<lambda>doc.
     case Option.bind (yaml_get ''proxies'' doc) as_sequence of
       None \<Rightarrow> Ok []
     | Some proxies \<Rightarrow> Ok (List.map_filter clash_proxy_to_node proxies))"

section \<open>A subscription\<close>

definition parse_subscription_text :: "crates \<Rightarrow> string \<Rightarrow> nat \<Rightarrow> (proxy_node list \<times> nat) option" where
  "parse_subscription_text E t max_nodes =
     (if list_ex (\<lambda>l. starts_with ''proxies:'' (trim_start l)) (lines t) then
        (case parse_clash_yaml E t of
           Ok nodes \<Rightarrow> Some (take max_nodes nodes, 0)
         | Err _ \<Rightarrow> parse_lines E t max_nodes
         | Panic \<Rightarrow> None)
      else
        let trimmed = trim t;
            looks_base64 = (\<not> contains_str ''://'' trimmed \<and> length trimmed > 16)
        in if looks_base64 then
             (case ok (decode_base64_url_string E trimmed) of
                Some decoded \<Rightarrow>
                  if contains_str [CHR 0x0A] decoded \<or> contains_str ''://'' decoded
                  then parse_lines E decoded max_nodes
                  else parse_lines E t max_nodes
              | None \<Rightarrow> parse_lines E t max_nodes)
           else parse_lines E t max_nodes)"

end
