(* ===== verification/Link_Params.thy ===== *)
theory Link_Params
  imports Link_Protocols
begin

text \<open>
  What the round trips of the percent-encoded links share: lists of parameters as the
  serializers write them and as the query loop reads them back, the parts of a node a link
  can carry, and the text of a link as one line of a subscription.
\<close>

section \<open>Parameters, written and read\<close>

definition opt_kv :: "crates \<Rightarrow> string \<Rightarrow> string option \<Rightarrow> (string \<times> string) list" where
  "opt_kv E k v = (case v of None \<Rightarrow> [] | Some s \<Rightarrow> [(k, urlencode E s)])"

definition str_kv :: "crates \<Rightarrow> string \<Rightarrow> string \<Rightarrow> (string \<times> string) list" where
  "str_kv E k s = (if s = [] then [] else [(k, urlencode E s)])"

definition alpn_kv :: "crates \<Rightarrow> string list \<Rightarrow> (string \<times> string) list" where
  "alpn_kv E a = (if a = [] then [] else [(''alpn'', urlencode E (join '','' a))])"

definition alpn1_kv :: "crates \<Rightarrow> string list \<Rightarrow> (string \<times> string) list" where
  "alpn1_kv E a = (case a of [] \<Rightarrow> [] | x # _ \<Rightarrow> [(''alpn'', urlencode E x)])"

definition flag_kv :: "string \<Rightarrow> string \<Rightarrow> bool \<Rightarrow> (string \<times> string) list" where
  "flag_kv k v b = (if b then [(k, v)] else [])"

text \<open>Parameters after the first one.\<close>

definition amp :: "(string \<times> string) list \<Rightarrow> string" where
  "amp kvs = concat (map (\<lambda>kv. CHR ''&'' # param kv) kvs)"

lemma amp_simps:
  "amp [] = []" "amp (kv # kvs) = CHR ''&'' # param kv @ amp kvs" "amp (a @ b) = amp a @ amp b"
  by (simp_all add: amp_def)

lemma amp_kv:
  "amp (opt_kv E k v) = (case v of None \<Rightarrow> [] | Some s \<Rightarrow> CHR ''&'' # k @ CHR ''='' # urlencode E s)"
  "amp (str_kv E k s) = (if s \<noteq> [] then CHR ''&'' # k @ CHR ''='' # urlencode E s else [])"
  "amp (alpn_kv E a) = (if a \<noteq> [] then ''&alpn='' @ urlencode E (join '','' a) else [])"
  "amp (alpn1_kv E a) = (case a of [] \<Rightarrow> [] | x # _ \<Rightarrow> ''&alpn='' @ urlencode E x)"
  "amp (flag_kv k w b) = (if b then CHR ''&'' # k @ CHR ''='' # w else [])"
  by (auto simp: amp_simps param_def opt_kv_def str_kv_def alpn_kv_def alpn1_kv_def flag_kv_def
      split: option.splits list.splits)

lemma map_param_kv:
  "map param (opt_kv E k v) = (case v of None \<Rightarrow> [] | Some s \<Rightarrow> [k @ CHR ''='' # urlencode E s])"
  "map param (str_kv E k s) = (if s \<noteq> [] then [k @ CHR ''='' # urlencode E s] else [])"
  "map param (alpn_kv E a) = (if a \<noteq> [] then [''alpn='' @ urlencode E (join '','' a)] else [])"
  "map param (alpn1_kv E a) = (case a of [] \<Rightarrow> [] | x # _ \<Rightarrow> [''alpn='' @ urlencode E x])"
  "map param (flag_kv k w b) = (if b then [k @ CHR ''='' # w] else [])"
  by (auto simp: param_def opt_kv_def str_kv_def alpn_kv_def alpn1_kv_def flag_kv_def
      split: option.splits list.splits)

lemma query_suffix_Cons: "query_suffix (kv # kvs) = CHR ''?'' # param kv @ amp kvs"
  unfolding query_suffix_def amp_def
  by (simp only: list.map join_ampersand) (simp add: comp_def)

lemma query_suffix_map: "query_suffix kvs = (if map param kvs \<noteq> [] then ''?'' @ join ''&'' (map param kvs) else [])"
  by (simp add: query_suffix_def)

lemma query_text:
  "(if map param kvs \<noteq> [] then b @ CHR ''?'' # join ''&'' (map param kvs) else b) = b @ query_suffix kvs"
  by (simp add: query_suffix_def)

definition read_params ::
  "crates \<Rightarrow> (string \<Rightarrow> string \<Rightarrow> 's \<Rightarrow> 's) \<Rightarrow> (string \<times> string) list \<Rightarrow> 's \<Rightarrow> 's" where
  "read_params E arm kvs s = fold (\<lambda>(k, v). arm k (unwrap_or [] (ok (percent_decode E v)))) kvs s"

lemma run_query_read:
  "params_ok kvs \<Longrightarrow>
     run_query E arm (if kvs = [] then None else Some (join ''&'' (map param kvs))) s
       = read_params E arm kvs s"
  by (simp add: run_query_params read_params_def)

lemma read_append [simp]: "read_params E arm (a @ b) s = read_params E arm b (read_params E arm a s)"
  by (simp add: read_params_def)

lemma read_Nil [simp]: "read_params E arm [] s = s"
  by (simp add: read_params_def)

lemma cut_hostport [simp]:
  "server_ok h \<Longrightarrow> cut CHR ''?'' (h @ CHR '':'' # show_u16 p @ query_suffix kvs)
     = (h @ CHR '':'' # show_u16 p, if kvs = [] then None else Some (join ''&'' (map param kvs)))"
  using cut_query_suffix [of "h @ CHR '':'' # show_u16 p" kvs] by simp

text \<open>The body of a link before its name has no number sign; its ends are graphic characters.\<close>

lemma graphic_last_body [simp]:
  "params_ok kvs \<Longrightarrow> graphic (last (a # b @ show_u16 p @ query_suffix kvs))"
  using query_suffix_chars [of kvs "last (query_suffix kvs)"] by (cases "query_suffix kvs = []") auto

lemma query_suffix_no_breaks [simp]:
  "params_ok kvs \<Longrightarrow> CHR 0x0A \<notin> set (query_suffix kvs)"
  "params_ok kvs \<Longrightarrow> CHR 0x0D \<notin> set (query_suffix kvs)"
  using query_suffix_chars by (fastforce simp: graphic_def)+

context percent_crate
begin

lemma link_safe_urlencode [simp]: "link_safe (urlencode E s)"
  by (auto simp: link_safe_def urlencode_char_def ascii_alphanumeric_def ascii_digit_def
      dest: urlencode_chars urlencode_char_graphic)

lemma params_ok_kv [simp]:
  "link_safe k \<Longrightarrow> CHR ''='' \<notin> set k \<Longrightarrow> params_ok (opt_kv E k v)"
  "link_safe k \<Longrightarrow> CHR ''='' \<notin> set k \<Longrightarrow> params_ok (str_kv E k s)"
  "params_ok (alpn_kv E a)" "params_ok (alpn1_kv E a)"
  by (auto simp: opt_kv_def str_kv_def alpn_kv_def alpn1_kv_def graphic_def
      split: option.splits list.splits)

lemma read_kv [simp]:
  "valid_opt v \<Longrightarrow>
     read_params E arm (opt_kv E k v) s = (case v of None \<Rightarrow> s | Some x \<Rightarrow> arm k x s)"
  "utf8_valid x \<Longrightarrow>
     read_params E arm (str_kv E k x) s = (if x = [] then s else arm k x s)"
  "\<forall>x \<in> set a. utf8_valid x \<Longrightarrow>
     read_params E arm (alpn_kv E a) s = (if a = [] then s else arm ''alpn'' (join '','' a) s)"
  "\<forall>x \<in> set a. utf8_valid x \<Longrightarrow>
     read_params E arm (alpn1_kv E a) s = (case a of [] \<Rightarrow> s | x # _ \<Rightarrow> arm ''alpn'' x s)"
  by (auto simp: read_params_def opt_kv_def str_kv_def alpn_kv_def alpn1_kv_def
      utf8_valid_join ascii_def split: option.splits list.splits)

lemma read_raw [simp]:
  "\<forall>c \<in> set v. ascii c \<and> c \<noteq> CHR ''%'' \<Longrightarrow>
     read_params E arm ((k, v) # kvs) s = read_params E arm kvs (arm k v s)"
  "\<forall>c \<in> set v. ascii c \<and> c \<noteq> CHR ''%'' \<Longrightarrow>
     read_params E arm (flag_kv k v b) s = (if b then arm k v s else s)"
proof -
  assume "\<forall>c \<in> set v. ascii c \<and> c \<noteq> CHR ''%''"
  then have "percent_decode E v = Ok v"
    by (intro percent_decode_plain utf8_valid_all_ascii) auto
  then show "read_params E arm ((k, v) # kvs) s = read_params E arm kvs (arm k v s)"
    and "read_params E arm (flag_kv k v b) s = (if b then arm k v s else s)"
    by (simp_all add: read_params_def flag_kv_def)
qed

end

lemma params_ok_flag [simp]:
  "link_safe k \<Longrightarrow> CHR ''='' \<notin> set k \<Longrightarrow> link_safe v \<Longrightarrow> params_ok (flag_kv k v b)"
  by (simp add: flag_kv_def)

lemma strip_prefix_push_name [simp]: "strip_prefix p (push_name n (p @ b)) = Some (push_name n b)"
  by (simp add: push_name_def strip_prefix_Some_iff)

lemma starts_with_push_name [simp]: "starts_with p (push_name n (p @ b))"
  by (simp add: starts_with_def)

text \<open>A text made of a scheme, a safe user part, host, port, parameters and a name is one line.\<close>

lemma line_ok_link:
  assumes "server_ok h" and "params_ok kvs" and "name_ok n"
    and "p \<noteq> []" and "\<forall>c \<in> set p. graphic c" and "CHR 0x0A \<notin> set u" and "CHR 0x0D \<notin> set u"
    and "utf8_valid u"
  shows "line_ok (push_name n (p @ u @ h @ CHR '':'' # show_u16 q @ query_suffix kvs))"
proof (rule line_ok_push_name)
  have "\<not> graphic CHR 0x0A" and "\<not> graphic CHR 0x0D" by (simp_all add: graphic_def)
  then have "CHR 0x0A \<notin> set p" and "CHR 0x0D \<notin> set p" using assms(5) by auto
  with assms show "CHR 0x0A \<notin> set (p @ u @ h @ CHR '':'' # show_u16 q @ query_suffix kvs)"
    and "CHR 0x0D \<notin> set (p @ u @ h @ CHR '':'' # show_u16 q @ query_suffix kvs)"
    by simp_all
  show "graphic (hd (p @ u @ h @ CHR '':'' # show_u16 q @ query_suffix kvs))"
    using assms(4,5) by (cases p) auto
  show "graphic (last (p @ u @ h @ CHR '':'' # show_u16 q @ query_suffix kvs))"
    using graphic_last_body [OF assms(2), of "CHR '':''" "[]" q] by simp
  have "utf8_valid (query_suffix kvs)"
    using query_suffix_chars [OF assms(2)] by (intro utf8_valid_all_ascii) (auto simp: graphic_ascii)
  moreover have "utf8_valid p"
    using assms(5) by (intro utf8_valid_all_ascii) (auto simp: graphic_ascii)
  ultimately show "utf8_valid (p @ u @ h @ CHR '':'' # show_u16 q @ query_suffix kvs)"
    using assms by (simp add: ascii_def)
qed (use assms in simp_all)

section \<open>Well-formed nodes and what a link keeps of them\<close>

definition wf_alpn :: "string list \<Rightarrow> bool" where
  "wf_alpn a \<longleftrightarrow> (\<forall>x \<in> set a. utf8_valid x \<and> CHR '','' \<notin> set x)"

definition wf_tls :: "tls_settings option \<Rightarrow> bool" where
  "wf_tls t \<longleftrightarrow> (case t of None \<Rightarrow> True
     | Some t \<Rightarrow> valid_opt (tls_sni t) \<and> valid_opt (tls_fingerprint t) \<and> wf_alpn (tls_alpn t))"

definition wf_net_host_path :: "transport option \<Rightarrow> bool" where
  "wf_net_host_path tr \<longleftrightarrow>
     (case net_host_path tr of (net, host, path) \<Rightarrow> utf8_valid host \<and> utf8_valid path)"

text \<open>The transport that is read back: one kind, no headers, no empty host, no leading slash.\<close>

definition norm_transport :: "transport option \<Rightarrow> transport option" where
  "norm_transport tr =
     (case net_host_path tr of (net, host, path) \<Rightarrow>
        link_transport net path (if host = [] then None else Some host))"

definition norm_host :: "transport option \<Rightarrow> string option" where
  "norm_host tr = (case net_host_path tr of (net, host, path) \<Rightarrow> if host = [] then None else Some host)"

lemma net_host_path_cases:
  obtains "net_host_path tr = (''tcp'', [], [])"
  | h p where "net_host_path tr = (''ws'', h, p)"
  | s where "net_host_path tr = (''grpc'', [], CHR ''/'' # s)"
  | h p where "net_host_path tr = (''httpupgrade'', h, p)"
proof -
  have "net_host_path tr = (''tcp'', [], []) \<or> (\<exists>h p. net_host_path tr = (''ws'', h, p))
      \<or> (\<exists>s. net_host_path tr = (''grpc'', [], CHR ''/'' # s))
      \<or> (\<exists>h p. net_host_path tr = (''httpupgrade'', h, p))"
    unfolding net_host_path_def by (simp split: option.split)
  then show ?thesis using that by blast
qed

lemmas norm_transport_simps = norm_transport_def norm_host_def wf_net_host_path_def
  link_transport_def transport_default_def net_host_path_def

lemma norm_transport_idem [simp]: "norm_transport (norm_transport tr) = norm_transport tr"
  by (cases tr rule: net_host_path_cases) (simp_all add: norm_transport_simps)

lemma norm_host_norm [simp]: "norm_host (norm_transport tr) = norm_host tr"
  by (cases tr rule: net_host_path_cases) (simp_all add: norm_transport_simps)

lemma utf8_valid_trim_start_matches:
  "ascii c \<Longrightarrow> utf8_valid s \<Longrightarrow> utf8_valid (trim_start_matches c s)"
  by (induction s) (auto simp: trim_start_matches_def)

lemma wf_norm_transport [simp]: "wf_net_host_path tr \<Longrightarrow> wf_net_host_path (norm_transport tr)"
  by (cases tr rule: net_host_path_cases)
    (auto simp: norm_transport_simps ascii_def utf8_valid_trim_start_matches)

lemma valid_norm_host [simp]: "wf_net_host_path tr \<Longrightarrow> valid_opt (norm_host tr)"
  by (auto simp: norm_host_def wf_net_host_path_def split: prod.splits)

lemma drop_empty_simps [simp]:
  "drop_empty (drop_empty v) = drop_empty v" "valid_opt v \<Longrightarrow> valid_opt (drop_empty v)"
  by (auto simp: drop_empty_def)

lemma or_else_idem [simp]: "or_else (or_else a b) b = or_else a b" "or_else b b = b"
  by (cases a; cases b; simp)+

lemma valid_or_else [simp]: "valid_opt a \<Longrightarrow> valid_opt b \<Longrightarrow> valid_opt (or_else a b)"
  by (cases a) auto

section \<open>The parameters of vless and trojan links\<close>

text \<open>The TLS part, in the order the serializers write it.\<close>

definition tls_kv :: "crates \<Rightarrow> tls_settings option \<Rightarrow> (string \<times> string) list" where
  "tls_kv E tls = (case tls of None \<Rightarrow> []
     | Some t \<Rightarrow> flag_kv ''security'' ''tls'' (tls_enabled t) @ opt_kv E ''sni'' (tls_sni t)
                  @ opt_kv E ''fp'' (tls_fingerprint t) @ alpn_kv E (tls_alpn t))"

definition type_kv :: "transport option \<Rightarrow> (string \<times> string) list" where
  "type_kv tr = (case net_host_path tr of (net, _) \<Rightarrow> flag_kv ''type'' net (net \<noteq> ''tcp''))"

definition host_path_kv :: "crates \<Rightarrow> transport option \<Rightarrow> (string \<times> string) list" where
  "host_path_kv E tr = (case net_host_path tr of (_, host, path) \<Rightarrow>
     str_kv E ''host'' host @ str_kv E ''path'' path)"

lemma params_ok_type_kv [simp]: "params_ok (type_kv tr)"
  by (cases tr rule: net_host_path_cases) (simp_all add: type_kv_def flag_kv_def graphic_def)

lemma split_join_alpn: "wf_alpn a \<Longrightarrow> a \<noteq> [] \<Longrightarrow> split_on CHR '','' (join '','' a) = a"
  by (rule split_on_join) (auto simp: wf_alpn_def)

context percent_crate
begin

lemma params_ok_tls_kv [simp]: "params_ok (tls_kv E tls)"
  by (cases tls) (simp_all add: tls_kv_def graphic_def)

lemma params_ok_host_path_kv [simp]: "params_ok (host_path_kv E tr)"
  by (simp add: host_path_kv_def graphic_def split: prod.splits)

lemma read_type_kv:
  "read_params E link_param (type_kv tr) p =
     (case net_host_path tr of (net, _) \<Rightarrow> if net = ''tcp'' then p else p\<lparr>lp_net := net\<rparr>)"
  by (cases tr rule: net_host_path_cases) (simp_all add: type_kv_def link_param_def ascii_def)

lemma read_host_path_kv:
  "wf_net_host_path tr \<Longrightarrow> lp_host p = None \<Longrightarrow> lp_path p = [] \<Longrightarrow>
     read_params E link_param (host_path_kv E tr) p =
       (case net_host_path tr of (_, host, path) \<Rightarrow> p\<lparr>lp_host := norm_host tr, lp_path := path\<rparr>)"
  by (cases p)
    (auto simp: host_path_kv_def wf_net_host_path_def norm_host_def link_param_def split: prod.splits)

lemma read_tls_kv:
  "wf_tls (Some t) \<Longrightarrow>
     lp_security p = [] \<Longrightarrow> lp_sni p = None \<Longrightarrow> lp_fp p = None \<Longrightarrow> lp_alpn p = [] \<Longrightarrow>
     read_params E link_param (tls_kv E (Some t)) p =
       p\<lparr>lp_security := (if tls_enabled t then ''tls'' else []), lp_sni := tls_sni t,
         lp_fp := tls_fingerprint t, lp_alpn := tls_alpn t\<rparr>"
  using split_join_alpn [of "tls_alpn t"]
  by (cases p)
    (auto simp: tls_kv_def wf_tls_def link_param_def wf_alpn_def ascii_def split: option.splits)

lemma read_tls_kv_None [simp]: "read_params E link_param (tls_kv E None) p = p"
  by (simp add: tls_kv_def)

end

text \<open>What the transport parameters give back.\<close>

lemma link_transport_read:
  "net_host_path tr = (net, host, path) \<Longrightarrow> link_transport net path (norm_host tr) = norm_transport tr"
  by (simp add: norm_transport_def norm_host_def)

end
