(* ===== verification/Rfc_Codecs.thy ===== *)
theory Rfc_Codecs
  imports Crates
begin

text \<open>
  Executable codecs that satisfy the laws of the crates: base64 after RFC 4648, the
  percent-encoding of the URL standard, and a printer and parser for JSON objects of strings.
  They interpret the crates' locales, so the laws are satisfiable together, and they are what
  the witnesses evaluate.
\<close>

section \<open>base64\<close>

fun b64_groups :: "nat list \<Rightarrow> nat list" where
  "b64_groups (a # b # c # r) =
     (a div 4) # ((a mod 4) * 16 + b div 16) # ((b mod 16) * 4 + c div 64) # (c mod 64)
       # b64_groups r"
| "b64_groups [a, b] = [a div 4, (a mod 4) * 16 + b div 16, (b mod 16) * 4]"
| "b64_groups [a] = [a div 4, (a mod 4) * 16]"
| "b64_groups [] = []"

fun b64_ungroup :: "nat list \<Rightarrow> nat list option" where
  "b64_ungroup (a # b # c # d # r) =
     map_option (\<lambda>t. (a * 4 + b div 16) # ((b mod 16) * 16 + c div 4) # ((c mod 4) * 64 + d) # t)
       (b64_ungroup r)"
| "b64_ungroup [a, b, c] =
     (if c mod 4 = 0 then Some [a * 4 + b div 16, (b mod 16) * 16 + c div 4] else None)"
| "b64_ungroup [a, b] = (if b mod 16 = 0 then Some [a * 4 + b div 16] else None)"
| "b64_ungroup [a] = None"
| "b64_ungroup [] = Some []"

definition b64_char :: "nat \<Rightarrow> char" where
  "b64_char n =
     (if n < 26 then char_of (65 + n) else if n < 52 then char_of (71 + n)
      else if n < 62 then char_of (n - 4) else if n = 62 then CHR ''+'' else CHR ''/'')"

definition b64_value :: "char \<Rightarrow> nat option" where
  "b64_value c =
     (let b = byte c in
      if 65 \<le> b \<and> b \<le> 90 then Some (b - 65)
      else if 97 \<le> b \<and> b \<le> 122 then Some (b - 71)
      else if 48 \<le> b \<and> b \<le> 57 then Some (b + 4)
      else if b = 43 then Some 62 else if b = 47 then Some 63 else None)"

definition rfc_encode_no_pad :: "string \<Rightarrow> string" where
  "rfc_encode_no_pad s = map b64_char (b64_groups (map of_char s))"

definition rfc_encode :: "string \<Rightarrow> string" where
  "rfc_encode s = (let e = rfc_encode_no_pad s in e @ replicate ((4 - length e mod 4) mod 4) CHR ''='')"

definition rfc_decode :: "string \<Rightarrow> string option" where
  "rfc_decode s =
     (let body = takeWhile (\<lambda>c. c \<noteq> CHR ''='') s in
      if length s mod 4 = 0
         \<and> drop (length body) s = replicate ((4 - length body mod 4) mod 4) CHR ''=''
      then Option.bind (all_some (map b64_value body)) (\<lambda>vs.
           map_option (map char_of) (b64_ungroup vs))
      else None)"

text \<open>Two digits in base \<open>k\<close>, read back.\<close>

lemma two_digits:
  fixes x y k :: nat
  assumes "y < k"
  shows "(x * k + y) div k = x" and "(x * k + y) mod k = y"
  using assms by simp_all

lemma byte_digits:
  fixes b :: nat
  assumes "b < 256"
  shows "b div 16 < 16" and "b div 64 < 4" and "b div 4 < 64"
  using assms by (simp_all add: less_mult_imp_div_less)

lemma b64_ungroup_groups:
  "\<forall>b \<in> set bs. b < 256 \<Longrightarrow> b64_ungroup (b64_groups bs) = Some bs"
proof (induction bs rule: b64_groups.induct)
  case (1 a b c r)
  then have "b < 256" "c < 256" by auto
  with 1 show ?case by (simp add: two_digits byte_digits)
next
  case (2 a b)
  then have "b < 256" by auto
  then show ?case by (simp add: two_digits byte_digits)
qed simp_all

lemma b64_groups_bound: "\<forall>b \<in> set bs. b < 256 \<Longrightarrow> v \<in> set (b64_groups bs) \<Longrightarrow> v < 64"
proof (induction bs rule: b64_groups.induct)
  case (1 a b c r)
  then have "a < 256" "b < 256" "c < 256" by auto
  then have "a div 4 < 64" "(a mod 4) * 16 + b div 16 < 64" "(b mod 16) * 4 + c div 64 < 64"
    by linarith+
  with 1 show ?case by auto
next
  case (2 a b)
  then have "a < 256" "b < 256" by auto
  then have "a div 4 < 64" "(a mod 4) * 16 + b div 16 < 64" "(b mod 16) * 4 < 64"
    by linarith+
  with 2 show ?case by auto
next
  case (3 a)
  then have "a < 256" by auto
  then have "a div 4 < 64" "(a mod 4) * 16 < 64" by linarith+
  with 3 show ?case by auto
qed simp

lemma b64_groups_length: "length (b64_groups bs) = (4 * length bs + 2) div 3"
  by (induction bs rule: b64_groups.induct) auto

lemma b64_value_char: "v < 64 \<Longrightarrow> b64_value (b64_char v) = Some v"
  by (auto simp: b64_value_def b64_char_def Let_def)

lemma b64_char_alphabet: "v < 64 \<Longrightarrow> b64_alphabet (b64_char v)"
  by (auto simp: b64_alphabet_def b64_char_def ascii_alphanumeric_def ascii_digit_def)

lemma all_some_map:
  "(\<And>x. x \<in> set xs \<Longrightarrow> f (g x) = Some x) \<Longrightarrow> all_some (map f (map g xs)) = Some xs"
  by (induction xs) auto

lemma takeWhile_append_stop: "\<forall>c \<in> set s. P c \<Longrightarrow> \<not> P d \<Longrightarrow> takeWhile P (s @ replicate n d) = s"
  by (induction s) (cases n, auto)

lemma rfc_alphabet: "c \<in> set (rfc_encode_no_pad s) \<Longrightarrow> b64_alphabet c"
  unfolding rfc_encode_no_pad_def
  using b64_groups_bound [of "map of_char s"] by (auto simp: b64_char_alphabet)

lemma rfc_decode_encode: "rfc_decode (rfc_encode s) = Some s"
proof -
  let ?e = "rfc_encode_no_pad s" and ?n = "(4 - length (rfc_encode_no_pad s) mod 4) mod 4"
  have "takeWhile (\<lambda>c. c \<noteq> CHR ''='') (?e @ replicate ?n CHR ''='') = ?e"
  proof (rule takeWhile_append_stop)
    show "\<forall>c \<in> set ?e. c \<noteq> CHR ''=''"
      using rfc_alphabet [of "CHR ''=''" s]
      by (auto simp: b64_alphabet_def ascii_alphanumeric_def ascii_digit_def)
  qed simp
  moreover have "length (?e @ replicate ?n CHR ''='') mod 4 = 0"
    using b64_group_length(3) [of "length s"]
    by (simp add: rfc_encode_no_pad_def b64_groups_length)
  moreover have "all_some (map b64_value ?e) = Some (b64_groups (map of_char s))"
    unfolding rfc_encode_no_pad_def
    by (rule all_some_map) (use b64_groups_bound [of "map of_char s"] in \<open>auto intro: b64_value_char\<close>)
  moreover have "b64_ungroup (b64_groups (map of_char s)) = Some (map of_char s)"
    by (rule b64_ungroup_groups) auto
  ultimately show ?thesis
    by (simp add: rfc_decode_def rfc_encode_def Let_def comp_def)
qed

section \<open>Percent encoding\<close>

definition hex_char :: "nat \<Rightarrow> char" where
  "hex_char n = (if n < 10 then char_of (48 + n) else char_of (55 + n))"

definition hex_value :: "char \<Rightarrow> nat option" where
  "hex_value c =
     (let b = byte c in
      if 48 \<le> b \<and> b \<le> 57 then Some (b - 48)
      else if 65 \<le> b \<and> b \<le> 70 then Some (b - 55)
      else if 97 \<le> b \<and> b \<le> 102 then Some (b - 87) else None)"

definition url_encode_char :: "(char \<Rightarrow> bool) \<Rightarrow> char \<Rightarrow> string" where
  "url_encode_char S c =
     (if S c \<or> \<not> ascii c then [CHR ''%'', hex_char (byte c div 16), hex_char (byte c mod 16)] else [c])"

definition url_encode :: "(char \<Rightarrow> bool) \<Rightarrow> string \<Rightarrow> string" where
  "url_encode S s = concat (map (url_encode_char S) s)"

fun url_decode :: "string \<Rightarrow> string" where
  "url_decode [] = []"
| "url_decode (c # s) =
     (if c = CHR ''%'' then
        (case s of
           h # l # r \<Rightarrow>
             (case (hex_value h, hex_value l) of
                (Some a, Some b) \<Rightarrow> char_of (16 * a + b) # url_decode r
              | _ \<Rightarrow> c # url_decode s)
         | _ \<Rightarrow> c # url_decode s)
      else c # url_decode s)"

lemma hex_value_char: "n < 16 \<Longrightarrow> hex_value (hex_char n) = Some n"
  by (auto simp: hex_value_def hex_char_def)

lemma hex_digit_char: "n < 16 \<Longrightarrow> hex_digit (hex_char n)"
  by (auto simp: hex_digit_def hex_char_def ascii_digit_def)

lemma byte_div_16 [simp]: "byte c div 16 < 16"
  using nat_of_char_less_256 [of c] by linarith

lemma url_decode_encode_char:
  "S CHR ''%'' \<Longrightarrow> url_decode (url_encode_char S c @ t) = c # url_decode t"
  by (auto simp: url_encode_char_def hex_value_char simp flip: mult.commute)

lemma url_decode_encode: "S CHR ''%'' \<Longrightarrow> url_decode (url_encode S s) = s"
  by (induction s) (simp_all add: url_encode_def url_decode_encode_char)

lemma url_decode_plain: "CHR ''%'' \<notin> set s \<Longrightarrow> url_decode s = s"
  by (induction s) auto

lemma url_encode_chars:
  "c \<in> set (url_encode S s) \<Longrightarrow> c = CHR ''%'' \<or> hex_digit c \<or> (ascii c \<and> \<not> S c)"
  by (auto simp: url_encode_def url_encode_char_def hex_digit_char split: if_splits)

section \<open>JSON objects of strings\<close>

definition json_escape :: "char \<Rightarrow> string" where
  "json_escape c =
     (if c = CHR 0x22 \<or> c = CHR 0x5C then [CHR 0x5C, c]
      else if byte c < 32 then
        [CHR 0x5C, CHR ''u'', CHR ''0'', CHR ''0'', hex_char (byte c div 16), hex_char (byte c mod 16)]
      else [c])"

definition json_quote :: "string \<Rightarrow> string" where
  "json_quote s = CHR 0x22 # concat (map json_escape s) @ [CHR 0x22]"

fun json_string_body :: "string \<Rightarrow> (string \<times> string) option" where
  "json_string_body [] = None"
| "json_string_body (c # s) =
     (if c = CHR 0x22 then Some ([], s)
      else if c = CHR 0x5C then
        (case s of
           [] \<Rightarrow> None
         | d # t \<Rightarrow>
             if d = CHR ''u'' then
               (case t of
                  z1 # z2 # h # l # r \<Rightarrow>
                    (case (hex_value h, hex_value l) of
                       (Some a, Some b) \<Rightarrow>
                         map_option (\<lambda>(x, y). (char_of (16 * a + b) # x, y)) (json_string_body r)
                     | _ \<Rightarrow> None)
                | _ \<Rightarrow> None)
             else map_option (\<lambda>(x, y). (d # x, y)) (json_string_body t))
      else map_option (\<lambda>(x, y). (c # x, y)) (json_string_body s))"

definition json_pair :: "string \<times> string \<Rightarrow> string" where
  "json_pair p = json_quote (fst p) @ CHR '':'' # json_quote (snd p)"

fun json_members :: "nat \<Rightarrow> string \<Rightarrow> ((string \<times> json) list \<times> string) option" where
  "json_members 0 s = None"
| "json_members (Suc n) s =
     Option.bind (strip_prefix [CHR 0x22] s) (\<lambda>s1.
     Option.bind (json_string_body s1) (\<lambda>(k, s2).
     Option.bind (strip_prefix [CHR '':'', CHR 0x22] s2) (\<lambda>s3.
     Option.bind (json_string_body s3) (\<lambda>(v, s4).
       (case s4 of
          [] \<Rightarrow> None
        | d # s5 \<Rightarrow>
            if d = CHR '','' then map_option (\<lambda>(m, r). ((k, JString v) # m, r)) (json_members n s5)
            else if d = CHR ''}'' then Some ([(k, JString v)], s5) else None)))))"

definition simple_json_from_str :: "string \<Rightarrow> json option" where
  "simple_json_from_str s =
     Option.bind (strip_prefix ''{'' s) (\<lambda>r.
       if r = ''}'' then Some (JObject [])
       else (case json_members (length r) r of Some (m, []) \<Rightarrow> Some (JObject m) | _ \<Rightarrow> None))"

fun as_json_string :: "json \<Rightarrow> string option" where
  "as_json_string (JString s) = Some s"
| "as_json_string _ = None"

fun simple_json_to_string :: "json \<Rightarrow> string option" where
  "simple_json_to_string (JObject m) =
     map_option (\<lambda>vs. CHR ''{'' # join '','' (map json_pair (zip (map fst m) vs)) @ ''}'')
       (all_some (map (as_json_string \<circ> snd) m))"
| "simple_json_to_string _ = None"

lemma json_string_body_escape:
  "json_string_body (json_escape c @ t) = map_option (\<lambda>(x, y). (c # x, y)) (json_string_body t)"
  by (auto simp: json_escape_def hex_value_char simp flip: mult.commute)

lemma json_string_body_quote:
  "json_string_body (concat (map json_escape s) @ CHR 0x22 # t) = Some (s, t)"
  by (induction s) (simp_all add: json_string_body_escape)

lemma json_members_pair:
  "json_members (Suc n) (json_pair (k, v) @ d # t) =
     (if d = CHR '','' then map_option (\<lambda>(m, r). ((k, JString v) # m, r)) (json_members n t)
      else if d = CHR ''}'' then Some ([(k, JString v)], t) else None)"
  by (simp add: json_pair_def json_quote_def json_string_body_quote)

lemma json_members_print:
  "m \<noteq> [] \<Longrightarrow> length m \<le> n \<Longrightarrow>
     json_members n (join '','' (map json_pair m) @ CHR ''}'' # r)
       = Some (map (\<lambda>(k, v). (k, JString v)) m, r)"
proof (induction m arbitrary: n)
  case Nil
  then show ?case by simp
next
  case (Cons p m)
  obtain k v where p: "p = (k, v)" by (cases p)
  obtain n' where n: "n = Suc n'" using Cons.prems by (cases n) auto
  show ?case
  proof (cases m)
    case Nil
    then show ?thesis by (simp only: p n list.map join.simps json_members_pair) simp
  next
    case (Cons q m')
    with Cons.IH [of n'] Cons.prems n
    have IH: "json_members n' (join '','' (map json_pair m) @ CHR ''}'' # r)
        = Some (map (\<lambda>(k, v). (k, JString v)) m, r)" by simp
    have "join '','' (map json_pair (p # m)) = json_pair (k, v) @ CHR '','' # join '','' (map json_pair m)"
      using Cons p by simp
    then show ?thesis
      by (simp only: n append.assoc append_Cons json_members_pair IH) (simp add: p)
  qed
qed

lemma utf8_step_char:
  assumes "utf8_step s = Some r"
  shows "\<exists>p. s = p @ r \<and> utf8_step p = Some [] \<and> (p = [hd s] \<and> ascii (hd s) \<or> (\<forall>c \<in> set p. \<not> ascii c))"
proof (cases s)
  case Nil
  with assms show ?thesis by simp
next
  case (Cons c cs)
  show ?thesis
  proof (cases "ascii c")
    case True
    with assms Cons show ?thesis by (intro exI [of _ "[c]"]) auto
  next
    case False
    have tc: "take_continuations n ds = Some r \<Longrightarrow>
        \<exists>q. ds = q @ r \<and> take_continuations n q = Some [] \<and> (\<forall>c \<in> set q. \<not> ascii c)" for n ds
    proof (induction n ds rule: take_continuations.induct)
      case (3 n c cs)
      then obtain q where "cs = q @ r" "take_continuations n q = Some []" "\<forall>c \<in> set q. \<not> ascii c"
        by (auto split: if_splits)
      with 3 show ?case
        by (intro exI [of _ "c # q"]) (auto simp: continuation_def ascii_def split: if_splits)
    qed auto
    from assms Cons False obtain lo hi n d ds where
      l: "lead_byte (byte c) = Some (lo, hi, n)" "cs = d # ds" "in_range lo hi d"
      "take_continuations n ds = Some r"
      by (auto split: option.splits list.splits if_splits)
    with tc obtain q where "ds = q @ r" "take_continuations n q = Some []" "\<forall>c \<in> set q. \<not> ascii c"
      by blast
    moreover have "\<not> ascii d" using l lead_byte_range ascii_not_in_range by blast
    ultimately show ?thesis
      using Cons False l by (intro exI [of _ "c # d # q"]) auto
  qed
qed

lemma json_escape_ascii: "ascii c \<Longrightarrow> \<forall>d \<in> set (json_escape c). ascii d"
  by (auto simp: json_escape_def hex_char_def ascii_def)

lemma json_escape_other: "\<forall>c \<in> set p. \<not> ascii c \<Longrightarrow> concat (map json_escape p) = p"
  by (induction p) (auto simp: json_escape_def ascii_def)

lemma utf8_valid_escape: "utf8_valid s \<Longrightarrow> utf8_valid (concat (map json_escape s))"
proof (induction s rule: utf8_valid.induct)
  case (1 s)
  show ?case
  proof (cases "s = []")
    case True
    then show ?thesis by simp
  next
    case False
    with 1 obtain r where r: "utf8_step s = Some r" "utf8_valid r" by (auto simp: utf8_valid_step)
    with 1 False have IH: "utf8_valid (concat (map json_escape r))" by simp
    obtain p where p: "s = p @ r" "utf8_step p = Some []"
      "p = [hd s] \<and> ascii (hd s) \<or> (\<forall>c \<in> set p. \<not> ascii c)"
      using utf8_step_char [OF r(1)] by blast
    have "p \<noteq> []" using p(2) by auto
    then have vp: "utf8_valid p" using p(2) by (auto simp: utf8_valid_step)
    have "utf8_valid (concat (map json_escape p))"
    proof (cases "p = [hd s] \<and> ascii (hd s)")
      case True
      then have "concat (map json_escape p) = json_escape (hd s)" by (metis concat.simps list.map append_Nil2)
      with True json_escape_ascii show ?thesis by (metis utf8_valid_all_ascii)
    next
      case False
      with p(3) vp show ?thesis by (simp add: json_escape_other)
    qed
    with IH p(1) show ?thesis by (simp add: utf8_valid_append)
  qed
qed

lemma utf8_valid_quote: "utf8_valid s \<Longrightarrow> utf8_valid (json_quote s)"
  by (simp add: json_quote_def ascii_def utf8_valid_append utf8_valid_escape)

lemma utf8_valid_pair: "utf8_valid (fst p) \<Longrightarrow> utf8_valid (snd p) \<Longrightarrow> utf8_valid (json_pair p)"
  by (simp add: json_pair_def utf8_valid_append utf8_valid_quote ascii_def)

section \<open>The reference instance\<close>

text \<open>
  The YAML fields have no law: this instance refuses every document, and the statements that
  need a document say which one the parser returned.
\<close>

definition rfc_crates :: crates where
  "rfc_crates = \<lparr>b64_decode = rfc_decode, b64_encode = rfc_encode,
     b64_encode_no_pad = rfc_encode_no_pad,
     b64_encode_url_no_pad = (\<lambda>s. map url_safe_char (rfc_encode_no_pad s)),
     pct_encode = url_encode, pct_decode = url_decode,
     json_from_str = simple_json_from_str, json_to_string = simple_json_to_string,
     yaml_from_str = (\<lambda>_. Inl ''no YAML''), yaml_to_string = (\<lambda>_. Inl ''no YAML'')\<rparr>"

lemmas rfc_crates_simps [simp] =
  rfc_crates_def [THEN arg_cong, of b64_decode, simplified]
  rfc_crates_def [THEN arg_cong, of b64_encode, simplified]
  rfc_crates_def [THEN arg_cong, of b64_encode_no_pad, simplified]
  rfc_crates_def [THEN arg_cong, of b64_encode_url_no_pad, simplified]
  rfc_crates_def [THEN arg_cong, of pct_encode, simplified]
  rfc_crates_def [THEN arg_cong, of pct_decode, simplified]
  rfc_crates_def [THEN arg_cong, of json_from_str, simplified]
  rfc_crates_def [THEN arg_cong, of json_to_string, simplified]

lemma all_some_JString: "all_some (map (as_json_string \<circ> snd) (map (\<lambda>(k, v). (k, JString v)) m)) = Some (map snd m)"
  by (induction m) auto

interpretation rfc: codec_crates rfc_crates
proof
  show "b64_decode rfc_crates (b64_encode rfc_crates s) = Some s" for s
    by (simp add: rfc_decode_encode)
  show "b64_encode rfc_crates s = b64_encode_no_pad rfc_crates s @
      replicate ((4 - length (b64_encode_no_pad rfc_crates s) mod 4) mod 4) CHR ''=''" for s
    by (simp add: rfc_encode_def Let_def)
  show "length (b64_encode_no_pad rfc_crates s) = (4 * length s + 2) div 3" for s
    by (simp add: rfc_encode_no_pad_def b64_groups_length)
  show "b64_alphabet c" if "c \<in> set (b64_encode_no_pad rfc_crates s)" for c s
    using that by (simp add: rfc_alphabet)
  show "b64_encode_url_no_pad rfc_crates s = map url_safe_char (b64_encode_no_pad rfc_crates s)" for s
    by simp
  show "pct_decode rfc_crates (pct_encode rfc_crates S s) = s" if "S CHR ''%''" for S s
    using that by (simp add: url_decode_encode)
  show "c = CHR ''%'' \<or> hex_digit c \<or> (ascii c \<and> \<not> S c)"
    if "c \<in> set (pct_encode rfc_crates S s)" for c S s
    using that by (simp add: url_encode_chars)
  show "pct_encode rfc_crates S [] = []" for S
    by (simp add: url_encode_def)
  show "pct_decode rfc_crates s = s" if "CHR ''%'' \<notin> set s" for s
    using that by (simp add: url_decode_plain)
  fix m :: "(string \<times> string) list"
  assume m: "distinct (map fst m)" "\<forall>(k, v) \<in> set m. utf8_valid k \<and> utf8_valid v"
  define js where "js = CHR ''{'' # join '','' (map json_pair m) @ ''}''"
  have "json_to_string rfc_crates (JObject (map (\<lambda>(k, v). (k, JString v)) m)) = Some js"
    using all_some_JString [of m] by (simp add: js_def comp_def case_prod_beta zip_map_fst_snd)
  moreover have "utf8_valid js"
  proof -
    have "utf8_valid (join '','' (map json_pair m))"
    proof (rule utf8_valid_join)
      show "\<forall>p \<in> set (map json_pair m). utf8_valid p"
      proof
        fix x assume "x \<in> set (map json_pair m)"
        then obtain k v where "(k, v) \<in> set m" "x = json_pair (k, v)" by auto
        with m(2) show "utf8_valid x" by (metis (no_types, lifting) case_prodD fst_conv snd_conv utf8_valid_pair)
      qed
    qed (simp add: ascii_def)
    then show ?thesis by (simp add: js_def ascii_def utf8_valid_append)
  qed
  moreover have "json_from_str rfc_crates js = Some (JObject (map (\<lambda>(k, v). (k, JString v)) m))"
  proof (cases m)
    case Nil
    then show ?thesis by (simp add: js_def simple_json_from_str_def)
  next
    case (Cons p m')
    have "length m \<le> length (join '','' (map json_pair m))"
      by (induction m rule: induct_list012) (auto simp: json_pair_def json_quote_def)
    with Cons json_members_print [of m "length (join '','' (map json_pair m) @ ''}'')" "[]"]
    have "json_members (length (join '','' (map json_pair m) @ ''}''))
        (join '','' (map json_pair m) @ ''}'') = Some (map (\<lambda>(k, v). (k, JString v)) m, [])"
      by simp
    moreover have "join '','' (map json_pair m) @ ''}'' \<noteq> ''}''"
      using Cons by (cases m') (auto simp: json_pair_def json_quote_def)
    ultimately show ?thesis by (simp add: js_def simple_json_from_str_def)
  qed
  ultimately show "\<exists>text m'.
      json_to_string rfc_crates (JObject (map (\<lambda>(k, v). (k, JString v)) m)) = Some text \<and>
      utf8_valid text \<and> json_from_str rfc_crates text = Some (JObject m') \<and>
      map_of m' = map_of (map (\<lambda>(k, v). (k, JString v)) m)"
    by blast
qed

end
