(* ===== verification/B64_Roundtrip.thy ===== *)
theory B64_Roundtrip
  imports B64_Protocols Link_Params Rfc_Codecs
begin

text \<open>
  Round trips of the links with base64 or plain credentials: ss, ssr, vmess, socks5 and http.
  The decoder refuses more than 4 MiB of base64, so a node fits in a link when the encoded
  text is at most 3 MiB. Each module satisfies \<open>link_protocol\<close> under the laws of the crates.
\<close>

section \<open>Text that fits in a link\<close>

definition fits_b64 :: "string \<Rightarrow> bool" where
  "fits_b64 s \<longleftrightarrow> length s \<le> 3 * 1024 * 1024"

context base64_crate
begin

lemma fits_length:
  assumes "fits_b64 s"
  shows "length (b64_encode_no_pad E s) \<le> max_base64_len"
    and "length (b64_encode_url_no_pad E s) \<le> max_base64_len"
    and "length (b64_encode E s) \<le> max_base64_len"
proof -
  have "(4 * length s + 2) div 3 \<le> (4 * (3 * 1024 * 1024) + 2) div 3"
    using assms unfolding fits_b64_def by (intro div_le_mono) simp
  then show "length (b64_encode_no_pad E s) \<le> max_base64_len"
    by (simp add: b64_no_pad_length max_base64_len_def)
  then show "length (b64_encode_url_no_pad E s) \<le> max_base64_len"
    by (simp add: b64_url_no_pad)
  have "(length s + 2) div 3 \<le> (3 * 1024 * 1024 + 2) div 3"
    using assms unfolding fits_b64_def by (intro div_le_mono) simp
  then show "length (b64_encode E s) \<le> max_base64_len"
    by (simp add: b64_encode_length max_base64_len_def)
qed

lemma decode_string [simp]:
  assumes "fits_b64 s" and "utf8_valid s"
  shows "decode_base64_url_string E (b64_encode_no_pad E s) = Ok s"
    and "decode_base64_url_string E (b64_encode_url_no_pad E s) = Ok s"
    and "decode_base64_url_string E (b64_encode E s) = Ok s"
  using assms by (simp_all add: decode_string_simps fits_length)

lemma b64_no_pad_link_safe [simp]: "link_safe (b64_encode_no_pad E s)"
  by (auto simp: link_safe_def b64_alphabet_def ascii_alphanumeric_def ascii_digit_def
      dest: b64_no_pad_alphabet b64_alphabet_graphic)

lemma b64_graphic:
  "c \<in> set (b64_encode_no_pad E s) \<Longrightarrow> graphic c"
  "c \<in> set (b64_encode_url_no_pad E s) \<Longrightarrow> graphic c"
  "c \<in> set (b64_encode E s) \<Longrightarrow> graphic c"
proof -
  have "graphic CHR ''=''" by (simp add: graphic_def)
  then show "c \<in> set (b64_encode E s) \<Longrightarrow> graphic c"
    using b64_encode_chars b64_alphabet_graphic by blast
qed (auto simp: b64_url_no_pad url_safe_char_graphic b64_no_pad_alphabet b64_alphabet_graphic)

lemma utf8_valid_no_pad [simp]: "utf8_valid (b64_encode_no_pad E s)"
  by (rule utf8_valid_all_ascii) (auto dest: b64_graphic(1) graphic_ascii)

lemma b64_no_pad_absent [simp]: "\<not> b64_alphabet c \<Longrightarrow> c \<notin> set (b64_encode_no_pad E s)"
  using b64_no_pad_alphabet by blast

lemma b64_url_absent [simp]:
  "\<not> b64_alphabet c \<or> c = CHR ''/'' \<Longrightarrow> c \<noteq> CHR ''-'' \<Longrightarrow> c \<noteq> CHR ''_'' \<Longrightarrow>
     c \<notin> set (b64_encode_url_no_pad E s)"
  using b64_no_pad_alphabet by (auto simp: b64_url_no_pad url_safe_char_def split: if_splits)

end

text \<open>A link that is a scheme and graphic characters, without a name, is one line.\<close>

lemma graphic_breaks: "\<not> graphic CHR 0x0A" "\<not> graphic CHR 0x0D"
  by (simp_all add: graphic_def)

lemma line_ok_graphic: "s \<noteq> [] \<Longrightarrow> \<forall>c \<in> set s. graphic c \<Longrightarrow> line_ok s"
  using graphic_breaks by (auto simp: line_ok_def trim_all_graphic graphic_ascii intro: utf8_valid_all_ascii)

section \<open>Ciphers as text\<close>

text \<open>A cipher whose text does not contain the delimiters of the formats that hold it.\<close>

definition crypto_ok :: "crypto \<Rightarrow> bool" where
  "crypto_ok c \<longleftrightarrow> utf8_valid (crypto_as_str c) \<and> set (crypto_as_str c) \<inter> {CHR '':'', CHR ''?''} = {}"

definition norm_crypto :: "crypto \<Rightarrow> crypto" where
  "norm_crypto c = crypto_from_str (crypto_as_str c)"

lemma norm_crypto_idem [simp]: "norm_crypto (norm_crypto c) = norm_crypto c"
  by (simp add: norm_crypto_def)

lemma lower_absent [simp]:
  "d \<notin> set s \<Longrightarrow> \<not> (97 \<le> byte d \<and> byte d \<le> 122) \<Longrightarrow> d \<notin> set (to_ascii_lowercase s)"
  by (auto simp: to_ascii_lowercase_def ascii_lower_char_def)

lemma norm_crypto_ok [simp]: "crypto_ok c \<Longrightarrow> crypto_ok (norm_crypto c)"
  using crypto_from_str_text [of "crypto_as_str c"]
  by (auto simp: crypto_ok_def norm_crypto_def ascii_def simp del: crypto_normalD)

lemma norm_crypto_length: "length (crypto_as_str (norm_crypto c)) \<le> max 5 (length (crypto_as_str c))"
  using crypto_from_str_text [of "crypto_as_str c"] by (auto simp: norm_crypto_def)

section \<open>ss\<close>

text \<open>A link keeps the cipher up to its reading as text, the password, and nothing else.\<close>

definition ss_norm :: "proxy_node \<Rightarrow> proxy_node" where
  "ss_norm n = node_default
     \<lparr>nd_name := nd_name n, nd_kind := Ss, nd_server := nd_server n, nd_port := nd_port n,
      nd_crypto := map_option norm_crypto (nd_crypto n), nd_password := nd_password n\<rparr>"

definition wf_ss :: "proxy_node \<Rightarrow> bool" where
  "wf_ss n \<longleftrightarrow> nd_kind n = Ss \<and> server_ok (nd_server n) \<and> name_ok (nd_name n) \<and>
     (case (nd_crypto n, nd_password n) of
        (Some c, Some p) \<Rightarrow> crypto_ok c \<and> utf8_valid p
                          \<and> max 5 (length (crypto_as_str c)) + 1 + length p \<le> 3 * 1024 * 1024
      | _ \<Rightarrow> False)"

lemma wf_ssE:
  assumes "wf_ss n"
  obtains c p where "nd_kind n = Ss" and "server_ok (nd_server n)" and "name_ok (nd_name n)"
    and "nd_crypto n = Some c" and "nd_password n = Some p" and "crypto_ok c" and "utf8_valid p"
    and "fits_b64 (crypto_as_str c @ CHR '':'' # p)"
  using assms by (auto simp: wf_ss_def fits_b64_def split: option.splits)

lemma serialize_ss_kind:
  "nd_kind n \<noteq> Ss \<Longrightarrow> serialize_ss E n = Err (SerUnsupportedProtocol (protocol_as_str (nd_kind n)))"
  by (simp add: serialize_ss_def)

lemma parse_ss_facts:
  assumes "parse_ss E u = Ok n"
  shows "is_ss u" and "nd_kind n = Ss"
  using assms
  by (auto simp: parse_ss_def is_ss_def starts_with_def outcome_simps Let_def case_prod_beta)

lemma ss_norm_norm: "ss_norm (ss_norm n) = ss_norm n"
  by (simp add: ss_norm_def node_default_def option.map_comp comp_def)

lemma ss_norm_wf: "wf_ss n \<Longrightarrow> wf_ss (ss_norm n)"
proof -
  assume "wf_ss n"
  then obtain c p where n: "nd_kind n = Ss" "server_ok (nd_server n)" "name_ok (nd_name n)"
    "nd_crypto n = Some c" "nd_password n = Some p" "crypto_ok c" "utf8_valid p"
    by (elim wf_ssE)
  with \<open>wf_ss n\<close> norm_crypto_length [of c] show ?thesis
    by (auto simp: wf_ss_def ss_norm_def node_default_def max_def split: if_splits)
qed

lemma ss_host_trim [simp]:
  "trim_end_matches CHR ''/'' (h @ CHR '':'' # show_u16 p) = h @ CHR '':'' # show_u16 p"
proof -
  have "last (show_u16 p) \<noteq> CHR ''/''"
    using last_in_set [of "show_u16 p"] show_u16_link_absent(4) by fastforce
  then show ?thesis by (simp add: trim_end_matches_id)
qed

lemma serialize_ss_text:
  "nd_kind n = Ss \<Longrightarrow> nd_crypto n = Some c \<Longrightarrow> nd_password n = Some p \<Longrightarrow>
     serialize_ss E n = Ok (push_name (nd_name n)
       (''ss://'' @ b64_encode_no_pad E (crypto_as_str c @ CHR '':'' # p) @ CHR ''@'' # nd_server n
        @ CHR '':'' # show_u16 (nd_port n)))"
  by (simp add: serialize_ss_def)

context base64_crate
begin

lemma parse_userinfo_b64:
  assumes "CHR '':'' \<notin> set m" and "fits_b64 (m @ CHR '':'' # p)" and "utf8_valid m" and "utf8_valid p"
  shows "parse_userinfo E (b64_encode_no_pad E (m @ CHR '':'' # p)) = Ok (crypto_from_str m, p)"
proof -
  have "utf8_valid (m @ CHR '':'' # p)"
    using assms by (intro utf8_valid_append) (simp_all add: ascii_def)
  then show ?thesis
    using assms by (simp add: parse_userinfo_def b64_alphabet_def ascii_alphanumeric_def ascii_digit_def)
qed

lemma ss_roundtrip:
  assumes "wf_ss n"
  shows "\<exists>u. serialize_ss E n = Ok u \<and> parse_ss E u = Ok (ss_norm n)"
  using assms
proof (rule wf_ssE)
  fix c p
  assume n: "nd_kind n = Ss" "server_ok (nd_server n)" "name_ok (nd_name n)"
    "nd_crypto n = Some c" "nd_password n = Some p" "crypto_ok c" "utf8_valid p"
    "fits_b64 (crypto_as_str c @ CHR '':'' # p)"
  then have "parse_ss E (push_name (nd_name n)
       (''ss://'' @ b64_encode_no_pad E (crypto_as_str c @ CHR '':'' # p) @ CHR ''@'' # nd_server n
        @ CHR '':'' # show_u16 (nd_port n))) = Ok (ss_norm n)"
    unfolding parse_ss_def strip_prefix_push_name
    by (simp add: parse_userinfo_b64 crypto_ok_def ss_norm_def norm_crypto_def
        b64_alphabet_def ascii_alphanumeric_def ascii_digit_def)
  then show ?thesis using serialize_ss_text [OF n(1,4,5)] by blast
qed

lemma ss_line:
  assumes "wf_ss n" and "serialize_ss E n = Ok t"
  shows "line_ok t"
  using assms(1)
proof (rule wf_ssE)
  fix c p
  assume n: "nd_kind n = Ss" "server_ok (nd_server n)" "name_ok (nd_name n)"
    "nd_crypto n = Some c" "nd_password n = Some p"
  let ?b = "b64_encode_no_pad E (crypto_as_str c @ CHR '':'' # p)"
  have "line_ok (push_name (nd_name n) (''ss://'' @ (?b @ ''@'') @ nd_server n @ CHR '':'' #
      show_u16 (nd_port n) @ query_suffix []))"
    by (rule line_ok_link) (use n in \<open>auto simp: ascii_def graphic_def b64_alphabet_def
        ascii_alphanumeric_def ascii_digit_def\<close>)
  then show ?thesis
    using assms(2) serialize_ss_text [OF n(1,4,5)] by (simp add: query_suffix_def)
qed

end

sublocale base64_crate < ss: link_protocol
  "[''ss://'']" "parse_ss E" "serialize_ss E" Ss ss_norm wf_ss
proof
  show "\<exists>p \<in> set [''ss://'']. starts_with p u" if "parse_ss E u = Ok n" for u n
    using parse_ss_facts(1) [OF that] by (simp add: is_ss_def)
qed (simp_all add: parse_ss_facts serialize_ss_kind ss_roundtrip ss_line ss_norm_wf ss_norm_norm)

section \<open>ssr\<close>

definition ssr_norm :: "proxy_node \<Rightarrow> proxy_node" where
  "ssr_norm n = node_default
     \<lparr>nd_name := nd_name n, nd_kind := Ssr, nd_server := nd_server n, nd_port := nd_port n,
      nd_crypto := map_option norm_crypto (nd_crypto n), nd_password := nd_password n\<rparr>"

text \<open>Server and cipher stand between colons; the name is encoded, so it may be any text.\<close>

definition wf_ssr :: "proxy_node \<Rightarrow> bool" where
  "wf_ssr n \<longleftrightarrow> nd_kind n = Ssr \<and> utf8_valid (nd_server n) \<and> utf8_valid (nd_name n)
     \<and> set (nd_server n) \<inter> {CHR '':'', CHR ''?''} = {} \<and>
     (case (nd_crypto n, nd_password n) of
        (Some c, Some p) \<Rightarrow> crypto_ok c \<and> utf8_valid p
          \<and> length (nd_server n) + max 5 (length (crypto_as_str c)) + 2 * length p + 2 * length (nd_name n)
              + 100 \<le> 3 * 1024 * 1024
      | _ \<Rightarrow> False)"

definition ssr_main :: "crates \<Rightarrow> proxy_node \<Rightarrow> crypto \<Rightarrow> string \<Rightarrow> string" where
  "ssr_main E n c p = nd_server n @ CHR '':'' # show_u16 (nd_port n) @ '':auth_aes128_md5:''
     @ crypto_as_str c @ '':plain:'' @ b64_encode_url_no_pad E p"

definition ssr_plain :: "crates \<Rightarrow> proxy_node \<Rightarrow> crypto \<Rightarrow> string \<Rightarrow> string" where
  "ssr_plain E n c p = ssr_main E n c p @ ''/?remarks='' @ b64_encode_url_no_pad E (nd_name n)"

lemma wf_ssrE:
  assumes "wf_ssr n"
  obtains c p where "nd_kind n = Ssr" and "utf8_valid (nd_server n)" and "utf8_valid (nd_name n)"
    and "CHR '':'' \<notin> set (nd_server n)" and "CHR ''?'' \<notin> set (nd_server n)"
    and "nd_crypto n = Some c" and "nd_password n = Some p" and "crypto_ok c" and "utf8_valid p"
    and "length (nd_server n) + max 5 (length (crypto_as_str c)) + 2 * length p + 2 * length (nd_name n)
              + 100 \<le> 3 * 1024 * 1024"
  using assms by (auto simp: wf_ssr_def split: option.splits)

lemma serialize_ssr_kind:
  "nd_kind n \<noteq> Ssr \<Longrightarrow> serialize_ssr E n = Err (SerUnsupportedProtocol (protocol_as_str (nd_kind n)))"
  by (simp add: serialize_ssr_def)

lemma parse_ssr_facts:
  assumes "parse_ssr E u = Ok n"
  shows "is_ssr u" and "nd_kind n = Ssr"
  using assms
  by (auto simp: parse_ssr_def parse_ssr_decoded_def is_ssr_def starts_with_def outcome_simps Let_def
      case_prod_beta split: if_splits)

lemma ssr_norm_norm: "ssr_norm (ssr_norm n) = ssr_norm n"
  by (simp add: ssr_norm_def node_default_def option.map_comp comp_def)

lemma ssr_norm_wf:
  assumes "wf_ssr n"
  shows "wf_ssr (ssr_norm n)"
  using assms
proof (rule wf_ssrE)
  fix c p
  assume n: "nd_kind n = Ssr" "nd_crypto n = Some c" "nd_password n = Some p" "crypto_ok c"
  with assms norm_crypto_length [of c] show ?thesis
    by (auto simp: wf_ssr_def ssr_norm_def node_default_def max_def split: if_splits)
qed

lemma serialize_ssr_text:
  "nd_kind n = Ssr \<Longrightarrow> nd_crypto n = Some c \<Longrightarrow> nd_password n = Some p \<Longrightarrow>
     serialize_ssr E n = Ok (''ssr://'' @ b64_encode_url_no_pad E (ssr_plain E n c p))"
  by (simp add: serialize_ssr_def ssr_plain_def ssr_main_def)

context base64_crate
begin

lemma b64_url_length: "length (b64_encode_url_no_pad E s) \<le> 2 * length s"
proof -
  have "(4 * m + 2) div 3 \<le> 2 * m" for m :: nat
    by (cases m rule: b64_length_cases) simp_all
  then show ?thesis by (simp only: b64_url_no_pad length_map b64_no_pad_length)
qed

lemma utf8_valid_b64_url [simp]: "utf8_valid (b64_encode_url_no_pad E s)"
  by (rule utf8_valid_all_ascii) (auto simp: ascii_def graphic_def dest!: b64_graphic(2))

lemma ssr_plain_ok:
  assumes "wf_ssr n" and "nd_crypto n = Some c" and "nd_password n = Some p"
  shows "utf8_valid (ssr_plain E n c p)" and "fits_b64 (ssr_plain E n c p)"
    and "CHR ''?'' \<notin> set (ssr_main E n c p)"
proof -
  show "utf8_valid (ssr_plain E n c p)"
    using assms
    by (auto simp: wf_ssr_def ssr_plain_def ssr_main_def crypto_ok_def ascii_def intro!: utf8_valid_append)
  have "length (b64_encode_url_no_pad E p) \<le> 2 * length p"
    "length (b64_encode_url_no_pad E (nd_name n)) \<le> 2 * length (nd_name n)"
    "length (show_u16 (nd_port n)) \<le> 5"
    using b64_url_length length_show_u16 by blast+
  then show "fits_b64 (ssr_plain E n c p)"
    using assms by (auto simp: wf_ssr_def ssr_plain_def ssr_main_def fits_b64_def)
  show "CHR ''?'' \<notin> set (ssr_main E n c p)"
    using assms by (auto simp: wf_ssr_def ssr_main_def crypto_ok_def b64_alphabet_def
        ascii_alphanumeric_def ascii_digit_def)
qed

lemma ssr_main_split:
  assumes "wf_ssr n" and "nd_crypto n = Some c"
  shows "split_on CHR '':'' (ssr_main E n c p) =
    [nd_server n, show_u16 (nd_port n), ''auth_aes128_md5'', crypto_as_str c, ''plain'',
     b64_encode_url_no_pad E p]"
proof -
  have "split_on CHR '':'' (crypto_as_str c @ CHR '':'' # x) = crypto_as_str c # split_on CHR '':'' x" for x
    using assms by (intro split_on_append) (auto simp: wf_ssr_def crypto_ok_def split: option.splits)
  moreover have "split_on CHR '':'' (nd_server n @ CHR '':'' # x) = nd_server n # split_on CHR '':'' x" for x
    using assms by (intro split_on_append) (auto simp: wf_ssr_def)
  ultimately show ?thesis
    by (simp add: ssr_main_def b64_alphabet_def ascii_alphanumeric_def ascii_digit_def)
qed

lemma last_ssr_main: "last (ssr_main E n c p) \<noteq> CHR ''/''"
proof (cases "b64_encode_url_no_pad E p = []")
  case False
  then have "last (b64_encode_url_no_pad E p) \<noteq> CHR ''/''"
    using last_in_set b64_url_absent [of "CHR ''/''" p] by fastforce
  with False show ?thesis by (simp add: ssr_main_def)
qed (simp add: ssr_main_def)

lemma parse_ssr_plain:
  assumes "wf_ssr n" and "nd_crypto n = Some c" and "nd_password n = Some p"
  shows "parse_ssr_decoded E (ssr_plain E n c p) = Ok (ssr_norm n)"
proof -
  let ?m = "ssr_main E n c p" and ?q = "''/?remarks='' @ b64_encode_url_no_pad E (nd_name n)"
  have ne: "?m \<noteq> []" by (simp add: ssr_main_def)
  have "find_str ''/?'' (?m @ ?q) = Some (length ?m)"
    using find_slash_question [OF ssr_plain_ok(3) [OF assms]] by simp
  moreover have "(?m @ ?q) ! (length ?m - 1) \<noteq> CHR ''/''"
    using ne last_ssr_main [of n c p] by (simp add: nth_append last_conv_nth)
  moreover have "split_on CHR ''&'' ?q = [?q]"
    by (rule split_on_absent) (simp add: b64_alphabet_def ascii_alphanumeric_def ascii_digit_def)
  moreover have "fits_b64 (nd_name n)" "utf8_valid (nd_name n)" "fits_b64 p" "utf8_valid p"
    using assms by (auto simp: wf_ssr_def fits_b64_def)
  ultimately show ?thesis
    using assms ne
    by (simp add: parse_ssr_decoded_def ssr_plain_def ssr_main_split ssr_norm_def norm_crypto_def
        wf_ssr_def del: append_Cons append_Nil)
      (simp add: Let_def)
qed

lemma ssr_roundtrip:
  assumes "wf_ssr n"
  shows "\<exists>u. serialize_ssr E n = Ok u \<and> parse_ssr E u = Ok (ssr_norm n)"
  using assms
proof (rule wf_ssrE)
  fix c p
  assume n: "nd_kind n = Ssr" "nd_crypto n = Some c" "nd_password n = Some p"
  have "parse_ssr E (''ssr://'' @ b64_encode_url_no_pad E (ssr_plain E n c p)) = Ok (ssr_norm n)"
    using parse_ssr_plain [OF assms n(2,3)] ssr_plain_ok(1,2) [OF assms n(2,3)]
    by (simp add: parse_ssr_def)
  then show ?thesis using serialize_ssr_text [OF n] by blast
qed

lemma ssr_line:
  assumes "wf_ssr n" and "serialize_ssr E n = Ok t"
  shows "line_ok t"
  using assms(1)
proof (rule wf_ssrE)
  fix c p
  assume n: "nd_kind n = Ssr" "nd_crypto n = Some c" "nd_password n = Some p"
  have "line_ok (''ssr://'' @ b64_encode_url_no_pad E (ssr_plain E n c p))"
    by (rule line_ok_graphic) (auto simp: b64_graphic(2), auto simp: graphic_def)
  then show ?thesis using assms(2) serialize_ssr_text [OF n] by simp
qed

end

sublocale base64_crate < ssr: link_protocol
  "[''ssr://'']" "parse_ssr E" "serialize_ssr E" Ssr ssr_norm wf_ssr
proof
  show "\<exists>p \<in> set [''ssr://'']. starts_with p u" if "parse_ssr E u = Ok n" for u n
    using parse_ssr_facts(1) [OF that] by (simp add: is_ssr_def)
qed (simp_all add: parse_ssr_facts serialize_ssr_kind ssr_roundtrip ssr_line ssr_norm_wf ssr_norm_norm)

text \<open>When the parser panics: exactly for a payload whose first separator stands at its beginning.\<close>

lemma parse_ssr_decoded_Panic_iff:
  "parse_ssr_decoded E d = Panic \<longleftrightarrow> starts_with ''/?'' d \<or> (starts_with ''?'' d \<and> \<not> contains_str ''/?'' d)"
proof -
  have find_0: "find_str p s = Some 0 \<longleftrightarrow> starts_with p s" if "p \<noteq> []" for p s
    using that by (cases s) (auto simp: starts_with_def neq_Nil_conv)
  have "parse_ssr_decoded E d = Panic
      \<longleftrightarrow> or_else (find_str ''/?'' d) (find_str ''?'' d) = Some 0"
    by (auto simp: parse_ssr_decoded_def outcome_simps Let_def split: option.splits if_splits)
  also have "\<dots> \<longleftrightarrow> starts_with ''/?'' d \<or> (starts_with ''?'' d \<and> \<not> contains_str ''/?'' d)"
    using find_0 [of "''/?''" d] find_0 [of "''?''" d] find_str_None_iff [of "''/?''" d]
    by (cases "starts_with ''/?'' d"; cases "find_str ''/?'' d") auto
  finally show ?thesis .
qed

lemma parse_ssr_Panic_iff:
  "parse_ssr E u = Panic \<longleftrightarrow>
     (\<exists>p d. u = ''ssr://'' @ p \<and> decode_base64_url_string E p = Ok d
        \<and> (starts_with ''/?'' d \<or> (starts_with ''?'' d \<and> \<not> contains_str ''/?'' d)))"
  by (auto simp: parse_ssr_def outcome_simps strip_prefix_Some_iff parse_ssr_decoded_Panic_iff
      simp del: starts_with_single)

section \<open>socks5 and http\<close>

text \<open>
  The serializers write the server in the place of the user name and the password as it is,
  so both must be free of the characters the parsers give a meaning to.
\<close>

definition wf_userpass :: "proxy_node \<Rightarrow> bool" where
  "wf_userpass n \<longleftrightarrow> server_ok (nd_server n) \<and> name_ok (nd_name n) \<and>
     (case nd_password n of None \<Rightarrow> True
      | Some p \<Rightarrow> CHR '':'' \<notin> set (nd_server n) \<and> CHR ''%'' \<notin> set (nd_server n) \<and> utf8_valid p
                \<and> set p \<inter> {CHR ''#'', CHR ''%'', CHR 0x0A, CHR 0x0D} = {})"

definition userpass_norm :: "proxy_node \<Rightarrow> proxy_node" where
  "userpass_norm n = node_default
     \<lparr>nd_name := nd_name n, nd_kind := nd_kind n, nd_server := nd_server n, nd_port := nd_port n,
      nd_password := nd_password n\<rparr>"

definition wf_socks5 :: "proxy_node \<Rightarrow> bool" where
  "wf_socks5 n \<longleftrightarrow> nd_kind n = Socks5 \<and> wf_userpass n"

definition wf_http :: "proxy_node \<Rightarrow> bool" where
  "wf_http n \<longleftrightarrow> nd_kind n = Http \<and> wf_userpass n"

definition user_part :: "proxy_node \<Rightarrow> string" where
  "user_part n = (case nd_password n of None \<Rightarrow> [] | Some p \<Rightarrow> nd_server n @ CHR '':'' # p @ ''@'')"

lemma serialize_userpass_text:
  "nd_kind n = Socks5 \<Longrightarrow> serialize_socks5 n = Ok (push_name (nd_name n)
     (''socks5://'' @ user_part n @ nd_server n @ CHR '':'' # show_u16 (nd_port n)))"
  "nd_kind n = Http \<Longrightarrow> serialize_http n = Ok (push_name (nd_name n)
     (''http://'' @ user_part n @ nd_server n @ CHR '':'' # show_u16 (nd_port n)))"
  by (simp_all add: serialize_socks5_def serialize_http_def user_part_def split: option.splits)

lemma serialize_socks5_kind:
  "nd_kind n \<noteq> Socks5 \<Longrightarrow> serialize_socks5 n = Err (SerUnsupportedProtocol (protocol_as_str (nd_kind n)))"
  by (simp add: serialize_socks5_def)

lemma serialize_http_kind:
  "nd_kind n \<noteq> Http \<Longrightarrow> serialize_http n = Err (SerUnsupportedProtocol (protocol_as_str (nd_kind n)))"
  by (simp add: serialize_http_def)

lemma parse_socks5_facts:
  assumes "parse_socks5 E u = Ok n"
  shows "is_socks5 u" and "nd_kind n = Socks5"
  using assms
  by (auto simp: parse_socks5_def is_socks5_def starts_with_def outcome_simps Let_def case_prod_beta)

lemma parse_http_facts:
  assumes "parse_http E u = Ok n"
  shows "is_http u" and "nd_kind n = Http"
  using assms
  by (auto simp: parse_http_def is_http_def starts_with_def outcome_simps Let_def case_prod_beta)

lemma userpass_norm_norm: "userpass_norm (userpass_norm n) = userpass_norm n"
  by (simp add: userpass_norm_def node_default_def)

lemma userpass_norm_wf: "wf_userpass n \<Longrightarrow> wf_userpass (userpass_norm n)"
  by (auto simp: wf_userpass_def userpass_norm_def node_default_def split: option.splits)

lemma userpass_line:
  assumes "wf_userpass n" and "p \<noteq> []" and "\<forall>c \<in> set p. graphic c"
  shows "line_ok (push_name (nd_name n) (p @ user_part n @ nd_server n @ CHR '':'' # show_u16 (nd_port n)))"
proof -
  have "line_ok (push_name (nd_name n) (p @ user_part n @ nd_server n @ CHR '':'' #
      show_u16 (nd_port n) @ query_suffix []))"
    by (rule line_ok_link)
      (use assms in \<open>auto simp: ascii_def wf_userpass_def user_part_def split: option.splits\<close>)
  then show ?thesis by (simp add: query_suffix_def)
qed

context percent_crate
begin

lemma split_authority_user_part:
  assumes "wf_userpass n"
  shows "split_authority (user_part n @ nd_server n @ CHR '':'' # show_u16 (nd_port n)) =
    ((case nd_password n of None \<Rightarrow> [] | Some p \<Rightarrow> nd_server n @ CHR '':'' # p),
     nd_server n @ CHR '':'' # show_u16 (nd_port n))"
  using assms by (cases "nd_password n") (simp_all add: user_part_def wf_userpass_def)

lemma socks5_roundtrip:
  assumes "wf_socks5 n"
  shows "\<exists>u. serialize_socks5 n = Ok u \<and> parse_socks5 E u = Ok (userpass_norm n)"
proof -
  have wf: "wf_userpass n" "nd_kind n = Socks5" using assms by (simp_all add: wf_socks5_def)
  have "CHR ''#'' \<notin> set (user_part n @ nd_server n @ CHR '':'' # show_u16 (nd_port n))"
    using wf by (auto simp: wf_userpass_def user_part_def split: option.splits)
  then have "parse_socks5 E (push_name (nd_name n)
      (''socks5://'' @ user_part n @ nd_server n @ CHR '':'' # show_u16 (nd_port n))) = Ok (userpass_norm n)"
    unfolding parse_socks5_def strip_prefix_push_name
    using wf split_authority_user_part [OF wf(1)]
    by (cases "nd_password n")
      (simp_all add: wf_userpass_def userpass_norm_def split_userpass_def percent_decode_plain Let_def)
  then show ?thesis using serialize_userpass_text(1) [OF wf(2)] by blast
qed

lemma http_roundtrip:
  assumes "wf_http n"
  shows "\<exists>u. serialize_http n = Ok u \<and> parse_http E u = Ok (userpass_norm n)"
proof -
  have wf: "wf_userpass n" "nd_kind n = Http" using assms by (simp_all add: wf_http_def)
  have "CHR ''#'' \<notin> set (user_part n @ nd_server n @ CHR '':'' # show_u16 (nd_port n))"
    using wf by (auto simp: wf_userpass_def user_part_def split: option.splits)
  then have "parse_http E (push_name (nd_name n)
      (''http://'' @ user_part n @ nd_server n @ CHR '':'' # show_u16 (nd_port n))) = Ok (userpass_norm n)"
    unfolding parse_http_def strip_prefix_push_name
    using wf split_authority_user_part [OF wf(1)]
    by (cases "nd_password n")
      (simp_all add: wf_userpass_def userpass_norm_def percent_decode_plain Let_def)
  then show ?thesis using serialize_userpass_text(2) [OF wf(2)] by blast
qed

end

lemma socks5_line: "wf_socks5 n \<Longrightarrow> serialize_socks5 n = Ok t \<Longrightarrow> line_ok t"
  using userpass_line [of n "''socks5://''"]
  by (simp add: wf_socks5_def serialize_userpass_text graphic_def)

lemma http_line: "wf_http n \<Longrightarrow> serialize_http n = Ok t \<Longrightarrow> line_ok t"
  using userpass_line [of n "''http://''"]
  by (simp add: wf_http_def serialize_userpass_text graphic_def)

lemma socks5_norm_wf: "wf_socks5 n \<Longrightarrow> wf_socks5 (userpass_norm n)"
  by (simp add: wf_socks5_def userpass_norm_wf) (simp add: userpass_norm_def)

lemma http_norm_wf: "wf_http n \<Longrightarrow> wf_http (userpass_norm n)"
  by (simp add: wf_http_def userpass_norm_wf) (simp add: userpass_norm_def)

sublocale percent_crate < socks5: link_protocol
  "[''socks5://'']" "parse_socks5 E" serialize_socks5 Socks5 userpass_norm wf_socks5
proof
  show "\<exists>p \<in> set [''socks5://'']. starts_with p u" if "parse_socks5 E u = Ok n" for u n
    using parse_socks5_facts(1) [OF that] by (simp add: is_socks5_def)
qed (simp_all add: parse_socks5_facts serialize_socks5_kind socks5_roundtrip socks5_line
    socks5_norm_wf userpass_norm_norm)

sublocale percent_crate < http: link_protocol
  "[''http://'']" "parse_http E" serialize_http Http userpass_norm wf_http
proof
  show "\<exists>p \<in> set [''http://'']. starts_with p u" if "parse_http E u = Ok n" for u n
    using parse_http_facts(1) [OF that] by (simp add: is_http_def)
qed (simp_all add: parse_http_facts serialize_http_kind http_roundtrip http_line
    http_norm_wf userpass_norm_norm)

end
