(* ===== verification/Parser_Lemmas.thy ===== *)
theory Parser_Lemmas
  imports Parser B64_Roundtrip
begin

text \<open>
  What the parser of a subscription computes. The chain of tests in \<open>parse_line\<close> is a lookup
  in a table whose schemes exclude one another; the only panic comes from ssr links; the line
  loop returns the accepted lines in order, up to the limit, and counts the others.
\<close>

section \<open>The dispatch as a table\<close>

definition line_table :: "crates \<Rightarrow> (string \<times> (string \<Rightarrow> (proxy_node, parse_error) outcome)) list" where
  "line_table E =
     [(''ss://'', parse_ss E), (''ssr://'', parse_ssr E), (''vmess://'', parse_vmess E),
      (''vless://'', parse_vless E), (''trojan://'', parse_trojan E), (''socks5://'', parse_socks5 E),
      (''http://'', parse_http E), (''hysteria2://'', parse_hysteria2 E), (''hy2://'', parse_hysteria2 E),
      (''hysteria://'', parse_hysteria E), (''tuic://'', parse_tuic E),
      (''wireguard://'', parse_wireguard E)]"

definition schemes :: "string list" where
  "schemes = [''ss://'', ''ssr://'', ''vmess://'', ''vless://'', ''trojan://'', ''socks5://'', ''http://'',
     ''hysteria2://'', ''hy2://'', ''hysteria://'', ''tuic://'', ''wireguard://'']"

lemma schemes_table: "map fst (line_table E) = schemes"
  by (simp add: line_table_def schemes_def)

lemmas is_scheme_defs = is_ss_def is_ssr_def is_vmess_def is_vless_def is_trojan_def is_socks5_def
  is_http_def is_hysteria_def is_hysteria2_def is_tuic_def is_wireguard_def

text \<open>No text begins with two of the schemes, so the order of the tests does not matter.\<close>

lemma schemes_exclusive:
  assumes "p \<in> set schemes" and "q \<in> set schemes" and "starts_with p l" and "starts_with q l"
  shows "p = q"
proof -
  have "list_all (\<lambda>p. list_all (\<lambda>q. p = q \<or> take (length q) p \<noteq> q) schemes) schemes"
    by (simp add: schemes_def)
  then have prefix_free: "p = q \<or> take (length q) p \<noteq> q"
    if "p \<in> set schemes" "q \<in> set schemes" for p q
    using that by (simp add: list_all_iff)
  obtain a where "l = p @ a" using assms(3) unfolding starts_with_iff by blast
  moreover obtain b where "l = q @ b" using assms(4) unfolding starts_with_iff by blast
  ultimately have "take (length q) p = q \<or> take (length p) q = p"
    by (metis append_eq_append_conv_if append_eq_conv_conj)
  then show ?thesis using prefix_free assms(1,2) by metis
qed

lemma parse_line_lookup:
  assumes "(p, f) \<in> set (line_table E)" and "starts_with p (trim l)"
  shows "parse_line E l = f (trim l)"
proof -
  have p: "p \<in> set schemes"
    using assms(1) schemes_table [of E] by (metis fst_conv image_eqI list.set_map)
  have other: "starts_with q (trim l) \<longleftrightarrow> q = p" if "q \<in> set schemes" for q
    using schemes_exclusive [OF that p] assms(2) by blast
  have ne: "trim l \<noteq> []"
    using assms(2) p by (auto simp: schemes_def starts_with_def)
  note tests = other [unfolded schemes_def, simplified list.set, simplified]
  show ?thesis
    using assms(1) ne
    by (auto simp: parse_line_def is_scheme_defs tests line_table_def)
qed

lemma parse_line_no_scheme:
  "\<forall>p \<in> set schemes. \<not> starts_with p (trim l) \<Longrightarrow> parse_line E l = Err UnsupportedProtocol"
  by (simp add: parse_line_def is_scheme_defs schemes_def Let_def)

lemma parse_line_cases:
  obtains p f where "(p, f) \<in> set (line_table E)" and "starts_with p (trim l)" and "parse_line E l = f (trim l)"
  | "\<forall>p \<in> set schemes. \<not> starts_with p (trim l)" and "parse_line E l = Err UnsupportedProtocol"
proof (cases "\<exists>p \<in> set schemes. starts_with p (trim l)")
  case True
  then obtain p where "p \<in> fst ` set (line_table E)" "starts_with p (trim l)"
    by (metis list.set_map schemes_table)
  then obtain f where "(p, f) \<in> set (line_table E)" by auto
  then show ?thesis using that(1) parse_line_lookup \<open>starts_with p (trim l)\<close> by blast
next
  case False
  then show ?thesis using that(2) parse_line_no_scheme by blast
qed

section \<open>Panics\<close>

lemma parse_userinfo_not_Panic [simp]: "parse_userinfo E u \<noteq> Panic"
  by (auto simp: parse_userinfo_def Let_def outcome_simps split: option.splits)

lemma parsers_not_Panic [simp]:
  "parse_ss E u \<noteq> Panic" "parse_vmess E u \<noteq> Panic" "parse_vless E u \<noteq> Panic"
  "parse_trojan E u \<noteq> Panic" "parse_socks5 E u \<noteq> Panic" "parse_http E u \<noteq> Panic"
  "parse_hysteria2 E u \<noteq> Panic" "parse_hysteria E u \<noteq> Panic" "parse_tuic E u \<noteq> Panic"
  "parse_wireguard E u \<noteq> Panic"
  by (auto simp: parse_ss_def parse_vmess_def vmess_node_def parse_vless_def parse_trojan_def
      parse_socks5_def split_userpass_def parse_http_def parse_hysteria2_def parse_hysteria_def
      parse_tuic_def parse_wireguard_def outcome_simps Let_def case_prod_beta)

lemma parse_line_Panic_iff: "parse_line E l = Panic \<longleftrightarrow> parse_ssr E (trim l) = Panic"
proof -
  have ssr: "parse_ssr E u = Panic \<Longrightarrow> starts_with ''ssr://'' u" for u
    by (auto simp: parse_ssr_def outcome_simps starts_with_def)
  have "(''ssr://'', parse_ssr E) \<in> set (line_table E)" by (simp add: line_table_def)
  then have "parse_ssr E (trim l) = Panic \<Longrightarrow> parse_line E l = Panic"
    using ssr parse_line_lookup by metis
  moreover have "parse_line E l = Panic \<Longrightarrow> parse_ssr E (trim l) = Panic"
    by (cases rule: parse_line_cases [of E l]) (auto simp: line_table_def)
  ultimately show ?thesis by blast
qed

section \<open>The line loop\<close>

text \<open>What a line contributes, and what a list of lines does.\<close>

definition line_node :: "crates \<Rightarrow> string \<Rightarrow> proxy_node option" where
  "line_node E l = (if length l > max_line_len then None else ok (parse_line E l))"

definition line_nodes :: "crates \<Rightarrow> string list \<Rightarrow> proxy_node list" where
  "line_nodes E ls = List.map_filter (line_node E) ls"

lemma line_nodes_simps [simp]:
  "line_nodes E [] = []"
  "line_nodes E (l # ls) = (case line_node E l of None \<Rightarrow> line_nodes E ls | Some n \<Rightarrow> n # line_nodes E ls)"
  "line_nodes E (a @ b) = line_nodes E a @ line_nodes E b"
  by (simp_all add: line_nodes_def List.map_filter_def split: option.split)

lemma length_line_nodes: "length (line_nodes E ls) \<le> length ls"
  by (induction ls) (auto split: option.split)

lemma parse_lines_loop_spec:
  "parse_lines_loop E m ls ns k = Some (ns', k') \<Longrightarrow> length ns \<le> m \<Longrightarrow>
     \<exists>pre post. ls = pre @ post \<and> ns' = ns @ line_nodes E pre
       \<and> k' = k + (length pre - length (line_nodes E pre))
       \<and> length ns' \<le> m \<and> (post \<noteq> [] \<longrightarrow> length ns' = m)"
proof (induction ls arbitrary: ns k)
  case Nil
  then show ?case by simp
next
  case (Cons l ls)
  consider "length ns \<ge> m" | "length ns < m" "line_node E l = None"
    "parse_lines_loop E m (l # ls) ns k = parse_lines_loop E m ls ns (k + 1)"
    | n where "length ns < m" "line_node E l = Some n"
    "parse_lines_loop E m (l # ls) ns k = parse_lines_loop E m ls (ns @ [n]) k"
  proof (cases "length ns \<ge> m")
    case False
    with Cons.prems(1) that(2,3) show ?thesis
      by (cases "length l > max_line_len"; cases "parse_line E l") (simp_all add: line_node_def)
  qed (rule that(1))
  then show ?case
  proof cases
    case 1
    with Cons.prems have "ns' = ns" "k' = k" "length ns = m" by simp_all
    then show ?thesis by (intro exI [of _ "[]"] exI [of _ "l # ls"]) simp
  next
    case 2
    with Cons.prems have "parse_lines_loop E m ls ns (k + 1) = Some (ns', k')" by simp
    from Cons.IH [OF this Cons.prems(2)] obtain pre post where "ls = pre @ post"
      "ns' = ns @ line_nodes E pre" "k' = k + 1 + (length pre - length (line_nodes E pre))"
      "length ns' \<le> m" "post \<noteq> [] \<longrightarrow> length ns' = m"
      by blast
    with 2 length_line_nodes [of E pre] show ?thesis
      by (intro exI [of _ "l # pre"] exI [of _ post]) (simp add: Suc_diff_le)
  next
    case (3 n)
    with Cons.prems have "parse_lines_loop E m ls (ns @ [n]) k = Some (ns', k')" "length (ns @ [n]) \<le> m"
      by simp_all
    from Cons.IH [OF this] obtain pre post where "ls = pre @ post"
      "ns' = (ns @ [n]) @ line_nodes E pre" "k' = k + (length pre - length (line_nodes E pre))"
      "length ns' \<le> m" "post \<noteq> [] \<longrightarrow> length ns' = m"
      by blast
    with 3 show ?thesis
      by (intro exI [of _ "l # pre"] exI [of _ post]) simp
  qed
qed

lemma parse_lines_loop_None:
  "parse_lines_loop E m ls ns k = None \<Longrightarrow>
     \<exists>l \<in> set ls. length l \<le> max_line_len \<and> parse_line E l = Panic"
  by (induction E m ls ns k rule: parse_lines_loop.induct)
    (auto split: if_splits outcome.splits)

lemma parse_lines_loop_accepted:
  "list_all2 (\<lambda>l n. line_node E l = Some n) ls ns \<Longrightarrow> length acc \<le> m \<Longrightarrow>
     parse_lines_loop E m ls acc k = Some (acc @ take (m - length acc) ns, k)"
proof (induction ls ns arbitrary: acc rule: list_all2_induct)
  case Nil
  then show ?case by simp
next
  case (Cons l ls n ns)
  then have "length l \<le> max_line_len" "parse_line E l = Ok n"
    by (auto simp: line_node_def outcome_simps split: if_splits)
  with Cons show ?case
    by (cases "length acc = m") (auto simp: take_Cons' Suc_diff_Suc)
qed

text \<open>The nodes are the first of all the nodes the lines hold.\<close>

lemma parse_lines_nodes:
  assumes "parse_lines E t m = Some (ns, k)"
  shows "ns = take m (line_nodes E (lines t))" and "length ns \<le> m" and "length ns + k \<le> length (lines t)"
    and "length ns < m \<Longrightarrow> length ns + k = length (lines t)"
proof -
  obtain pre post where s: "lines t = pre @ post" "ns = line_nodes E pre"
    "k = length pre - length (line_nodes E pre)" "length ns \<le> m" "post \<noteq> [] \<longrightarrow> length ns = m"
    using parse_lines_loop_spec [OF assms [unfolded parse_lines_def]] by auto
  show "ns = take m (line_nodes E (lines t))"
    using s by (cases "post = []") auto
  show "length ns \<le> m" by (fact s(4))
  show "length ns + k \<le> length (lines t)" "length ns < m \<Longrightarrow> length ns + k = length (lines t)"
    using s length_line_nodes [of E pre] by (cases "post = []"; simp)+
qed

section \<open>The text of a subscription\<close>

lemma parse_subscription_bound:
  assumes "parse_subscription_text E t m = Some (ns, k)"
  shows "length ns \<le> m"
proof -
  have "parse_lines E s m = Some (ns, k) \<Longrightarrow> length ns \<le> m" for s
    by (rule parse_lines_nodes(2))
  with assms show ?thesis
    by (auto simp: parse_subscription_text_def Let_def split: if_splits outcome.splits option.splits)
qed

lemma parse_clash_yaml_not_Panic [simp]: "parse_clash_yaml E t \<noteq> Panic"
  by (auto simp: parse_clash_yaml_def outcome_simps split: option.splits)

lemma parse_lines_None:
  "parse_lines E t m = None \<Longrightarrow> \<exists>l \<in> set (lines t). parse_ssr E (trim l) = Panic"
  using parse_lines_loop_None parse_line_Panic_iff by (fastforce simp: parse_lines_def)

text \<open>A panic needs an ssr line in the text, or in the text its base64 stands for.\<close>

lemma parse_subscription_None:
  assumes "parse_subscription_text E t m = None"
  shows "\<exists>s. (s = t \<or> decode_base64_url_string E (trim t) = Ok s)
    \<and> (\<exists>l \<in> set (lines s). parse_ssr E (trim l) = Panic)"
proof -
  have "parse_lines E t m = None \<or>
      (\<exists>s. decode_base64_url_string E (trim t) = Ok s \<and> parse_lines E s m = None)"
    using assms
    by (auto simp: parse_subscription_text_def Let_def outcome_simps
        split: if_splits outcome.splits option.splits)
  then show ?thesis using parse_lines_None by blast
qed

end
