(* ===== verification/Formats.thy ===== *)
theory Formats
  imports Link_Protocols B64_Protocols
begin

text \<open>
  What the program writes: \<open>formats/v2ray.rs\<close> (links, one per line, plain or as base64),
  \<open>formats/clash.rs\<close> (a Clash configuration with the nodes, or a template with a provider
  section), and the choice between them in \<open>serializer.rs\<close>.
\<close>

section \<open>Lists of links\<close>

text \<open>The \<open>match\<close> of the loop; \<open>None\<close> is its \<open>continue\<close>.\<close>

definition v2ray_line :: "crates \<Rightarrow> proxy_node \<Rightarrow> (string, serialize_error) outcome option" where
  "v2ray_line E n =
     (case nd_kind n of
        Ss \<Rightarrow> Some (serialize_ss E n)
      | Ssr \<Rightarrow> Some (serialize_ssr E n)
      | Vmess \<Rightarrow> Some (serialize_vmess E n)
      | Vless \<Rightarrow> Some (serialize_vless E n)
      | Trojan \<Rightarrow> Some (serialize_trojan E n)
      | Tuic \<Rightarrow> Some (serialize_tuic E n)
      | Hysteria \<Rightarrow> None | Hysteria2 \<Rightarrow> None
      | Wireguard \<Rightarrow> None
      | Socks5 \<Rightarrow> None | Http \<Rightarrow> None)"

fun v2ray_lines ::
  "crates \<Rightarrow> proxy_node list \<Rightarrow> string list \<Rightarrow> (string list, serialize_error) outcome" where
  "v2ray_lines E [] acc = Ok acc"
| "v2ray_lines E (n # ns) acc =
     (case v2ray_line E n of
        None \<Rightarrow> v2ray_lines E ns acc
      | Some r \<Rightarrow> and_then r (\<lambda>line. v2ray_lines E ns (acc @ [line])))"

definition serialize_v2ray_plain :: "crates \<Rightarrow> proxy_node list \<Rightarrow> (string, serialize_error) outcome" where
  "serialize_v2ray_plain E nodes =
     and_then (v2ray_lines E nodes []) (\<lambda>ls. Ok (join [CHR 0x0A] ls))"

definition serialize_v2ray :: "crates \<Rightarrow> proxy_node list \<Rightarrow> (string, serialize_error) outcome" where
  "serialize_v2ray E nodes =
     and_then (serialize_v2ray_plain E nodes) (\<lambda>joined.
     if joined = [] then Ok [] else Ok (b64_encode E joined))"

section \<open>Clash\<close>

definition nl :: string where
  "nl = [CHR 0x0A]"

definition clash_plain_char :: "char \<Rightarrow> bool" where
  "clash_plain_char c \<longleftrightarrow> ascii_alphanumeric c \<or> c \<in> {CHR ''.'', CHR ''_'', CHR ''-''}"

definition clash_yaml_str :: "crates \<Rightarrow> string \<Rightarrow> string" where
  "clash_yaml_str E s =
     (if s \<noteq> [] \<and> list_all clash_plain_char s then s
      else case yaml_to_string E (YString s) of
             Inr v \<Rightarrow> trim_end v
           | Inl _ \<Rightarrow> CHR 0x22 # concat (map (\<lambda>c. if c = CHR 0x22 then [CHR 0x5C, CHR 0x22] else [c]) s)
                        @ [CHR 0x22])"

fun clash_type :: "protocol \<Rightarrow> string" where
  "clash_type Ss = ''ss''"
| "clash_type Ssr = ''ssr''"
| "clash_type Socks5 = ''socks5''"
| "clash_type Http = ''http''"
| "clash_type Vmess = ''vmess''"
| "clash_type Vless = ''vless''"
| "clash_type Trojan = ''trojan''"
| "clash_type Hysteria = ''hysteria''"
| "clash_type Hysteria2 = ''hysteria2''"
| "clash_type Tuic = ''tuic''"
| "clash_type Wireguard = ''wireguard''"

text \<open>The \<open>match\<close> on the kind: what each protocol writes of its credentials.\<close>

definition clash_credentials :: "crates \<Rightarrow> proxy_node \<Rightarrow> (string, serialize_error) outcome" where
  "clash_credentials E n =
     (let y = clash_yaml_str E;
          user = (case nd_password n of
                    None \<Rightarrow> []
                  | Some p \<Rightarrow> ''    username: '' @ y (nd_server n) @ nl @ ''    password: '' @ y p @ nl);
          cipher = and_then (ok_or (SerMissingField ''crypto'') (nd_crypto n)) (\<lambda>c.
                   and_then (ok_or (SerMissingField ''password'') (nd_password n)) (\<lambda>p.
                   Ok (''    cipher: '' @ y (crypto_as_str c) @ nl @ ''    password: '' @ y p @ nl)));
          options = Ok ((case nd_password n of None \<Rightarrow> [] | Some p \<Rightarrow> ''    password: '' @ y p @ nl)
                        @ (case nd_uuid n of None \<Rightarrow> [] | Some u \<Rightarrow> ''    uuid: '' @ y u @ nl))
      in case nd_kind n of
        Ss \<Rightarrow> cipher
      | Ssr \<Rightarrow> cipher
      | Vmess \<Rightarrow>
          and_then (ok_or (SerMissingField ''uuid'') (nd_uuid n)) (\<lambda>u.
          Ok (''    uuid: '' @ y u @ nl @ ''    alterId: '' @ show_u16 (unwrap_or 0 (nd_alter_id n)) @ nl
              @ ''    cipher: auto'' @ nl))
      | Vless \<Rightarrow>
          and_then (ok_or (SerMissingField ''uuid'') (nd_uuid n)) (\<lambda>u. Ok (''    uuid: '' @ y u @ nl))
      | Trojan \<Rightarrow>
          and_then (ok_or (SerMissingField ''password'') (nd_password n)) (\<lambda>p.
          Ok (''    password: '' @ y p @ nl))
      | Hysteria \<Rightarrow> options
      | Hysteria2 \<Rightarrow> options
      | Tuic \<Rightarrow> options
      | Socks5 \<Rightarrow> Ok user
      | Http \<Rightarrow> Ok user
      | Wireguard \<Rightarrow>
          and_then (ok_or (SerMissingField ''publicKey'') (nd_password n)) (\<lambda>pubk.
          and_then (ok_or (SerMissingField ''privateKey'') (nd_uuid n)) (\<lambda>privk.
          Ok (''    public-key: '' @ y pubk @ nl @ ''    private-key: '' @ y privk @ nl))))"

definition clash_tls_text :: "crates \<Rightarrow> tls_settings option \<Rightarrow> string" where
  "clash_tls_text E tls =
     (case tls of
        None \<Rightarrow> []
      | Some t \<Rightarrow>
          (if tls_enabled t then ''    tls: true'' @ nl else [])
          @ (case tls_sni t of None \<Rightarrow> [] | Some sni \<Rightarrow> ''    sni: '' @ clash_yaml_str E sni @ nl)
          @ (if tls_alpn t \<noteq> []
             then ''    alpn:'' @ nl @ ''      - '' @ join (nl @ ''      - '') (tls_alpn t) @ nl else [])
          @ (if tls_insecure t then ''    skip-cert-verify: true'' @ nl else [])
          @ (case tls_fingerprint t of None \<Rightarrow> []
             | Some fp \<Rightarrow> ''    client-fingerprint: '' @ clash_yaml_str E fp @ nl))"

definition clash_transport_text :: "crates \<Rightarrow> transport option \<Rightarrow> string" where
  "clash_transport_text E transport =
     (case transport of
        None \<Rightarrow> []
      | Some tr \<Rightarrow>
          (case tr_websocket tr of
             Some ws \<Rightarrow>
               ''    network: ws'' @ nl @ ''    ws-opts:'' @ nl
               @ ''      path: '' @ clash_yaml_str E (ws_path ws) @ nl
               @ (case ws_host ws of None \<Rightarrow> []
                  | Some h \<Rightarrow> ''      headers:'' @ nl @ ''        Host: '' @ clash_yaml_str E h @ nl)
           | None \<Rightarrow>
               (case tr_grpc tr of
                  Some g \<Rightarrow>
                    ''    network: grpc'' @ nl @ ''    grpc-opts:'' @ nl
                    @ ''      grpc-service-name: '' @ clash_yaml_str E (grpc_service_name g) @ nl
                | None \<Rightarrow>
                    (case tr_http_upgrade tr of
                       Some h \<Rightarrow>
                         ''    network: http'' @ nl @ ''    http-opts:'' @ nl
                         @ ''      path: '' @ clash_yaml_str E (hu_path h) @ nl
                     | None \<Rightarrow> []))))"

definition proxy_to_clash :: "crates \<Rightarrow> proxy_node \<Rightarrow> (string, serialize_error) outcome" where
  "proxy_to_clash E n =
     (let s = ''  - name: '' @ clash_yaml_str E (nd_name n) @ nl
                @ ''    type: '' @ clash_type (nd_kind n) @ nl
                @ ''    server: '' @ nd_server n @ nl @ ''    port: '' @ show_u16 (nd_port n) @ nl
      in and_then (clash_credentials E n) (\<lambda>c.
         Ok (s @ c @ clash_tls_text E (nd_tls n) @ clash_transport_text E (nd_transport n))))"

text \<open>The names of the two groups, in UTF-8.\<close>

definition rocket :: string where
  "rocket = [CHR 0xF0, CHR 0x9F, CHR 0x9A, CHR 0x80, CHR 0x20]"

definition recycle :: string where
  "recycle = [CHR 0xE2, CHR 0x99, CHR 0xBB, CHR 0xEF, CHR 0xB8, CHR 0x8F, CHR 0x20]"

definition node_choice :: string where
  "node_choice = [CHR 0xE8, CHR 0x8A, CHR 0x82, CHR 0xE7, CHR 0x82, CHR 0xB9,
     CHR 0xE9, CHR 0x80, CHR 0x89, CHR 0xE6, CHR 0x8B, CHR 0xA9]"

definition auto_choice :: string where
  "auto_choice = [CHR 0xE8, CHR 0x87, CHR 0xAA, CHR 0xE5, CHR 0x8A, CHR 0xA8,
     CHR 0xE9, CHR 0x80, CHR 0x89, CHR 0xE6, CHR 0x8B, CHR 0xA9]"

text \<open>The nodes that could be written, each with its text.\<close>

definition clash_ok :: "crates \<Rightarrow> proxy_node list \<Rightarrow> (proxy_node \<times> string) list" where
  "clash_ok E nodes = List.map_filter (\<lambda>n. map_option (Pair n) (ok (proxy_to_clash E n))) nodes"

definition clash_members :: "crates \<Rightarrow> (proxy_node \<times> string) list \<Rightarrow> string" where
  "clash_members E oks = concat (map (\<lambda>(n, _). ''      - '' @ clash_yaml_str E (nd_name n) @ nl) oks)"

definition serialize_clash :: "crates \<Rightarrow> proxy_node list \<Rightarrow> (string, serialize_error) outcome" where
  "serialize_clash E nodes =
     (let out = ''mixed-port: 7890'' @ nl @ ''allow-lan: false'' @ nl @ ''mode: rule'' @ nl
                  @ ''log-level: info'' @ nl @ nl;
          out = out @ ''proxies:'' @ nl;
          oks = clash_ok E nodes;
          out = out @ concat (map snd oks)
      in Ok (if oks \<noteq> [] then
               out @ nl @ ''proxy-groups:'' @ nl
               @ ''  - name: '' @ [CHR 0x22] @ rocket @ node_choice @ [CHR 0x22] @ nl
               @ ''    type: select'' @ nl @ ''    proxies:'' @ nl
               @ clash_members E oks @ ''      - DIRECT'' @ nl
               @ ''  - name: '' @ [CHR 0x22] @ recycle @ auto_choice @ [CHR 0x22] @ nl
               @ ''    type: url-test'' @ nl
               @ ''    url: http://www.gstatic.com/generate_204'' @ nl
               @ ''    interval: 300'' @ nl @ ''    proxies:'' @ nl
               @ clash_members E oks
               @ nl @ ''rules:'' @ nl @ ''  - MATCH,'' @ rocket @ node_choice @ nl
             else out))"

text \<open>
  The provider and group sections. \<open>json!\<close> builds objects whose keys are kept sorted, and
  \<open>to_value\<close> keeps that order.
\<close>

definition clash_providers :: "string \<Rightarrow> string \<Rightarrow> yaml" where
  "clash_providers provider_key provider_url =
     YMapping [(YString provider_key, YMapping
       [(YString ''health-check'', YMapping
          [(YString ''enable'', YBool True),
           (YString ''interval'', YInt 300),
           (YString ''url'', YString ''http://www.gstatic.com/generate_204'')]),
        (YString ''interval'', YInt 3600),
        (YString ''path'', YString (''./providers/'' @ provider_key @ ''.yaml'')),
        (YString ''type'', YString ''http''),
        (YString ''url'', YString provider_url)])]"

definition clash_groups :: "string \<Rightarrow> yaml" where
  "clash_groups provider_key =
     YSequence [YMapping
       [(YString ''name'', YString node_choice),
        (YString ''proxies'', YSequence [YString ''DIRECT'']),
        (YString ''type'', YString ''select''),
        (YString ''use'', YSequence [YString provider_key])]]"

definition root_must_be_a_mapping :: string where
  "root_must_be_a_mapping = ''root must be a mapping''"

definition clash_document :: "yaml \<Rightarrow> string \<Rightarrow> string \<Rightarrow> (yaml, serialize_error) outcome" where
  "clash_document v provider_key provider_url =
     and_then (case v of
                 YNull \<Rightarrow> Ok []
               | YMapping m \<Rightarrow> Ok m
               | _ \<Rightarrow> Err (InvalidTemplate root_must_be_a_mapping))
       (\<lambda>m. let m = map_insert (YString ''proxy-providers'') (clash_providers provider_key provider_url) m;
                m = map_insert (YString ''proxy-groups'') (clash_groups provider_key) m
            in Ok (YMapping m))"

definition serialize_clash_subscription ::
  "crates \<Rightarrow> string \<Rightarrow> string \<Rightarrow> string \<Rightarrow> (string, serialize_error) outcome" where
  "serialize_clash_subscription E template provider_key provider_url =
     and_then (map_err InvalidTemplate (of_sum (yaml_from_str E template))) (\<lambda>v.
     and_then (clash_document v provider_key provider_url) (\<lambda>v.
     map_err InvalidTemplate (of_sum (yaml_to_string E v))))"

section \<open>The choice of the format\<close>

datatype output_format = Clash | V2ray

definition output_format_from_str :: "string \<Rightarrow> output_format option" where
  "output_format_from_str s =
     (let l = to_ascii_lowercase s in
      if l \<in> {''clash'', ''clashyaml'', ''yaml''} then Some Clash
      else if l \<in> {''v2ray'', ''v2r'', ''base64''} then Some V2ray
      else None)"

definition serialize_nodes :: "crates \<Rightarrow> proxy_node list \<Rightarrow> output_format \<Rightarrow> (string, serialize_error) outcome" where
  "serialize_nodes E nodes format =
     (case format of Clash \<Rightarrow> serialize_clash E nodes | V2ray \<Rightarrow> serialize_v2ray E nodes)"

end
