(* ===== verification/Link_Roundtrip.thy ===== *)
theory Link_Roundtrip
  imports Link_Params Rfc_Codecs
begin

text \<open>
  Round trips of the percent-encoded links. A serializer's text is brought into the form
  scheme, user part, host and port, parameters, name; a parser is evaluated on that form.
  What a trip loses is written out in one normal form per protocol, and each module
  satisfies the contract \<open>link_protocol\<close> under the laws of the crates.
\<close>

section \<open>vless\<close>

definition vless_kvs :: "crates \<Rightarrow> proxy_node \<Rightarrow> (string \<times> string) list" where
  "vless_kvs E n = (''encryption'', ''none'') # type_kv (nd_transport n) @ tls_kv E (nd_tls n)
     @ host_path_kv E (nd_transport n)"

text \<open>A vless link keeps its TLS options only when TLS is on, and never the insecure flag.\<close>

definition vless_norm :: "proxy_node \<Rightarrow> proxy_node" where
  "vless_norm n = node_default
     \<lparr>nd_name := nd_name n, nd_kind := Vless, nd_server := nd_server n, nd_port := nd_port n,
      nd_uuid := nd_uuid n,
      nd_tls := (case nd_tls n of None \<Rightarrow> None
        | Some t \<Rightarrow> if tls_enabled t
            then Some (t\<lparr>tls_sni := or_else (tls_sni t) (norm_host (nd_transport n)), tls_insecure := False\<rparr>)
            else None),
      nd_transport := norm_transport (nd_transport n)\<rparr>"

definition wf_vless :: "proxy_node \<Rightarrow> bool" where
  "wf_vless n \<longleftrightarrow> nd_kind n = Vless \<and> server_ok (nd_server n) \<and> name_ok (nd_name n) \<and> wf_tls (nd_tls n)
     \<and> wf_net_host_path (nd_transport n)
     \<and> (case nd_uuid n of None \<Rightarrow> False
        | Some u \<Rightarrow> u \<noteq> [] \<and> utf8_valid u \<and> set u \<inter> {CHR ''#'', CHR 0x0A, CHR 0x0D} = {})"

lemma serialize_vless_text:
  assumes "nd_kind n = Vless" and "nd_uuid n = Some u"
  shows "serialize_vless E n = Ok (push_name (nd_name n)
    (''vless://'' @ u @ CHR ''@'' # nd_server n @ CHR '':'' # show_u16 (nd_port n)
      @ query_suffix (vless_kvs E n)))"
proof -
  obtain net host path where t: "net_host_path (nd_transport n) = (net, host, path)"
    by (cases "net_host_path (nd_transport n)")
  show ?thesis
    using assms t
    by (cases "nd_tls n")
      (simp_all add: serialize_vless_def vless_kvs_def query_suffix_Cons amp_simps amp_kv
        tls_kv_def type_kv_def host_path_kv_def param_def Let_def
        split del: if_split cong: if_cong option.case_cong)
qed

lemma serialize_vless_kind:
  "nd_kind n \<noteq> Vless \<Longrightarrow> serialize_vless E n = Err (SerUnsupportedProtocol (protocol_as_str (nd_kind n)))"
  by (simp add: serialize_vless_def)

lemma parse_vless_facts:
  assumes "parse_vless E u = Ok n"
  shows "is_vless u" and "nd_kind n = Vless"
  using assms
  by (auto simp: parse_vless_def is_vless_def starts_with_def outcome_simps Let_def case_prod_beta
      split: if_splits)

lemma vless_norm_wf: "wf_vless n \<Longrightarrow> wf_vless (vless_norm n)"
  by (auto simp: wf_vless_def vless_norm_def node_default_def wf_tls_def split: option.splits)

lemma vless_norm_norm: "vless_norm (vless_norm n) = vless_norm n"
  by (cases "nd_tls n") (simp_all add: vless_norm_def node_default_def)

context percent_crate
begin

lemma params_ok_vless [simp]: "params_ok (vless_kvs E n)"
  by (simp add: vless_kvs_def graphic_def)

lemma read_vless:
  assumes "wf_tls (nd_tls n)" and "wf_net_host_path (nd_transport n)"
    and "net_host_path (nd_transport n) = (net, host, path)"
  shows "read_params E link_param (vless_kvs E n) link_params_init =
    (let p = link_params_init\<lparr>lp_net := net, lp_path := path, lp_host := norm_host (nd_transport n)\<rparr>
     in case nd_tls n of None \<Rightarrow> p
        | Some t \<Rightarrow> p\<lparr>lp_security := (if tls_enabled t then ''tls'' else []), lp_sni := tls_sni t,
            lp_fp := tls_fingerprint t, lp_alpn := tls_alpn t\<rparr>)"
  using assms
  by (cases "nd_tls n")
    (simp_all add: vless_kvs_def read_type_kv read_tls_kv read_host_path_kv link_params_init_def
      link_param_def ascii_def)

lemma vless_roundtrip:
  assumes "wf_vless n"
  shows "\<exists>u. serialize_vless E n = Ok u \<and> parse_vless E u = Ok (vless_norm n)"
proof -
  from assms obtain u where u: "nd_uuid n = Some u" "u \<noteq> []" "CHR ''#'' \<notin> set u"
    by (auto simp: wf_vless_def split: option.splits)
  obtain net host path where t: "net_host_path (nd_transport n) = (net, host, path)"
    by (cases "net_host_path (nd_transport n)")
  from assms have wf: "server_ok (nd_server n)" "wf_tls (nd_tls n)" "wf_net_host_path (nd_transport n)"
    "nd_kind n = Vless"
    by (simp_all add: wf_vless_def)
  let ?text = "push_name (nd_name n) (''vless://'' @ u @ CHR ''@'' # nd_server n @ CHR '':'' #
      show_u16 (nd_port n) @ query_suffix (vless_kvs E n))"
  have "parse_vless E ?text = Ok (vless_norm n)"
    unfolding parse_vless_def strip_prefix_push_name
    using wf(1) u read_vless [OF wf(2,3) t] link_transport_read [OF t]
    by (cases "nd_tls n")
      (simp_all add: run_query_read vless_norm_def link_tls_def link_params_init_def
        link_param_def Let_def)
  then show ?thesis using serialize_vless_text [OF wf(4) u(1)] by blast
qed

lemma vless_line:
  assumes "wf_vless n" and "serialize_vless E n = Ok t"
  shows "line_ok t"
proof -
  from assms(1) obtain u where u: "nd_uuid n = Some u" "set u \<inter> {CHR ''#'', CHR 0x0A, CHR 0x0D} = {}"
    by (auto simp: wf_vless_def split: option.splits)
  have "line_ok (push_name (nd_name n) (''vless://'' @ (u @ ''@'') @ nd_server n @ CHR '':'' #
      show_u16 (nd_port n) @ query_suffix (vless_kvs E n)))"
    by (rule line_ok_link) (use assms(1) u in \<open>auto simp: ascii_def wf_vless_def graphic_def\<close>)
  then show ?thesis
    using assms u(1) serialize_vless_text [of n u] by (simp add: wf_vless_def)
qed

end

sublocale percent_crate < vless: link_protocol
  "[''vless://'']" "parse_vless E" "serialize_vless E" Vless vless_norm wf_vless
proof
  show "\<exists>p \<in> set [''vless://'']. starts_with p u" if "parse_vless E u = Ok n" for u n
    using parse_vless_facts(1) [OF that] by (simp add: is_vless_def)
qed (simp_all add: parse_vless_facts serialize_vless_kind vless_roundtrip vless_line vless_norm_wf
    vless_norm_norm)

section \<open>trojan\<close>

definition trojan_kvs :: "crates \<Rightarrow> proxy_node \<Rightarrow> (string \<times> string) list" where
  "trojan_kvs E n = tls_kv E (nd_tls n) @ type_kv (nd_transport n) @ host_path_kv E (nd_transport n)"

text \<open>
  A trojan link always comes back with TLS on, also when the node had none or had it off; the
  host of the transport serves as the name indication, and the insecure flag is gone.
\<close>

definition trojan_norm :: "proxy_node \<Rightarrow> proxy_node" where
  "trojan_norm n = node_default
     \<lparr>nd_name := nd_name n, nd_kind := Trojan, nd_server := nd_server n, nd_port := nd_port n,
      nd_password := nd_password n,
      nd_tls := Some (case nd_tls n of
          None \<Rightarrow> \<lparr>tls_enabled = True, tls_sni = norm_host (nd_transport n), tls_alpn = [],
                   tls_insecure = False, tls_fingerprint = None\<rparr>
        | Some t \<Rightarrow> t\<lparr>tls_enabled := True, tls_sni := or_else (tls_sni t) (norm_host (nd_transport n)),
                     tls_insecure := False\<rparr>),
      nd_transport := norm_transport (nd_transport n)\<rparr>"

definition wf_trojan :: "proxy_node \<Rightarrow> bool" where
  "wf_trojan n \<longleftrightarrow> nd_kind n = Trojan \<and> server_ok (nd_server n) \<and> name_ok (nd_name n)
     \<and> wf_tls (nd_tls n) \<and> wf_net_host_path (nd_transport n)
     \<and> (case nd_password n of None \<Rightarrow> False | Some u \<Rightarrow> u \<noteq> [] \<and> utf8_valid u)"

lemma serialize_trojan_text:
  assumes "nd_kind n = Trojan" and "nd_password n = Some u"
  shows "serialize_trojan E n = Ok (push_name (nd_name n)
    (''trojan://'' @ urlencode E u @ CHR ''@'' # nd_server n @ CHR '':'' # show_u16 (nd_port n)
      @ query_suffix (trojan_kvs E n)))"
proof -
  obtain net host path where t: "net_host_path (nd_transport n) = (net, host, path)"
    by (cases "net_host_path (nd_transport n)")
  let ?b = "''trojan://'' @ urlencode E u @ CHR ''@'' # nd_server n @ CHR '':'' # show_u16 (nd_port n)"
  have "serialize_trojan E n = Ok (push_name (nd_name n)
      (if map param (trojan_kvs E n) \<noteq> []
       then ?b @ CHR ''?'' # join ''&'' (map param (trojan_kvs E n)) else ?b))"
    using assms t
    by (cases "nd_tls n")
      (simp_all add: serialize_trojan_def trojan_kvs_def map_param_kv
        tls_kv_def type_kv_def host_path_kv_def Let_def
        del: append_is_Nil_conv split del: if_split cong: if_cong option.case_cong)
  then show ?thesis by (simp only: query_text) simp
qed

lemma serialize_trojan_kind:
  "nd_kind n \<noteq> Trojan \<Longrightarrow> serialize_trojan E n = Err (SerUnsupportedProtocol (protocol_as_str (nd_kind n)))"
  by (simp add: serialize_trojan_def)

lemma parse_trojan_facts:
  assumes "parse_trojan E u = Ok n"
  shows "is_trojan u" and "nd_kind n = Trojan"
  using assms
  by (auto simp: parse_trojan_def is_trojan_def starts_with_def outcome_simps Let_def case_prod_beta
      split: if_splits)

lemma trojan_norm_wf: "wf_trojan n \<Longrightarrow> wf_trojan (trojan_norm n)"
  by (auto simp: wf_trojan_def trojan_norm_def node_default_def wf_tls_def wf_alpn_def
      split: option.splits)

lemma trojan_norm_norm: "trojan_norm (trojan_norm n) = trojan_norm n"
  by (cases "nd_tls n") (simp_all add: trojan_norm_def node_default_def)

context percent_crate
begin

lemma params_ok_trojan [simp]: "params_ok (trojan_kvs E n)"
  by (simp add: trojan_kvs_def)

lemma read_trojan:
  assumes "wf_tls (nd_tls n)" and "wf_net_host_path (nd_transport n)"
    and "net_host_path (nd_transport n) = (net, host, path)"
  shows "read_params E link_param (trojan_kvs E n) link_params_init =
    (let p = link_params_init\<lparr>lp_net := net, lp_path := path, lp_host := norm_host (nd_transport n)\<rparr>
     in case nd_tls n of None \<Rightarrow> p
        | Some t \<Rightarrow> p\<lparr>lp_security := (if tls_enabled t then ''tls'' else []), lp_sni := tls_sni t,
            lp_fp := tls_fingerprint t, lp_alpn := tls_alpn t\<rparr>)"
  using assms
  by (cases "nd_tls n")
    (simp_all add: trojan_kvs_def read_type_kv read_tls_kv read_host_path_kv link_params_init_def)

lemma trojan_roundtrip:
  assumes "wf_trojan n"
  shows "\<exists>u. serialize_trojan E n = Ok u \<and> parse_trojan E u = Ok (trojan_norm n)"
proof -
  from assms obtain u where u: "nd_password n = Some u" "u \<noteq> []" "utf8_valid u"
    by (auto simp: wf_trojan_def split: option.splits)
  obtain net host path where t: "net_host_path (nd_transport n) = (net, host, path)"
    by (cases "net_host_path (nd_transport n)")
  from assms have wf: "server_ok (nd_server n)" "wf_tls (nd_tls n)"
    "wf_net_host_path (nd_transport n)" "nd_kind n = Trojan"
    by (simp_all add: wf_trojan_def)
  have "parse_trojan E (push_name (nd_name n) (''trojan://'' @ urlencode E u @ CHR ''@'' #
      nd_server n @ CHR '':'' # show_u16 (nd_port n) @ query_suffix (trojan_kvs E n))) = Ok (trojan_norm n)"
    unfolding parse_trojan_def strip_prefix_push_name
    using wf(1) u read_trojan [OF wf(2,3) t] link_transport_read [OF t]
    by (cases "nd_tls n")
      (simp_all add: run_query_read trojan_norm_def link_tls_def link_params_init_def
        link_param_def Let_def urlencode_char_def ascii_alphanumeric_def ascii_digit_def)
  then show ?thesis using serialize_trojan_text [OF wf(4) u(1)] by blast
qed

lemma trojan_line:
  assumes "wf_trojan n" and "serialize_trojan E n = Ok t"
  shows "line_ok t"
proof -
  from assms(1) obtain u where u: "nd_password n = Some u"
    by (auto simp: wf_trojan_def split: option.splits)
  have "line_ok (push_name (nd_name n) (''trojan://'' @ (urlencode E u @ ''@'') @ nd_server n @ CHR '':'' #
      show_u16 (nd_port n) @ query_suffix (trojan_kvs E n)))"
    by (rule line_ok_link) (use assms(1) in \<open>auto simp: ascii_def wf_trojan_def graphic_def urlencode_char_def
        ascii_alphanumeric_def ascii_digit_def\<close>)
  then show ?thesis
    using assms u serialize_trojan_text [of n u] by (simp add: wf_trojan_def)
qed

end

sublocale percent_crate < trojan: link_protocol
  "[''trojan://'']" "parse_trojan E" "serialize_trojan E" Trojan trojan_norm wf_trojan
proof
  show "\<exists>p \<in> set [''trojan://'']. starts_with p u" if "parse_trojan E u = Ok n" for u n
    using parse_trojan_facts(1) [OF that] by (simp add: is_trojan_def)
qed (simp_all add: parse_trojan_facts serialize_trojan_kind trojan_roundtrip trojan_line trojan_norm_wf
    trojan_norm_norm)

end
