(* ===== verification/Tls_Roundtrip.thy ===== *)
theory Tls_Roundtrip
  imports Link_Params Rfc_Codecs
begin

text \<open>
  Round trips of the links whose query holds TLS options only (hysteria, hysteria2, tuic), and
  of wireguard links, whose query holds the keys. Each module satisfies \<open>link_protocol\<close>.
\<close>

section \<open>The TLS options that survive\<close>

text \<open>
  These links have no place for a fingerprint and none for "TLS off"; hysteria links keep the
  first application protocol only. \<open>f\<close> says which protocols are kept.
\<close>

definition norm_tls_opts :: "(string list \<Rightarrow> string list) \<Rightarrow> tls_settings option \<Rightarrow> tls_settings" where
  "norm_tls_opts f tls = (case tls of
     None \<Rightarrow> \<lparr>tls_enabled = True, tls_sni = None, tls_alpn = [], tls_insecure = False,
              tls_fingerprint = None\<rparr>
   | Some t \<Rightarrow> \<lparr>tls_enabled = True, tls_sni = tls_sni t, tls_alpn = f (tls_alpn t),
                tls_insecure = tls_insecure t, tls_fingerprint = None\<rparr>)"

lemma norm_tls_opts_idem [simp]:
  "(\<And>a. f (f a) = f a) \<Longrightarrow> f [] = [] \<Longrightarrow> norm_tls_opts f (Some (norm_tls_opts f tls)) = norm_tls_opts f tls"
  by (cases tls) (simp_all add: norm_tls_opts_def)

lemma wf_norm_tls_opts [simp]:
  "(\<And>a. set (f a) \<subseteq> set a) \<Longrightarrow> wf_tls tls \<Longrightarrow> wf_tls (Some (norm_tls_opts f tls))"
  by (cases tls) (auto simp: norm_tls_opts_def wf_tls_def wf_alpn_def)

lemma set_take_1 [simp]: "set (take (Suc 0) a) \<subseteq> set a"
  by (rule set_take_subset)

definition first_tls_kv :: "crates \<Rightarrow> tls_settings option \<Rightarrow> (string \<times> string) list" where
  "first_tls_kv E tls = (case tls of None \<Rightarrow> []
     | Some t \<Rightarrow> opt_kv E ''sni'' (tls_sni t) @ alpn1_kv E (tls_alpn t)
                  @ flag_kv ''insecure'' ''1'' (tls_insecure t))"

section \<open>hysteria\<close>

definition hysteria_kvs :: "crates \<Rightarrow> proxy_node \<Rightarrow> (string \<times> string) list" where
  "hysteria_kvs E n = (''protocol'', ''udp'') # (''auth'', urlencode E (unwrap_or [] (nd_password n)))
     # first_tls_kv E (nd_tls n)
     @ [(''upmbps'', ''100''), (''downmbps'', ''100''), (''obfs'', ''xorsalsa20'')]"

definition hysteria_norm :: "proxy_node \<Rightarrow> proxy_node" where
  "hysteria_norm n = node_default
     \<lparr>nd_name := nd_name n, nd_kind := Hysteria, nd_server := nd_server n, nd_port := nd_port n,
      nd_password := Some (unwrap_or [] (nd_password n)),
      nd_tls := Some (norm_tls_opts (take 1) (nd_tls n))\<rparr>"

definition wf_hysteria :: "proxy_node \<Rightarrow> bool" where
  "wf_hysteria n \<longleftrightarrow> nd_kind n = Hysteria \<and> server_ok (nd_server n) \<and> name_ok (nd_name n)
     \<and> wf_tls (nd_tls n) \<and> valid_opt (nd_password n)"

lemma serialize_hysteria_text:
  assumes "nd_kind n = Hysteria"
  shows "serialize_hysteria E n = Ok (push_name (nd_name n)
    (''hysteria://'' @ nd_server n @ CHR '':'' # show_u16 (nd_port n) @ query_suffix (hysteria_kvs E n)))"
  using assms
  by (cases "nd_tls n")
    (simp_all add: serialize_hysteria_def hysteria_kvs_def query_suffix_Cons amp_simps amp_kv
      first_tls_kv_def param_def Let_def
      split del: if_split cong: if_cong option.case_cong list.case_cong)

lemma serialize_hysteria_kind:
  "nd_kind n \<noteq> Hysteria \<Longrightarrow>
     serialize_hysteria E n = Err (SerUnsupportedProtocol (protocol_as_str (nd_kind n)))"
  by (simp add: serialize_hysteria_def)

lemma parse_hysteria_facts:
  assumes "parse_hysteria E u = Ok n"
  shows "is_hysteria u" and "nd_kind n = Hysteria"
  using assms
  by (auto simp: parse_hysteria_def is_hysteria_def starts_with_def outcome_simps Let_def case_prod_beta
      split: if_splits)

lemma valid_opt_unwrap [simp]: "valid_opt v \<Longrightarrow> utf8_valid (unwrap_or [] v)"
  by (cases v) auto

lemma hysteria_norm_wf: "wf_hysteria n \<Longrightarrow> wf_hysteria (hysteria_norm n)"
  by (simp add: wf_hysteria_def hysteria_norm_def node_default_def)

lemma hysteria_norm_norm: "hysteria_norm (hysteria_norm n) = hysteria_norm n"
  by (simp add: hysteria_norm_def node_default_def)

context percent_crate
begin

lemma params_ok_first_tls_kv [simp]: "params_ok (first_tls_kv E tls)"
  by (cases tls) (simp_all add: first_tls_kv_def graphic_def)

lemma params_ok_hysteria [simp]: "params_ok (hysteria_kvs E n)"
  by (simp add: hysteria_kvs_def graphic_def)

lemma wf_tls_valid:
  "wf_tls (Some t) \<Longrightarrow> valid_opt (tls_sni t) \<and> (\<forall>x \<in> set (tls_alpn t). utf8_valid x)"
  by (auto simp: wf_tls_def wf_alpn_def)

lemma read_first_tls_kv:
  assumes "wf_tls tls" and "tp_sni p = None" and "tp_alpn p = []" and "\<not> tp_insecure p"
    and "arm \<in> {hysteria_param, hysteria2_param}"
  shows "tp_tls (read_params E arm (first_tls_kv E tls) p) = norm_tls_opts (take 1) tls
    \<and> tp_auth (read_params E arm (first_tls_kv E tls) p) = tp_auth p"
proof (cases tls)
  case None
  with assms show ?thesis by (simp add: first_tls_kv_def tp_tls_def norm_tls_opts_def)
next
  case (Some t)
  with assms wf_tls_valid [of t] show ?thesis
    by (auto simp: first_tls_kv_def tp_tls_def norm_tls_opts_def hysteria_param_def hysteria2_param_def
        is_true_def ascii_def split: option.split list.split)
qed

lemma read_hysteria:
  assumes "wf_hysteria n"
  shows "tp_tls (read_params E hysteria_param (hysteria_kvs E n) tls_params_init)
      = norm_tls_opts (take 1) (nd_tls n)"
    and "tp_auth (read_params E hysteria_param (hysteria_kvs E n) tls_params_init)
      = Some (unwrap_or [] (nd_password n))"
proof -
  have tail: "read_params E hysteria_param
      [(''upmbps'', ''100''), (''downmbps'', ''100''), (''obfs'', ''xorsalsa20'')] p = p" for p
    by (simp add: hysteria_param_def ascii_def)
  have head: "read_params E hysteria_param (hysteria_kvs E n) tls_params_init =
      read_params E hysteria_param (first_tls_kv E (nd_tls n))
        (tls_params_init\<lparr>tp_auth := Some (unwrap_or [] (nd_password n))\<rparr>)"
  proof -
    have "read_params E hysteria_param ((''protocol'', ''udp'')
        # (''auth'', urlencode E (unwrap_or [] (nd_password n))) # kvs) tls_params_init =
      read_params E hysteria_param kvs
        (tls_params_init\<lparr>tp_auth := Some (unwrap_or [] (nd_password n))\<rparr>)" for kvs
      using assms by (simp add: read_params_def wf_hysteria_def hysteria_param_def)
    then show ?thesis unfolding hysteria_kvs_def by (simp only: read_append tail append_Cons append_Nil)
  qed
  show "tp_tls (read_params E hysteria_param (hysteria_kvs E n) tls_params_init)
      = norm_tls_opts (take 1) (nd_tls n)"
    and "tp_auth (read_params E hysteria_param (hysteria_kvs E n) tls_params_init)
      = Some (unwrap_or [] (nd_password n))"
    unfolding head
    using assms
      read_first_tls_kv [of "nd_tls n" "tls_params_init\<lparr>tp_auth := Some (unwrap_or [] (nd_password n))\<rparr>"
        hysteria_param]
    by (simp_all add: tls_params_init_def wf_hysteria_def)
qed

lemma hysteria_roundtrip:
  assumes "wf_hysteria n"
  shows "\<exists>u. serialize_hysteria E n = Ok u \<and> parse_hysteria E u = Ok (hysteria_norm n)"
proof -
  have "parse_hysteria E (push_name (nd_name n) (''hysteria://'' @ nd_server n @ CHR '':'' #
      show_u16 (nd_port n) @ query_suffix (hysteria_kvs E n))) = Ok (hysteria_norm n)"
    unfolding parse_hysteria_def strip_prefix_push_name
    using assms read_hysteria [OF assms]
    by (simp add: run_query_read hysteria_norm_def wf_hysteria_def Let_def)
  then show ?thesis using assms serialize_hysteria_text [of n] by (auto simp: wf_hysteria_def)
qed

lemma hysteria_line:
  assumes "wf_hysteria n" and "serialize_hysteria E n = Ok t"
  shows "line_ok t"
proof -
  have "line_ok (push_name (nd_name n) (''hysteria://'' @ [] @ nd_server n @ CHR '':'' #
      show_u16 (nd_port n) @ query_suffix (hysteria_kvs E n)))"
    by (rule line_ok_link) (use assms(1) in \<open>auto simp: ascii_def wf_hysteria_def graphic_def\<close>)
  then show ?thesis
    using assms serialize_hysteria_text [of n] by (simp add: wf_hysteria_def)
qed

end

sublocale percent_crate < hysteria: link_protocol
  "[''hysteria://'']" "parse_hysteria E" "serialize_hysteria E" Hysteria hysteria_norm wf_hysteria
proof
  show "\<exists>p \<in> set [''hysteria://'']. starts_with p u" if "parse_hysteria E u = Ok n" for u n
    using parse_hysteria_facts(1) [OF that] by (simp add: is_hysteria_def)
qed (simp_all add: parse_hysteria_facts serialize_hysteria_kind hysteria_roundtrip hysteria_line
    hysteria_norm_wf hysteria_norm_norm)

section \<open>hysteria2\<close>

text \<open>An empty password is written as an empty user part, which reads as no password.\<close>

definition hysteria2_norm :: "proxy_node \<Rightarrow> proxy_node" where
  "hysteria2_norm n = node_default
     \<lparr>nd_name := nd_name n, nd_kind := Hysteria2, nd_server := nd_server n, nd_port := nd_port n,
      nd_password := drop_empty (nd_password n),
      nd_tls := Some (norm_tls_opts (take 1) (nd_tls n))\<rparr>"

definition wf_hysteria2 :: "proxy_node \<Rightarrow> bool" where
  "wf_hysteria2 n \<longleftrightarrow> nd_kind n = Hysteria2 \<and> server_ok (nd_server n) \<and> name_ok (nd_name n)
     \<and> wf_tls (nd_tls n) \<and> valid_opt (nd_password n)"

lemma serialize_hysteria2_text:
  assumes "nd_kind n = Hysteria2"
  shows "serialize_hysteria2 E n = Ok (push_name (nd_name n)
    (''hysteria2://'' @ urlencode E (unwrap_or [] (nd_password n)) @ CHR ''@'' # nd_server n
      @ CHR '':'' # show_u16 (nd_port n) @ query_suffix (first_tls_kv E (nd_tls n))))"
proof -
  let ?b = "''hysteria2://'' @ urlencode E (unwrap_or [] (nd_password n)) @ CHR ''@'' # nd_server n
      @ CHR '':'' # show_u16 (nd_port n)"
  have "serialize_hysteria2 E n = Ok (push_name (nd_name n)
      (if map param (first_tls_kv E (nd_tls n)) \<noteq> []
       then ?b @ CHR ''?'' # join ''&'' (map param (first_tls_kv E (nd_tls n))) else ?b))"
    using assms
    by (cases "nd_tls n")
      (simp_all add: serialize_hysteria2_def map_param_kv first_tls_kv_def Let_def
        del: append_is_Nil_conv split del: if_split cong: if_cong option.case_cong list.case_cong)
  then show ?thesis by (simp only: query_text) simp
qed

lemma serialize_hysteria2_kind:
  "nd_kind n \<noteq> Hysteria2 \<Longrightarrow>
     serialize_hysteria2 E n = Err (SerUnsupportedProtocol (protocol_as_str (nd_kind n)))"
  by (simp add: serialize_hysteria2_def)

lemma parse_hysteria2_facts:
  assumes "parse_hysteria2 E u = Ok n"
  shows "is_hysteria2 u" and "nd_kind n = Hysteria2"
proof -
  have or_else_Some: "or_else a b = Some x \<Longrightarrow> a \<noteq> None \<or> b \<noteq> None" for a b :: "string option" and x
    by (cases a) auto
  show "is_hysteria2 u" and "nd_kind n = Hysteria2"
    using assms
    by (auto simp: parse_hysteria2_def is_hysteria2_def starts_with_def outcome_simps Let_def
        case_prod_beta dest!: or_else_Some split: if_splits)
qed

lemma hysteria2_norm_wf: "wf_hysteria2 n \<Longrightarrow> wf_hysteria2 (hysteria2_norm n)"
  by (simp add: wf_hysteria2_def hysteria2_norm_def node_default_def)

lemma hysteria2_norm_norm: "hysteria2_norm (hysteria2_norm n) = hysteria2_norm n"
  by (simp add: hysteria2_norm_def node_default_def)

context percent_crate
begin

lemma hysteria2_user:
  assumes "valid_opt v"
  shows "(if urlencode E (unwrap_or [] v) = [] then Ok None
      else and_then (percent_decode E (urlencode E (unwrap_or [] v))) (\<lambda>d. Ok (Some d))) = Ok (drop_empty v)"
  using assms by (cases v) (auto simp: drop_empty_def)

lemma hysteria2_roundtrip:
  assumes "wf_hysteria2 n"
  shows "\<exists>u. serialize_hysteria2 E n = Ok u \<and> parse_hysteria2 E u = Ok (hysteria2_norm n)"
proof -
  have "parse_hysteria2 E (push_name (nd_name n)
      (''hysteria2://'' @ urlencode E (unwrap_or [] (nd_password n)) @ CHR ''@'' # nd_server n
      @ CHR '':'' # show_u16 (nd_port n) @ query_suffix (first_tls_kv E (nd_tls n)))) = Ok (hysteria2_norm n)"
    unfolding parse_hysteria2_def strip_prefix_push_name
    using assms read_first_tls_kv [of "nd_tls n" tls_params_init hysteria2_param]
    by (simp add: run_query_read hysteria2_norm_def wf_hysteria2_def Let_def hysteria2_user
        tls_params_init_def urlencode_char_def ascii_alphanumeric_def ascii_digit_def
        del: urlencode_empty_iff percent_decode_urlencode split del: if_split)
  then show ?thesis using assms serialize_hysteria2_text [of n] by (auto simp: wf_hysteria2_def)
qed

lemma hysteria2_line:
  assumes "wf_hysteria2 n" and "serialize_hysteria2 E n = Ok t"
  shows "line_ok t"
proof -
  have "line_ok (push_name (nd_name n) (''hysteria2://'' @ (urlencode E (unwrap_or [] (nd_password n)) @ ''@'')
      @ nd_server n @ CHR '':'' # show_u16 (nd_port n) @ query_suffix (first_tls_kv E (nd_tls n))))"
    by (rule line_ok_link) (use assms(1) in \<open>auto simp: ascii_def wf_hysteria2_def graphic_def urlencode_char_def
        ascii_alphanumeric_def ascii_digit_def\<close>)
  then show ?thesis
    using assms serialize_hysteria2_text [of n] by (simp add: wf_hysteria2_def)
qed

end

sublocale percent_crate < hysteria2: link_protocol
  "[''hysteria2://'', ''hy2://'']" "parse_hysteria2 E" "serialize_hysteria2 E" Hysteria2
  hysteria2_norm wf_hysteria2
proof
  show "\<exists>p \<in> set [''hysteria2://'', ''hy2://'']. starts_with p u" if "parse_hysteria2 E u = Ok n" for u n
    using parse_hysteria2_facts(1) [OF that] by (simp add: is_hysteria2_def)
qed (simp_all add: parse_hysteria2_facts serialize_hysteria2_kind hysteria2_roundtrip hysteria2_line
    hysteria2_norm_wf hysteria2_norm_norm)

section \<open>tuic\<close>

definition tuic_kvs :: "crates \<Rightarrow> proxy_node \<Rightarrow> (string \<times> string) list" where
  "tuic_kvs E n = (''congestion_control'', ''bbr'') # (''udp_relay_mode'', ''native'')
     # (case nd_tls n of None \<Rightarrow> []
        | Some t \<Rightarrow> opt_kv E ''sni'' (tls_sni t) @ alpn_kv E (tls_alpn t)
                     @ flag_kv ''allow_insecure'' ''1'' (tls_insecure t))"

definition tuic_norm :: "proxy_node \<Rightarrow> proxy_node" where
  "tuic_norm n = node_default
     \<lparr>nd_name := nd_name n, nd_kind := Tuic, nd_server := nd_server n, nd_port := nd_port n,
      nd_uuid := Some (unwrap_or [] (nd_uuid n)), nd_password := Some (unwrap_or [] (nd_password n)),
      nd_tls := Some (norm_tls_opts id (nd_tls n))\<rparr>"

text \<open>The uuid is written as it is, so it must not contain the colon that ends it.\<close>

definition wf_tuic :: "proxy_node \<Rightarrow> bool" where
  "wf_tuic n \<longleftrightarrow> nd_kind n = Tuic \<and> server_ok (nd_server n) \<and> name_ok (nd_name n)
     \<and> wf_tls (nd_tls n) \<and> valid_opt (nd_password n) \<and> valid_opt (nd_uuid n)
     \<and> set (unwrap_or [] (nd_uuid n)) \<inter> {CHR '':'', CHR ''#'', CHR 0x0A, CHR 0x0D} = {}"

lemma serialize_tuic_text:
  assumes "nd_kind n = Tuic"
  shows "serialize_tuic E n = Ok (push_name (nd_name n)
    (''tuic://'' @ (unwrap_or [] (nd_uuid n) @ CHR '':'' # urlencode E (unwrap_or [] (nd_password n)))
      @ CHR ''@'' # nd_server n @ CHR '':'' # show_u16 (nd_port n) @ query_suffix (tuic_kvs E n)))"
  using assms
  by (cases "nd_tls n")
    (simp_all add: serialize_tuic_def tuic_kvs_def query_suffix_Cons amp_simps amp_kv
      param_def Let_def split del: if_split cong: if_cong option.case_cong)

lemma serialize_tuic_kind:
  "nd_kind n \<noteq> Tuic \<Longrightarrow> serialize_tuic E n = Err (SerUnsupportedProtocol (protocol_as_str (nd_kind n)))"
  by (simp add: serialize_tuic_def)

lemma parse_tuic_facts:
  assumes "parse_tuic E u = Ok n"
  shows "is_tuic u" and "nd_kind n = Tuic"
  using assms
  by (auto simp: parse_tuic_def is_tuic_def starts_with_def outcome_simps Let_def case_prod_beta
      split: if_splits)

lemma tuic_norm_wf: "wf_tuic n \<Longrightarrow> wf_tuic (tuic_norm n)"
  by (simp add: wf_tuic_def tuic_norm_def node_default_def)

lemma tuic_norm_norm: "tuic_norm (tuic_norm n) = tuic_norm n"
  by (simp add: tuic_norm_def node_default_def)

context percent_crate
begin

lemma params_ok_tuic [simp]: "params_ok (tuic_kvs E n)"
  by (cases "nd_tls n") (simp_all add: tuic_kvs_def graphic_def)

lemma read_tuic:
  assumes "wf_tls (nd_tls n)"
  shows "tp_tls (read_params E tuic_param (tuic_kvs E n) tls_params_init) = norm_tls_opts id (nd_tls n)"
proof (cases "nd_tls n")
  case None
  then show ?thesis
    by (simp add: tuic_kvs_def tp_tls_def norm_tls_opts_def tuic_param_def tls_params_init_def ascii_def)
next
  case (Some t)
  with assms have "wf_alpn (tls_alpn t)" by (simp add: wf_tls_def)
  with Some assms wf_tls_valid [of t] split_join_alpn [of "tls_alpn t"] show ?thesis
    by (auto simp: tuic_kvs_def tp_tls_def norm_tls_opts_def tuic_param_def tls_params_init_def
        is_true_def ascii_def split: option.split)
qed

lemma tuic_roundtrip:
  assumes "wf_tuic n"
  shows "\<exists>u. serialize_tuic E n = Ok u \<and> parse_tuic E u = Ok (tuic_norm n)"
proof -
  have "parse_tuic E (push_name (nd_name n)
      (''tuic://'' @ (unwrap_or [] (nd_uuid n) @ CHR '':'' # urlencode E (unwrap_or [] (nd_password n)))
      @ CHR ''@'' # nd_server n @ CHR '':'' # show_u16 (nd_port n) @ query_suffix (tuic_kvs E n)))
      = Ok (tuic_norm n)"
    unfolding parse_tuic_def strip_prefix_push_name
    using assms read_tuic [of n]
    by (simp add: run_query_read tuic_norm_def wf_tuic_def Let_def
        urlencode_char_def ascii_alphanumeric_def ascii_digit_def)
  then show ?thesis using assms serialize_tuic_text [of n] by (auto simp: wf_tuic_def)
qed

lemma tuic_line:
  assumes "wf_tuic n" and "serialize_tuic E n = Ok t"
  shows "line_ok t"
proof -
  have "line_ok (push_name (nd_name n)
      (''tuic://'' @ (unwrap_or [] (nd_uuid n) @ CHR '':'' # urlencode E (unwrap_or [] (nd_password n)) @ ''@'')
      @ nd_server n @ CHR '':'' # show_u16 (nd_port n) @ query_suffix (tuic_kvs E n)))"
    by (rule line_ok_link) (use assms(1) in \<open>auto simp: ascii_def wf_tuic_def graphic_def urlencode_char_def
        ascii_alphanumeric_def ascii_digit_def\<close>)
  then show ?thesis
    using assms serialize_tuic_text [of n] by (simp add: wf_tuic_def)
qed

end

sublocale percent_crate < tuic: link_protocol
  "[''tuic://'']" "parse_tuic E" "serialize_tuic E" Tuic tuic_norm wf_tuic
proof
  show "\<exists>p \<in> set [''tuic://'']. starts_with p u" if "parse_tuic E u = Ok n" for u n
    using parse_tuic_facts(1) [OF that] by (simp add: is_tuic_def)
qed (simp_all add: parse_tuic_facts serialize_tuic_kind tuic_roundtrip tuic_line
    tuic_norm_wf tuic_norm_norm)

section \<open>wireguard\<close>

definition wireguard_kvs :: "crates \<Rightarrow> string \<Rightarrow> string \<Rightarrow> (string \<times> string) list" where
  "wireguard_kvs E pubk privk = [(''publicKey'', urlencode E pubk), (''privateKey'', urlencode E privk),
     (''reserved'', ''0,0,0''), (''mtu'', ''1420''), (''ip'', ''10.0.0.1/24'')]"

text \<open>Everything but the two keys is lost.\<close>

definition wireguard_norm :: "proxy_node \<Rightarrow> proxy_node" where
  "wireguard_norm n = node_default
     \<lparr>nd_name := nd_name n, nd_kind := Wireguard, nd_server := nd_server n, nd_port := nd_port n,
      nd_uuid := nd_uuid n, nd_password := nd_password n\<rparr>"

definition wf_wireguard :: "proxy_node \<Rightarrow> bool" where
  "wf_wireguard n \<longleftrightarrow> nd_kind n = Wireguard \<and> server_ok (nd_server n) \<and> name_ok (nd_name n)
     \<and> nd_password n \<noteq> None \<and> nd_uuid n \<noteq> None \<and> valid_opt (nd_password n) \<and> valid_opt (nd_uuid n)"

lemma serialize_wireguard_text:
  assumes "nd_kind n = Wireguard" and "nd_password n = Some pubk" and "nd_uuid n = Some privk"
  shows "serialize_wireguard E n = Ok (push_name (nd_name n)
    (''wireguard://'' @ urlencode E pubk @ CHR ''@'' # nd_server n @ CHR '':'' # show_u16 (nd_port n)
      @ query_suffix (wireguard_kvs E pubk privk)))"
  using assms
  by (simp add: serialize_wireguard_def wireguard_kvs_def query_suffix_Cons amp_simps param_def Let_def)

lemma serialize_wireguard_kind:
  "nd_kind n \<noteq> Wireguard \<Longrightarrow>
     serialize_wireguard E n = Err (SerUnsupportedProtocol (protocol_as_str (nd_kind n)))"
  by (simp add: serialize_wireguard_def)

lemma parse_wireguard_facts:
  assumes "parse_wireguard E u = Ok n"
  shows "is_wireguard u" and "nd_kind n = Wireguard"
  using assms
  by (auto simp: parse_wireguard_def is_wireguard_def starts_with_def outcome_simps Let_def case_prod_beta
      split: if_splits)

lemma wireguard_norm_wf: "wf_wireguard n \<Longrightarrow> wf_wireguard (wireguard_norm n)"
  by (simp add: wf_wireguard_def wireguard_norm_def node_default_def)

lemma wireguard_norm_norm: "wireguard_norm (wireguard_norm n) = wireguard_norm n"
  by (simp add: wireguard_norm_def node_default_def)

lemma cut_user_hostport [simp]:
  "CHR ''?'' \<notin> set b \<Longrightarrow> server_ok h \<Longrightarrow> cut CHR ''?'' (b @ CHR ''@'' # h @ CHR '':'' # show_u16 p @ query_suffix kvs)
     = (b @ CHR ''@'' # h @ CHR '':'' # show_u16 p, if kvs = [] then None else Some (join ''&'' (map param kvs)))"
  using cut_query_suffix [of "b @ CHR ''@'' # h @ CHR '':'' # show_u16 p" kvs] by simp

context percent_crate
begin

lemma params_ok_wireguard [simp]: "params_ok (wireguard_kvs E a b)"
  by (simp add: wireguard_kvs_def graphic_def)

lemma read_wireguard:
  assumes "utf8_valid pubk" and "utf8_valid privk"
  shows "read_params E wireguard_param (wireguard_kvs E pubk privk) p =
    \<lparr>wp_public_key = Some pubk, wp_private_key = Some privk, wp_ips = [''10.0.0.1/24'']\<rparr>"
proof -
  have "read_params E wireguard_param ((''publicKey'', urlencode E pubk) # (''privateKey'', urlencode E privk) # kvs) p
      = read_params E wireguard_param kvs (p\<lparr>wp_public_key := Some pubk, wp_private_key := Some privk\<rparr>)" for kvs
    using assms by (simp add: read_params_def wireguard_param_def)
  then show ?thesis by (cases p) (simp add: wireguard_kvs_def wireguard_param_def ascii_def)
qed

lemma wireguard_roundtrip:
  assumes "wf_wireguard n"
  shows "\<exists>u. serialize_wireguard E n = Ok u \<and> parse_wireguard E u = Ok (wireguard_norm n)"
proof -
  from assms obtain pubk privk where k: "nd_password n = Some pubk" "nd_uuid n = Some privk"
    by (auto simp: wf_wireguard_def)
  have "parse_wireguard E (push_name (nd_name n)
      (''wireguard://'' @ urlencode E pubk @ CHR ''@'' # nd_server n @ CHR '':'' # show_u16 (nd_port n)
      @ query_suffix (wireguard_kvs E pubk privk))) = Ok (wireguard_norm n)"
    unfolding parse_wireguard_def strip_prefix_push_name
    using assms k read_wireguard [of pubk privk]
    by (simp add: run_query_read wireguard_norm_def wf_wireguard_def Let_def
        urlencode_char_def ascii_alphanumeric_def ascii_digit_def)
  then show ?thesis using assms k serialize_wireguard_text [of n] by (auto simp: wf_wireguard_def)
qed

lemma wireguard_line:
  assumes "wf_wireguard n" and "serialize_wireguard E n = Ok t"
  shows "line_ok t"
proof -
  from assms obtain pubk privk where k: "nd_password n = Some pubk" "nd_uuid n = Some privk"
    by (auto simp: wf_wireguard_def)
  have "line_ok (push_name (nd_name n) (''wireguard://'' @ (urlencode E pubk @ ''@'')
      @ nd_server n @ CHR '':'' # show_u16 (nd_port n) @ query_suffix (wireguard_kvs E pubk privk)))"
    by (rule line_ok_link) (use assms(1) in \<open>auto simp: ascii_def wf_wireguard_def graphic_def urlencode_char_def
        ascii_alphanumeric_def ascii_digit_def\<close>)
  then show ?thesis
    using assms k serialize_wireguard_text [of n] by (simp add: wf_wireguard_def)
qed

end

sublocale percent_crate < wireguard: link_protocol
  "[''wireguard://'']" "parse_wireguard E" "serialize_wireguard E" Wireguard wireguard_norm wf_wireguard
proof
  show "\<exists>p \<in> set [''wireguard://'']. starts_with p u" if "parse_wireguard E u = Ok n" for u n
    using parse_wireguard_facts(1) [OF that] by (simp add: is_wireguard_def)
qed (simp_all add: parse_wireguard_facts serialize_wireguard_kind wireguard_roundtrip wireguard_line
    wireguard_norm_wf wireguard_norm_norm)

end
