(* ===== verification/Vmess_Roundtrip.thy ===== *)
theory Vmess_Roundtrip
  imports B64_Roundtrip
begin

text \<open>
  The round trip of vmess links: an object of texts, printed as JSON and encoded as base64.
  The laws of both crates are needed; how long the printed text is, is the JSON crate's
  business, so the bound on it is part of the well-formedness.
\<close>

section \<open>The entries of the object\<close>

lemma vmess_get_string:
  "map_of m' = map_of (map (\<lambda>(k, v). (k, JString v)) m) \<Longrightarrow> vmess_get (JObject m') k = map_of m k"
proof -
  have "map_of (map (\<lambda>(k, v). (k, JString v)) m) k = map_option JString (map_of m k)"
    by (induction m) auto
  then show "map_of m' = map_of (map (\<lambda>(k, v). (k, JString v)) m) \<Longrightarrow>
      vmess_get (JObject m') k = map_of m k"
    by (simp add: vmess_get_def split: option.split)
qed

lemma vmess_net_host_path_alt:
  "vmess_net_host_path tr = (case net_host_path tr of (net, host, path) \<Rightarrow>
     (if net = ''httpupgrade'' then ''http'' else net, host, path))"
  by (simp add: vmess_net_host_path_def net_host_path_def split: option.split)

lemma vmess_transport_read:
  "vmess_net_host_path tr = (net, host, path) \<Longrightarrow>
     vmess_transport net path (if host = [] then None else Some host) = norm_transport tr"
  by (cases tr rule: net_host_path_cases)
    (auto simp: vmess_net_host_path_alt vmess_transport_def norm_transport_def link_transport_def)

lemma vmess_entries_keys: "distinct (map fst (vmess_entries n))"
  by (simp add: vmess_entries_def case_prod_beta Let_def)

lemma vmess_entries_lookup:
  assumes "vmess_net_host_path (nd_transport n) = (net, host, path)"
  defines "m \<equiv> map_of (vmess_entries n)"
  shows "m ''ps'' = Some (nd_name n)" "m ''add'' = Some (nd_server n)"
    "m ''port'' = Some (show_u16 (nd_port n))" "m ''id'' = Some (unwrap_or [] (nd_uuid n))"
    "m ''aid'' = Some (show_u16 (unwrap_or 0 (nd_alter_id n)))" "m ''net'' = Some net"
    "m ''path'' = Some path" "m ''host'' = (if host = [] then None else Some host)"
    "m ''tls'' = Some (if (case nd_tls n of None \<Rightarrow> False | Some t \<Rightarrow> tls_enabled t) then ''tls'' else ''none'')"
    "m ''security'' = None"
    "m ''sni'' = drop_empty (case nd_tls n of None \<Rightarrow> None | Some t \<Rightarrow> tls_sni t)"
    "m ''fp'' = drop_empty (case nd_tls n of None \<Rightarrow> None | Some t \<Rightarrow> tls_fingerprint t)"
    "m ''alpn'' = (case nd_tls n of None \<Rightarrow> None
        | Some t \<Rightarrow> if join '','' (tls_alpn t) = [] then None else Some (join '','' (tls_alpn t)))"
    "m ''allowInsecure'' =
       Some (if (case nd_tls n of None \<Rightarrow> False | Some t \<Rightarrow> tls_insecure t) then ''1'' else ''0'')"
proof -
  have e: "(case v of None \<Rightarrow> None | Some t \<Rightarrow> f t) = drop_empty (case v of None \<Rightarrow> None | Some t \<Rightarrow> g t)"
    if "\<And>t. v = Some t \<Longrightarrow> f t = drop_empty (g t)" for v :: "tls_settings option" and f g
    using that by (cases v) (simp_all add: drop_empty_def)
  have d: "drop_empty v = (if unwrap_or [] v = [] then None else Some (unwrap_or [] v))" for v
    by (cases v) (simp_all add: drop_empty_def)
  show "m ''ps'' = Some (nd_name n)" "m ''add'' = Some (nd_server n)"
    "m ''port'' = Some (show_u16 (nd_port n))" "m ''id'' = Some (unwrap_or [] (nd_uuid n))"
    "m ''aid'' = Some (show_u16 (unwrap_or 0 (nd_alter_id n)))" "m ''net'' = Some net"
    "m ''path'' = Some path"
    using assms(1) unfolding m_def vmess_entries_def by (simp_all add: Let_def)
  show "m ''host'' = (if host = [] then None else Some host)"
    "m ''tls'' = Some (if (case nd_tls n of None \<Rightarrow> False | Some t \<Rightarrow> tls_enabled t) then ''tls'' else ''none'')"
    "m ''security'' = None"
    "m ''allowInsecure'' =
       Some (if (case nd_tls n of None \<Rightarrow> False | Some t \<Rightarrow> tls_insecure t) then ''1'' else ''0'')"
    using assms(1) unfolding m_def vmess_entries_def by (simp_all add: Let_def map_add_def)
  show "m ''sni'' = drop_empty (case nd_tls n of None \<Rightarrow> None | Some t \<Rightarrow> tls_sni t)"
    "m ''fp'' = drop_empty (case nd_tls n of None \<Rightarrow> None | Some t \<Rightarrow> tls_fingerprint t)"
    "m ''alpn'' = (case nd_tls n of None \<Rightarrow> None
        | Some t \<Rightarrow> if join '','' (tls_alpn t) = [] then None else Some (join '','' (tls_alpn t)))"
    using assms(1) unfolding m_def vmess_entries_def
    by (cases "nd_tls n"; simp add: Let_def map_add_def d)+
qed

section \<open>What a vmess link keeps\<close>

text \<open>TLS options only when TLS is on; the user id and the alter id always come back set.\<close>

definition vmess_norm :: "proxy_node \<Rightarrow> proxy_node" where
  "vmess_norm n = node_default
     \<lparr>nd_name := nd_name n, nd_kind := Vmess, nd_server := nd_server n, nd_port := nd_port n,
      nd_uuid := Some (unwrap_or [] (nd_uuid n)),
      nd_alter_id := Some (unwrap_or 0 (nd_alter_id n)),
      nd_tls := (case nd_tls n of None \<Rightarrow> None
        | Some t \<Rightarrow> if tls_enabled t
            then Some (t\<lparr>tls_sni := or_else (drop_empty (tls_sni t)) (norm_host (nd_transport n)),
                        tls_alpn := filter (\<lambda>s. s \<noteq> []) (tls_alpn t),
                        tls_fingerprint := drop_empty (tls_fingerprint t)\<rparr>)
            else None),
      nd_transport := norm_transport (nd_transport n)\<rparr>"

definition vmess_fits :: "crates \<Rightarrow> proxy_node \<Rightarrow> bool" where
  "vmess_fits E n \<longleftrightarrow> (case json_to_string E (string_object (vmess_entries n)) of
     None \<Rightarrow> True | Some s \<Rightarrow> fits_b64 s)"

definition wf_vmess :: "crates \<Rightarrow> proxy_node \<Rightarrow> bool" where
  "wf_vmess E n \<longleftrightarrow> nd_kind n = Vmess \<and> utf8_valid (nd_server n) \<and> utf8_valid (nd_name n)
     \<and> valid_opt (nd_uuid n) \<and> wf_tls (nd_tls n) \<and> wf_net_host_path (nd_transport n)
     \<and> vmess_fits E n \<and> vmess_fits E (vmess_norm n)"

lemma drop_empty_norm_host [simp]: "drop_empty (norm_host tr) = norm_host tr"
  by (auto simp: drop_empty_def norm_host_def split: prod.splits)

lemma or_else_drop_empty [simp]:
  "or_else (drop_empty (or_else (drop_empty s) (norm_host tr))) (norm_host tr)
     = or_else (drop_empty s) (norm_host tr)"
  using drop_empty_norm_host [of tr]
  by (cases "drop_empty s") (auto simp: drop_empty_def split: if_splits)

lemma vmess_norm_norm: "vmess_norm (vmess_norm n) = vmess_norm n"
  by (cases "nd_tls n") (simp_all add: vmess_norm_def node_default_def)

lemma vmess_norm_wf: "wf_vmess E n \<Longrightarrow> wf_vmess E (vmess_norm n)"
  unfolding wf_vmess_def vmess_norm_norm
  by (auto simp: vmess_norm_def node_default_def wf_tls_def wf_alpn_def split: option.splits)
    (cases "nd_uuid n"; simp)+

lemma filter_split_alpn:
  assumes "wf_alpn a"
  shows "filter (\<lambda>s. s \<noteq> []) (split_on CHR '','' (join '','' a)) = filter (\<lambda>s. s \<noteq> []) a"
  using split_join_alpn [OF assms] by (cases "a = []") simp_all

lemma filter_join_empty: "join '','' a = [] \<Longrightarrow> filter (\<lambda>s. s \<noteq> []) a = []"
  by (auto simp: join_empty_iff)

lemma vmess_entries_valid:
  assumes "wf_vmess E n"
  shows "\<forall>(k, v) \<in> set (vmess_entries n). utf8_valid k \<and> utf8_valid v"
proof -
  obtain net host path where t: "vmess_net_host_path (nd_transport n) = (net, host, path)"
    by (cases "vmess_net_host_path (nd_transport n)")
  have "utf8_valid net"
    using t by (cases "nd_transport n" rule: net_host_path_cases)
      (auto simp: vmess_net_host_path_alt ascii_def split: if_splits)
  moreover have "utf8_valid host" "utf8_valid path"
    using t assms by (auto simp: vmess_net_host_path_alt wf_vmess_def wf_net_host_path_def split: prod.splits)
  moreover have "utf8_valid (unwrap_or [] (nd_uuid n))"
    using assms by (cases "nd_uuid n") (simp_all add: wf_vmess_def)
  moreover have "utf8_valid (unwrap_or [] (tls_sni s))" "utf8_valid (unwrap_or [] (tls_fingerprint s))"
    "utf8_valid (join '','' (tls_alpn s))" if "nd_tls n = Some s" for s
    using assms that
    by (cases "tls_sni s", simp_all add: wf_vmess_def wf_tls_def)
      (cases "tls_fingerprint s"; simp add: wf_alpn_def utf8_valid_join ascii_def)+
  ultimately show ?thesis
    using assms t by (cases "nd_tls n") (auto simp: vmess_entries_def wf_vmess_def Let_def ascii_def)
qed

lemma vmess_node_entries:
  assumes "wf_vmess E n" and "map_of m' = map_of (map (\<lambda>(k, v). (k, JString v)) (vmess_entries n))"
  shows "vmess_node (JObject m') = Ok (vmess_norm n)"
proof -
  obtain net host path where t: "vmess_net_host_path (nd_transport n) = (net, host, path)"
    by (cases "vmess_net_host_path (nd_transport n)")
  have h: "norm_host (nd_transport n) = (if host = [] then None else Some host)"
    using t by (auto simp: vmess_net_host_path_alt norm_host_def split: prod.splits if_splits)
  note simps = vmess_get_string [OF assms(2)] vmess_entries_lookup [OF t] vmess_transport_read [OF t]
  show ?thesis
  proof (cases "nd_tls n")
    case None
    then show ?thesis by (simp add: vmess_node_def simps vmess_norm_def Let_def)
  next
    case (Some s)
    with assms(1) have "wf_alpn (tls_alpn s)" by (simp add: wf_vmess_def wf_tls_def)
    with Some show ?thesis
      by (auto simp: vmess_node_def simps vmess_norm_def Let_def h is_true_def
          filter_split_alpn filter_join_empty)
  qed
qed

lemma serialize_vmess_kind:
  "nd_kind n \<noteq> Vmess \<Longrightarrow> serialize_vmess E n = Err (SerUnsupportedProtocol (protocol_as_str (nd_kind n)))"
  by (simp add: serialize_vmess_def)

lemma parse_vmess_facts:
  assumes "parse_vmess E u = Ok n"
  shows "is_vmess u" and "nd_kind n = Vmess"
  using assms
  by (auto simp: parse_vmess_def vmess_node_def is_vmess_def starts_with_def outcome_simps Let_def)

context codec_crates
begin

lemma vmess_roundtrip:
  assumes "wf_vmess E n"
  shows "\<exists>u. serialize_vmess E n = Ok u \<and> parse_vmess E u = Ok (vmess_norm n)"
proof -
  obtain js m' where js: "json_to_string E (string_object (vmess_entries n)) = Some js"
    "utf8_valid js" "json_from_str E js = Some (JObject m')"
    "map_of m' = map_of (map (\<lambda>(k, v). (k, JString v)) (vmess_entries n))"
    using json_string_object [OF vmess_entries_keys vmess_entries_valid [OF assms]]
    unfolding string_object_def by blast
  have "fits_b64 js" using assms js(1) by (simp add: wf_vmess_def vmess_fits_def)
  with js vmess_node_entries [OF assms js(4)]
  have "parse_vmess E (''vmess://'' @ b64_encode E js) = Ok (vmess_norm n)"
    by (simp add: parse_vmess_def)
  moreover have "serialize_vmess E n = Ok (''vmess://'' @ b64_encode E js)"
    using assms js(1) by (simp add: serialize_vmess_def wf_vmess_def)
  ultimately show ?thesis by blast
qed

lemma vmess_line:
  assumes "wf_vmess E n" and "serialize_vmess E n = Ok t"
  shows "line_ok t"
proof -
  from assms obtain s where t: "t = ''vmess://'' @ b64_encode E s"
    by (auto simp: serialize_vmess_def wf_vmess_def outcome_simps)
  show ?thesis unfolding t
    by (rule line_ok_graphic) (auto simp: b64_graphic(3), auto simp: graphic_def)
qed

end

sublocale codec_crates < vmess: link_protocol
  "[''vmess://'']" "parse_vmess E" "serialize_vmess E" Vmess vmess_norm "wf_vmess E"
proof
  show "\<exists>p \<in> set [''vmess://'']. starts_with p u" if "parse_vmess E u = Ok n" for u n
    using parse_vmess_facts(1) [OF that] by (simp add: is_vmess_def)
qed (simp_all add: parse_vmess_facts serialize_vmess_kind vmess_roundtrip vmess_line
    vmess_norm_wf vmess_norm_norm)

end
