(* ===== verification/Subscription.thy ===== *)
theory Subscription
  imports Parser_Lemmas Formats Link_Roundtrip Tls_Roundtrip Vmess_Roundtrip
begin

text \<open>
  The round trip of a whole subscription: the links of a list of nodes, plain or as base64,
  read by \<open>parse_subscription_text\<close>, give back the nodes that a list of links can hold, each in
  the normal form of its protocol. The eleven modules enter through \<open>link_protocol\<close> only.
\<close>

section \<open>All protocols together\<close>

definition serialize_link :: "crates \<Rightarrow> proxy_node \<Rightarrow> (string, serialize_error) outcome" where
  "serialize_link E n =
     (case nd_kind n of
        Ss \<Rightarrow> serialize_ss E n | Ssr \<Rightarrow> serialize_ssr E n | Socks5 \<Rightarrow> serialize_socks5 n
      | Http \<Rightarrow> serialize_http n | Vmess \<Rightarrow> serialize_vmess E n | Vless \<Rightarrow> serialize_vless E n
      | Trojan \<Rightarrow> serialize_trojan E n | Hysteria \<Rightarrow> serialize_hysteria E n
      | Hysteria2 \<Rightarrow> serialize_hysteria2 E n | Tuic \<Rightarrow> serialize_tuic E n
      | Wireguard \<Rightarrow> serialize_wireguard E n)"

definition norm_node :: "proxy_node \<Rightarrow> proxy_node" where
  "norm_node n =
     (case nd_kind n of
        Ss \<Rightarrow> ss_norm n | Ssr \<Rightarrow> ssr_norm n | Socks5 \<Rightarrow> userpass_norm n | Http \<Rightarrow> userpass_norm n
      | Vmess \<Rightarrow> vmess_norm n | Vless \<Rightarrow> vless_norm n | Trojan \<Rightarrow> trojan_norm n
      | Hysteria \<Rightarrow> hysteria_norm n | Hysteria2 \<Rightarrow> hysteria2_norm n | Tuic \<Rightarrow> tuic_norm n
      | Wireguard \<Rightarrow> wireguard_norm n)"

definition wf_node :: "crates \<Rightarrow> proxy_node \<Rightarrow> bool" where
  "wf_node E n =
     (case nd_kind n of
        Ss \<Rightarrow> wf_ss n | Ssr \<Rightarrow> wf_ssr n | Socks5 \<Rightarrow> wf_socks5 n | Http \<Rightarrow> wf_http n
      | Vmess \<Rightarrow> wf_vmess E n | Vless \<Rightarrow> wf_vless n | Trojan \<Rightarrow> wf_trojan n
      | Hysteria \<Rightarrow> wf_hysteria n | Hysteria2 \<Rightarrow> wf_hysteria2 n | Tuic \<Rightarrow> wf_tuic n
      | Wireguard \<Rightarrow> wf_wireguard n)"

text \<open>A line that the parser reads as one node of a known scheme.\<close>

definition link_of :: "crates \<Rightarrow> proxy_node \<Rightarrow> string \<Rightarrow> bool" where
  "link_of E n u \<longleftrightarrow> parse_line E u = Ok n \<and> line_ok u \<and> (\<exists>p \<in> set schemes. starts_with p u)"

lemma link_protocol_trip:
  assumes "link_protocol scheme parse serialize kind norm ok_node"
    and "\<forall>p \<in> set scheme. (p, parse) \<in> set (line_table E)" and "ok_node n"
  shows "\<exists>u. serialize n = Ok u \<and> link_of E (norm n) u"
proof -
  obtain u where u: "serialize n = Ok u" "parse u = Ok (norm n)"
    using link_protocol.roundtrip [OF assms(1,3)] by blast
  have line: "line_ok u" using link_protocol.serialize_line [OF assms(1,3) u(1)] .
  then have trim: "trim u = u" by (simp add: line_ok_def)
  obtain p where p: "p \<in> set scheme" "starts_with p u"
    using link_protocol.parse_scheme [OF assms(1) u(2)] by blast
  then have t: "(p, parse) \<in> set (line_table E)" using assms(2) by blast
  then have "p \<in> set schemes"
    by (metis fst_conv image_eqI list.set_map schemes_table)
  moreover have "parse_line E u = Ok (norm n)"
    using parse_line_lookup [OF t, of u] p(2) trim u(2) by simp
  ultimately show ?thesis using u(1) line p(2) by (auto simp: link_of_def)
qed

lemma line_ok_breaks: "line_ok u \<Longrightarrow> u \<noteq> [] \<and> CHR 0x0A \<notin> set u \<and> CHR 0x0D \<notin> set u"
  by (simp add: line_ok_def)

context codec_crates
begin

text \<open>Every well-formed node survives the trip through its link, up to its normal form.\<close>

lemma node_trip:
  assumes "wf_node E n"
  shows "\<exists>u. serialize_link E n = Ok u \<and> link_of E (norm_node n) u"
proof -
  note trips =
    link_protocol_trip [OF ss.link_protocol_axioms] link_protocol_trip [OF ssr.link_protocol_axioms]
    link_protocol_trip [OF socks5.link_protocol_axioms] link_protocol_trip [OF http.link_protocol_axioms]
    link_protocol_trip [OF vmess.link_protocol_axioms] link_protocol_trip [OF vless.link_protocol_axioms]
    link_protocol_trip [OF trojan.link_protocol_axioms] link_protocol_trip [OF hysteria.link_protocol_axioms]
    link_protocol_trip [OF hysteria2.link_protocol_axioms] link_protocol_trip [OF tuic.link_protocol_axioms]
    link_protocol_trip [OF wireguard.link_protocol_axioms]
  show ?thesis
    using assms
    by (cases "nd_kind n")
      (simp_all add: wf_node_def serialize_link_def norm_node_def trips line_table_def)
qed

lemma norm_node_stable:
  assumes "wf_node E n"
  shows "wf_node E (norm_node n)" and "norm_node (norm_node n) = norm_node n"
    and "nd_kind (norm_node n) = nd_kind n"
proof -
  show kind: "nd_kind (norm_node n) = nd_kind n"
    by (cases "nd_kind n")
      (simp_all add: norm_node_def ss_norm_def ssr_norm_def userpass_norm_def vmess_norm_def
        vless_norm_def trojan_norm_def hysteria_norm_def hysteria2_norm_def tuic_norm_def wireguard_norm_def)
  show "wf_node E (norm_node n)"
    using assms kind
    by (cases "nd_kind n")
      (simp_all add: wf_node_def norm_node_def ss.norm_wf ssr.norm_wf socks5.norm_wf http.norm_wf
        vmess.norm_wf vless.norm_wf trojan.norm_wf hysteria.norm_wf hysteria2.norm_wf tuic.norm_wf
        wireguard.norm_wf)
  show "norm_node (norm_node n) = norm_node n"
    using assms kind
    by (cases "nd_kind n")
      (simp_all add: wf_node_def norm_node_def ss.norm_norm ssr.norm_norm socks5.norm_norm
        http.norm_norm vmess.norm_norm vless.norm_norm trojan.norm_norm hysteria.norm_norm
        hysteria2.norm_norm tuic.norm_norm wireguard.norm_norm)
qed

end

section \<open>A list of links\<close>

definition v2ray_kind :: "protocol \<Rightarrow> bool" where
  "v2ray_kind k \<longleftrightarrow> k \<in> {Ss, Ssr, Vmess, Vless, Trojan, Tuic}"

definition carried :: "proxy_node list \<Rightarrow> proxy_node list" where
  "carried ns = filter (\<lambda>n. v2ray_kind (nd_kind n)) ns"

lemma v2ray_line_link:
  "v2ray_line E n = (if v2ray_kind (nd_kind n) then Some (serialize_link E n) else None)"
  by (simp add: v2ray_line_def v2ray_kind_def serialize_link_def split: protocol.split)

text \<open>A text of such lines is read line by line, whether it comes as it is or as base64.\<close>

lemma lines_links:
  assumes "list_all2 (link_of E) ns us"
  shows "lines (join [CHR 0x0A] us) = us"
proof (rule lines_join, rule ballI)
  fix u assume "u \<in> set us"
  then obtain n where "link_of E n u" using assms by (metis list_all2_conv_all_nth in_set_conv_nth)
  then show "CHR 0x0A \<notin> set u \<and> CHR 0x0D \<notin> set u \<and> u \<noteq> []"
    by (simp add: link_of_def line_ok_def)
qed

lemma parse_lines_links:
  assumes "list_all2 (link_of E) ns us" and "\<forall>u \<in> set us. length u \<le> max_line_len"
  shows "parse_lines E (join [CHR 0x0A] us) m = Some (take m ns, 0)"
proof -
  have "list_all2 (\<lambda>u n. line_node E u = Some n) us ns"
    using assms by (auto simp: list_all2_conv_all_nth line_node_def link_of_def) (meson nth_mem leD)
  from parse_lines_loop_accepted [OF this, of "[]" m 0] show ?thesis
    by (simp add: parse_lines_def lines_links [OF assms(1)])
qed

lemma scheme_not_proxies:
  "p \<in> set schemes \<Longrightarrow> starts_with p u \<Longrightarrow> \<not> starts_with ''proxies:'' u"
  by (auto simp: schemes_def starts_with_def strip_prefix_Some_iff)

lemma scheme_contains: "p \<in> set schemes \<Longrightarrow> starts_with p u \<Longrightarrow> contains_str ''://'' u"
proof -
  assume "p \<in> set schemes" and "starts_with p u"
  then have "contains_str ''://'' p" by (auto simp: schemes_def starts_with_def)
  then obtain a b where "p = a @ ''://'' @ b" unfolding contains_str_iff by blast
  moreover obtain r where "u = p @ r" using \<open>starts_with p u\<close> unfolding starts_with_iff by blast
  ultimately have "u = a @ ''://'' @ (b @ r)" by simp
  then show ?thesis unfolding contains_str_iff by blast
qed

text \<open>White space at the end of a text lies in its last line, when that line begins with a graphic character.\<close>

lemma trim_end_last_line:
  assumes "trim_end (c # n) = c # n" and "graphic c"
  shows "trim_end (b @ c # n) = b @ c # n"
proof -
  have ne: "\<forall>p \<in> set (map rev white_space). p \<noteq> []" by (auto simp: white_space_def)
  have "trim_codes (map rev white_space) (rev (c # n)) = rev (c # n)"
    using assms(1) unfolding trim_end_def by (metis rev_rev_ident)
  then have none: "strip_any (map rev white_space) (rev (c # n)) = None"
    using ne by (rule trim_codes_fixed)
  have "strip_prefix p (rev n @ c # rev b) = None" if "p \<in> set (map rev white_space)" for p
  proof -
    have "c \<notin> set p" using that white_space_no_graphic assms(2) by auto
    moreover have "strip_prefix p (rev n @ [c]) = None"
      using none that unfolding strip_any_None_iff rev.simps by blast
    ultimately have "strip_prefix p (rev n) = None"
      by (cases "strip_prefix p (rev n)") (auto simp: strip_prefix_Some_iff)
    then show ?thesis using \<open>c \<notin> set p\<close> by (rule strip_prefix_append_None)
  qed
  then have "strip_any (map rev white_space) (rev (b @ c # n)) = None"
    unfolding strip_any_None_iff by simp
  then have "trim_codes (map rev white_space) (rev (b @ c # n)) = rev (b @ c # n)"
    by (subst trim_codes.simps) simp
  then show ?thesis unfolding trim_end_def by (metis rev_rev_ident)
qed

lemma line_ok_trim_end: "line_ok u \<Longrightarrow> trim_end u = u"
  using trim_start_graphic [of u] by (simp add: line_ok_def trim_def)

lemma trim_links:
  assumes "us \<noteq> []" and "\<forall>u \<in> set us. line_ok u"
  shows "trim (join [CHR 0x0A] us) = join [CHR 0x0A] us"
proof -
  obtain us' u where us: "us = us' @ [u]" using assms(1) by (metis rev_exhaust)
  obtain c n where u: "u = c # n" using assms us by (cases u) auto
  have "line_ok u" using assms(2) us by simp
  then have "trim_end (c # n) = c # n" "graphic c" using u line_ok_trim_end by (auto simp: line_ok_def)
  then have e: "trim_end (b @ u) = b @ u" for b unfolding u by (rule trim_end_last_line)
  have "\<exists>b. join [CHR 0x0A] (us' @ [u]) = b @ u" for us'
  proof (induction us')
    case (Cons v vs)
    then show ?case by (metis append.assoc append_Cons join_Cons snoc_eq_iff_butlast)
  qed (simp add: exI [of _ "[]"])
  then have "trim_end (join [CHR 0x0A] us) = join [CHR 0x0A] us" using us e by metis
  moreover have "trim_start (join [CHR 0x0A] us) = join [CHR 0x0A] us"
  proof (rule trim_start_graphic)
    obtain v vs where v: "us = v # vs" using assms(1) by (cases us) auto
    then have "v \<noteq> []" "graphic (hd v)" using assms(2) by (auto simp: line_ok_def)
    then show "join [CHR 0x0A] us = [] \<or> graphic (hd (join [CHR 0x0A] us))"
      using v by (cases vs) (auto simp: join_Cons)
  qed
  ultimately show ?thesis by (simp add: trim_def)
qed

section \<open>The round trip of a subscription\<close>

lemma links_facts:
  assumes "list_all2 (link_of E) ns us" and "u \<in> set us"
  obtains p where "line_ok u" and "p \<in> set schemes" and "starts_with p u"
  using assms by (auto simp: list_all2_conv_all_nth link_of_def in_set_conv_nth)

lemma parse_plain_links:
  assumes "list_all2 (link_of E) ns us" and "\<forall>u \<in> set us. length u \<le> max_line_len"
  shows "parse_subscription_text E (join [CHR 0x0A] us) m = Some (take m ns, 0)"
proof (cases "us = []")
  case True
  with assms show ?thesis
    by (simp add: parse_subscription_text_def parse_lines_def)
next
  case False
  have ok: "\<forall>u \<in> set us. line_ok u" using links_facts [OF assms(1)] by blast
  then have t: "trim (join [CHR 0x0A] us) = join [CHR 0x0A] us" using False by (rule trim_links [rotated])
  obtain v vs where v: "us = v # vs" using False by (cases us) auto
  obtain p where "p \<in> set schemes" "starts_with p v" using links_facts [OF assms(1), of v] v by auto
  then have "contains_str ''://'' v" by (rule scheme_contains)
  moreover have "\<exists>r. join [CHR 0x0A] us = v @ r" using v by (cases vs) (auto simp: join_Cons)
  ultimately have c: "contains_str ''://'' (join [CHR 0x0A] us)"
    by (metis append.assoc contains_str_iff)
  have "\<not> starts_with ''proxies:'' (trim_start u)" if "u \<in> set us" for u
    using links_facts [OF assms(1) that] scheme_not_proxies by (metis line_ok_def trim_start_graphic)
  then show ?thesis
    using c t parse_lines_links [OF assms]
    by (simp add: parse_subscription_text_def lines_links [OF assms(1)] list_ex_iff)
qed

context base64_crate
begin

lemma parse_b64_links:
  assumes "list_all2 (link_of E) ns us" and "\<forall>u \<in> set us. length u \<le> max_line_len"
    and "fits_b64 (join [CHR 0x0A] us)" and "12 < length (join [CHR 0x0A] us)"
  shows "parse_subscription_text E (b64_encode E (join [CHR 0x0A] us)) m = Some (take m ns, 0)"
proof -
  let ?plain = "join [CHR 0x0A] us"
  let ?t = "b64_encode E ?plain"
  have ne: "us \<noteq> []" using assms(4) by auto
  have g: "\<forall>c \<in> set ?t. graphic c" using b64_graphic(3) by blast
  have colon: "CHR '':'' \<notin> set ?t" "CHR 0x0A \<notin> set ?t"
    using b64_encode_chars [of "CHR '':''" ?plain] g graphic_breaks
    by (auto simp: b64_alphabet_def ascii_alphanumeric_def ascii_digit_def)
  have trim: "trim ?t = ?t" using g by (rule trim_all_graphic)
  have len: "16 < length ?t" using assms(4) by (simp add: b64_encode_length)
  have "\<not> contains_str ''://'' ?t" using colon(1) by (auto simp: contains_str_iff)
  moreover have "\<not> starts_with ''proxies:'' (trim_start l)" if "l \<in> set (lines ?t)" for l
  proof -
    have "lines ?t = [?t]" using colon(2) len by (auto simp: lines_def)
    then have "l = ?t" using that by simp
    moreover have "trim_start ?t = ?t" using g len by (intro trim_start_graphic) (cases ?t; simp)
    ultimately show ?thesis using colon(1) by (auto simp: starts_with_iff)
  qed
  moreover have "decode_base64_url_string E ?t = Ok ?plain"
  proof -
    have "\<forall>u \<in> set us. utf8_valid u" using links_facts [OF assms(1)] by (metis line_ok_def)
    then have "utf8_valid ?plain" by (intro utf8_valid_join) (simp_all add: ascii_def)
    then show ?thesis using assms(3) by simp
  qed
  moreover have "contains_str ''://'' ?plain"
  proof -
    obtain v vs where v: "us = v # vs" using ne by (cases us) auto
    obtain p where "p \<in> set schemes" "starts_with p v" using links_facts [OF assms(1), of v] v by auto
    then have "contains_str ''://'' v" by (rule scheme_contains)
    moreover have "\<exists>r. ?plain = v @ r" using v by (cases vs) (auto simp: join_Cons)
    ultimately show ?thesis by (metis append.assoc contains_str_iff)
  qed
  ultimately show ?thesis
    using trim len parse_lines_links [OF assms(1,2)]
    by (simp add: parse_subscription_text_def Let_def list_ex_iff)
qed

end

context codec_crates
begin

lemma v2ray_lines_links:
  assumes "\<forall>n \<in> set (carried ns). wf_node E n"
  shows "\<exists>us. v2ray_lines E ns acc = Ok (acc @ us) \<and> list_all2 (link_of E) (map norm_node (carried ns)) us"
  using assms
proof (induction ns arbitrary: acc)
  case Nil
  then show ?case by (simp add: carried_def)
next
  case (Cons n ns)
  show ?case
  proof (cases "v2ray_kind (nd_kind n)")
    case False
    with Cons show ?thesis by (simp add: v2ray_line_link carried_def)
  next
    case True
    with Cons.prems obtain u where u: "serialize_link E n = Ok u" "link_of E (norm_node n) u"
      using node_trip [of n] by (auto simp: carried_def)
    have "\<forall>n \<in> set (carried ns). wf_node E n" using Cons.prems by (simp add: carried_def)
    then obtain us where "v2ray_lines E ns (acc @ [u]) = Ok ((acc @ [u]) @ us)"
      "list_all2 (link_of E) (map norm_node (carried ns)) us"
      using Cons.IH by blast
    with u True show ?thesis by (intro exI [of _ "u # us"]) (simp add: v2ray_line_link carried_def)
  qed
qed

lemma plain_trip:
  assumes "\<forall>n \<in> set (carried ns). wf_node E n"
  shows "\<exists>t. serialize_v2ray_plain E ns = Ok t \<and>
    ((\<forall>l \<in> set (lines t). length l \<le> max_line_len) \<longrightarrow>
       parse_subscription_text E t m = Some (take m (map norm_node (carried ns)), 0))"
proof -
  obtain us where us: "v2ray_lines E ns [] = Ok us" "list_all2 (link_of E) (map norm_node (carried ns)) us"
    using v2ray_lines_links [OF assms, of "[]"] by auto
  then show ?thesis
    using parse_plain_links [OF us(2)] lines_links [OF us(2)] by (simp add: serialize_v2ray_plain_def)
qed

lemma b64_trip:
  assumes "\<forall>n \<in> set (carried ns). wf_node E n"
  shows "\<exists>t plain. serialize_v2ray_plain E ns = Ok plain \<and> serialize_v2ray E ns = Ok t \<and>
    ((\<forall>l \<in> set (lines plain). length l \<le> max_line_len) \<and> 12 < length plain \<and> fits_b64 plain \<longrightarrow>
       parse_subscription_text E t m = Some (take m (map norm_node (carried ns)), 0))"
proof -
  obtain us where us: "v2ray_lines E ns [] = Ok us" "list_all2 (link_of E) (map norm_node (carried ns)) us"
    using v2ray_lines_links [OF assms, of "[]"] by auto
  then have plain: "serialize_v2ray_plain E ns = Ok (join [CHR 0x0A] us)"
    by (simp add: serialize_v2ray_plain_def)
  show ?thesis
    using parse_b64_links [OF us(2)] lines_links [OF us(2)] plain
    by (auto simp: serialize_v2ray_def)
qed

end

end
