(* ===== verification/Core_Properties.thy ===== *)
theory Core_Properties
  imports Subscription
begin

text \<open>
  The properties of \<open>proxy-core\<close>: what is read back from what was written, what the parser of
  a subscription does with any text, and what the two output formats keep of the nodes. The
  witnesses apply each one to the reference codecs and a concrete node or text.
\<close>

section \<open>A concrete node\<close>

definition sample_vless :: proxy_node where
  "sample_vless = node_default
     \<lparr>nd_name := ''US 01'', nd_kind := Vless, nd_server := ''a.example'', nd_port := 443,
      nd_uuid := Some ''u-1'',
      nd_tls := Some \<lparr>tls_enabled = True, tls_sni = Some ''s'', tls_alpn = [''h2'', ''http/1.1''],
                     tls_insecure = True, tls_fingerprint = None\<rparr>,
      nd_transport := Some (transport_default
        \<lparr>tr_websocket := Some \<lparr>ws_path = ''/p'', ws_host = None, ws_headers = fmempty\<rparr>\<rparr>)\<rparr>"

definition sample_link :: string where
  "sample_link = ''vless://u-1@a.example:443?encryption=none&type=ws&security=tls&sni=s'' @
     ''&alpn=h2%2Chttp%2F1.1&path=%2Fp#US 01''"

definition sample_hysteria :: proxy_node where
  "sample_hysteria = node_new ''hy'' Hysteria ''h'' 1"

lemma sample_wf: "\<forall>n \<in> set (carried [sample_vless, sample_hysteria]). wf_node rfc_crates n"
  by code_simp

lemma sample_plain: "serialize_v2ray_plain rfc_crates [sample_vless, sample_hysteria] = Ok sample_link"
  by code_simp

lemma sample_lines: "lines sample_link = [sample_link]"
  by code_simp

lemma sample_length: "length sample_link = 105"
  by (simp add: sample_link_def)

section \<open>Round trips\<close>

text \<open>
  C1. A v2ray subscription, the base64 of one link per line, is read back by
  \<open>parse_subscription_text\<close> as the nodes it was made of: those of the six protocols the
  format carries, in order, up to the limit, each in its protocol's normal form, and no line
  is counted as skipped. The bounds are those of the decoder (4 MiB of base64), of the line
  loop (1 MiB per line) and of the test that recognizes base64 (more than 16 characters).
\<close>

theorem subscription_base64_roundtrip:
  assumes "codec_crates E"
    and "\<forall>n \<in> set (carried ns). wf_node E n"
    and "serialize_v2ray_plain E ns = Ok plain"
    and "\<forall>l \<in> set (lines plain). length l \<le> max_line_len"
    and "12 < length plain" and "fits_b64 plain"
  shows "\<exists>t. serialize_v2ray E ns = Ok t
    \<and> parse_subscription_text E t m = Some (take m (map norm_node (carried ns)), 0)"
  using codec_crates.b64_trip [OF assms(1,2), of m] assms(3-6) by auto

theorem subscription_base64_roundtrip_witness:
  "\<exists>t. serialize_v2ray rfc_crates [sample_vless, sample_hysteria] = Ok t
    \<and> parse_subscription_text rfc_crates t 7
      = Some (take 7 (map norm_node (carried [sample_vless, sample_hysteria])), 0)"
  by (rule subscription_base64_roundtrip [OF rfc.codec_crates_axioms sample_wf sample_plain])
    (simp_all add: sample_lines sample_length max_line_len_def fits_b64_def)

text \<open>
  C2. The plain form of the same list, one link per line without base64, is read back in the
  same way, without a bound on the whole text.
\<close>

theorem subscription_plain_roundtrip:
  assumes "codec_crates E"
    and "\<forall>n \<in> set (carried ns). wf_node E n"
    and "serialize_v2ray_plain E ns = Ok plain"
    and "\<forall>l \<in> set (lines plain). length l \<le> max_line_len"
  shows "parse_subscription_text E plain m = Some (take m (map norm_node (carried ns)), 0)"
  using codec_crates.plain_trip [OF assms(1,2), of m] assms(3,4) by auto

theorem subscription_plain_roundtrip_witness:
  "parse_subscription_text rfc_crates sample_link 7
    = Some (take 7 (map norm_node (carried [sample_vless, sample_hysteria])), 0)"
  by (rule subscription_plain_roundtrip [OF rfc.codec_crates_axioms sample_wf sample_plain])
    (simp add: sample_lines sample_length max_line_len_def)

text \<open>
  C3. For each of the eleven protocols: a well-formed node is written as a link that the
  dispatcher recognizes by its scheme and reads back as the node's normal form, of the same
  kind; and the normal form is written and read back without any further loss.
\<close>

theorem link_roundtrip:
  assumes "codec_crates E" and "wf_node E n"
  shows "(\<exists>u. serialize_link E n = Ok u \<and> parse_line E u = Ok (norm_node n))
    \<and> (\<exists>u. serialize_link E (norm_node n) = Ok u \<and> parse_line E u = Ok (norm_node n))
    \<and> nd_kind (norm_node n) = nd_kind n"
  using codec_crates.node_trip [OF assms] codec_crates.norm_node_stable [OF assms]
    codec_crates.node_trip [OF assms(1), of "norm_node n"]
  by (auto simp: link_of_def)

theorem link_roundtrip_witness:
  "(\<exists>u. serialize_link rfc_crates sample_hysteria = Ok u
      \<and> parse_line rfc_crates u = Ok (norm_node sample_hysteria))
    \<and> (\<exists>u. serialize_link rfc_crates (norm_node sample_hysteria) = Ok u
      \<and> parse_line rfc_crates u = Ok (norm_node sample_hysteria))
    \<and> nd_kind (norm_node sample_hysteria) = nd_kind sample_hysteria"
proof -
  have "wf_node rfc_crates sample_hysteria" by code_simp
  then show ?thesis by (rule link_roundtrip [OF rfc.codec_crates_axioms])
qed

section \<open>The parser on any text\<close>

text \<open>
  C4. The line loop returns the nodes of the acceptable lines in order, cut at the limit;
  the nodes and the skipped lines together are at most the lines of the text, and exactly
  that many unless the limit was reached. It has no result only when an ssr line panics.
\<close>

theorem parse_lines_counts:
  "case parse_lines E t m of
     None \<Rightarrow> \<exists>l \<in> set (lines t). parse_ssr E (trim l) = Panic
   | Some (ns, k) \<Rightarrow> ns = take m (line_nodes E (lines t)) \<and> length ns + k \<le> length (lines t)
       \<and> (length ns = m \<or> length ns + k = length (lines t))"
proof (cases "parse_lines E t m")
  case None
  then show ?thesis using parse_lines_None by simp
next
  case (Some r)
  obtain ns k where r: "r = (ns, k)" by (cases r)
  have f: "ns = take m (line_nodes E (lines t))" "length ns \<le> m" "length ns + k \<le> length (lines t)"
    "length ns < m \<Longrightarrow> length ns + k = length (lines t)"
    using parse_lines_nodes [of E t m ns k] Some r by blast+
  then have "length ns = m \<or> length ns + k = length (lines t)" by linarith
  with f Some r show ?thesis by simp
qed

text \<open>
  C5. The chain of prefix tests in \<open>parse_line\<close> is a table lookup, and the order of the table
  does not matter: any list with the same rows gives the same result, because no text begins
  with two of the schemes.
\<close>

theorem parse_line_any_order:
  assumes "set tbl = set (line_table E)"
  shows "parse_line E l = (case find (\<lambda>(p, _). starts_with p (trim l)) tbl of
      None \<Rightarrow> Err UnsupportedProtocol | Some (_, f) \<Rightarrow> f (trim l))"
proof (cases "find (\<lambda>(p, _). starts_with p (trim l)) tbl")
  case None
  then have "\<forall>(p, f) \<in> set (line_table E). \<not> starts_with p (trim l)"
    using assms by (auto simp: find_None_iff)
  then have "\<forall>p \<in> fst ` set (line_table E). \<not> starts_with p (trim l)" by auto
  then have "\<forall>p \<in> set schemes. \<not> starts_with p (trim l)" by (simp flip: schemes_table [of E])
  with None show ?thesis by (simp add: parse_line_no_scheme)
next
  case (Some r)
  obtain p f where r: "r = (p, f)" by (cases r)
  then have "(p, f) \<in> set (line_table E)" "starts_with p (trim l)"
    using Some assms by (auto simp: find_Some_iff in_set_conv_nth)
  with Some r show ?thesis by (simp add: parse_line_lookup)
qed

theorem parse_line_any_order_witness:
  "parse_line rfc_crates ''hy2://h:1'' = (case find (\<lambda>(p, _). starts_with p (trim ''hy2://h:1''))
       (rev (line_table rfc_crates)) of
      None \<Rightarrow> Err UnsupportedProtocol | Some (_, f) \<Rightarrow> f (trim ''hy2://h:1''))"
  by (rule parse_line_any_order) simp

text \<open>
  C6. The only panic of the line parser: an ssr link whose payload decodes to a text that
  begins with its own separator. Every other line, well-formed or not, gives a node or an
  error value.
\<close>

theorem parse_line_panics_iff:
  "parse_line E l = Panic \<longleftrightarrow>
     (\<exists>p d. trim l = ''ssr://'' @ p \<and> decode_base64_url_string E p = Ok d
        \<and> (starts_with ''/?'' d \<or> (starts_with ''?'' d \<and> \<not> contains_str ''/?'' d)))"
  unfolding parse_line_Panic_iff by (rule parse_ssr_Panic_iff)

text \<open>
  Such a line exists: a subscription that is the ssr link of the one-character text \<open>?\<close>
  makes \<open>parse_subscription_text\<close> panic instead of counting the line as skipped.
\<close>

theorem ssr_link_panics:
  assumes "base64_crate E" and "0 < m"
  shows "parse_subscription_text E (''ssr://'' @ b64_encode_url_no_pad E ''?'') m = None"
proof -
  let ?b = "b64_encode_url_no_pad E ''?''" and ?u = "''ssr://'' @ b64_encode_url_no_pad E ''?''"
  note E = base64_crate.b64_graphic(2) [OF assms(1), of _ "''?''"]
  have g: "\<forall>c \<in> set ?u. graphic c" using E by (auto simp: graphic_def)
  then have trim: "trim ?u = ?u" by (rule trim_all_graphic)
  have "decode_base64_url_string E ?b = Ok ''?''"
    by (rule base64_crate.decode_string(2) [OF assms(1)]) (simp_all add: fits_b64_def ascii_def)
  then have "\<exists>p d. trim ?u = ''ssr://'' @ p \<and> decode_base64_url_string E p = Ok d
        \<and> (starts_with ''/?'' d \<or> (starts_with ''?'' d \<and> \<not> contains_str ''/?'' d))"
    unfolding trim by (intro exI [of _ ?b] exI [of _ "''?''"]) (simp add: starts_with_def)
  then have panic: "parse_line E ?u = Panic" by (simp only: parse_line_Panic_iff parse_ssr_Panic_iff)
  have "CHR 0x0A \<notin> set ?u" using g graphic_breaks by blast
  then have lines: "lines ?u = [?u]" by (simp add: lines_def)
  have "length ?b \<le> 2" using base64_crate.b64_url_length [OF assms(1), of "''?''"] by simp
  then have none: "parse_lines E ?u m = None"
    using assms(2) panic unfolding parse_lines_def lines by (simp add: max_line_len_def)
  have "trim_start ?u = ?u" by (rule trim_start_graphic) (simp add: graphic_def)
  then have "\<not> list_ex (\<lambda>l. starts_with ''proxies:'' (trim_start l)) (lines ?u)"
    unfolding lines by (simp add: starts_with_def)
  moreover have "contains_str ''://'' (trim ?u)"
    unfolding trim contains_str_iff by (rule exI [of _ "''ssr''"]) simp
  ultimately show ?thesis using none by (simp only: parse_subscription_text_def Let_def) simp
qed

theorem ssr_link_panics_witness:
  "parse_subscription_text rfc_crates (''ssr://'' @ b64_encode_url_no_pad rfc_crates ''?'') 1 = None"
  by (rule ssr_link_panics [OF rfc.base64_crate_axioms]) simp

text \<open>
  C8. \<open>parse_subscription_text\<close> never returns more nodes than the limit, for any text: lines,
  base64 or a Clash document. A Clash document that parses is never counted as skipped.
\<close>

theorem parse_subscription_bounded:
  "case parse_subscription_text E t m of
     None \<Rightarrow> \<exists>s. (s = t \<or> decode_base64_url_string E (trim t) = Ok s)
               \<and> (\<exists>l \<in> set (lines s). parse_ssr E (trim l) = Panic)
   | Some (ns, k) \<Rightarrow> length ns \<le> m"
  using parse_subscription_bound [of E t m] parse_subscription_None [of E t m]
  by (cases "parse_subscription_text E t m") auto

section \<open>The parts of a link\<close>

text \<open>
  C9. \<open>parse_host_port\<close> accepts exactly two shapes: a bracketed host without a closing bracket
  in it, followed by a colon and a port, or a host and a port around the last colon of a text
  that does not begin with a bracket; the port is a decimal number below 65536.
\<close>

theorem parse_host_port_iff:
  "parse_host_port s = Ok (h, p) \<longleftrightarrow>
     (\<exists>ps. parse_u16 ps = Some p \<and>
       (s = CHR ''['' # h @ CHR '']'' # CHR '':'' # ps \<and> CHR '']'' \<notin> set h
        \<or> s = h @ CHR '':'' # ps \<and> CHR '':'' \<notin> set ps \<and> \<not> starts_with ''['' s))"
proof (cases "strip_prefix ''['' s")
  case None
  then have n: "\<not> starts_with ''['' s" by (simp add: starts_with_def)
  then have "s \<noteq> CHR ''['' # x" for x by (cases s) auto
  with None n show ?thesis
    by (auto simp: parse_host_port_def outcome_simps rsplit_once_Some_iff)
next
  case (Some r)
  then have s: "s = CHR ''['' # r" by (simp add: strip_prefix_Some_iff)
  show ?thesis
    unfolding s by (auto simp: parse_host_port_def outcome_simps split_once_Some_iff strip_prefix_Some_iff)
qed

text \<open>
  The base64 decoder accepts what any of the usual encoders writes: the standard or the
  URL-safe alphabet, with the padding, without it, or with any number of padding characters.
\<close>

theorem decode_base64_tolerant:
  assumes "base64_crate E" and "fits_b64 s" and "2 * length s + k \<le> max_base64_len"
  shows "decode_base64_url E (b64_encode E s) = Ok s
    \<and> decode_base64_url E (b64_encode_no_pad E s @ replicate k CHR ''='') = Ok s
    \<and> decode_base64_url E (b64_encode_url_no_pad E s @ replicate k CHR ''='') = Ok s"
proof -
  have 1: "decode_base64_url E (b64_encode E s) = Ok s"
    by (rule base64_crate.decode_padded [OF assms(1) base64_crate.fits_length(3) [OF assms(1,2)]])
  have len: "length (b64_encode_url_no_pad E s) \<le> 2 * length s"
    by (rule base64_crate.b64_url_length [OF assms(1)])
  have same: "length (b64_encode_no_pad E s) = length (b64_encode_url_no_pad E s)"
    by (simp add: base64_crate.b64_url_no_pad [OF assms(1)])
  have eq: "graphic CHR ''=''" by (simp add: graphic_def)
  have std: "map std_char (b64_encode_no_pad E s) = b64_encode_no_pad E s"
    by (rule base64_crate.map_std_no_pad [OF assms(1)])
  have url: "map std_char (b64_encode_url_no_pad E s) = b64_encode_no_pad E s"
    unfolding base64_crate.b64_url_no_pad [OF assms(1)] map_map
    by (rule map_idI) (simp add: std_url_safe_char base64_crate.b64_no_pad_alphabet [OF assms(1)])
  have main: "decode_base64_url E (b @ replicate k CHR ''='') = Ok s"
    if "\<forall>c \<in> set b. graphic c" "CHR ''='' \<notin> set b" "map std_char b = b64_encode_no_pad E s"
      "length b \<le> 2 * length s" for b
  proof (rule base64_crate.decode_base64_url_body [OF assms(1)])
    have "trim (b @ replicate k CHR ''='') = b @ replicate k CHR ''=''"
      by (rule trim_all_graphic) (use that(1) eq in auto)
    then show "map std_char (trim_end_matches CHR ''='' (trim (b @ replicate k CHR ''='')))
        = b64_encode_no_pad E s"
      using that by (simp add: trim_end_matches_replicate)
    show "length (b @ replicate k CHR ''='') \<le> max_base64_len" using that(4) assms(3) by simp
  qed
  have 2: "decode_base64_url E (b64_encode_no_pad E s @ replicate k CHR ''='') = Ok s"
    by (rule main) (use base64_crate.b64_graphic(1) [OF assms(1)] std len same
        base64_crate.b64_no_pad_no_equals [OF assms(1)] in auto)
  have "CHR ''='' \<notin> set (b64_encode_url_no_pad E s)"
    by (rule base64_crate.b64_url_absent [OF assms(1)])
      (simp_all add: b64_alphabet_def ascii_alphanumeric_def ascii_digit_def)
  then have "decode_base64_url E (b64_encode_url_no_pad E s @ replicate k CHR ''='') = Ok s"
    by (intro main) (use base64_crate.b64_graphic(2) [OF assms(1)] url len in auto)
  with 1 2 show ?thesis by blast
qed

theorem decode_base64_tolerant_witness:
  "decode_base64_url rfc_crates (b64_encode rfc_crates ''pass?'') = Ok ''pass?''
    \<and> decode_base64_url rfc_crates (b64_encode_no_pad rfc_crates ''pass?'' @ replicate 3 CHR ''='') = Ok ''pass?''
    \<and> decode_base64_url rfc_crates (b64_encode_url_no_pad rfc_crates ''pass?'' @ replicate 3 CHR ''='') = Ok ''pass?''"
  by (rule decode_base64_tolerant [OF rfc.base64_crate_axioms])
    (simp_all add: fits_b64_def max_base64_len_def)

text \<open>
  \<open>percent_decode\<close> undoes \<open>urlencode\<close>, and what \<open>urlencode\<close> writes has none of the
  characters that delimit a link, so it can stand in the user part or in a parameter.
\<close>

theorem urlencode_roundtrip:
  assumes "percent_crate E" and "utf8_valid s"
  shows "percent_decode E (urlencode E s) = Ok s
    \<and> set (urlencode E s) \<inter> set ''@#?&=:/ '' = {} \<and> list_all graphic (urlencode E s)"
proof -
  have "graphic c \<and> c \<notin> set ''@#?&=:/ ''" if "c \<in> set (urlencode E s)" for c
  proof -
    have "urlencode_char c" using percent_crate.urlencode_chars [OF assms(1) that] .
    then show ?thesis
      by (auto simp: urlencode_char_graphic urlencode_char_def ascii_alphanumeric_def ascii_digit_def)
  qed
  then show ?thesis using percent_crate.percent_decode_urlencode [OF assms] unfolding list_all_iff by blast
qed

theorem urlencode_roundtrip_witness:
  "percent_decode rfc_crates (urlencode rfc_crates ''a b@c'') = Ok ''a b@c''
    \<and> set (urlencode rfc_crates ''a b@c'') \<inter> set ''@#?&=:/ '' = {}
    \<and> list_all graphic (urlencode rfc_crates ''a b@c'')"
  by (rule urlencode_roundtrip [OF rfc.percent_crate_axioms]) (simp add: ascii_def)

text \<open>
  The cipher \<open>2022-blake3-aes-256-gcm\<close> is accepted in an ss link and comes out as
  \<open>plain\<close>: reading a link and writing the node again changes the cipher.
\<close>

theorem blake3_becomes_plain:
  assumes "codec_crates E"
  shows "\<exists>n. parse_ss E ''ss://2022-blake3-aes-256-gcm:pw@h:1'' = Ok n
    \<and> serialize_ss E n = Ok (''ss://'' @ b64_encode_no_pad E ''plain:pw'' @ ''@h:1'')"
proof -
  have p: "percent_decode E ''pw'' = Ok ''pw''"
    by (rule percent_crate.percent_decode_plain)
      (use assms in \<open>simp_all add: codec_crates_def uri_crates_def ascii_def\<close>)
  have c: "cut CHR ''#'' ''2022-blake3-aes-256-gcm:pw@h:1'' = (''2022-blake3-aes-256-gcm:pw@h:1'', None)"
    "cut CHR ''?'' ''2022-blake3-aes-256-gcm:pw@h:1'' = (''2022-blake3-aes-256-gcm:pw@h:1'', None)"
    "split_authority ''2022-blake3-aes-256-gcm:pw@h:1'' = (''2022-blake3-aes-256-gcm:pw'', ''h:1'')"
    "trim_end_matches CHR ''/'' ''h:1'' = ''h:1''" "parse_host_port ''h:1'' = Ok (''h'', 1)"
    "split_once CHR '':'' ''2022-blake3-aes-256-gcm:pw'' = Some (''2022-blake3-aes-256-gcm'', ''pw'')"
    "is_known_method ''2022-blake3-aes-256-gcm''"
    "crypto_from_str ''2022-blake3-aes-256-gcm'' = Plain"
    by code_simp+
  have "parse_ss E ''ss://2022-blake3-aes-256-gcm:pw@h:1'' = Ok (node_default
     \<lparr>nd_kind := Ss, nd_server := ''h'', nd_port := 1, nd_crypto := Some Plain, nd_password := Some ''pw''\<rparr>)"
    by (simp add: parse_ss_def parse_userinfo_def c p Let_def node_default_def)
  moreover have "show_u16 1 = ''1''" by code_simp
  ultimately show ?thesis by (simp add: serialize_ss_def node_default_def push_name_def)
qed

theorem blake3_becomes_plain_witness:
  "\<exists>n. parse_ss rfc_crates ''ss://2022-blake3-aes-256-gcm:pw@h:1'' = Ok n
    \<and> serialize_ss rfc_crates n = Ok (''ss://'' @ b64_encode_no_pad rfc_crates ''plain:pw'' @ ''@h:1'')"
  by (rule blake3_becomes_plain [OF rfc.codec_crates_axioms])

text \<open>
  A vless or trojan link forgets the insecure flag: whatever the node said, the node read
  back verifies certificates.
\<close>

theorem insecure_flag_lost:
  assumes "codec_crates E" and "wf_node E n" and "nd_kind n \<in> {Vless, Trojan}"
  shows "\<exists>u n'. serialize_link E n = Ok u \<and> parse_line E u = Ok n'
    \<and> (case nd_tls n' of None \<Rightarrow> nd_kind n = Vless | Some t \<Rightarrow> \<not> tls_insecure t)"
proof -
  obtain u where "serialize_link E n = Ok u" "parse_line E u = Ok (norm_node n)"
    using codec_crates.node_trip [OF assms(1,2)] by (auto simp: link_of_def)
  moreover have "case nd_tls (norm_node n) of None \<Rightarrow> nd_kind n = Vless | Some t \<Rightarrow> \<not> tls_insecure t"
    using assms(3)
    by (cases "nd_tls n") (auto simp: norm_node_def vless_norm_def trojan_norm_def node_default_def)
  ultimately show ?thesis by blast
qed

theorem insecure_flag_lost_witness:
  "(case nd_tls sample_vless of None \<Rightarrow> False | Some t \<Rightarrow> tls_insecure t) \<and>
   (\<exists>u n'. serialize_link rfc_crates sample_vless = Ok u \<and> parse_line rfc_crates u = Ok n'
    \<and> (case nd_tls n' of None \<Rightarrow> nd_kind sample_vless = Vless | Some t \<Rightarrow> \<not> tls_insecure t))"
proof -
  have "wf_node rfc_crates sample_vless" by code_simp
  from insecure_flag_lost [OF rfc.codec_crates_axioms this] show ?thesis
    by (simp add: sample_vless_def)
qed

text \<open>
  One trip through text is enough: the nodes that a subscription gave, written and read
  again, come back unchanged.
\<close>

theorem resubscription_is_identity:
  assumes "codec_crates E"
    and "\<forall>n \<in> set (carried ns). wf_node E n"
    and "serialize_v2ray_plain E (map norm_node (carried ns)) = Ok plain"
    and "\<forall>l \<in> set (lines plain). length l \<le> max_line_len"
  shows "parse_subscription_text E plain m = Some (take m (map norm_node (carried ns)), 0)"
proof -
  note stable = codec_crates.norm_node_stable [OF assms(1)]
  have all: "wf_node E n \<and> v2ray_kind (nd_kind n)" if "n \<in> set (carried ns)" for n
    using that assms(2) by (auto simp: carried_def)
  have c: "carried (map norm_node (carried ns)) = map norm_node (carried ns)"
    unfolding carried_def [of "map norm_node (carried ns)"]
    by (rule filter_True) (use all stable(3) in auto)
  have "\<forall>n \<in> set (carried (map norm_node (carried ns))). wf_node E n"
    unfolding c using all stable(1) by auto
  moreover have "map norm_node (map norm_node (carried ns)) = map norm_node (carried ns)"
    using all stable(2) by auto
  ultimately show ?thesis
    using codec_crates.plain_trip [OF assms(1), of "map norm_node (carried ns)" m] assms(3,4)
    by (simp add: c del: map_map)
qed

theorem resubscription_is_identity_witness:
  "parse_subscription_text rfc_crates sample_link 3
    = Some (take 3 (map norm_node (carried [sample_vless, sample_hysteria])), 0)"
proof (rule resubscription_is_identity [OF rfc.codec_crates_axioms sample_wf])
  show "serialize_v2ray_plain rfc_crates (map norm_node (carried [sample_vless, sample_hysteria])) = Ok sample_link"
    by code_simp
qed (simp add: sample_lines sample_length max_line_len_def)

section \<open>Clash\<close>

lemma to_lowercase_idem: "to_ascii_lowercase (to_lowercase s) = to_lowercase s"
  by (induction s rule: to_lowercase.induct)
    (auto simp: to_ascii_lowercase_def, simp_all add: ascii_lower_char_def)

lemma protocol_from_str_Trojan: "protocol_from_str s = Some Trojan \<Longrightarrow> to_ascii_lowercase s = ''trojan''"
  by (auto simp: protocol_from_str_def Let_def split: if_splits)

text \<open>
  What a proxy of a Clash document becomes. The kind is the one its type names; trojan
  always has TLS; TLS settings, when present, are switched on; the cipher is in the form the
  parser gives it; no node has the HTTP upgrade transport.
\<close>

theorem clash_node_facts:
  assumes "clash_proxy_to_node p = Some n"
  shows "map_option (protocol_from_str \<circ> to_lowercase) (get_str ''type'' p) = Some (Some (nd_kind n))
    \<and> (case nd_tls n of None \<Rightarrow> nd_kind n \<noteq> Trojan | Some t \<Rightarrow> tls_enabled t)
    \<and> (case nd_crypto n of None \<Rightarrow> True | Some c \<Rightarrow> crypto_normal c)
    \<and> (case nd_transport n of None \<Rightarrow> True | Some tr \<Rightarrow> tr_http_upgrade tr = None)"
proof -
  from assms obtain ty where ty: "get_str ''type'' p = Some ty"
    and kind: "protocol_from_str (to_lowercase ty) = Some (nd_kind n)"
    and tls: "nd_tls n = clash_tls (to_lowercase ty) p"
    and tr: "nd_transport n = clash_transport p"
    and cr: "case nd_crypto n of None \<Rightarrow> True | Some c \<Rightarrow> crypto_normal c"
    by (auto simp: clash_proxy_to_node_def bind_eq_Some_conv Let_def split: option.splits if_splits)
  have "nd_kind n = Trojan \<Longrightarrow> to_lowercase ty = ''trojan''"
    using protocol_from_str_Trojan kind by (metis to_lowercase_idem)
  then have "case nd_tls n of None \<Rightarrow> nd_kind n \<noteq> Trojan | Some t \<Rightarrow> tls_enabled t"
    by (auto simp: tls clash_tls_def Let_def split: option.splits if_splits)
  moreover have "case nd_transport n of None \<Rightarrow> True | Some tr \<Rightarrow> tr_http_upgrade tr = None"
    by (auto simp: tr clash_transport_def transport_default_def Let_def)
  ultimately show ?thesis using ty kind cr by auto
qed

definition sample_proxy :: yaml where
  "sample_proxy = YMapping [(YString ''name'', YString ''n''), (YString ''type'', YString ''Trojan''),
     (YString ''server'', YString ''h''), (YString ''port'', YInt 443),
     (YString ''password'', YInt 123456)]"

definition sample_trojan :: proxy_node where
  "sample_trojan = (node_new ''n'' Trojan ''h'' 443)
     \<lparr>nd_tls := Some \<lparr>tls_enabled = True, tls_sni = None, tls_alpn = [], tls_insecure = False,
                     tls_fingerprint = None\<rparr>\<rparr>"

lemma sample_proxy_node: "clash_proxy_to_node sample_proxy = Some sample_trojan"
proof -
  have "to_lowercase ''Trojan'' = ''trojan''" "protocol_from_str ''trojan'' = Some Trojan"
    by code_simp+
  then show ?thesis
    by (simp add: clash_proxy_to_node_def sample_proxy_def sample_trojan_def get_str_def get_bool_def
        to_u16_def clash_tls_def clash_transport_def node_new_def node_default_def)
qed

theorem clash_node_facts_witness:
  "map_option (protocol_from_str \<circ> to_lowercase) (get_str ''type'' sample_proxy) = Some (Some (nd_kind sample_trojan))
    \<and> (case nd_tls sample_trojan of None \<Rightarrow> nd_kind sample_trojan \<noteq> Trojan | Some t \<Rightarrow> tls_enabled t)
    \<and> (case nd_crypto sample_trojan of None \<Rightarrow> True | Some c \<Rightarrow> crypto_normal c)
    \<and> (case nd_transport sample_trojan of None \<Rightarrow> True | Some tr \<Rightarrow> tr_http_upgrade tr = None)"
  by (rule clash_node_facts [OF sample_proxy_node])

text \<open>
  A text with a line that begins with \<open>proxies:\<close> and that is a YAML document with a list
  of proxies gives the nodes of that list, in order and up to the limit; a proxy that is not
  a node is left out without being counted, and the line parser is never asked.
\<close>

theorem clash_document_nodes:
  assumes "yaml_from_str E t = Inr doc" and "yaml_get ''proxies'' doc = Some (YSequence ps)"
    and "list_ex (\<lambda>l. starts_with ''proxies:'' (trim_start l)) (lines t)"
  shows "parse_subscription_text E t m = Some (take m (List.map_filter clash_proxy_to_node ps), 0)"
  using assms by (simp add: parse_subscription_text_def parse_clash_yaml_def)

theorem clash_document_nodes_witness:
  "parse_subscription_text
      (rfc_crates\<lparr>yaml_from_str := \<lambda>_. Inr (YMapping [(YString ''proxies'', YSequence [YNull, sample_proxy])])\<rparr>)
      '' proxies: ...'' 5
    = Some (take 5 (List.map_filter clash_proxy_to_node [YNull, sample_proxy]), 0)"
proof (rule clash_document_nodes)
  show "list_ex (\<lambda>l. starts_with ''proxies:'' (trim_start l)) (lines '' proxies: ...'')" by code_simp
  show "yaml_get ''proxies'' (YMapping [(YString ''proxies'', YSequence [YNull, sample_proxy])])
      = Some (YSequence [YNull, sample_proxy])"
    by simp
qed simp

text \<open>The nodes that the Clash output can hold: those with the fields their protocol needs.\<close>

definition clash_writable :: "proxy_node \<Rightarrow> bool" where
  "clash_writable n \<longleftrightarrow>
     (nd_kind n \<in> {Ss, Ssr} \<longrightarrow> nd_crypto n \<noteq> None)
     \<and> (nd_kind n \<in> {Ss, Ssr, Trojan, Wireguard} \<longrightarrow> nd_password n \<noteq> None)
     \<and> (nd_kind n \<in> {Vmess, Vless, Wireguard} \<longrightarrow> nd_uuid n \<noteq> None)"

lemma clash_credentials_Ok_iff: "(\<exists>s. clash_credentials E n = Ok s) \<longleftrightarrow> clash_writable n"
  by (cases "nd_kind n"; cases "nd_crypto n"; cases "nd_password n"; cases "nd_uuid n")
    (simp_all add: clash_credentials_def clash_writable_def Let_def)

lemma proxy_to_clash_ok: "(ok (proxy_to_clash E n) \<noteq> None) \<longleftrightarrow> clash_writable n"
  unfolding clash_credentials_Ok_iff [of E, symmetric]
  by (cases "clash_credentials E n") (simp_all add: proxy_to_clash_def Let_def)

lemma clash_ok_filter: "clash_ok E (filter clash_writable ns) = clash_ok E ns"
proof (induction ns)
  case Nil
  then show ?case by simp
next
  case (Cons n ns)
  then show ?case
    using proxy_to_clash_ok [of E n]
    by (cases "ok (proxy_to_clash E n)") (auto simp: clash_ok_def List.map_filter_def)
qed

lemma clash_ok_nodes: "map fst (clash_ok E ns) = filter clash_writable ns"
proof (induction ns)
  case Nil
  then show ?case by (simp add: clash_ok_def List.map_filter_def)
next
  case (Cons n ns)
  then show ?case
    using proxy_to_clash_ok [of E n]
    by (cases "ok (proxy_to_clash E n)") (auto simp: clash_ok_def List.map_filter_def)
qed

text \<open>
  C17. The Clash output never fails, and a node that cannot be written leaves no trace in it:
  the output is that of the writable nodes, which are those with the fields their protocol
  needs.
\<close>

theorem clash_output_tolerant:
  "\<exists>out. serialize_clash E ns = Ok out \<and> serialize_clash E (filter clash_writable ns) = Ok out
    \<and> map fst (clash_ok E ns) = filter clash_writable ns"
  by (simp add: serialize_clash_def clash_ok_filter clash_ok_nodes Let_def)

lemma v2ray_lines_Err:
  "v2ray_lines E ns acc = Err e \<longleftrightarrow>
     (\<exists>pre n post. ns = pre @ n # post \<and> v2ray_line E n = Some (Err e)
        \<and> (\<forall>n \<in> set pre. v2ray_line E n = None \<or> (\<exists>u. v2ray_line E n = Some (Ok u))))"
proof (induction ns arbitrary: acc)
  case Nil
  then show ?case by simp
next
  case (Cons n ns)
  show ?case (is "?l \<longleftrightarrow> ?r")
  proof (cases "v2ray_line E n = Some (Err e)")
    case True
    then have ?r by (intro exI [of _ "[]"] exI [of _ n] exI [of _ ns]) simp
    with True show ?thesis by simp
  next
    case False
    have r: "?r \<longleftrightarrow> (v2ray_line E n = None \<or> (\<exists>u. v2ray_line E n = Some (Ok u))) \<and>
        (\<exists>pre n post. ns = pre @ n # post \<and> v2ray_line E n = Some (Err e)
        \<and> (\<forall>n \<in> set pre. v2ray_line E n = None \<or> (\<exists>u. v2ray_line E n = Some (Ok u))))"
      (is "_ \<longleftrightarrow> ?a \<and> ?b")
    proof
      assume ?r
      then obtain pre x post where x: "n # ns = pre @ x # post" "v2ray_line E x = Some (Err e)"
        "\<forall>n \<in> set pre. v2ray_line E n = None \<or> (\<exists>u. v2ray_line E n = Some (Ok u))" by blast
      with False obtain pre' where pre: "pre = n # pre'" by (cases pre) auto
      with x(1,3) have ?a "ns = pre' @ x # post" by simp_all
      moreover have "\<forall>n \<in> set pre'. v2ray_line E n = None \<or> (\<exists>u. v2ray_line E n = Some (Ok u))"
        using x(3) pre by simp
      ultimately show "?a \<and> ?b" using x(2) by blast
    next
      assume ab: "?a \<and> ?b"
      then obtain pre x post where "ns = pre @ x # post" "v2ray_line E x = Some (Err e)"
        "\<forall>n \<in> set pre. v2ray_line E n = None \<or> (\<exists>u. v2ray_line E n = Some (Ok u))" by blast
      with ab show ?r by (intro exI [of _ "n # pre"] exI [of _ x] exI [of _ post]) simp
    qed
    show ?thesis
      unfolding r using False Cons.IH
      by (cases "v2ray_line E n"; cases "the (v2ray_line E n)") (simp_all add: outcome_simps)
  qed
qed

lemma v2ray_line_not_Panic: "v2ray_line E n \<noteq> Some Panic"
  by (auto simp: v2ray_line_def serialize_ss_def serialize_ssr_def serialize_vmess_def
      serialize_vless_def serialize_trojan_def serialize_tuic_def outcome_simps Let_def case_prod_beta
      split: protocol.split if_splits)

lemma v2ray_lines_not_Panic: "v2ray_lines E ns acc \<noteq> Panic"
proof (induction ns arbitrary: acc)
  case (Cons n ns)
  then show ?case
    using v2ray_line_not_Panic [of E n] by (auto simp: outcome_simps split: option.split)
qed simp

definition link_writable :: "crates \<Rightarrow> proxy_node \<Rightarrow> bool" where
  "link_writable E n \<longleftrightarrow> (case v2ray_line E n of None \<Rightarrow> True | Some r \<Rightarrow> ok r \<noteq> None)"

lemma link_writable_iff:
  "link_writable E n \<longleftrightarrow> v2ray_line E n = None \<or> (\<exists>u. v2ray_line E n = Some (Ok u))"
  by (auto simp: link_writable_def outcome_simps split: option.split)

text \<open>
  C18. The list of links is all or nothing: it fails exactly when some node of a carried
  protocol cannot be written, with the error of the first such node, and it never panics.
  A missing password of one ss node so costs the whole subscription, where the Clash output
  would leave the node out.
\<close>

theorem links_all_or_nothing:
  "case serialize_v2ray E ns of
     Ok t \<Rightarrow> list_all (link_writable E) ns
   | Err e \<Rightarrow> \<exists>pre n post. ns = pre @ n # post \<and> v2ray_line E n = Some (Err e)
        \<and> list_all (link_writable E) pre
   | Panic \<Rightarrow> False"
proof -
  have all: "\<forall>n \<in> set ns. v2ray_line E n = None \<or> (\<exists>u. v2ray_line E n = Some (Ok u))"
    if "v2ray_lines E ns acc = Ok us" for acc us
    using that by (induction ns arbitrary: acc) (auto simp: outcome_simps split: option.splits)
  show ?thesis
    unfolding list_all_iff link_writable_iff
    using all [of "[]"] v2ray_lines_Err [of E ns "[]"] v2ray_lines_not_Panic [of E ns "[]"]
    by (cases "v2ray_lines E ns []") (auto simp: serialize_v2ray_def serialize_v2ray_plain_def)
qed

text \<open>
  The Clash subscription of a template: an empty template counts as an empty mapping, any
  other template that is not a mapping is refused, and of a mapping exactly the two system
  sections are set, every other entry being that of the template.
\<close>

theorem clash_template_sections:
  "case clash_document v key url of
     Ok doc \<Rightarrow> (v = YNull \<or> (\<exists>m. v = YMapping m)) \<and>
       (\<forall>k. yaml_get k doc =
          (if k = ''proxy-groups'' then Some (clash_groups key)
           else if k = ''proxy-providers'' then Some (clash_providers key url)
           else yaml_get k v))
   | Err e \<Rightarrow> v \<noteq> YNull \<and> (\<nexists>m. v = YMapping m) \<and> e = InvalidTemplate root_must_be_a_mapping
   | Panic \<Rightarrow> False"
  by (cases v) (simp_all add: clash_document_def Let_def)

text \<open>
  A scalar made of digits is written to the Clash output without quotes, where YAML reads
  it as a number; the reader of this program then drops it. A trojan node with the password
  \<open>123456\<close> so loses its password on the way through its own Clash output.
\<close>

theorem clash_digits_unquoted:
  "clash_yaml_str E ''123456'' = ''123456''
    \<and> map_option (\<lambda>n. (nd_kind n, nd_password n)) (clash_proxy_to_node sample_proxy) = Some (Trojan, None)"
proof -
  have "list_all clash_plain_char ''123456''" by code_simp
  then show ?thesis
    by (simp add: clash_yaml_str_def sample_proxy_node) (simp add: sample_trojan_def node_new_def node_default_def)
qed

end
