(* ===== verification/Program.thy ===== *)
theory Program
  imports Prelude "HOL-Library.Multiset"
begin

text \<open>
  Asynchronous handlers. A handler is a tree of the effects it awaits: a statement sent to the
  database, a reading of the clock, fresh random bytes, a request to another host, the order
  in which a set of tasks completes. The environment answers each effect with an event; a
  failing statement is one of its answers. The tree says what the handler does next for every
  answer, so that one definition serves the run of a handler on its own and the interleaving
  of several handlers, whose steps mix at exactly these points.
\<close>

section \<open>Effects and sequencing\<close>

text \<open>
  What a request to another host comes to: an error before the response, or a status with the
  text it prints as and the chunks of the body, of which one may be an error.
\<close>

datatype http_reply = Send_Failed string | Response nat string "(string + string) list"

datatype ('s, 'r, 'a) prog =
  Return 'a
  | Query 's "'r \<Rightarrow> ('s, 'r, 'a) prog"
  | Clock "int \<Rightarrow> ('s, 'r, 'a) prog"
  | Random "string \<Rightarrow> ('s, 'r, 'a) prog"
  | Fetch string "http_reply \<Rightarrow> ('s, 'r, 'a) prog"
  | Join nat "nat list \<Rightarrow> ('s, 'r, 'a) prog"

primrec bind :: "('s, 'r, 'a) prog \<Rightarrow> ('a \<Rightarrow> ('s, 'r, 'b) prog) \<Rightarrow> ('s, 'r, 'b) prog" where
  "bind (Return a) f = f a"
| "bind (Query s k) f = Query s (\<lambda>r. bind (k r) f)"
| "bind (Clock k) f = Clock (\<lambda>t. bind (k t) f)"
| "bind (Random k) f = Random (\<lambda>b. bind (k b) f)"
| "bind (Fetch u k) f = Fetch u (\<lambda>r. bind (k r) f)"
| "bind (Join n k) f = Join n (\<lambda>js. bind (k js) f)"

text \<open>The question mark after an awaited call, and a plain \<open>Result\<close> in the body of a handler.\<close>

definition await ::
  "('s, 'r, ('a, 'e) outcome) prog \<Rightarrow> ('a \<Rightarrow> ('s, 'r, ('b, 'e) outcome) prog)
     \<Rightarrow> ('s, 'r, ('b, 'e) outcome) prog" where
  "await p f = bind p (\<lambda>r. case r of Ok a \<Rightarrow> f a | Err e \<Rightarrow> Return (Err e) | Panic \<Rightarrow> Return Panic)"

definition check ::
  "('a, 'e) outcome \<Rightarrow> ('a \<Rightarrow> ('s, 'r, ('b, 'e) outcome) prog) \<Rightarrow> ('s, 'r, ('b, 'e) outcome) prog" where
  "check r f = (case r of Ok a \<Rightarrow> f a | Err e \<Rightarrow> Return (Err e) | Panic \<Rightarrow> Return Panic)"

definition map_error ::
  "('e \<Rightarrow> 'f) \<Rightarrow> ('s, 'r, ('a, 'e) outcome) prog \<Rightarrow> ('s, 'r, ('a, 'f) outcome) prog" where
  "map_error g p = bind p (\<lambda>r. Return (map_err g r))"

lemma check_simps [simp]:
  "check (Ok a) f = f a" "check (Err e) f = Return (Err e)" "check Panic f = Return Panic"
  by (simp_all add: check_def)

section \<open>Running\<close>

text \<open>The answers of the environment. What an answer to a statement says is up to the database model.\<close>

datatype 'f event =
  Answer 'f | Time int | Bytes string | Fetched http_reply | Joined "nat list"

fun advance ::
  "('f \<Rightarrow> 's \<Rightarrow> 'd \<Rightarrow> 'r \<times> 'd) \<Rightarrow> 'f event \<Rightarrow> ('s, 'r, 'a) prog \<Rightarrow> 'd \<Rightarrow> (('s, 'r, 'a) prog \<times> 'd) option"
where
  "advance X (Answer f) (Query s k) d = (let (r, d') = X f s d in Some (k r, d'))"
| "advance X (Time t) (Clock k) d = Some (k t, d)"
| "advance X (Bytes b) (Random k) d = Some (k b, d)"
| "advance X (Fetched r) (Fetch u k) d = Some (k r, d)"
| "advance X (Joined js) (Join n k) d = (if mset js = mset [0..<n] then Some (k js, d) else None)"
| "advance X _ _ d = None"

text \<open>A handler on its own, with the answers it will get; it stops where they do not fit.\<close>

fun run ::
  "('f \<Rightarrow> 's \<Rightarrow> 'd \<Rightarrow> 'r \<times> 'd) \<Rightarrow> 'f event list \<Rightarrow> ('s, 'r, 'a) prog \<Rightarrow> 'd \<Rightarrow> ('s, 'r, 'a) prog \<times> 'd"
where
  "run X [] p d = (p, d)"
| "run X (e # es) p d = (case advance X e p d of None \<Rightarrow> (p, d) | Some (p', d') \<Rightarrow> run X es p' d')"

section \<open>What holds after every run\<close>

text \<open>
  The weakest precondition over all answers: whatever the environment says, a handler that
  comes to its end does so with a result and a database that satisfy \<open>Q\<close>. \<open>G\<close> restricts the
  answers of the database, for instance to those without a failure.
\<close>

primrec wp ::
  "('f \<Rightarrow> bool) \<Rightarrow> ('f \<Rightarrow> 's \<Rightarrow> 'd \<Rightarrow> 'r \<times> 'd) \<Rightarrow> ('s, 'r, 'a) prog \<Rightarrow> ('a \<Rightarrow> 'd \<Rightarrow> bool) \<Rightarrow> 'd \<Rightarrow> bool" where
  "wp G X (Return a) Q d = Q a d"
| "wp G X (Query s k) Q d = (\<forall>f. G f \<longrightarrow> wp G X (k (fst (X f s d))) Q (snd (X f s d)))"
| "wp G X (Clock k) Q d = (\<forall>t. wp G X (k t) Q d)"
| "wp G X (Random k) Q d = (\<forall>b. wp G X (k b) Q d)"
| "wp G X (Fetch u k) Q d = (\<forall>r. wp G X (k r) Q d)"
| "wp G X (Join n k) Q d = (\<forall>js. mset js = mset [0..<n] \<longrightarrow> wp G X (k js) Q d)"

lemma wp_Return [simp]: "wp G X (Return a) Q = Q a"
  by (rule ext) simp

lemma wp_bind [simp]: "wp G X (bind p f) Q d = wp G X p (\<lambda>a. wp G X (f a) Q) d"
  by (induction p arbitrary: d) auto

lemma wp_mono: "wp G X p Q d \<Longrightarrow> (\<And>a d'. Q a d' \<Longrightarrow> R a d') \<Longrightarrow> wp G X p R d"
  by (induction p arbitrary: d) auto

lemma wp_conj: "wp G X p (\<lambda>a d. Q a d \<and> R a d) d \<longleftrightarrow> wp G X p Q d \<and> wp G X p R d"
  by (induction p arbitrary: d) auto

lemma wp_weaker: "wp G X p Q d \<Longrightarrow> (\<And>f. H f \<Longrightarrow> G f) \<Longrightarrow> wp H X p Q d"
  by (induction p arbitrary: d) auto

lemma wp_await [simp]:
  "wp G X (await p f) Q d = wp G X p (\<lambda>r d. case r of
     Ok a \<Rightarrow> wp G X (f a) Q d | Err e \<Rightarrow> Q (Err e) d | Panic \<Rightarrow> Q Panic d) d"
  unfolding await_def wp_bind by (rule arg_cong2 [where f = "\<lambda>q. wp G X p q"])
    (auto simp: fun_eq_iff split: outcome.split)

lemma wp_check:
  "wp G X (check r f) Q d = (case r of
     Ok a \<Rightarrow> wp G X (f a) Q d | Err e \<Rightarrow> Q (Err e) d | Panic \<Rightarrow> Q Panic d)"
  by (cases r) auto

lemma wp_map_error [simp]: "wp G X (map_error g p) Q d = wp G X p (\<lambda>r. Q (map_err g r)) d"
  by (simp add: map_error_def)

text \<open>The precondition speaks of every run.\<close>

definition answers_in :: "('f \<Rightarrow> bool) \<Rightarrow> 'f event list \<Rightarrow> bool" where
  "answers_in G es \<longleftrightarrow> (\<forall>f. Answer f \<in> set es \<longrightarrow> G f)"

lemma advance_wp:
  "advance X e p d = Some (p', d') \<Longrightarrow> wp G X p Q d \<Longrightarrow> answers_in G [e] \<Longrightarrow> wp G X p' Q d'"
  by (induction X e p d rule: advance.induct)
    (auto simp: answers_in_def split: prod.splits if_splits)

theorem run_wp:
  "run X es p d = (Return a, d') \<Longrightarrow> wp G X p Q d \<Longrightarrow> answers_in G es \<Longrightarrow> Q a d'"
proof (induction es arbitrary: p d)
  case Nil
  then show ?case by simp
next
  case (Cons e es)
  show ?case
  proof (cases "advance X e p d")
    case None
    with Cons.prems show ?thesis by simp
  next
    case (Some r)
    obtain p1 d1 where r: "r = (p1, d1)" by (cases r)
    have g: "answers_in G [e]" "answers_in G es" using Cons.prems(3) by (auto simp: answers_in_def)
    with Some r Cons.prems have "wp G X p1 Q d1" by (blast intro: advance_wp)
    moreover have "run X es p1 d1 = (Return a, d')" using Cons.prems(1) Some r by simp
    ultimately show ?thesis using Cons.IH g(2) by blast
  qed
qed

text \<open>Every handler can come to its end: no answer makes it wait for ever or run in a circle.\<close>

lemma prog_finishes: "\<exists>es a d'. run X es p d = (Return a, d')"
proof (induction p arbitrary: d)
  case (Return a)
  have "run X [] (Return a) d = (Return a, d)" by simp
  then show ?case by blast
next
  case (Query s k)
  obtain r d1 where "X undefined s d = (r, d1)" by (cases "X undefined s d")
  moreover obtain es a d' where "run X es (k r) d1 = (Return a, d')" using Query [of "k r" d1] by auto
  ultimately have "run X (Answer undefined # es) (Query s k) d = (Return a, d')" by simp
  then show ?case by blast
next
  case (Clock k)
  obtain es a d' where "run X es (k 0) d = (Return a, d')" using Clock [of "k 0" d] by auto
  then have "run X (Time 0 # es) (Clock k) d = (Return a, d')" by simp
  then show ?case by blast
next
  case (Random k)
  obtain es a d' where "run X es (k []) d = (Return a, d')" using Random [of "k []" d] by auto
  then have "run X (Bytes [] # es) (Random k) d = (Return a, d')" by simp
  then show ?case by blast
next
  case (Fetch u k)
  obtain es a d' where "run X es (k (Send_Failed [])) d = (Return a, d')" using Fetch [of "k (Send_Failed [])" d] by auto
  then have "run X (Fetched (Send_Failed []) # es) (Fetch u k) d = (Return a, d')" by simp
  then show ?case by blast
next
  case (Join n k)
  obtain es a d' where "run X es (k [0..<n]) d = (Return a, d')" using Join [of "k [0..<n]" d] by auto
  then have "run X (Joined [0..<n] # es) (Join n k) d = (Return a, d')" by simp
  then show ?case by blast
qed

text \<open>No sequence of answers goes on for ever, and each unfinished handler has an answer that takes it on.\<close>

definition next_prog ::
  "('f \<Rightarrow> 's \<Rightarrow> 'd \<Rightarrow> 'r \<times> 'd) \<Rightarrow> ('s, 'r, 'a) prog \<Rightarrow> ('s, 'r, 'a) prog \<Rightarrow> bool" where
  "next_prog X p' p \<longleftrightarrow> (\<exists>e d d'. advance X e p d = Some (p', d'))"

primrec branches :: "('s, 'r, 'a) prog \<Rightarrow> ('s, 'r, 'a) prog set" where
  "branches (Return a) = {}"
| "branches (Query s k) = range k"
| "branches (Clock k) = range k"
| "branches (Random k) = range k"
| "branches (Fetch u k) = range k"
| "branches (Join n k) = range k"

lemma advance_branches: "advance X e p d = Some (p', d') \<Longrightarrow> p' \<in> branches p"
  by (induction X e p d rule: advance.induct) (auto split: prod.splits if_splits)

lemma prog_accp: "Wellfounded.accp (next_prog X) p"
proof -
  have step: "Wellfounded.accp (next_prog X) q"
    if "\<And>p'. p' \<in> branches q \<Longrightarrow> Wellfounded.accp (next_prog X) p'" for q
  proof (rule accp.accI)
    fix p'
    assume "next_prog X p' q"
    then have "p' \<in> branches q" by (auto simp: next_prog_def dest: advance_branches)
    then show "Wellfounded.accp (next_prog X) p'" by (rule that)
  qed
  show ?thesis
  proof (induction p)
    case (Query s k)
    show ?case by (rule step) (use Query in \<open>simp only: branches.simps\<close>)
  next
    case (Clock k)
    show ?case by (rule step) (use Clock in \<open>simp only: branches.simps\<close>)
  next
    case (Random k)
    show ?case by (rule step) (use Random in \<open>simp only: branches.simps\<close>)
  next
    case (Fetch u k)
    show ?case by (rule step) (use Fetch in \<open>simp only: branches.simps\<close>)
  next
    case (Join n k)
    show ?case by (rule step) (use Join in \<open>simp only: branches.simps\<close>)
  qed (rule step, simp)
qed

section \<open>Statements a handler can issue\<close>

primrec issues :: "('s \<Rightarrow> bool) \<Rightarrow> ('s, 'r, 'a) prog \<Rightarrow> bool" where
  "issues S (Return a) = True"
| "issues S (Query s k) = (S s \<and> (\<forall>r. issues S (k r)))"
| "issues S (Clock k) = (\<forall>t. issues S (k t))"
| "issues S (Random k) = (\<forall>b. issues S (k b))"
| "issues S (Fetch u k) = (\<forall>r. issues S (k r))"
| "issues S (Join n k) = (\<forall>js. issues S (k js))"

lemma issues_anything [simp]: "issues (\<lambda>_. True) p"
  by (induction p) auto

lemma issues_bind: "issues S p \<Longrightarrow> (\<And>a. issues S (f a)) \<Longrightarrow> issues S (bind p f)"
  by (induction p) auto

lemma issues_await: "issues S p \<Longrightarrow> (\<And>a. issues S (f a)) \<Longrightarrow> issues S (await p f)"
  unfolding await_def by (rule issues_bind) (auto split: outcome.split)

lemma issues_check: "(\<And>a. r = Ok a \<Longrightarrow> issues S (f a)) \<Longrightarrow> issues S (check r f)"
  by (cases r) auto

lemma issues_map_error: "issues S p \<Longrightarrow> issues S (map_error g p)"
  unfolding map_error_def by (rule issues_bind) auto

lemmas issues_intros = issues_bind issues_await issues_check issues_map_error

lemma issues_advance: "advance X e p d = Some (p', d') \<Longrightarrow> issues S p \<Longrightarrow> issues S p'"
  by (induction X e p d rule: advance.induct) (auto split: prod.splits if_splits)

section \<open>Interleavings\<close>

text \<open>
  The state of the server: the handlers under way and the database. A request may come in at
  any time, and any handler may take its next step, with any answer of the environment.
\<close>

inductive interleave ::
  "('f \<Rightarrow> 's \<Rightarrow> 'd \<Rightarrow> 'r \<times> 'd) \<Rightarrow> ('s, 'r, 'a) prog set
     \<Rightarrow> ('s, 'r, 'a) prog list \<times> 'd \<Rightarrow> ('s, 'r, 'a) prog list \<times> 'd \<Rightarrow> bool"
  for X :: "'f \<Rightarrow> 's \<Rightarrow> 'd \<Rightarrow> 'r \<times> 'd" and R :: "('s, 'r, 'a) prog set" where
  start: "interleave X R (ps, d) (ps, d)"
| request: "interleave X R s (ps, d) \<Longrightarrow> p \<in> R \<Longrightarrow> interleave X R s (ps @ [p], d)"
| proceed: "interleave X R s (ps, d) \<Longrightarrow> i < length ps \<Longrightarrow> advance X e (ps ! i) d = Some (p, d')
    \<Longrightarrow> interleave X R s (ps[i := p], d')"

inductive_cases interleave_elim: "interleave X R s (ps, d)"

text \<open>A schedule: which handler moves, with which answer. A step that does not fit is left out.\<close>

fun play ::
  "('f \<Rightarrow> 's \<Rightarrow> 'd \<Rightarrow> 'r \<times> 'd) \<Rightarrow> (nat \<times> 'f event) list
     \<Rightarrow> ('s, 'r, 'a) prog list \<times> 'd \<Rightarrow> ('s, 'r, 'a) prog list \<times> 'd"
where
  "play X [] s = s"
| "play X ((i, e) # es) (ps, d) =
     (if i < length ps
      then (case advance X e (ps ! i) d of
              Some (p, d') \<Rightarrow> play X es (ps[i := p], d') | None \<Rightarrow> play X es (ps, d))
      else play X es (ps, d))"

lemma play_interleave: "interleave X R s s' \<Longrightarrow> interleave X R s (play X es s')"
proof (induction X es s' rule: play.induct)
  case (2 X i e es ps d)
  show ?case
  proof (cases "i < length ps")
    case True
    with 2 show ?thesis
      by (cases "advance X e (ps ! i) d") (auto dest: interleave.proceed [OF "2.prems"])
  next
    case False
    with 2 show ?thesis by simp
  qed
qed simp

lemma interleave_requests: "set ps \<subseteq> R \<Longrightarrow> interleave X R ([], d) (ps, d)"
proof (induction ps rule: rev_induct)
  case (snoc p ps)
  then have "interleave X R ([], d) (ps, d)" "p \<in> R" by simp_all
  then show ?case by (rule interleave.request)
qed (simp add: interleave.start)

text \<open>
  The contract of a database with an invariant: every permitted statement keeps it, whatever
  the environment answers. Then every interleaving of handlers that issue permitted
  statements only keeps it.
\<close>

locale statement_invariant =
  fixes X :: "'f \<Rightarrow> 's \<Rightarrow> 'd \<Rightarrow> 'r \<times> 'd"
    and inv :: "'d \<Rightarrow> bool"
    and permitted :: "'s \<Rightarrow> bool"
  assumes keeps: "inv d \<Longrightarrow> permitted s \<Longrightarrow> inv (snd (X f s d))"
begin

lemma advance_keeps:
  assumes "advance X e p d = Some (p', d')" and "issues permitted p" and "inv d"
  shows "inv d'"
proof (cases p)
  case (Query s k)
  show ?thesis
  proof (cases e)
    case (Answer f)
    with Query assms(1,2) have "d' = snd (X f s d)" "permitted s" by (auto split: prod.splits)
    then show ?thesis using keeps assms(3) by simp
  qed (use Query assms in simp_all)
qed (use assms in \<open>cases e; simp split: if_splits\<close>)+

theorem interleave_keeps:
  assumes "interleave X R s s'" and "\<forall>p \<in> R \<union> set (fst s). issues permitted p" and "inv (snd s)"
  shows "inv (snd s') \<and> (\<forall>p \<in> set (fst s'). issues permitted p)"
  using assms
proof (induction rule: interleave.induct)
  case (proceed s ps d i e p d')
  then have old: "inv d" "\<forall>p \<in> set ps. issues permitted p" by simp_all
  with proceed.hyps have "issues permitted (ps ! i)" by simp
  then have "issues permitted p" "inv d'"
    using proceed.hyps(3) old(1) by (blast intro: issues_advance advance_keeps)+
  with old(2) show ?case by (auto dest!: set_update_subset_insert [THEN subsetD])
qed auto

lemma run_keeps: "issues permitted p \<Longrightarrow> inv d \<Longrightarrow> inv (snd (run X es p d))"
proof (induction es arbitrary: p d)
  case (Cons e es)
  show ?case
  proof (cases "advance X e p d")
    case (Some r)
    obtain p' d' where "r = (p', d')" by (cases r)
    then show ?thesis
      using Some Cons issues_advance [of X e p d p' d'] advance_keeps [of e p d p' d'] by simp
  qed (use Cons.prems in simp)
qed simp

lemma wp_keeps: "issues permitted p \<Longrightarrow> inv d \<Longrightarrow> wp G X p (\<lambda>_. inv) d"
  by (induction p arbitrary: d) (auto simp: keeps)

end

end
