(* ===== verification/Api.thy ===== *)
theory Api
  imports Uri Program
begin

text \<open>
  What the handlers of the server share: the error response of \<open>error.rs\<close>, the header and
  name checks of \<open>auth.rs\<close> and \<open>routes/mod.rs\<close>, the static fallback of \<open>static.rs\<close>, the
  display texts of the core's errors, and the crates the server calls.
\<close>

section \<open>Crates and errors\<close>

text \<open>An error of the database driver: one that SQLite reported, or one of the pool or the connection.\<close>

datatype db_error = DatabaseError string | DriverError string

text \<open>
  The functions of \<open>argon2\<close>, \<open>sha2\<close> with \<open>const_hex\<close>, \<open>chrono\<close> and \<open>sqlx\<close> that the server calls.
  An instant is the number of nanoseconds since 1970, \<open>datetime_range\<close> says which instants a
  \<open>DateTime\<close> can hold; \<open>argon2_hash\<close> takes the salt drawn by the caller.
\<close>

record server_crates =
  codecs :: crates
  argon2_hash :: "string \<Rightarrow> string \<Rightarrow> string + string"
  phc_parse :: "string \<Rightarrow> bool"
  argon2_verify :: "string \<Rightarrow> string \<Rightarrow> bool"
  sha256_hex :: "string \<Rightarrow> string"
  hex_encode :: "string \<Rightarrow> string"
  to_rfc3339 :: "int \<Rightarrow> string"
  parse_rfc3339 :: "string \<Rightarrow> int option"
  datetime_range :: "int \<Rightarrow> bool"
  sqlx_text :: "db_error \<Rightarrow> string"

record api_error =
  ae_status :: nat
  ae_code :: string
  ae_message :: string

definition unauthorized :: "string \<Rightarrow> api_error" where
  "unauthorized msg = \<lparr>ae_status = 401, ae_code = ''unauthorized'', ae_message = msg\<rparr>"

definition conflict :: "string \<Rightarrow> api_error" where
  "conflict msg = \<lparr>ae_status = 409, ae_code = ''conflict'', ae_message = msg\<rparr>"

definition bad_request :: "string \<Rightarrow> api_error" where
  "bad_request msg = \<lparr>ae_status = 400, ae_code = ''bad_request'', ae_message = msg\<rparr>"

definition not_found :: "string \<Rightarrow> api_error" where
  "not_found msg = \<lparr>ae_status = 404, ae_code = ''not_found'', ae_message = msg\<rparr>"

definition internal :: "string \<Rightarrow> api_error" where
  "internal msg = \<lparr>ae_status = 500, ae_code = ''internal_error'', ae_message = msg\<rparr>"

definition bad_gateway :: "string \<Rightarrow> api_error" where
  "bad_gateway msg = \<lparr>ae_status = 502, ae_code = ''bad_gateway'', ae_message = msg\<rparr>"

text \<open>The errors of the data layer: of the driver, or a message (\<open>anyhow!\<close>).\<close>

datatype any_error = Sqlx db_error | Message string

definition any_text :: "server_crates \<Rightarrow> any_error \<Rightarrow> string" where
  "any_text C e = (case e of Sqlx d \<Rightarrow> sqlx_text C d | Message m \<Rightarrow> m)"

definition from_any :: "server_crates \<Rightarrow> any_error \<Rightarrow> api_error" where
  "from_any C e = internal (any_text C e)"

definition from_sqlx :: "server_crates \<Rightarrow> db_error \<Rightarrow> api_error" where
  "from_sqlx C e = internal (sqlx_text C e)"

text \<open>A rejected extractor: the status and text axum gives it.\<close>

record rejection =
  rj_status :: nat
  rj_text :: string

definition from_json_rejection :: "rejection \<Rightarrow> api_error" where
  "from_json_rejection r =
     \<lparr>ae_status = rj_status r, ae_code = ''invalid_json'', ae_message = rj_text r\<rparr>"

definition from_path_rejection :: "rejection \<Rightarrow> api_error" where
  "from_path_rejection r =
     \<lparr>ae_status = rj_status r, ae_code = ''invalid_path'', ae_message = rj_text r\<rparr>"

definition from_query_rejection :: "rejection \<Rightarrow> api_error" where
  "from_query_rejection r =
     \<lparr>ae_status = rj_status r, ae_code = ''invalid_query'', ae_message = rj_text r\<rparr>"

definition is_unique_violation :: "db_error \<Rightarrow> bool" where
  "is_unique_violation e =
     (case e of DatabaseError m \<Rightarrow> contains_str ''UNIQUE'' m | DriverError _ \<Rightarrow> False)"

fun parse_error_text :: "parse_error \<Rightarrow> string" where
  "parse_error_text UnsupportedProtocol = ''unsupported protocol''"
| "parse_error_text (InvalidUri s) = ''invalid URI: '' @ s"
| "parse_error_text (InvalidBase64 s) = ''invalid base64: '' @ s"
| "parse_error_text InvalidPort = ''invalid port''"
| "parse_error_text (MissingField f) = ''missing required field: '' @ f"
| "parse_error_text (InvalidValue f v) = ''invalid value for '' @ f @ '': '' @ v"

fun serialize_error_text :: "serialize_error \<Rightarrow> string" where
  "serialize_error_text (SerUnsupportedProtocol p) = ''unsupported protocol for this format: '' @ p"
| "serialize_error_text (SerMissingField f) = ''missing required field: '' @ f"
| "serialize_error_text (InvalidTemplate m) = ''invalid clash template: '' @ m"

section \<open>Headers and names\<close>

text \<open>The first value of each header, by its lower-case name.\<close>

type_synonym headers = "string \<Rightarrow> string option"

text \<open>\<open>HeaderValue::to_str\<close> accepts visible ASCII, blanks and tabs.\<close>

definition header_to_str :: "string \<Rightarrow> string option" where
  "header_to_str v =
     (if list_all (\<lambda>c. 32 \<le> byte c \<and> byte c < 127 \<or> c = CHR 0x09) v then Some v else None)"

definition parse_bearer :: "headers \<Rightarrow> (string, string) outcome" where
  "parse_bearer headers =
     and_then (ok_or ''missing authorization header'' (headers ''authorization'')) (\<lambda>auth.
     and_then (ok_or ''invalid authorization header'' (header_to_str auth)) (\<lambda>auth_str.
     ok_or ''expected Bearer token'' (strip_prefix ''Bearer '' auth_str)))"

definition extract_bearer :: "headers \<Rightarrow> string option" where
  "extract_bearer headers = ok (parse_bearer headers)"

definition name_char :: "char \<Rightarrow> bool" where
  "name_char c \<longleftrightarrow> ascii_alphanumeric c \<or> c = CHR ''-'' \<or> c = CHR ''_''"

definition valid_combined_name :: "string \<Rightarrow> bool" where
  "valid_combined_name s \<longleftrightarrow> s \<noteq> [] \<and> list_all name_char s"

definition valid_username :: "string \<Rightarrow> bool" where
  "valid_username s \<longleftrightarrow> (let t = trim s in t \<noteq> [] \<and> length t \<le> 64 \<and> list_all name_char t)"

section \<open>Static files\<close>

text \<open>What the fallback answers: the JSON 404, a bare status, or the contents of a file.\<close>

datatype page = Api_Error api_error | Bare_Status nat | Page string

text \<open>\<open>path\<close> is the raw path of the request and \<open>files\<close> the readable files by their path.\<close>

definition static_fallback :: "crates \<Rightarrow> (string \<Rightarrow> string option) \<Rightarrow> string \<Rightarrow> string \<Rightarrow> page" where
  "static_fallback E files web_dist path =
     (let p = trim_start_matches CHR ''/'' path;
          p = unwrap_or p (ok (percent_decode E p))
      in if starts_with ''api'' p \<or> starts_with ''admin'' p \<or> starts_with ''subscribe'' p
         then Api_Error (not_found ''route not found'')
         else
           let rel_path = trim_start_matches CHR ''/'' path;
               rel_path = (if rel_path = [] then ''index.html'' else rel_path)
           in if contains_str ''..'' rel_path then Bare_Status 403
              else (case files (web_dist @ ''/'' @ rel_path) of
                      Some bytes \<Rightarrow> Page bytes
                    | None \<Rightarrow>
                        (case files (web_dist @ ''/index.html'') of
                           Some bytes \<Rightarrow> Page bytes
                         | None \<Rightarrow> Bare_Status 404)))"

section \<open>Lemmas\<close>

lemma parse_bearer_not_Panic [simp]: "parse_bearer h \<noteq> Panic"
  by (auto simp: parse_bearer_def outcome_simps)

lemma parse_bearer_Ok_iff:
  "parse_bearer h = Ok t \<longleftrightarrow> (\<exists>v. h ''authorization'' = Some v \<and> header_to_str v \<noteq> None \<and> v = ''Bearer '' @ t)"
  by (auto simp: parse_bearer_def outcome_simps strip_prefix_Some_iff header_to_str_def)

lemma parse_bearer_Err:
  "parse_bearer h = Err m \<Longrightarrow> m = ''missing authorization header''
     \<or> m = ''invalid authorization header'' \<or> m = ''expected Bearer token''"
  by (auto simp: parse_bearer_def outcome_simps)

end
