(* ===== verification/Db.thy ===== *)
theory Db
  imports Api "HOL-Library.Product_Lexorder"
begin

text \<open>
  The database of the server. The tables of \<open>init_db\<close> are lists of rows in the order of their
  row ids; each SQL statement of the sources is a constructor whose meaning is written out,
  with the constraint errors SQLite reports; the two transactions of \<open>combineds.rs\<close> are
  sequences of statements that are undone when one of them fails. A fault list says which
  statements the environment lets fail: a failed statement has no effect. The last part is
  the invariant of the tables and the statements that keep it.
\<close>

section \<open>Tables\<close>

record source_row =
  so_id :: int
  so_url :: string
  so_name :: string
  so_kind :: string
  so_created :: string

record combined_row =
  cb_id :: int
  cb_name :: string
  cb_created :: string

record user_row =
  us_id :: int
  us_name :: string
  us_hash :: string
  us_created :: string

record session_row =
  se_hash :: string
  se_created :: string
  se_last :: string

text \<open>The sequence numbers are the last row ids that \<open>AUTOINCREMENT\<close> gave; they never go back.\<close>

record database =
  db_sources :: "source_row list"
  db_sources_seq :: int
  db_combineds :: "combined_row list"
  db_combineds_seq :: int
  db_members :: "(int \<times> int) list"
  db_users :: "user_row list"
  db_users_seq :: int
  db_sessions :: "session_row list"
  db_settings :: "(string \<times> string) list"

definition empty_db :: database where
  "empty_db = \<lparr>db_sources = [], db_sources_seq = 0, db_combineds = [], db_combineds_seq = 0,
     db_members = [], db_users = [], db_users_seq = 0, db_sessions = [], db_settings = []\<rparr>"

section \<open>Statements\<close>

datatype sql =
  Begin | Commit
  | Count_Users
  | Insert_User string string string
  | Insert_User_If_Empty string string string
  | Select_Password_Hash string
  | Update_Password_Hash string string
  | Select_Username
  | Insert_Session string string string
  | Select_Last_Used string
  | Delete_Session string
  | Touch_Session string string
  | Delete_Sessions_Before string
  | Delete_All_Sessions
  | Select_Setting string
  | Upsert_Setting string string
  | Select_Sources
  | Select_Sources_In "int list"
  | Select_Source int
  | Select_Source_Ids_Of_Kind string
  | Insert_Source string string string string
  | Update_Source int string string string
  | Delete_Source int
  | Select_Combineds
  | Select_All_Members
  | Select_Members int
  | Select_Combined int
  | Select_Combined_Named string
  | Insert_Combined string string
  | Insert_Members int "int list"
  | Delete_Members int
  | Rename_Combined int string
  | Delete_Combined int

text \<open>A statement on its own connection, or one of the two transactions.\<close>

datatype stmt =
  Single sql
  | Create_Combined_Tx string string "int list"
  | Replace_Members_Tx int "int list"

datatype reply =
  Done | Row_Id int | Affected nat | Count nat
  | Text "string option"
  | Source_Row "source_row option" | Source_Rows "source_row list"
  | Combined_Row "combined_row option" | Combined_Rows "combined_row list"
  | Ids "int list" | Pairs "(int \<times> int) list"
  | Insert_Failed db_error

text \<open>The next row id of an \<open>AUTOINCREMENT\<close> table: the largest 64-bit integer ends the sequence.\<close>

definition next_id :: "int \<Rightarrow> int option" where
  "next_id seq = (if seq < 2 ^ 63 - 1 then Some (seq + 1) else None)"

definition table_full :: db_error where
  "table_full = DatabaseError ''database or disk is full''"

definition unique_failed :: "string \<Rightarrow> db_error" where
  "unique_failed column = DatabaseError (''UNIQUE constraint failed: '' @ column)"

text \<open>The order SQLite compares texts in: byte by byte.\<close>

fun text_less :: "string \<Rightarrow> string \<Rightarrow> bool" where
  "text_less s [] = False"
| "text_less [] (d # ds) = True"
| "text_less (c # cs) (d # ds) = (byte c < byte d \<or> c = d \<and> text_less cs ds)"

fun upsert :: "string \<Rightarrow> string \<Rightarrow> (string \<times> string) list \<Rightarrow> (string \<times> string) list" where
  "upsert k v [] = [(k, v)]"
| "upsert k v ((k', v') # m) = (if k' = k then (k, v) # m else (k', v') # upsert k v m)"

definition new_members :: "int \<Rightarrow> int list \<Rightarrow> database \<Rightarrow> (int \<times> int) list" where
  "new_members cid ids d =
     map (Pair cid) (filter (\<lambda>sid. sid \<in> set ids \<and> (cid, sid) \<notin> set (db_members d))
       (map so_id (db_sources d)))"

fun apply_sql :: "sql \<Rightarrow> database \<Rightarrow> (db_error + reply) \<times> database" where
  "apply_sql Begin d = (Inr Done, d)"
| "apply_sql Commit d = (Inr Done, d)"
| "apply_sql Count_Users d = (Inr (Count (length (db_users d))), d)"
| "apply_sql (Insert_User name hash created) d =
     (if name \<in> us_name ` set (db_users d) then (Inl (unique_failed ''users.username''), d)
      else case next_id (db_users_seq d) of
        None \<Rightarrow> (Inl table_full, d)
      | Some i \<Rightarrow> (Inr (Affected 1), d\<lparr>db_users_seq := i, db_users := db_users d @
          [\<lparr>us_id = i, us_name = name, us_hash = hash, us_created = created\<rparr>]\<rparr>))"
| "apply_sql (Insert_User_If_Empty name hash created) d =
     (if db_users d \<noteq> [] then (Inr (Affected 0), d)
      else case next_id (db_users_seq d) of
        None \<Rightarrow> (Inl table_full, d)
      | Some i \<Rightarrow> (Inr (Affected 1), d\<lparr>db_users_seq := i, db_users :=
          [\<lparr>us_id = i, us_name = name, us_hash = hash, us_created = created\<rparr>]\<rparr>))"
| "apply_sql (Select_Password_Hash name) d =
     (Inr (Text (map_option us_hash (find (\<lambda>u. us_name u = name) (db_users d)))), d)"
| "apply_sql (Update_Password_Hash hash name) d =
     (Inr (Affected (length (filter (\<lambda>u. us_name u = name) (db_users d)))),
      d\<lparr>db_users := map (\<lambda>u. if us_name u = name then u\<lparr>us_hash := hash\<rparr> else u) (db_users d)\<rparr>)"
| "apply_sql Select_Username d =
     (Inr (Text (case db_users d of [] \<Rightarrow> None | u # _ \<Rightarrow> Some (us_name u))), d)"
| "apply_sql (Insert_Session hash created last_used) d =
     (if hash \<in> se_hash ` set (db_sessions d) then (Inl (unique_failed ''sessions.token_hash''), d)
      else (Inr (Affected 1), d\<lparr>db_sessions := db_sessions d @
        [\<lparr>se_hash = hash, se_created = created, se_last = last_used\<rparr>]\<rparr>))"
| "apply_sql (Select_Last_Used hash) d =
     (Inr (Text (map_option se_last (find (\<lambda>s. se_hash s = hash) (db_sessions d)))), d)"
| "apply_sql (Delete_Session hash) d =
     (Inr (Affected (length (filter (\<lambda>s. se_hash s = hash) (db_sessions d)))),
      d\<lparr>db_sessions := filter (\<lambda>s. se_hash s \<noteq> hash) (db_sessions d)\<rparr>)"
| "apply_sql (Touch_Session now hash) d =
     (Inr (Affected (length (filter (\<lambda>s. se_hash s = hash) (db_sessions d)))),
      d\<lparr>db_sessions := map (\<lambda>s. if se_hash s = hash then s\<lparr>se_last := now\<rparr> else s) (db_sessions d)\<rparr>)"
| "apply_sql (Delete_Sessions_Before cutoff) d =
     (Inr (Affected (length (filter (\<lambda>s. text_less (se_last s) cutoff) (db_sessions d)))),
      d\<lparr>db_sessions := filter (\<lambda>s. \<not> text_less (se_last s) cutoff) (db_sessions d)\<rparr>)"
| "apply_sql Delete_All_Sessions d =
     (Inr (Affected (length (db_sessions d))), d\<lparr>db_sessions := []\<rparr>)"
| "apply_sql (Select_Setting key) d = (Inr (Text (map_of (db_settings d) key)), d)"
| "apply_sql (Upsert_Setting key value) d =
     (Inr (Affected 1), d\<lparr>db_settings := upsert key value (db_settings d)\<rparr>)"
| "apply_sql Select_Sources d = (Inr (Source_Rows (db_sources d)), d)"
| "apply_sql (Select_Sources_In ids) d =
     (Inr (Source_Rows (filter (\<lambda>s. so_id s \<in> set ids) (db_sources d))), d)"
| "apply_sql (Select_Source i) d =
     (Inr (Source_Row (find (\<lambda>s. so_id s = i) (db_sources d))), d)"
| "apply_sql (Select_Source_Ids_Of_Kind kind) d =
     (Inr (Ids (map so_id (filter (\<lambda>s. so_kind s = kind) (db_sources d)))), d)"
| "apply_sql (Insert_Source url name kind created) d =
     (case next_id (db_sources_seq d) of
        None \<Rightarrow> (Inl table_full, d)
      | Some i \<Rightarrow> (Inr (Row_Id i), d\<lparr>db_sources_seq := i, db_sources := db_sources d @
          [\<lparr>so_id = i, so_url = url, so_name = name, so_kind = kind, so_created = created\<rparr>]\<rparr>))"
| "apply_sql (Update_Source i url name kind) d =
     (Inr (Affected (length (filter (\<lambda>s. so_id s = i) (db_sources d)))),
      d\<lparr>db_sources := map (\<lambda>s. if so_id s = i
         then s\<lparr>so_url := url, so_name := name, so_kind := kind\<rparr> else s) (db_sources d)\<rparr>)"
| "apply_sql (Delete_Source i) d =
     (Inr (Affected (length (filter (\<lambda>s. so_id s = i) (db_sources d)))),
      d\<lparr>db_sources := filter (\<lambda>s. so_id s \<noteq> i) (db_sources d),
        db_members := filter (\<lambda>(c, s). s \<noteq> i) (db_members d)\<rparr>)"
| "apply_sql Select_Combineds d = (Inr (Combined_Rows (db_combineds d)), d)"
| "apply_sql Select_All_Members d = (Inr (Pairs (sort (db_members d))), d)"
| "apply_sql (Select_Members cid) d =
     (Inr (Ids (sort (map snd (filter (\<lambda>(c, s). c = cid) (db_members d))))), d)"
| "apply_sql (Select_Combined i) d =
     (Inr (Combined_Row (find (\<lambda>c. cb_id c = i) (db_combineds d))), d)"
| "apply_sql (Select_Combined_Named name) d =
     (Inr (Combined_Row (find (\<lambda>c. cb_name c = name) (db_combineds d))), d)"
| "apply_sql (Insert_Combined name created) d =
     (if name \<in> cb_name ` set (db_combineds d) then (Inl (unique_failed ''combined_subs.name''), d)
      else case next_id (db_combineds_seq d) of
        None \<Rightarrow> (Inl table_full, d)
      | Some i \<Rightarrow> (Inr (Row_Id i), d\<lparr>db_combineds_seq := i, db_combineds := db_combineds d @
          [\<lparr>cb_id = i, cb_name = name, cb_created = created\<rparr>]\<rparr>))"
| "apply_sql (Insert_Members cid ids) d =
     (if new_members cid ids d \<noteq> [] \<and> cid \<notin> cb_id ` set (db_combineds d)
      then (Inl (DatabaseError ''FOREIGN KEY constraint failed''), d)
      else (Inr (Affected (length (new_members cid ids d))),
            d\<lparr>db_members := db_members d @ new_members cid ids d\<rparr>))"
| "apply_sql (Delete_Members cid) d =
     (Inr (Affected (length (filter (\<lambda>(c, s). c = cid) (db_members d)))),
      d\<lparr>db_members := filter (\<lambda>(c, s). c \<noteq> cid) (db_members d)\<rparr>)"
| "apply_sql (Rename_Combined i name) d =
     (if \<exists>c \<in> set (db_combineds d). cb_name c = name \<and> cb_id c \<noteq> i \<and>
           i \<in> cb_id ` set (db_combineds d)
      then (Inl (unique_failed ''combined_subs.name''), d)
      else (Inr (Affected (length (filter (\<lambda>c. cb_id c = i) (db_combineds d)))),
            d\<lparr>db_combineds := map (\<lambda>c. if cb_id c = i then c\<lparr>cb_name := name\<rparr> else c)
               (db_combineds d)\<rparr>))"
| "apply_sql (Delete_Combined i) d =
     (Inr (Affected (length (filter (\<lambda>c. cb_id c = i) (db_combineds d)))),
      d\<lparr>db_combineds := filter (\<lambda>c. cb_id c \<noteq> i) (db_combineds d),
        db_members := filter (\<lambda>(c, s). c \<noteq> i) (db_members d)\<rparr>)"

section \<open>Faults and transactions\<close>

type_synonym faults = "db_error option list"

fun pop :: "faults \<Rightarrow> db_error option \<times> faults" where
  "pop [] = (None, [])"
| "pop (x # xs) = (x, xs)"

definition faulty :: "faults \<Rightarrow> sql \<Rightarrow> database \<Rightarrow> (db_error + reply) \<times> database \<times> faults" where
  "faulty fs s d =
     (case pop fs of
        (Some e, fs) \<Rightarrow> (Inl e, d, fs)
      | (None, fs) \<Rightarrow> (case apply_sql s d of (r, d') \<Rightarrow> (r, d', fs)))"

definition insert_members_sql ::
  "faults \<Rightarrow> int \<Rightarrow> int list \<Rightarrow> database \<Rightarrow> (db_error + reply) \<times> database \<times> faults" where
  "insert_members_sql fs cid ids d =
     (if ids = [] then (Inr Done, d, fs) else faulty fs (Insert_Members cid ids) d)"

text \<open>The row id that \<open>last_insert_rowid\<close> reads after an insertion.\<close>

fun last_insert_rowid :: "reply \<Rightarrow> int" where
  "last_insert_rowid (Row_Id i) = i"
| "last_insert_rowid _ = 0"

text \<open>
  The two transactions. A failure at any point leaves the database as it was; the failure of
  the first insertion is told apart, because its handler maps it to another response.
\<close>

definition create_combined_tx ::
  "faults \<Rightarrow> string \<Rightarrow> string \<Rightarrow> int list \<Rightarrow> database \<Rightarrow> (db_error + reply) \<times> database" where
  "create_combined_tx fs name created ids d =
     (case faulty fs Begin d of
        (Inl e, _, _) \<Rightarrow> (Inl e, d)
      | (Inr _, d0, fs) \<Rightarrow>
     (case faulty fs (Insert_Combined name created) d0 of
        (Inl e, _, _) \<Rightarrow> (Inr (Insert_Failed e), d)
      | (Inr r, d1, fs) \<Rightarrow>
     (case insert_members_sql fs (last_insert_rowid r) ids d1 of
        (Inl e, _, _) \<Rightarrow> (Inl e, d)
      | (Inr _, d2, fs) \<Rightarrow>
     (case faulty fs Commit d2 of
        (Inl e, _, _) \<Rightarrow> (Inl e, d)
      | (Inr _, d3, _) \<Rightarrow> (Inr r, d3)))))"

definition replace_members_tx ::
  "faults \<Rightarrow> int \<Rightarrow> int list \<Rightarrow> database \<Rightarrow> (db_error + reply) \<times> database" where
  "replace_members_tx fs cid ids d =
     (case faulty fs Begin d of
        (Inl e, _, _) \<Rightarrow> (Inl e, d)
      | (Inr _, d0, fs) \<Rightarrow>
     (case faulty fs (Delete_Members cid) d0 of
        (Inl e, _, _) \<Rightarrow> (Inl e, d)
      | (Inr _, d1, fs) \<Rightarrow>
     (case insert_members_sql fs cid ids d1 of
        (Inl e, _, _) \<Rightarrow> (Inl e, d)
      | (Inr _, d2, fs) \<Rightarrow>
     (case faulty fs Commit d2 of
        (Inl e, _, _) \<Rightarrow> (Inl e, d)
      | (Inr _, d3, _) \<Rightarrow> (Inr Done, d3)))))"

definition exec :: "faults \<Rightarrow> stmt \<Rightarrow> database \<Rightarrow> (db_error + reply) \<times> database" where
  "exec fs s d =
     (case s of
        Single q \<Rightarrow> (case faulty fs q d of (r, d', _) \<Rightarrow> (r, d'))
      | Create_Combined_Tx name created ids \<Rightarrow> create_combined_tx fs name created ids d
      | Replace_Members_Tx cid ids \<Rightarrow> replace_members_tx fs cid ids d)"

type_synonym 'a action = "(stmt, db_error + reply, ('a, any_error) outcome) prog"
type_synonym 'a handler = "(stmt, db_error + reply, ('a, api_error) outcome) prog"

text \<open>One awaited statement: its error is the driver's.\<close>

definition sql :: "sql \<Rightarrow> (stmt, db_error + reply, (reply, db_error) outcome) prog" where
  "sql q = Query (Single q) (\<lambda>r. Return (of_sum r))"

definition tx :: "stmt \<Rightarrow> (stmt, db_error + reply, (reply, db_error) outcome) prog" where
  "tx s = Query s (\<lambda>r. Return (of_sum r))"

section \<open>The invariant of the tables\<close>

text \<open>
  What the handlers may count on: ids in strictly increasing order below the sequence number,
  at most one user, combined names that are distinct and fit a path segment, kinds the
  fetcher knows, members that refer to rows, one session per hash, and settings that passed
  the checks of their handlers.
\<close>

definition source_kind :: "string \<Rightarrow> bool" where
  "source_kind k \<longleftrightarrow> k = ''single'' \<or> k = ''remote''"

definition keyed :: "int list \<Rightarrow> int \<Rightarrow> bool" where
  "keyed ids seq \<longleftrightarrow> sorted_wrt (<) ids \<and> 0 \<le> seq \<and> (\<forall>i \<in> set ids. 0 < i \<and> i \<le> seq)"

definition template_key :: string where
  "template_key = ''clash_template''"

definition v2ray_b64_key :: string where
  "v2ray_b64_key = ''v2ray_base64''"

definition is_mapping :: "yaml \<Rightarrow> bool" where
  "is_mapping v = (case v of YMapping _ \<Rightarrow> True | _ \<Rightarrow> False)"

definition template_ok :: "crates \<Rightarrow> string \<Rightarrow> bool" where
  "template_ok E t = (case yaml_from_str E t of Inr v \<Rightarrow> is_mapping v | Inl _ \<Rightarrow> False)"

definition setting_ok :: "crates \<Rightarrow> string \<Rightarrow> string \<Rightarrow> bool" where
  "setting_ok E key value \<longleftrightarrow>
     key = template_key \<and> template_ok E value
     \<or> key = v2ray_b64_key \<and> (value = ''0'' \<or> value = ''1'')"

definition sources_ok :: "database \<Rightarrow> bool" where
  "sources_ok d \<longleftrightarrow> keyed (map so_id (db_sources d)) (db_sources_seq d)
     \<and> (\<forall>s \<in> set (db_sources d). source_kind (so_kind s))"

definition combineds_ok :: "database \<Rightarrow> bool" where
  "combineds_ok d \<longleftrightarrow> keyed (map cb_id (db_combineds d)) (db_combineds_seq d)
     \<and> distinct (map cb_name (db_combineds d))
     \<and> (\<forall>c \<in> set (db_combineds d). valid_combined_name (cb_name c))"

definition members_ok :: "database \<Rightarrow> bool" where
  "members_ok d \<longleftrightarrow> distinct (db_members d)
     \<and> set (db_members d) \<subseteq> cb_id ` set (db_combineds d) \<times> so_id ` set (db_sources d)"

definition accounts_ok :: "database \<Rightarrow> bool" where
  "accounts_ok d \<longleftrightarrow> length (db_users d) \<le> 1 \<and> distinct (map se_hash (db_sessions d))"

definition settings_ok :: "crates \<Rightarrow> database \<Rightarrow> bool" where
  "settings_ok E d \<longleftrightarrow> distinct (map fst (db_settings d))
     \<and> (\<forall>(k, v) \<in> set (db_settings d). setting_ok E k v)"

definition db_ok :: "crates \<Rightarrow> database \<Rightarrow> bool" where
  "db_ok E d \<longleftrightarrow> sources_ok d \<and> combineds_ok d \<and> members_ok d \<and> accounts_ok d \<and> settings_ok E d"

text \<open>The statements a handler may issue: what its checks let through.\<close>

fun permitted_sql :: "crates \<Rightarrow> sql \<Rightarrow> bool" where
  "permitted_sql E (Insert_User name hash created) = False"
| "permitted_sql E (Upsert_Setting key value) = setting_ok E key value"
| "permitted_sql E (Insert_Source url name kind created) = source_kind kind"
| "permitted_sql E (Update_Source i url name kind) = source_kind kind"
| "permitted_sql E (Insert_Combined name created) = valid_combined_name name"
| "permitted_sql E (Rename_Combined i name) = valid_combined_name name"
| "permitted_sql E _ = True"

fun permitted :: "crates \<Rightarrow> stmt \<Rightarrow> bool" where
  "permitted E (Single q) = permitted_sql E q"
| "permitted E (Create_Combined_Tx name created ids) = valid_combined_name name"
| "permitted E (Replace_Members_Tx cid ids) = True"

section \<open>Every permitted statement keeps the invariant\<close>

lemma keyed_append: "keyed ids seq \<Longrightarrow> next_id seq = Some i \<Longrightarrow> keyed (ids @ [i]) i"
  by (auto simp: keyed_def sorted_wrt_append next_id_def split: if_splits)

lemma keyed_filter: "keyed (map f xs) seq \<Longrightarrow> keyed (map f (filter P xs)) seq"
  by (auto simp: keyed_def sorted_wrt_map intro: sorted_wrt_filter)

lemma keyed_distinct: "keyed ids seq \<Longrightarrow> distinct ids"
  by (simp add: keyed_def strict_sorted_iff)

lemma keyed_fresh: "keyed ids seq \<Longrightarrow> next_id seq = Some i \<Longrightarrow> i \<notin> set ids"
  by (auto simp: keyed_def next_id_def split: if_splits)

lemma map_keeps [simp]: "(\<And>x. f (g x) = f x) \<Longrightarrow> map f (map g xs) = map f xs"
  by simp

lemma upsert_keys: "fst ` set (upsert k v m) = insert k (fst ` set m)"
  by (induction k v m rule: upsert.induct) auto

lemma upsert_distinct: "distinct (map fst m) \<Longrightarrow> distinct (map fst (upsert k v m))"
proof (induction k v m rule: upsert.induct)
  case (2 k v k' v' m)
  then show ?case using upsert_keys [of k v m] by (auto simp: image_iff)
qed simp

lemma upsert_set: "set (upsert k v m) \<subseteq> insert (k, v) (set m)"
  by (induction k v m rule: upsert.induct) auto

lemma map_of_upsert [simp]: "map_of (upsert k v m) = (map_of m)(k \<mapsto> v)"
  by (induction k v m rule: upsert.induct) auto

lemma settings_upsert:
  "settings_ok E d \<Longrightarrow> setting_ok E k v \<Longrightarrow> settings_ok E (d\<lparr>db_settings := upsert k v (db_settings d)\<rparr>)"
  using upsert_set [of k v "db_settings d"] by (auto simp: settings_ok_def upsert_distinct)

lemma distinct_rename:
  assumes f: "distinct (map f xs)" and g: "distinct (map g xs)"
    and n: "\<And>x. x \<in> set xs \<Longrightarrow> f x = n \<Longrightarrow> g x = i" and h: "\<And>x. f (h x) = n"
  shows "distinct (map f (map (\<lambda>x. if g x = i then h x else x) xs))"
proof -
  have "inj_on (\<lambda>x. f (if g x = i then h x else x)) (set xs)"
    using f g n h by (intro inj_onI) (metis distinct_map inj_onD)
  with f show ?thesis by (simp add: distinct_map comp_def)
qed

lemma members_filter_sources:
  "members_ok d \<Longrightarrow> members_ok (d\<lparr>db_sources := filter (\<lambda>s. so_id s \<noteq> i) (db_sources d),
     db_members := filter (\<lambda>(c, s). s \<noteq> i) (db_members d)\<rparr>)"
  by (force simp: members_ok_def)

lemma members_filter_combineds:
  "members_ok d \<Longrightarrow> members_ok (d\<lparr>db_combineds := filter (\<lambda>c. cb_id c \<noteq> i) (db_combineds d),
     db_members := filter (\<lambda>(c, s). c \<noteq> i) (db_members d)\<rparr>)"
  by (force simp: members_ok_def)

lemma members_new:
  assumes "members_ok d" and "sources_ok d"
    and "new_members cid ids d = [] \<or> cid \<in> cb_id ` set (db_combineds d)"
  shows "members_ok (d\<lparr>db_members := db_members d @ new_members cid ids d\<rparr>)"
proof -
  have "distinct (map so_id (db_sources d))" using assms(2) keyed_distinct by (auto simp: sources_ok_def)
  then have "distinct (new_members cid ids d)"
    unfolding new_members_def distinct_map by (auto intro: distinct_filter inj_onI simp: distinct_map)
  moreover have "set (new_members cid ids d) \<subseteq> {cid} \<times> so_id ` set (db_sources d)"
    and "set (new_members cid ids d) \<inter> set (db_members d) = {}"
    by (auto simp: new_members_def)
  ultimately show ?thesis using assms(1,3)
    by (cases "new_members cid ids d = []") (auto simp: members_ok_def)
qed

lemma image_of_map: "map f xs = map f ys \<Longrightarrow> f ` set xs = f ` set ys"
  by (metis list.set_map)

lemma combineds_replaced:
  "db_ok E d \<Longrightarrow> map cb_id cs = map cb_id (db_combineds d) \<Longrightarrow> distinct (map cb_name cs)
    \<Longrightarrow> \<forall>c \<in> set cs. valid_combined_name (cb_name c) \<Longrightarrow> db_ok E (d\<lparr>db_combineds := cs\<rparr>)"
  by (simp add: image_of_map [of cb_id cs "db_combineds d"] db_ok_def sources_ok_def combineds_ok_def accounts_ok_def members_ok_def settings_ok_def)

lemma sources_replaced:
  "db_ok E d \<Longrightarrow> map so_id ss = map so_id (db_sources d)
    \<Longrightarrow> \<forall>s \<in> set ss. source_kind (so_kind s) \<Longrightarrow> db_ok E (d\<lparr>db_sources := ss\<rparr>)"
  by (simp add: image_of_map [of so_id ss "db_sources d"] db_ok_def sources_ok_def combineds_ok_def accounts_ok_def members_ok_def settings_ok_def)

lemmas db_parts = db_ok_def sources_ok_def combineds_ok_def members_ok_def accounts_ok_def settings_ok_def

lemma apply_sql_keeps:
  assumes "db_ok E d" and "permitted_sql E q"
  shows "db_ok E (snd (apply_sql q d))"
proof (cases q)
  case (Insert_Source url name kind created)
  with assms show ?thesis
    by (auto simp: db_parts keyed_append split: option.split)
next
  case (Insert_Combined name created)
  with assms show ?thesis
    by (auto simp: db_parts keyed_append split: option.split)
next
  case (Insert_Members cid ids)
  with assms members_new [of d cid ids] show ?thesis
    by (simp add: db_ok_def sources_ok_def combineds_ok_def accounts_ok_def settings_ok_def)
next
  case (Delete_Source i)
  with assms members_filter_sources [of d i] show ?thesis
    by (simp add: db_ok_def sources_ok_def combineds_ok_def accounts_ok_def settings_ok_def keyed_filter)
next
  case (Delete_Combined i)
  with assms members_filter_combineds [of d i] show ?thesis
    by (simp add: db_ok_def sources_ok_def combineds_ok_def accounts_ok_def settings_ok_def keyed_filter
        distinct_map_filter)
next
  case (Upsert_Setting k v)
  with assms settings_upsert [of E d k v] show ?thesis
    by (simp add: db_ok_def sources_ok_def combineds_ok_def accounts_ok_def members_ok_def)
next
  case (Rename_Combined i name)
  show ?thesis
  proof (cases "\<exists>c \<in> set (db_combineds d). cb_name c = name \<and> cb_id c \<noteq> i \<and>
      i \<in> cb_id ` set (db_combineds d)")
    case True
    with assms(1) Rename_Combined show ?thesis by simp
  next
    case False
    let ?cs = "map (\<lambda>c. if cb_id c = i then c\<lparr>cb_name := name\<rparr> else c) (db_combineds d)"
    have ids: "map cb_id ?cs = map cb_id (db_combineds d)" by simp
    have "distinct (map cb_name ?cs)"
    proof (cases "i \<in> cb_id ` set (db_combineds d)")
      case True
      with False assms(1) show ?thesis
        by (intro distinct_rename) (auto simp: db_ok_def combineds_ok_def keyed_distinct)
    next
      case False
      then have "?cs = db_combineds d" by (intro map_idI) auto
      with assms(1) show ?thesis by (simp add: db_ok_def combineds_ok_def)
    qed
    moreover have "\<forall>c \<in> set ?cs. valid_combined_name (cb_name c)"
      using assms Rename_Combined by (auto simp: db_ok_def combineds_ok_def)
    ultimately have "db_ok E (d\<lparr>db_combineds := ?cs\<rparr>)"
      using ids assms(1) by (intro combineds_replaced)
    moreover have "snd (apply_sql q d) = d\<lparr>db_combineds := ?cs\<rparr>"
      using False Rename_Combined by (subst Rename_Combined, subst apply_sql.simps, subst if_not_P) simp_all
    ultimately show ?thesis by simp
  qed
next
  case (Update_Source i url name kind)
  let ?us = "map (\<lambda>s. if so_id s = i then s\<lparr>so_url := url, so_name := name, so_kind := kind\<rparr> else s)
    (db_sources d)"
  have "db_ok E (d\<lparr>db_sources := ?us\<rparr>)"
    using assms Update_Source by (intro sources_replaced) (auto simp: db_ok_def sources_ok_def)
  with Update_Source show ?thesis by simp
next
  case (Insert_User_If_Empty name hash created)
  with assms show ?thesis by (auto simp: db_parts split: option.split)
next
  case (Touch_Session now hash)
  have "map se_hash (map (\<lambda>s. if se_hash s = hash then s\<lparr>se_last := now\<rparr> else s) (db_sessions d))
    = map se_hash (db_sessions d)" by simp
  with assms Touch_Session show ?thesis by (simp add: db_parts del: map_map)
qed (use assms in \<open>auto simp: db_parts distinct_map_filter split: option.split\<close>)

section \<open>Transactions\<close>

text \<open>What a committed transaction leaves behind.\<close>

definition with_combined :: "int \<Rightarrow> string \<Rightarrow> string \<Rightarrow> int list \<Rightarrow> database \<Rightarrow> database" where
  "with_combined i name created ids d = d\<lparr>db_combineds_seq := i,
     db_combineds := db_combineds d @ [\<lparr>cb_id = i, cb_name = name, cb_created = created\<rparr>],
     db_members := db_members d @ new_members i ids d\<rparr>"

definition with_members :: "int \<Rightarrow> int list \<Rightarrow> database \<Rightarrow> database" where
  "with_members cid ids d = d\<lparr>db_members := filter (\<lambda>(c, s). c \<noteq> cid) (db_members d)
     @ map (Pair cid) (filter (\<lambda>sid. sid \<in> set ids) (map so_id (db_sources d)))\<rparr>"

lemma faulty_cases:
  obtains e fs' where "faulty fs q d = (Inl e, d, fs')" | fs' where "faulty fs q d = (fst (apply_sql q d), snd (apply_sql q d), fs')"
proof (cases "pop fs")
  case (Pair x fs')
  then show ?thesis using that by (cases x) (auto simp: faulty_def split: prod.splits)
qed

lemma insert_members_cases:
  obtains e d' fs' where "insert_members_sql fs cid ids d = (Inl e, d', fs')"
  | r fs' where "insert_members_sql fs cid ids d =
      (Inr r, d\<lparr>db_members := db_members d @ new_members cid ids d\<rparr>, fs')"
proof (cases "ids = []")
  case True
  then show ?thesis using that(2) [of Done fs] by (simp add: insert_members_sql_def new_members_def)
next
  case False
  show ?thesis
  proof (cases rule: faulty_cases [of fs "Insert_Members cid ids" d])
    case (1 e fs')
    with False show ?thesis using that(1) by (simp add: insert_members_sql_def)
  next
    case (2 fs')
    with False show ?thesis using that by (auto simp: insert_members_sql_def split: if_splits)
  qed
qed

lemma insert_combined_cases:
  obtains e d' fs' where "faulty fs (Insert_Combined name created) d = (Inl e, d', fs')"
  | i fs' where "next_id (db_combineds_seq d) = Some i" "name \<notin> cb_name ` set (db_combineds d)"
      "faulty fs (Insert_Combined name created) d = (Inr (Row_Id i), d\<lparr>db_combineds_seq := i,
         db_combineds := db_combineds d @ [\<lparr>cb_id = i, cb_name = name, cb_created = created\<rparr>]\<rparr>, fs')"
proof (cases rule: faulty_cases [of fs "Insert_Combined name created" d])
  case (1 e fs')
  then show ?thesis using that(1) by simp
next
  case (2 fs')
  then show ?thesis using that
    by (cases "name \<in> cb_name ` set (db_combineds d)"; cases "next_id (db_combineds_seq d)") simp_all
qed

lemma create_tx_cases:
  obtains (undone) e where "create_combined_tx fs name created ids d = (Inl e, d)"
  | (refused) e where "create_combined_tx fs name created ids d = (Inr (Insert_Failed e), d)"
  | (committed) i where "next_id (db_combineds_seq d) = Some i" "name \<notin> cb_name ` set (db_combineds d)"
      "create_combined_tx fs name created ids d = (Inr (Row_Id i), with_combined i name created ids d)"
proof (cases rule: faulty_cases [of fs Begin d])
  case (1 e fs')
  then show ?thesis using undone by (simp add: create_combined_tx_def)
next
  case b: (2 f1)
  show ?thesis
  proof (cases rule: insert_combined_cases [of f1 name created d])
    case (1 e d' fs')
    with b show ?thesis using refused by (simp add: create_combined_tx_def)
  next
    case c: (2 i f2)
    define d1 where "d1 = d\<lparr>db_combineds_seq := i,
      db_combineds := db_combineds d @ [\<lparr>cb_id = i, cb_name = name, cb_created = created\<rparr>]\<rparr>"
    have w: "d1\<lparr>db_members := db_members d1 @ new_members i ids d1\<rparr> = with_combined i name created ids d"
      by (simp add: d1_def with_combined_def new_members_def)
    show ?thesis
    proof (cases rule: insert_members_cases [of f2 i ids d1])
      case (1 e d' fs')
      with b c show ?thesis using undone by (simp add: create_combined_tx_def d1_def)
    next
      case m: (2 r f3)
      with b c w show ?thesis using undone committed
        by (cases rule: faulty_cases [of f3 Commit "with_combined i name created ids d"])
          (simp_all add: create_combined_tx_def d1_def)
    qed
  qed
qed

lemma replace_tx_cases:
  obtains (undone) e where "replace_members_tx fs cid ids d = (Inl e, d)"
  | (committed) "replace_members_tx fs cid ids d = (Inr Done, with_members cid ids d)"
      "cid \<in> cb_id ` set (db_combineds d) \<or> set ids \<inter> so_id ` set (db_sources d) = {}"
proof (cases rule: faulty_cases [of fs Begin d])
  case (1 e fs')
  then show ?thesis using undone by (simp add: replace_members_tx_def)
next
  case b: (2 f1)
  show ?thesis
  proof (cases rule: faulty_cases [of f1 "Delete_Members cid" d])
    case (1 e fs')
    with b show ?thesis using undone by (simp add: replace_members_tx_def)
  next
    case c: (2 f2)
    define d1 where "d1 = d\<lparr>db_members := filter (\<lambda>(c, s). c \<noteq> cid) (db_members d)\<rparr>"
    have new: "new_members cid ids d1 = map (Pair cid) (filter (\<lambda>sid. sid \<in> set ids) (map so_id (db_sources d)))"
      by (simp add: new_members_def d1_def cong: filter_cong)
    show ?thesis
    proof (cases rule: insert_members_cases [of f2 cid ids d1])
      case (1 e d' fs')
      with b c show ?thesis using undone by (simp add: replace_members_tx_def d1_def)
    next
      case m: (2 r f3)
      have w: "d1\<lparr>db_members := db_members d1 @ new_members cid ids d1\<rparr> = with_members cid ids d"
        unfolding new by (simp add: d1_def with_members_def)
      have ref: "cid \<in> cb_id ` set (db_combineds d) \<or> new_members cid ids d1 = []"
        using m by (auto simp: insert_members_sql_def faulty_def d1_def new_members_def
            split: if_splits prod.splits option.splits)
      then have ref': "cid \<in> cb_id ` set (db_combineds d) \<or> set ids \<inter> so_id ` set (db_sources d) = {}"
        unfolding new by (auto simp: filter_empty_conv)
      show ?thesis
      proof (cases rule: faulty_cases [of f3 Commit "with_members cid ids d"])
        case (1 e fs')
        with b c m w show ?thesis using undone by (simp add: replace_members_tx_def d1_def)
      next
        case (2 fs')
        with b c m w ref' show ?thesis using committed by (simp add: replace_members_tx_def d1_def)
      qed
    qed
  qed
qed

lemma with_combined_keeps:
  assumes "db_ok E d" and "valid_combined_name name"
    and "next_id (db_combineds_seq d) = Some i" and "name \<notin> cb_name ` set (db_combineds d)"
  shows "db_ok E (with_combined i name created ids d)"
proof -
  let ?d1 = "snd (apply_sql (Insert_Combined name created) d)"
  have "db_ok E ?d1" using assms by (intro apply_sql_keeps) auto
  then have "db_ok E (snd (apply_sql (Insert_Members i ids) ?d1))" by (rule apply_sql_keeps) simp
  moreover have "snd (apply_sql (Insert_Members i ids) ?d1) = with_combined i name created ids d"
    using assms(3,4) by (simp add: with_combined_def new_members_def)
  ultimately show ?thesis by simp
qed

lemma with_members_keeps:
  assumes "db_ok E d"
    and "cid \<in> cb_id ` set (db_combineds d) \<or> set ids \<inter> so_id ` set (db_sources d) = {}"
  shows "db_ok E (with_members cid ids d)"
proof -
  let ?d1 = "snd (apply_sql (Delete_Members cid) d)"
  have "db_ok E ?d1" using assms(1) by (intro apply_sql_keeps) auto
  then have "db_ok E (snd (apply_sql (Insert_Members cid ids) ?d1))" by (rule apply_sql_keeps) simp
  moreover have "new_members cid ids ?d1 = map (Pair cid) (filter (\<lambda>sid. sid \<in> set ids) (map so_id (db_sources d)))"
    by (simp add: new_members_def cong: filter_cong)
  then have "snd (apply_sql (Insert_Members cid ids) ?d1) = with_members cid ids d"
    using assms(2) by (auto simp: with_members_def filter_empty_conv)
  ultimately show ?thesis by simp
qed

lemma exec_Single: "exec fs (Single q) d = (case fst (pop fs) of Some e \<Rightarrow> (Inl e, d) | None \<Rightarrow> apply_sql q d)"
  by (cases "pop fs") (auto simp: exec_def faulty_def split: option.splits prod.splits)

theorem exec_keeps:
  assumes "db_ok E d" and "permitted E s"
  shows "db_ok E (snd (exec fs s d))"
proof (cases s)
  case (Single q)
  with assms show ?thesis by (auto simp: exec_Single apply_sql_keeps split: option.split)
next
  case (Create_Combined_Tx name created ids)
  with assms show ?thesis
    by (cases rule: create_tx_cases [of fs name created ids d]) (auto simp: exec_def with_combined_keeps)
next
  case (Replace_Members_Tx cid ids)
  with assms show ?thesis
    by (cases rule: replace_tx_cases [of fs cid ids d]) (simp_all add: exec_def with_members_keeps)
qed

text \<open>The contract of the programs over this database.\<close>

interpretation db: statement_invariant exec "db_ok E" "permitted E" for E
  by unfold_locales (rule exec_keeps)

lemma empty_db_ok: "db_ok E empty_db"
  by (simp add: empty_db_def db_parts keyed_def)

section \<open>Programs of statements\<close>

text \<open>The environment without faults.\<close>

definition calm :: "faults \<Rightarrow> bool" where
  "calm fs \<longleftrightarrow> list_all (\<lambda>x. x = None) fs"

abbreviation any_faults :: "faults \<Rightarrow> bool" where
  "any_faults fs \<equiv> True"

lemma wp_sql [simp]:
  "wp any_faults exec (sql q) Q d \<longleftrightarrow>
     (\<forall>e. Q (Err e) d) \<and> Q (of_sum (fst (apply_sql q d))) (snd (apply_sql q d))"
proof
  assume "wp any_faults exec (sql q) Q d"
  then have all: "Q (of_sum (fst (exec fs (Single q) d))) (snd (exec fs (Single q) d))" for fs
    by (simp add: sql_def)
  have "Q (Err e) d" for e using all [of "[Some e]"] by (simp add: exec_Single)
  with all [of "[]"] show "(\<forall>e. Q (Err e) d) \<and> Q (of_sum (fst (apply_sql q d))) (snd (apply_sql q d))"
    by (simp add: exec_Single)
next
  assume "(\<forall>e. Q (Err e) d) \<and> Q (of_sum (fst (apply_sql q d))) (snd (apply_sql q d))"
  then show "wp any_faults exec (sql q) Q d"
    by (simp add: sql_def exec_Single split: option.split)
qed

lemma wp_sql_calm [simp]:
  "wp calm exec (sql q) Q d \<longleftrightarrow> Q (of_sum (fst (apply_sql q d))) (snd (apply_sql q d))"
proof -
  have "exec fs (Single q) d = apply_sql q d" if "calm fs" for fs
    using that by (cases fs) (auto simp: exec_Single calm_def)
  moreover have "calm []" by (simp add: calm_def)
  ultimately show ?thesis by (auto simp: sql_def)
qed

lemma issues_sql [simp]: "issues S (sql q) \<longleftrightarrow> S (Single q)"
  by (simp add: sql_def)

lemma issues_tx [simp]: "issues S (tx s) \<longleftrightarrow> S s"
  by (simp add: tx_def)

lemma wp_tx: "wp G exec (tx s) Q d \<longleftrightarrow> (\<forall>fs. G fs \<longrightarrow> Q (of_sum (fst (exec fs s d))) (snd (exec fs s d)))"
  by (simp add: tx_def)

end
