(* ===== verification/Settings.thy ===== *)
theory Settings
  imports Db Formats
begin

text \<open>
  The configuration of the process from its environment (\<open>config.rs\<close>), the factory template
  of \<open>routes/clash_config.rs\<close>, the settings table (\<open>get_setting\<close> and \<open>set_setting\<close> of \<open>db.rs\<close>)
  and what every handler of the server answers.
\<close>

section \<open>Configuration\<close>

record app_config =
  cfg_port :: u16
  cfg_db_path :: string
  cfg_concurrency :: nat
  cfg_timeout_secs :: nat
  cfg_max_nodes :: nat
  cfg_web_dist :: string
  cfg_session_ttl_days :: nat

text \<open>\<open>env\<close> gives the variables that are set and are UTF-8; numbers are 64-bit.\<close>

definition parse_u64 :: "string \<Rightarrow> nat option" where
  "parse_u64 = parse_unsigned (2 ^ 64)"

definition from_env :: "(string \<Rightarrow> string option) \<Rightarrow> app_config" where
  "from_env env =
     \<lparr>cfg_port = unwrap_or 8080 (Option.bind (env ''PORT'') parse_u16),
      cfg_db_path = unwrap_or ''./submerge.db'' (env ''DATABASE_PATH''),
      cfg_concurrency = unwrap_or 8 (Option.bind (env ''CONCURRENCY'') parse_u64),
      cfg_timeout_secs = unwrap_or 15 (Option.bind (env ''TIMEOUT_SECS'') parse_u64),
      cfg_max_nodes = unwrap_or 2000 (Option.bind (env ''MAX_NODES'') parse_u64),
      cfg_web_dist = unwrap_or ''./web/dist'' (env ''WEB_DIST''),
      cfg_session_ttl_days = unwrap_or 30 (Option.bind (env ''SESSION_TTL_DAYS'') parse_u64)\<rparr>"

section \<open>The factory template\<close>

definition in_quotes :: "string \<Rightarrow> string" where
  "in_quotes s = CHR 0x22 # s @ [CHR 0x22]"

definition default_template :: string where
  "default_template = concat (map (\<lambda>l. l @ nl)
    [''mixed-port: 7890'',
     ''allow-lan: false'',
     ''mode: rule'',
     ''log-level: info'',
     [],
     ''ipv6: false'',
     [],
     ''dns:'',
     ''  enable: true'',
     ''  listen: 0.0.0.0:53'',
     ''  ipv6: false'',
     ''  enhanced-mode: fake-ip'',
     ''  fake-ip-range: 198.18.0.1/16'',
     ''  fake-ip-filter:'',
     ''    - '' @ in_quotes ''*.lan'',
     ''    - '' @ in_quotes ''*.local'',
     ''    - '' @ in_quotes ''+.msftconnecttest.com'',
     ''    - '' @ in_quotes ''+.msftncsi.com'',
     ''    - '' @ in_quotes ''time.*.com'',
     ''    - '' @ in_quotes ''time.*.gov'',
     ''    - '' @ in_quotes ''time.*.edu.cn'',
     ''    - '' @ in_quotes ''*.ntp.org.cn'',
     ''    - '' @ in_quotes ''*.pool.ntp.org'',
     ''    - '' @ in_quotes ''time.cloudflare.com'',
     ''  nameserver:'',
     ''    - 119.29.29.29'',
     ''  fallback:'',
     ''    - 1.1.1.1'',
     ''  proxy-server-nameserver:'',
     ''    - 119.29.29.29'',
     ''  nameserver-policy:'',
     ''    '' @ in_quotes ''geosite:cn'' @ '':'',
     ''      - 119.29.29.29'',
     ''  fallback-filter:'',
     ''    geoip: true'',
     ''    geoip-code: CN'',
     ''    ipcidr:'',
     ''      - 240.0.0.0/4'',
     [],
     ''rule-providers:'',
     ''  geosite-google:'',
     ''    type: http'',
     ''    behavior: domain'',
     ''    format: mrs'',
     ''    url: '' @ in_quotes ''https://gh-proxy.org/https://github.com/MetaCubeX/meta-rules-dat/raw/meta/geo/geosite/google.mrs'',
     ''    path: ./ruleset/geosite-google.mrs'',
     ''    interval: 86400'',
     ''  geosite-youtube:'',
     ''    type: http'',
     ''    behavior: domain'',
     ''    format: mrs'',
     ''    url: '' @ in_quotes ''https://gh-proxy.org/https://github.com/MetaCubeX/meta-rules-dat/raw/meta/geo/geosite/youtube.mrs'',
     ''    path: ./ruleset/geosite-youtube.mrs'',
     ''    interval: 86400'',
     ''  geosite-nodeseek:'',
     ''    type: http'',
     ''    behavior: domain'',
     ''    format: mrs'',
     ''    url: '' @ in_quotes ''https://gh-proxy.org/https://github.com/MetaCubeX/meta-rules-dat/raw/meta/geo/geosite/nodeseek.mrs'',
     ''    path: ./ruleset/geosite-nodeseek.mrs'',
     ''    interval: 86400'',
     ''  geosite-cn:'',
     ''    type: http'',
     ''    behavior: domain'',
     ''    format: mrs'',
     ''    url: '' @ in_quotes ''https://gh-proxy.org/https://github.com/MetaCubeX/meta-rules-dat/raw/meta/geo/geosite/cn.mrs'',
     ''    path: ./ruleset/geosite-cn.mrs'',
     ''    interval: 86400'',
     ''  geoip-cn:'',
     ''    type: http'',
     ''    behavior: ipcidr'',
     ''    format: mrs'',
     ''    url: '' @ in_quotes ''https://gh-proxy.org/https://github.com/MetaCubeX/meta-rules-dat/raw/meta/geo/geoip/cn.mrs'',
     ''    path: ./ruleset/geoip-cn.mrs'',
     ''    interval: 86400'',
     [],
     ''rules:'',
     ''  - RULE-SET,geosite-google,'' @ node_choice,
     ''  - RULE-SET,geosite-youtube,'' @ node_choice,
     ''  - RULE-SET,geosite-nodeseek,'' @ node_choice,
     ''  - RULE-SET,geosite-cn,DIRECT'',
     ''  - RULE-SET,geoip-cn,DIRECT'',
     ''  - MATCH,'' @ node_choice])"

section \<open>Answers\<close>

record combined_dto =
  cd_id :: int
  cd_name :: string
  cd_created :: string
  cd_source_ids :: "int list"

text \<open>The body of an answer; the status is 200 where no status is shown.\<close>

datatype response =
    Needs_Setup bool
  | Username string
  | Token string
  | No_Content
  | Config_Dto string bool
  | Template string
  | Source_List "source_row list"
  | Source_Created source_row
  | Source_Dto source_row
  | Refreshed string "string + nat"
  | Combined_List "combined_dto list"
  | Combined_Created combined_dto
  | Combined_Dto combined_dto
  | Preview "(string \<times> string \<times> string \<times> u16) list" "string list" nat
  | Subscription string

section \<open>The settings table\<close>

fun reply_text :: "reply \<Rightarrow> string option" where
  "reply_text (Text t) = t"
| "reply_text _ = None"

fun affected :: "reply \<Rightarrow> nat" where
  "affected (Affected n) = n"
| "affected _ = 0"

definition db_sql :: "sql \<Rightarrow> reply action" where
  "db_sql q = map_error Sqlx (sql q)"

definition get_setting :: "string \<Rightarrow> string option action" where
  "get_setting key = await (db_sql (Select_Setting key)) (\<lambda>r. Return (Ok (reply_text r)))"

definition set_setting :: "string \<Rightarrow> string \<Rightarrow> unit action" where
  "set_setting key value = await (db_sql (Upsert_Setting key value)) (\<lambda>_. Return (Ok ()))"

lemma issues_db_sql [simp]: "issues S (db_sql q) \<longleftrightarrow> S (Single q)"
  by (simp add: db_sql_def map_error_def issues_bind sql_def)

end
