(* ===== verification/Accounts.thy ===== *)
theory Accounts
  imports Settings
begin

text \<open>
  Accounts and sessions: the data layer (\<open>create_user_if_empty\<close>, \<open>verify_user\<close>,
  \<open>update_password\<close>, \<open>create_session\<close>, \<open>validate_session\<close> and the deletions of \<open>db.rs\<close>), the
  gate \<open>require_admin\<close> of \<open>auth.rs\<close>, and the handlers of \<open>routes/auth.rs\<close>,
  \<open>routes/config.rs\<close> and \<open>routes/clash_config.rs\<close>. The lemmas say which statements each can
  issue and what the gate leaves behind.
\<close>

section \<open>Users\<close>

fun count_of :: "reply \<Rightarrow> nat" where
  "count_of (Count n) = n"
| "count_of _ = 0"

definition users_empty :: "bool action" where
  "users_empty = await (db_sql Count_Users) (\<lambda>r. Return (Ok (count_of r = 0)))"

definition gen_token :: "server_crates \<Rightarrow> (string \<Rightarrow> 'a action) \<Rightarrow> 'a action" where
  "gen_token C k = Random (\<lambda>buf. k (hex_encode C buf))"

definition hash_password :: "server_crates \<Rightarrow> string \<Rightarrow> string action" where
  "hash_password C password =
     Random (\<lambda>salt. Return (map_err (\<lambda>e. Message (''argon2 hash failed: '' @ e))
       (of_sum (argon2_hash C salt password))))"

definition verify_password_hash :: "server_crates \<Rightarrow> string \<Rightarrow> string \<Rightarrow> bool" where
  "verify_password_hash C password stored \<longleftrightarrow> phc_parse C stored \<and> argon2_verify C password stored"

definition now_rfc3339 :: "server_crates \<Rightarrow> (string \<Rightarrow> ('s, 'r, 'a) prog) \<Rightarrow> ('s, 'r, 'a) prog" where
  "now_rfc3339 C k = Clock (\<lambda>t. k (to_rfc3339 C t))"

definition create_user :: "server_crates \<Rightarrow> string \<Rightarrow> string \<Rightarrow> unit action" where
  "create_user C username password =
     await (hash_password C password) (\<lambda>hash.
     now_rfc3339 C (\<lambda>created_at.
     await (db_sql (Insert_User username hash created_at)) (\<lambda>_. Return (Ok ()))))"

definition create_user_if_empty :: "server_crates \<Rightarrow> string \<Rightarrow> string \<Rightarrow> bool action" where
  "create_user_if_empty C username password =
     await (hash_password C password) (\<lambda>hash.
     now_rfc3339 C (\<lambda>created_at.
     await (db_sql (Insert_User_If_Empty username hash created_at)) (\<lambda>res.
     Return (Ok (affected res > 0)))))"

definition dummy_hash :: string where
  "dummy_hash = ''$argon2id$v=19$m=19456,t=2,p=1$ZzWOQI/mqH81rndoNXBf7A'' @
     ''$kBTvZXE45uPlI/LkuR50OQhpbmi4h0IvXnSSwhogAos''"

text \<open>For an unknown name the dummy hash is verified too, for its time only.\<close>

definition verify_user :: "server_crates \<Rightarrow> string \<Rightarrow> string \<Rightarrow> bool action" where
  "verify_user C username password =
     await (db_sql (Select_Password_Hash username)) (\<lambda>row.
     case reply_text row of
       Some stored \<Rightarrow> Return (Ok (verify_password_hash C password stored))
     | None \<Rightarrow> (let verified = verify_password_hash C password dummy_hash in Return (Ok False)))"

definition update_password :: "server_crates \<Rightarrow> string \<Rightarrow> string \<Rightarrow> unit action" where
  "update_password C username new_password =
     await (hash_password C new_password) (\<lambda>hash.
     await (db_sql (Update_Password_Hash hash username)) (\<lambda>res.
     if affected res = 0 then Return (Err (Message (''no user with username '' @ username)))
     else Return (Ok ())))"

definition get_username :: "string option action" where
  "get_username = await (db_sql Select_Username) (\<lambda>r. Return (Ok (reply_text r)))"

section \<open>Sessions\<close>

definition second :: int where
  "second = 1000000000"

definition nanos_per_day :: int where
  "nanos_per_day = 86400 * second"

text \<open>\<open>with_nanosecond(0)\<close>: the beginning of the second.\<close>

definition whole_second :: "int \<Rightarrow> int" where
  "whole_second t = t - t mod second"

text \<open>
  \<open>i64::try_from\<close> and \<open>TimeDelta::try_days\<close>: a time delta holds at most \<open>i64::MAX\<close>
  milliseconds, that is 106751991167 days.
\<close>

definition try_days :: "nat \<Rightarrow> int option" where
  "try_days days = (if days \<le> 106751991167 then Some (int days * nanos_per_day) else None)"

definition session_ttl :: "nat \<Rightarrow> int option" where
  "session_ttl ttl_days =
     (if ttl_days < 2 ^ 63 \<and> 0 < ttl_days then try_days ttl_days else None)"

text \<open>Adding a time delta to a \<open>DateTime\<close>: the sum panics when no \<open>DateTime\<close> can hold it.\<close>

definition datetime_add :: "server_crates \<Rightarrow> int \<Rightarrow> int \<Rightarrow> (int, any_error) outcome" where
  "datetime_add C t delta = (if datetime_range C (t + delta) then Ok (t + delta) else Panic)"

definition create_session :: "server_crates \<Rightarrow> string action" where
  "create_session C =
     gen_token C (\<lambda>token.
     Clock (\<lambda>t.
     let now = to_rfc3339 C (whole_second t) in
     await (db_sql (Insert_Session (sha256_hex C token) now now)) (\<lambda>_.
     Return (Ok token))))"

text \<open>The clock is read only where the comparison needs it.\<close>

definition expired :: "server_crates \<Rightarrow> int \<Rightarrow> string \<Rightarrow> bool action" where
  "expired C ttl last_used =
     (case parse_rfc3339 C last_used of
        Some since \<Rightarrow> check (datetime_add C since ttl) (\<lambda>limit. Clock (\<lambda>now. Return (Ok (limit < now))))
      | None \<Rightarrow> Return (Ok True))"

definition slide_session :: "server_crates \<Rightarrow> string \<Rightarrow> bool action" where
  "slide_session C hash =
     Clock (\<lambda>t.
     await (db_sql (Touch_Session (to_rfc3339 C (whole_second t)) hash)) (\<lambda>_. Return (Ok True)))"

definition validate_session :: "server_crates \<Rightarrow> string \<Rightarrow> nat \<Rightarrow> bool action" where
  "validate_session C token ttl_days =
     (let hash = sha256_hex C token in
     await (db_sql (Select_Last_Used hash)) (\<lambda>row.
     case reply_text row of
       None \<Rightarrow> Return (Ok False)
     | Some last_used \<Rightarrow>
         (case session_ttl ttl_days of
            None \<Rightarrow> slide_session C hash
          | Some ttl \<Rightarrow>
              await (expired C ttl last_used) (\<lambda>expired.
              if expired
              then await (db_sql (Delete_Session hash)) (\<lambda>_. Return (Ok False))
              else slide_session C hash))))"

definition delete_expired_sessions :: "server_crates \<Rightarrow> nat \<Rightarrow> unit action" where
  "delete_expired_sessions C ttl_days =
     (case session_ttl ttl_days of
        None \<Rightarrow> Return (Ok ())
      | Some ttl \<Rightarrow>
          Clock (\<lambda>now.
          check (datetime_add C now (- ttl)) (\<lambda>cutoff.
          await (db_sql (Delete_Sessions_Before (to_rfc3339 C (whole_second cutoff)))) (\<lambda>_.
          Return (Ok ())))))"

definition delete_session :: "server_crates \<Rightarrow> string \<Rightarrow> unit action" where
  "delete_session C token =
     await (db_sql (Delete_Session (sha256_hex C token))) (\<lambda>_. Return (Ok ()))"

definition delete_all_sessions :: "unit action" where
  "delete_all_sessions = await (db_sql Delete_All_Sessions) (\<lambda>_. Return (Ok ()))"

section \<open>The gate\<close>

text \<open>The question mark on a result of the data layer.\<close>

definition any :: "server_crates \<Rightarrow> 'a action \<Rightarrow> 'a handler" where
  "any C = map_error (from_any C)"

definition require_admin :: "server_crates \<Rightarrow> app_config \<Rightarrow> headers \<Rightarrow> unit handler" where
  "require_admin C cfg headers =
     (case parse_bearer headers of
        Err msg \<Rightarrow> Return (Err (unauthorized msg))
      | Panic \<Rightarrow> Return Panic
      | Ok token \<Rightarrow>
          await (any C (validate_session C token (cfg_session_ttl_days cfg))) (\<lambda>valid.
          if valid then Return (Ok ()) else Return (Err (unauthorized ''invalid session''))))"

section \<open>Handlers of \<open>routes/auth.rs\<close>\<close>

record setup_request =
  su_username :: string
  su_password :: string
  su_password_confirm :: string

record login_request =
  li_username :: string
  li_password :: string

text \<open>A body that axum extracted, or its rejection.\<close>

type_synonym 'b body = "rejection + 'b"

definition json_body :: "'b body \<Rightarrow> ('b, api_error) outcome" where
  "json_body b = map_err from_json_rejection (of_sum b)"

definition setup_status :: "server_crates \<Rightarrow> response handler" where
  "setup_status C = await (any C users_empty) (\<lambda>needs_setup. Return (Ok (Needs_Setup needs_setup)))"

definition setup_handler :: "server_crates \<Rightarrow> setup_request body \<Rightarrow> response handler" where
  "setup_handler C body =
     check (json_body body) (\<lambda>b.
     let username = trim (su_username b) in
     if \<not> valid_username username
     then Return (Err (bad_request ''username must match [A-Za-z0-9-_] (1-64 chars)''))
     else if length (su_password b) < 8
     then Return (Err (bad_request ''password must be at least 8 characters''))
     else if su_password b \<noteq> su_password_confirm b
     then Return (Err (bad_request ''passwords do not match''))
     else bind (create_user_if_empty C username (su_password b)) (\<lambda>created.
       Return (case created of
         Ok True \<Rightarrow> Ok (Username username)
       | Ok False \<Rightarrow> Err (conflict ''admin user already exists'')
       | Err e \<Rightarrow>
           if (case e of Sqlx d \<Rightarrow> is_unique_violation d | Message _ \<Rightarrow> False)
           then Err (conflict ''admin user already exists'')
           else Err (from_any C e)
       | Panic \<Rightarrow> Panic)))"

definition login :: "server_crates \<Rightarrow> login_request body \<Rightarrow> response handler" where
  "login C body =
     check (json_body body) (\<lambda>b.
     await (any C (verify_user C (trim (li_username b)) (li_password b))) (\<lambda>verified.
     if \<not> verified then Return (Err (unauthorized ''invalid username or password''))
     else await (any C (create_session C)) (\<lambda>token. Return (Ok (Token token)))))"

definition logout :: "server_crates \<Rightarrow> headers \<Rightarrow> response handler" where
  "logout C headers =
     (case extract_bearer headers of
        None \<Rightarrow> Return (Err (unauthorized ''missing authorization header''))
      | Some token \<Rightarrow> await (any C (delete_session C token)) (\<lambda>_. Return (Ok No_Content)))"

section \<open>Handlers of \<open>routes/config.rs\<close>\<close>

record change_password =
  cp_old :: string
  cp_new :: string

record update_config_body =
  uc_change_password :: "change_password option"
  uc_v2ray_base64 :: "bool option"

definition config_dto :: "server_crates \<Rightarrow> response handler" where
  "config_dto C =
     await (any C get_username) (\<lambda>name.
     check (ok_or (internal ''no admin user'') name) (\<lambda>username.
     await (any C (get_setting v2ray_b64_key)) (\<lambda>setting.
     Return (Ok (Config_Dto username (setting \<noteq> Some ''0''))))))"

definition get_config :: "server_crates \<Rightarrow> app_config \<Rightarrow> headers \<Rightarrow> response handler" where
  "get_config C cfg headers = await (require_admin C cfg headers) (\<lambda>_. config_dto C)"

definition change_admin_password :: "server_crates \<Rightarrow> change_password \<Rightarrow> unit handler" where
  "change_admin_password C cp =
     await (any C get_username) (\<lambda>name.
     check (ok_or (internal ''no admin user'') name) (\<lambda>username.
     await (any C (verify_user C username (cp_old cp))) (\<lambda>verified.
     if \<not> verified then Return (Err (bad_request ''old password is incorrect''))
     else if length (cp_new cp) < 8
     then Return (Err (bad_request ''password must be at least 8 characters''))
     else await (any C (update_password C username (cp_new cp))) (\<lambda>_.
          any C delete_all_sessions))))"

definition update_config ::
  "server_crates \<Rightarrow> app_config \<Rightarrow> headers \<Rightarrow> update_config_body body \<Rightarrow> response handler" where
  "update_config C cfg headers body =
     await (require_admin C cfg headers) (\<lambda>_.
     check (json_body body) (\<lambda>b.
     await (case uc_change_password b of
              None \<Rightarrow> Return (Ok ())
            | Some cp \<Rightarrow> change_admin_password C cp) (\<lambda>_.
     await (case uc_v2ray_base64 b of
              None \<Rightarrow> Return (Ok ())
            | Some v \<Rightarrow> any C (set_setting v2ray_b64_key (if v then ''1'' else ''0''))) (\<lambda>_.
     config_dto C))))"

section \<open>Handlers of \<open>routes/clash_config.rs\<close>\<close>

definition get_clash_config :: "server_crates \<Rightarrow> app_config \<Rightarrow> headers \<Rightarrow> response handler" where
  "get_clash_config C cfg headers =
     await (require_admin C cfg headers) (\<lambda>_.
     await (any C (get_setting template_key)) (\<lambda>setting.
     Return (Ok (Template (unwrap_or default_template setting)))))"

definition put_clash_config ::
  "server_crates \<Rightarrow> app_config \<Rightarrow> headers \<Rightarrow> string body \<Rightarrow> response handler" where
  "put_clash_config C cfg headers body =
     await (require_admin C cfg headers) (\<lambda>_.
     check (json_body body) (\<lambda>template.
     check (map_err (\<lambda>e. bad_request (''invalid YAML: '' @ e))
       (of_sum (yaml_from_str (codecs C) template))) (\<lambda>v.
     if \<not> is_mapping v then Return (Err (bad_request ''template must be a YAML mapping''))
     else await (any C (set_setting template_key template)) (\<lambda>_.
          Return (Ok (Template template))))))"

section \<open>What they can issue\<close>

text \<open>No handler but those below writes; each writes only what the invariant permits.\<close>

named_theorems issues \<open>the statements a handler can issue\<close>

lemma issues_any: "issues S p \<Longrightarrow> issues S (any C p)"
  by (simp add: any_def issues_map_error)

lemmas issue_rules = issues_intros issues_any

lemma issues_users [issues]:
  "issues (permitted E) users_empty" "issues (permitted E) get_username"
  "issues (permitted E) (create_user_if_empty C n p)" "issues (permitted E) (verify_user C n p)"
  "issues (permitted E) (update_password C n p)"
  by (auto simp: users_empty_def get_username_def create_user_if_empty_def verify_user_def
      update_password_def hash_password_def now_rfc3339_def Let_def split: option.split
      intro!: issue_rules)

lemma issues_sessions [issues]:
  "issues (permitted E) (create_session C)" "issues (permitted E) (validate_session C t n)"
  "issues (permitted E) (delete_session C t)" "issues (permitted E) delete_all_sessions"
  "issues (permitted E) (delete_expired_sessions C n)"
  by (auto simp: create_session_def gen_token_def validate_session_def expired_def slide_session_def
      delete_session_def delete_all_sessions_def delete_expired_sessions_def Let_def
      split: option.split intro!: issue_rules)

lemma issues_settings [issues]:
  "issues (permitted E) (get_setting k)"
  "setting_ok E k v \<Longrightarrow> issues (permitted E) (set_setting k v)"
  by (auto simp: get_setting_def set_setting_def intro!: issue_rules)

lemma issues_gate [issues]: "issues (permitted E) (require_admin C cfg h)"
  by (auto simp: require_admin_def issues split: outcome.split intro!: issue_rules)

lemma issues_auth_routes [issues]:
  "issues (permitted E) (setup_status C)" "issues (permitted E) (setup_handler C su)"
  "issues (permitted E) (login C li)" "issues (permitted E) (logout C h)"
  by (auto simp: setup_status_def setup_handler_def login_def logout_def Let_def issues
      split: outcome.split option.split intro!: issue_rules)

lemma issues_config_dto [issues]: "issues (permitted E) (config_dto C)"
  by (auto simp: config_dto_def issues intro!: issue_rules)

lemma issues_change_password [issues]: "issues (permitted E) (change_admin_password C cp)"
  by (auto simp: change_admin_password_def issues intro!: issue_rules)

lemma issues_config_routes [issues]:
  "issues (permitted E) (get_config C cfg h)" "issues (permitted E) (update_config C cfg h uc)"
  by (auto simp: get_config_def update_config_def issues setting_ok_def
      split: option.split intro!: issue_rules)

lemma issues_clash_routes [issues]:
  "issues (permitted E) (get_clash_config C cfg h)"
  "codecs C = E \<Longrightarrow> issues (permitted E) (put_clash_config C cfg h t)"
  by (auto simp: get_clash_config_def put_clash_config_def issues setting_ok_def template_ok_def
      json_body_def outcome_simps intro!: issue_rules)

end
