(* ===== verification/Fetch.thy ===== *)
theory Fetch
  imports Accounts Parser
begin

text \<open>
  \<open>service.rs\<close>: fetching a source with a cap on the body, and the concurrent fetch of a set
  of sources whose results are merged in the order the tasks end.
\<close>

section \<open>One source\<close>

definition max_body_bytes :: nat where
  "max_body_bytes = 16 * 1024 * 1024"

text \<open>The loop over the chunks: a chunk that does not fit is cut, and ends the loop.\<close>

fun read_body :: "(string + string) list \<Rightarrow> string \<Rightarrow> string + string" where
  "read_body [] buf = Inr buf"
| "read_body (Inl e # chunks) buf = Inl (''read body failed: '' @ e)"
| "read_body (Inr chunk # chunks) buf =
     (if length buf + length chunk > max_body_bytes
      then let remaining = max_body_bytes - length buf in Inr (buf @ take remaining chunk)
      else read_body chunks (buf @ chunk))"

definition is_success :: "nat \<Rightarrow> bool" where
  "is_success status \<longleftrightarrow> 200 \<le> status \<and> status < 300"

definition fetch_text :: "http_reply \<Rightarrow> string + string" where
  "fetch_text r =
     (case r of
        Send_Failed e \<Rightarrow> Inl (''request failed: '' @ e)
      | Response status shown chunks \<Rightarrow>
          if \<not> is_success status then Inl (''http status '' @ shown)
          else (case read_body chunks [] of
                  Inl e \<Rightarrow> Inl e
                | Inr buf \<Rightarrow> if utf8_valid buf then Inr buf else Inl ''body is not valid utf-8''))"

definition fetch_source :: "string \<Rightarrow> ('s, 'r, string + string) prog" where
  "fetch_source url = Fetch url (\<lambda>r. Return (fetch_text r))"

section \<open>All sources\<close>

record source_error =
  sr_name :: string
  sr_reason :: string

text \<open>What a task ends with; \<open>None\<close> stands for a task that panicked.\<close>

type_synonym task_result = "(string \<times> (string + proxy_node list)) option"

definition single_nodes :: "crates \<Rightarrow> string \<Rightarrow> (string + proxy_node list) option" where
  "single_nodes E url =
     (case parse_line E url of
        Ok n \<Rightarrow> Some (Inr [n])
      | Err e \<Rightarrow> Some (Inl (''parse failed: '' @ parse_error_text e))
      | Panic \<Rightarrow> None)"

definition remote_nodes :: "crates \<Rightarrow> nat \<Rightarrow> string + string \<Rightarrow> (string + proxy_node list) option" where
  "remote_nodes E max_nodes fetched =
     (case fetched of
        Inl reason \<Rightarrow> Some (Inl reason)
      | Inr t \<Rightarrow>
          map_option (\<lambda>(nodes, skipped).
            if nodes = [] then Inl (''no nodes parsed ('' @ show_nat skipped @ '' line(s) skipped)'')
            else Inr nodes) (parse_subscription_text E t max_nodes))"

definition source_task :: "crates \<Rightarrow> nat \<Rightarrow> source_row \<Rightarrow> ('s, 'r, task_result) prog" where
  "source_task E max_nodes s =
     (if so_kind s = ''single''
      then Return (map_option (Pair (so_name s)) (single_nodes E (so_url s)))
      else bind (fetch_source (so_url s)) (\<lambda>fetched.
           Return (map_option (Pair (so_name s)) (remote_nodes E max_nodes fetched))))"

text \<open>
  The tasks share nothing but the limit on how many run at a time, so their order matters only
  where their results are collected.
\<close>

fun source_tasks :: "crates \<Rightarrow> nat \<Rightarrow> source_row list \<Rightarrow> ('s, 'r, task_result list) prog" where
  "source_tasks E max_nodes [] = Return []"
| "source_tasks E max_nodes (s # ss) =
     bind (source_task E max_nodes s) (\<lambda>r.
     bind (source_tasks E max_nodes ss) (\<lambda>rs. Return (r # rs)))"

fun collect :: "task_result list \<Rightarrow> proxy_node list \<Rightarrow> source_error list \<Rightarrow> proxy_node list \<times> source_error list"
where
  "collect [] all_nodes errors = (all_nodes, errors)"
| "collect (None # rs) all_nodes errors = collect rs all_nodes errors"
| "collect (Some (name, Inr nodes) # rs) all_nodes errors = collect rs (all_nodes @ nodes) errors"
| "collect (Some (name, Inl reason) # rs) all_nodes errors =
     collect rs all_nodes (errors @ [\<lparr>sr_name = name, sr_reason = reason\<rparr>])"

fun source_rows :: "reply \<Rightarrow> source_row list" where
  "source_rows (Source_Rows rows) = rows"
| "source_rows _ = []"

text \<open>The sources to fetch, and the error of a failed query for the members.\<close>

definition select_sources ::
  "server_crates \<Rightarrow> int list option
     \<Rightarrow> (stmt, db_error + reply, source_row list \<times> source_error list) prog" where
  "select_sources C source_ids =
     (case source_ids of
        Some ids \<Rightarrow>
          if ids \<noteq> [] then
            bind (sql (Select_Sources_In ids)) (\<lambda>r. Return (case r of
              Ok rows \<Rightarrow> (source_rows rows, [])
            | Err e \<Rightarrow> ([], [\<lparr>sr_name = ''combined'', sr_reason = ''member query failed: '' @ sqlx_text C e\<rparr>])
            | Panic \<Rightarrow> ([], [])))
          else Return ([], [])
      | None \<Rightarrow>
          bind (sql Select_Sources) (\<lambda>r. Return (case r of
            Ok rows \<Rightarrow> (source_rows rows, []) | Err e \<Rightarrow> ([], []) | Panic \<Rightarrow> ([], []))))"

definition fetch_and_merge ::
  "server_crates \<Rightarrow> app_config \<Rightarrow> int list option
     \<Rightarrow> (stmt, db_error + reply, proxy_node list \<times> source_error list) prog" where
  "fetch_and_merge C cfg source_ids =
     bind (select_sources C source_ids) (\<lambda>(sources, errors).
     bind (source_tasks (codecs C) (cfg_max_nodes cfg) sources) (\<lambda>results.
     Join (length results) (\<lambda>order.
     let (all_nodes, errors) = collect (map (\<lambda>i. results ! i) order) [] errors
     in Return (take (cfg_max_nodes cfg) all_nodes, errors))))"

section \<open>Lemmas\<close>

text \<open>The loop keeps the buffer within the cap and returns a prefix of the whole body.\<close>

lemma read_body_Inr:
  "read_body chunks buf = Inr body \<Longrightarrow> length buf \<le> max_body_bytes \<Longrightarrow>
     length body \<le> max_body_bytes \<and>
     (\<exists>got rest. chunks = map Inr got @ rest \<and>
        body = take max_body_bytes (buf @ concat got) \<and>
        (rest = [] \<or> max_body_bytes < length (buf @ concat got)))"
proof (induction chunks buf rule: read_body.induct)
  case (1 buf)
  then show ?case by (auto intro: exI [of _ "[]"])
next
  case (2 e chunks buf)
  then show ?case by simp
next
  case (3 chunk chunks buf)
  show ?case
  proof (cases "length buf + length chunk > max_body_bytes")
    case True
    then have "Inr chunk # chunks = map Inr [chunk] @ chunks
      \<and> body = take max_body_bytes (buf @ concat [chunk]) \<and> max_body_bytes < length (buf @ concat [chunk])"
      and "length body \<le> max_body_bytes"
      using 3(2,3) by (auto simp: Let_def)
    then show ?thesis by blast
  next
    case False
    then have "length body \<le> max_body_bytes \<and> (\<exists>got rest. chunks = map Inr got @ rest \<and>
        body = take max_body_bytes ((buf @ chunk) @ concat got) \<and>
        (rest = [] \<or> max_body_bytes < length ((buf @ chunk) @ concat got)))"
      using 3 by simp
    then obtain got rest where *: "length body \<le> max_body_bytes" "chunks = map Inr got @ rest"
        "body = take max_body_bytes ((buf @ chunk) @ concat got)"
        "rest = [] \<or> max_body_bytes < length ((buf @ chunk) @ concat got)" by blast
    then have "Inr chunk # chunks = map Inr (chunk # got) @ rest
      \<and> body = take max_body_bytes (buf @ concat (chunk # got))
      \<and> (rest = [] \<or> max_body_bytes < length (buf @ concat (chunk # got)))" by simp
    with *(1) show ?thesis by blast
  qed
qed

text \<open>Collecting is independent of the order, but for the order of its results.\<close>

definition ok_nodes :: "task_result list \<Rightarrow> proxy_node list" where
  "ok_nodes rs = concat (map (\<lambda>r. case r of Some (_, Inr nodes) \<Rightarrow> nodes | _ \<Rightarrow> []) rs)"

definition failures :: "task_result list \<Rightarrow> source_error list" where
  "failures rs = concat (map (\<lambda>r. case r of
     Some (name, Inl reason) \<Rightarrow> [\<lparr>sr_name = name, sr_reason = reason\<rparr>] | _ \<Rightarrow> []) rs)"

lemma collect_eq: "collect rs ns es = (ns @ ok_nodes rs, es @ failures rs)"
  by (induction rs ns es rule: collect.induct) (simp_all add: ok_nodes_def failures_def)

lemma collected_order:
  assumes "mset js = mset [0..<length rs]"
  shows "mset (map (\<lambda>i. rs ! i) js) = mset rs"
proof -
  have "mset (map (\<lambda>i. rs ! i) js) = image_mset (\<lambda>i. rs ! i) (mset js)" by simp
  also have "\<dots> = mset (map (\<lambda>i. rs ! i) [0..<length rs])" by (simp only: assms mset_map)
  finally show ?thesis by (simp add: map_nth)
qed

lemma mset_concat_map: "mset xs = mset ys \<Longrightarrow> mset (concat (map f xs)) = mset (concat (map f ys))"
  by (simp add: mset_concat image_mset.compositionality comp_def flip: mset_map)
    (metis mset_map sum_mset_sum_list)

lemma ok_nodes_order: "mset rs = mset rs' \<Longrightarrow> mset (ok_nodes rs) = mset (ok_nodes rs')"
  unfolding ok_nodes_def by (rule mset_concat_map)

lemma failures_order: "mset rs = mset rs' \<Longrightarrow> mset (failures rs) = mset (failures rs')"
  unfolding failures_def by (rule mset_concat_map)

section \<open>What the tasks do to the database\<close>

lemma issues_tasks [issues]: "issues S (source_tasks E m ss)"
  by (induction ss) (auto simp: source_task_def fetch_source_def intro!: issue_rules)

lemma issues_fetch [issues]: "issues (permitted E) (fetch_and_merge C cfg ids)"
  by (auto simp: fetch_and_merge_def select_sources_def issues case_prod_beta Let_def split: option.split
      intro!: issue_rules)

lemma wp_tasks_frame: "(\<And>rs. length rs = length ss \<Longrightarrow> Q rs d) \<Longrightarrow> wp G X (source_tasks E m ss) Q d"
  by (induction ss arbitrary: Q) (auto simp: source_task_def fetch_source_def)

end
