(* ===== verification/Sources.thy ===== *)
theory Sources
  imports Fetch
begin

text \<open>
  \<open>routes/sources.rs\<close>: the handlers that list, create, change, delete and refresh sources.
\<close>

section \<open>Requests\<close>

record create_source_body =
  cs_url :: string
  cs_name :: string
  cs_kind :: "string option"

record update_source_body =
  up_url :: "string option"
  up_name :: "string option"
  up_kind :: "string option"

text \<open>An id of the path that axum parsed, or its rejection.\<close>

type_synonym path_id = "rejection + int"

definition path_param :: "path_id \<Rightarrow> (int, api_error) outcome" where
  "path_param p = map_err from_path_rejection (of_sum p)"

definition db_query :: "server_crates \<Rightarrow> sql \<Rightarrow> reply handler" where
  "db_query C q = map_error (from_sqlx C) (sql q)"

fun source_row_of :: "reply \<Rightarrow> source_row option" where
  "source_row_of (Source_Row r) = r"
| "source_row_of _ = None"

section \<open>Handlers\<close>

definition list_sources :: "server_crates \<Rightarrow> app_config \<Rightarrow> headers \<Rightarrow> response handler" where
  "list_sources C cfg headers =
     await (require_admin C cfg headers) (\<lambda>_.
     await (db_query C Select_Sources) (\<lambda>r. Return (Ok (Source_List (source_rows r)))))"

definition kind_error :: api_error where
  "kind_error = bad_request (''kind must be '' @ [CHR 0x27] @ ''single'' @ [CHR 0x27]
     @ '' or '' @ [CHR 0x27] @ ''remote'' @ [CHR 0x27])"

definition create_source ::
  "server_crates \<Rightarrow> app_config \<Rightarrow> headers \<Rightarrow> create_source_body body \<Rightarrow> response handler" where
  "create_source C cfg headers body =
     await (require_admin C cfg headers) (\<lambda>_.
     check (json_body body) (\<lambda>b.
     if cs_url b = [] \<or> cs_name b = [] then Return (Err (bad_request ''url and name required''))
     else
       let kind = unwrap_or ''remote'' (cs_kind b) in
       if \<not> source_kind kind
       then Return (Err kind_error)
       else now_rfc3339 C (\<lambda>created_at.
         await (db_query C (Insert_Source (cs_url b) (cs_name b) kind created_at)) (\<lambda>res.
         Return (Ok (Source_Created
           \<lparr>so_id = last_insert_rowid res, so_url = cs_url b, so_name = cs_name b, so_kind = kind,
            so_created = created_at\<rparr>))))))"

definition update_source ::
  "server_crates \<Rightarrow> app_config \<Rightarrow> headers \<Rightarrow> path_id \<Rightarrow> update_source_body body \<Rightarrow> response handler" where
  "update_source C cfg headers path body =
     await (require_admin C cfg headers) (\<lambda>_.
     check (path_param path) (\<lambda>i.
     check (json_body body) (\<lambda>b.
     await (db_query C (Select_Source i)) (\<lambda>row.
     check (ok_or (not_found ''source not found'') (source_row_of row)) (\<lambda>existing.
     let url = unwrap_or (so_url existing) (up_url b);
         name = unwrap_or (so_name existing) (up_name b);
         kind = unwrap_or (so_kind existing) (up_kind b)
     in if \<not> source_kind kind then Return (Err kind_error)
        else await (db_query C (Update_Source i url name kind)) (\<lambda>_.
             Return (Ok (Source_Dto \<lparr>so_id = i, so_url = url, so_name = name, so_kind = kind,
               so_created = so_created existing\<rparr>))))))))"

definition delete_source ::
  "server_crates \<Rightarrow> app_config \<Rightarrow> headers \<Rightarrow> path_id \<Rightarrow> response handler" where
  "delete_source C cfg headers path =
     await (require_admin C cfg headers) (\<lambda>_.
     check (path_param path) (\<lambda>i.
     await (db_query C (Delete_Source i)) (\<lambda>res.
     if affected res = 0 then Return (Err (not_found ''source not found''))
     else Return (Ok No_Content))))"

definition refresh_single :: "crates \<Rightarrow> source_row \<Rightarrow> (response, api_error) outcome" where
  "refresh_single E s =
     (case parse_line E (so_url s) of
        Ok _ \<Rightarrow> Ok (Refreshed (so_name s) (Inr 1))
      | Err e \<Rightarrow> Ok (Refreshed (so_name s) (Inl (''parse failed: '' @ parse_error_text e)))
      | Panic \<Rightarrow> Panic)"

definition refresh_remote ::
  "crates \<Rightarrow> nat \<Rightarrow> source_row \<Rightarrow> string + string \<Rightarrow> (response, api_error) outcome" where
  "refresh_remote E max_nodes s fetched =
     (case fetched of
        Inl reason \<Rightarrow> Ok (Refreshed (so_name s) (Inl reason))
      | Inr t \<Rightarrow>
          (case parse_subscription_text E t max_nodes of
             None \<Rightarrow> Panic
           | Some (nodes, _) \<Rightarrow>
               if nodes = [] then Ok (Refreshed (so_name s) (Inl ''no nodes parsed''))
               else Ok (Refreshed (so_name s) (Inr (length nodes)))))"

definition refresh_source ::
  "server_crates \<Rightarrow> app_config \<Rightarrow> headers \<Rightarrow> path_id \<Rightarrow> response handler" where
  "refresh_source C cfg headers path =
     await (require_admin C cfg headers) (\<lambda>_.
     check (path_param path) (\<lambda>i.
     await (db_query C (Select_Source i)) (\<lambda>row.
     check (ok_or (not_found ''source not found'') (source_row_of row)) (\<lambda>s.
     if so_kind s = ''single'' then Return (refresh_single (codecs C) s)
     else bind (fetch_source (so_url s)) (\<lambda>fetched.
          Return (refresh_remote (codecs C) (cfg_max_nodes cfg) s fetched))))))"

section \<open>What they can issue\<close>

lemma issues_db_query [simp]: "issues S (db_query C q) \<longleftrightarrow> S (Single q)"
  by (simp add: db_query_def map_error_def sql_def)

lemma issues_source_routes [issues]:
  "issues (permitted E) (list_sources C cfg h)" "issues (permitted E) (create_source C cfg h cs)"
  "issues (permitted E) (update_source C cfg h i us)" "issues (permitted E) (delete_source C cfg h i)"
  "issues (permitted E) (refresh_source C cfg h i)"
  by (auto simp: list_sources_def create_source_def update_source_def delete_source_def
      refresh_source_def fetch_source_def now_rfc3339_def Let_def issues intro!: issue_rules)

end
