(* ===== verification/Combineds.thy ===== *)
theory Combineds
  imports Sources
begin

text \<open>
  \<open>routes/combineds.rs\<close>: the handlers that list, create, change and delete combined
  subscriptions, over the two transactions of the database model.
\<close>

section \<open>Requests and replies\<close>

record create_combined_body =
  cc_name :: string
  cc_source_ids :: "int list option"

record update_combined_body =
  uc_name :: "string option"
  uc_source_ids :: "int list option"

fun reply_ids :: "reply \<Rightarrow> int list" where
  "reply_ids (Ids ids) = ids"
| "reply_ids _ = []"

fun reply_pairs :: "reply \<Rightarrow> (int \<times> int) list" where
  "reply_pairs (Pairs ps) = ps"
| "reply_pairs _ = []"

fun combined_rows :: "reply \<Rightarrow> combined_row list" where
  "combined_rows (Combined_Rows rows) = rows"
| "combined_rows _ = []"

fun combined_row_of :: "reply \<Rightarrow> combined_row option" where
  "combined_row_of (Combined_Row r) = r"
| "combined_row_of _ = None"

definition dto :: "int \<Rightarrow> string \<Rightarrow> string \<Rightarrow> int list \<Rightarrow> combined_dto" where
  "dto i name created_at source_ids =
     \<lparr>cd_id = i, cd_name = name, cd_created = created_at, cd_source_ids = source_ids\<rparr>"

definition member_ids :: "server_crates \<Rightarrow> int \<Rightarrow> int list handler" where
  "member_ids C combined_id =
     await (db_query C (Select_Members combined_id)) (\<lambda>r. Return (Ok (reply_ids r)))"

section \<open>Listing\<close>

text \<open>The map from a combined subscription to its members, and the rows that take theirs out of it.\<close>

fun group_members :: "(int \<times> int) list \<Rightarrow> (int \<rightharpoonup> int list) \<Rightarrow> (int \<rightharpoonup> int list)" where
  "group_members [] by_combined = by_combined"
| "group_members ((cid, sid) # members) by_combined =
     group_members members (by_combined(cid \<mapsto> unwrap_or [] (by_combined cid) @ [sid]))"

fun combined_dtos :: "combined_row list \<Rightarrow> (int \<rightharpoonup> int list) \<Rightarrow> combined_dto list" where
  "combined_dtos [] by_combined = []"
| "combined_dtos (c # rows) by_combined =
     dto (cb_id c) (cb_name c) (cb_created c) (unwrap_or [] (by_combined (cb_id c)))
       # combined_dtos rows (by_combined(cb_id c := None))"

definition list_combineds :: "server_crates \<Rightarrow> app_config \<Rightarrow> headers \<Rightarrow> response handler" where
  "list_combineds C cfg headers =
     await (require_admin C cfg headers) (\<lambda>_.
     await (db_query C Select_Combineds) (\<lambda>rows.
     await (db_query C Select_All_Members) (\<lambda>members.
     Return (Ok (Combined_List
       (combined_dtos (combined_rows rows) (group_members (reply_pairs members) Map.empty)))))))"

section \<open>Changes\<close>

definition name_error :: api_error where
  "name_error = bad_request ''combined name must match [A-Za-z0-9-_]''"

definition name_conflict :: "server_crates \<Rightarrow> db_error \<Rightarrow> api_error" where
  "name_conflict C e =
     (if is_unique_violation e then bad_request ''combined name already exists'' else from_sqlx C e)"

definition create_combined_rows ::
  "server_crates \<Rightarrow> string \<Rightarrow> string \<Rightarrow> int list \<Rightarrow> int handler" where
  "create_combined_rows C name created_at ids =
     await (map_error (from_sqlx C) (tx (Create_Combined_Tx name created_at ids))) (\<lambda>r.
     Return (case r of Insert_Failed e \<Rightarrow> Err (name_conflict C e) | _ \<Rightarrow> Ok (last_insert_rowid r)))"

definition create_combined ::
  "server_crates \<Rightarrow> app_config \<Rightarrow> headers \<Rightarrow> create_combined_body body \<Rightarrow> response handler" where
  "create_combined C cfg headers body =
     await (require_admin C cfg headers) (\<lambda>_.
     check (json_body body) (\<lambda>b.
     if \<not> valid_combined_name (cc_name b) then Return (Err name_error)
     else now_rfc3339 C (\<lambda>created_at.
       await (create_combined_rows C (cc_name b) created_at (unwrap_or [] (cc_source_ids b))) (\<lambda>i.
       await (member_ids C i) (\<lambda>source_ids.
       Return (Ok (Combined_Created (dto i (cc_name b) created_at source_ids))))))))"

text \<open>The name the row has afterwards.\<close>

definition rename_combined ::
  "server_crates \<Rightarrow> int \<Rightarrow> string \<Rightarrow> string option \<Rightarrow> string handler" where
  "rename_combined C i old_name new_name =
     (case new_name of
        None \<Rightarrow> Return (Ok old_name)
      | Some n \<Rightarrow>
          if \<not> valid_combined_name n then Return (Err name_error)
          else if n \<noteq> old_name
          then await (map_error (name_conflict C) (sql (Rename_Combined i n))) (\<lambda>_. Return (Ok n))
          else Return (Ok n))"

definition replace_members :: "server_crates \<Rightarrow> int \<Rightarrow> int list option \<Rightarrow> unit handler" where
  "replace_members C i source_ids =
     (case source_ids of
        None \<Rightarrow> Return (Ok ())
      | Some ids \<Rightarrow>
          await (map_error (from_sqlx C) (tx (Replace_Members_Tx i ids))) (\<lambda>_. Return (Ok ())))"

definition update_combined ::
  "server_crates \<Rightarrow> app_config \<Rightarrow> headers \<Rightarrow> path_id \<Rightarrow> update_combined_body body \<Rightarrow> response handler" where
  "update_combined C cfg headers path body =
     await (require_admin C cfg headers) (\<lambda>_.
     check (path_param path) (\<lambda>i.
     check (json_body body) (\<lambda>b.
     await (db_query C (Select_Combined i)) (\<lambda>row.
     check (ok_or (not_found ''combined subscription not found'') (combined_row_of row)) (\<lambda>old.
     await (rename_combined C i (cb_name old) (uc_name b)) (\<lambda>name.
     await (replace_members C i (uc_source_ids b)) (\<lambda>_.
     await (member_ids C i) (\<lambda>source_ids.
     Return (Ok (Combined_Dto (dto i name (cb_created old) source_ids)))))))))))"

definition delete_combined ::
  "server_crates \<Rightarrow> app_config \<Rightarrow> headers \<Rightarrow> path_id \<Rightarrow> response handler" where
  "delete_combined C cfg headers path =
     await (require_admin C cfg headers) (\<lambda>_.
     check (path_param path) (\<lambda>i.
     await (db_query C (Delete_Combined i)) (\<lambda>res.
     if affected res = 0 then Return (Err (not_found ''combined subscription not found''))
     else Return (Ok No_Content))))"

section \<open>What they can issue\<close>

lemma issues_member_ids [issues]: "issues (permitted E) (member_ids C i)"
  by (auto simp: member_ids_def intro!: issue_rules)

lemma issues_combined_routes [issues]:
  "issues (permitted E) (list_combineds C cfg h)"
  "issues (permitted E) (create_combined C cfg h cc)" "issues (permitted E) (update_combined C cfg h i uc)"
  "issues (permitted E) (delete_combined C cfg h i)"
  by (auto simp: list_combineds_def create_combined_def create_combined_rows_def
      update_combined_def rename_combined_def replace_members_def delete_combined_def now_rfc3339_def
      issues split: option.split intro!: issue_rules)

section \<open>The grouped list\<close>

lemma group_members_eq:
  "unwrap_or [] (group_members ps m cid) = unwrap_or [] (m cid) @ map snd (filter (\<lambda>(c, s). c = cid) ps)"
proof (induction ps m rule: group_members.induct)
  case (2 c sid members by_combined)
  show ?case by (simp only: group_members.simps 2) simp
qed simp

lemma combined_dtos_eq:
  "distinct (map cb_id rows) \<Longrightarrow>
     combined_dtos rows m = map (\<lambda>c. dto (cb_id c) (cb_name c) (cb_created c) (unwrap_or [] (m (cb_id c)))) rows"
proof (induction rows arbitrary: m)
  case (Cons c rows)
  then have "combined_dtos rows (m(cb_id c := None)) =
      map (\<lambda>c'. dto (cb_id c') (cb_name c') (cb_created c') (unwrap_or [] ((m(cb_id c := None)) (cb_id c')))) rows"
    by simp
  with Cons.prems show ?case by (auto simp: image_iff)
qed simp

text \<open>The members of one row: those of the pairs sorted by row and source are sorted.\<close>

lemma sorted_members:
  fixes ps :: "(int \<times> int) list"
  shows "map snd (filter (\<lambda>(c, s). c = cid) (sort ps)) = sort (map snd (filter (\<lambda>(c, s). c = cid) ps))"
proof (rule properties_for_sort [symmetric])
  show "mset (map snd (filter (\<lambda>(c, s). c = cid) (sort ps))) = mset (map snd (filter (\<lambda>(c, s). c = cid) ps))"
    by simp
  have "sorted_wrt (\<le>) (filter (\<lambda>(c, s). c = cid) (sort ps))"
    by (rule sorted_wrt_filter) simp
  then show "sorted (map snd (filter (\<lambda>(c, s). c = cid) (sort ps)))"
    unfolding sorted_map by (rule sorted_wrt_mono_rel [rotated]) (auto simp: less_eq_prod_def)
qed

end
