(* ===== verification/Subscribe.thy ===== *)
theory Subscribe
  imports Combineds Subscription
begin

text \<open>
  \<open>routes/subscribe.rs\<close> and \<open>routes/preview.rs\<close>: the public subscription endpoint and the
  preview of the administrator, and the routes of \<open>routes/mod.rs\<close> as the set of all handlers.
\<close>

section \<open>Subscription\<close>

definition query_params :: "rejection + 'q \<Rightarrow> ('q, api_error) outcome" where
  "query_params q = map_err from_query_rejection (of_sum q)"

definition output_format_param :: "string option \<Rightarrow> (output_format, api_error) outcome" where
  "output_format_param f =
     (case f of
        Some f \<Rightarrow> ok_or (bad_request ''unsupported format'') (output_format_from_str f)
      | None \<Rightarrow> Ok Clash)"

definition scheme_of :: "headers \<Rightarrow> string" where
  "scheme_of headers =
     (case Option.bind (headers ''x-forwarded-proto'') header_to_str of
        Some s \<Rightarrow> if s = ''https'' then ''https'' else ''http''
      | None \<Rightarrow> ''http'')"

definition host_of :: "headers \<Rightarrow> (string, api_error) outcome" where
  "host_of headers =
     ok_or (bad_request ''missing Host header'') (Option.bind (headers ''host'') header_to_str)"

definition serialize_failed :: "serialize_error \<Rightarrow> api_error" where
  "serialize_failed e = internal (serialize_error_text e)"

definition provider_url :: "headers \<Rightarrow> string \<Rightarrow> string \<Rightarrow> string" where
  "provider_url headers host name =
     scheme_of headers @ ''://'' @ host @ ''/subscribe/'' @ name @ ''?format=v2ray''"

definition subscribe_clash :: "server_crates \<Rightarrow> headers \<Rightarrow> string \<Rightarrow> response handler" where
  "subscribe_clash C headers name =
     check (host_of headers) (\<lambda>host.
     await (any C (get_setting template_key)) (\<lambda>setting.
     check (map_err serialize_failed (serialize_clash_subscription (codecs C)
       (unwrap_or default_template setting) name (provider_url headers host name))) (\<lambda>body.
     Return (Ok (Subscription body)))))"

definition error_line :: "source_error \<Rightarrow> string" where
  "error_line e = sr_name e @ '': '' @ sr_reason e"

definition all_failed :: "source_error list \<Rightarrow> api_error" where
  "all_failed errors = bad_gateway (''all sources failed: '' @ join ''; '' (map error_line errors))"

definition subscribe_v2ray :: "server_crates \<Rightarrow> app_config \<Rightarrow> int list \<Rightarrow> response handler" where
  "subscribe_v2ray C cfg members =
     bind (fetch_and_merge C cfg (Some members)) (\<lambda>(nodes, errors).
     if nodes = [] \<and> errors \<noteq> [] then Return (Err (all_failed errors))
     else await (any C (get_setting v2ray_b64_key)) (\<lambda>setting.
       check (map_err serialize_failed
         (if setting \<noteq> Some ''0'' then serialize_nodes (codecs C) nodes V2ray
          else serialize_v2ray_plain (codecs C) nodes)) (\<lambda>body.
       Return (Ok (Subscription body)))))"

definition subscribe_handler ::
  "server_crates \<Rightarrow> app_config \<Rightarrow> string \<Rightarrow> headers \<Rightarrow> rejection + string option \<Rightarrow> response handler" where
  "subscribe_handler C cfg name headers q =
     check (query_params q) (\<lambda>f.
     await (db_query C (Select_Combined_Named name)) (\<lambda>row.
     check (ok_or (not_found ''combined subscription not found'') (combined_row_of row)) (\<lambda>combined.
     await (db_query C (Select_Members (cb_id combined))) (\<lambda>members.
     check (output_format_param f) (\<lambda>format.
     case format of
       Clash \<Rightarrow> subscribe_clash C headers name
     | V2ray \<Rightarrow> subscribe_v2ray C cfg (reply_ids members))))))"

section \<open>Preview\<close>

record preview_query =
  pq_combined :: "string option"
  pq_kind :: "string option"
  pq_source_id :: "int option"

definition too_many_filters :: "preview_query \<Rightarrow> bool" where
  "too_many_filters q \<longleftrightarrow>
     length (filter (\<lambda>b. b) [pq_kind q \<noteq> None, pq_combined q \<noteq> None, pq_source_id q \<noteq> None]) > 1"

definition preview_members :: "server_crates \<Rightarrow> preview_query \<Rightarrow> int list option handler" where
  "preview_members C q =
     (case pq_combined q of
        Some name \<Rightarrow>
          await (db_query C (Select_Combined_Named name)) (\<lambda>row.
          check (ok_or (not_found ''combined subscription not found'') (combined_row_of row)) (\<lambda>combined.
          await (db_query C (Select_Members (cb_id combined))) (\<lambda>r. Return (Ok (Some (reply_ids r))))))
      | None \<Rightarrow>
     (case pq_kind q of
        Some k \<Rightarrow>
          await (db_query C (Select_Source_Ids_Of_Kind k)) (\<lambda>r. Return (Ok (Some (reply_ids r))))
      | None \<Rightarrow>
     (case pq_source_id q of
        Some sid \<Rightarrow>
          await (db_query C (Select_Source sid)) (\<lambda>row.
          check (ok_or (not_found ''source not found'') (source_row_of row)) (\<lambda>_.
          Return (Ok (Some [sid]))))
      | None \<Rightarrow> Return (Ok None))))"

definition preview_node :: "proxy_node \<Rightarrow> string \<times> string \<times> string \<times> u16" where
  "preview_node n = (nd_name n, protocol_as_str (nd_kind n), nd_server n, nd_port n)"

definition preview_handler ::
  "server_crates \<Rightarrow> app_config \<Rightarrow> headers \<Rightarrow> rejection + preview_query \<Rightarrow> response handler" where
  "preview_handler C cfg headers q =
     await (require_admin C cfg headers) (\<lambda>_.
     check (query_params q) (\<lambda>q.
     if too_many_filters q
     then Return (Err (bad_request ''kind/combined/source_id are mutually exclusive''))
     else if (case pq_kind q of Some k \<Rightarrow> \<not> source_kind k | None \<Rightarrow> False) then Return (Err kind_error)
     else await (preview_members C q) (\<lambda>members.
       bind (fetch_and_merge C cfg members) (\<lambda>(nodes, errors).
       Return (Ok (Preview (map preview_node nodes) (map error_line errors) (length nodes)))))))"

section \<open>The routes\<close>

text \<open>A request as axum hands it to the handler of its route.\<close>

datatype request =
    Setup_Status | Setup "setup_request body" | Login "login_request body" | Logout headers
  | Get_Config headers | Put_Config headers "update_config_body body"
  | Get_Clash_Config headers | Put_Clash_Config headers "string body"
  | List_Sources headers | Create_Source headers "create_source_body body"
  | Update_Source_Req headers path_id "update_source_body body"
  | Delete_Source_Req headers path_id | Refresh_Source headers path_id
  | List_Combineds headers | Create_Combined headers "create_combined_body body"
  | Update_Combined headers path_id "update_combined_body body"
  | Delete_Combined_Req headers path_id
  | Preview_Req headers "rejection + preview_query"
  | Subscribe_Req string headers "rejection + string option"

primrec serve :: "server_crates \<Rightarrow> app_config \<Rightarrow> request \<Rightarrow> response handler" where
  "serve C cfg Setup_Status = setup_status C"
| "serve C cfg (Setup b) = setup_handler C b"
| "serve C cfg (Login b) = login C b"
| "serve C cfg (Logout h) = logout C h"
| "serve C cfg (Get_Config h) = get_config C cfg h"
| "serve C cfg (Put_Config h b) = update_config C cfg h b"
| "serve C cfg (Get_Clash_Config h) = get_clash_config C cfg h"
| "serve C cfg (Put_Clash_Config h b) = put_clash_config C cfg h b"
| "serve C cfg (List_Sources h) = list_sources C cfg h"
| "serve C cfg (Create_Source h b) = create_source C cfg h b"
| "serve C cfg (Update_Source_Req h i b) = update_source C cfg h i b"
| "serve C cfg (Delete_Source_Req h i) = delete_source C cfg h i"
| "serve C cfg (Refresh_Source h i) = refresh_source C cfg h i"
| "serve C cfg (List_Combineds h) = list_combineds C cfg h"
| "serve C cfg (Create_Combined h b) = create_combined C cfg h b"
| "serve C cfg (Update_Combined h i b) = update_combined C cfg h i b"
| "serve C cfg (Delete_Combined_Req h i) = delete_combined C cfg h i"
| "serve C cfg (Preview_Req h q) = preview_handler C cfg h q"
| "serve C cfg (Subscribe_Req name h q) = subscribe_handler C cfg name h q"

text \<open>The headers of the requests that need the administrator.\<close>

fun admin_headers :: "request \<Rightarrow> headers option" where
  "admin_headers (Get_Config h) = Some h"
| "admin_headers (Put_Config h b) = Some h"
| "admin_headers (Get_Clash_Config h) = Some h"
| "admin_headers (Put_Clash_Config h b) = Some h"
| "admin_headers (List_Sources h) = Some h"
| "admin_headers (Create_Source h b) = Some h"
| "admin_headers (Update_Source_Req h i b) = Some h"
| "admin_headers (Delete_Source_Req h i) = Some h"
| "admin_headers (Refresh_Source h i) = Some h"
| "admin_headers (List_Combineds h) = Some h"
| "admin_headers (Create_Combined h b) = Some h"
| "admin_headers (Update_Combined h i b) = Some h"
| "admin_headers (Delete_Combined_Req h i) = Some h"
| "admin_headers (Preview_Req h q) = Some h"
| "admin_headers _ = None"

section \<open>What they can issue\<close>

lemma issues_subscribe [issues]:
  "issues (permitted E) (subscribe_clash C h name)" "issues (permitted E) (subscribe_v2ray C cfg m)"
  "issues (permitted E) (preview_members C q)"
  by (auto simp: subscribe_clash_def subscribe_v2ray_def preview_members_def issues case_prod_beta
      split: option.split intro!: issue_rules)

lemma issues_public [issues]:
  "issues (permitted E) (subscribe_handler C cfg name h f)" "issues (permitted E) (preview_handler C cfg h pq)"
  by (auto simp: subscribe_handler_def preview_handler_def issues case_prod_beta
      split: output_format.split intro!: issue_rules)

theorem serve_issues: "issues (permitted (codecs C)) (serve C cfg req)"
  by (cases req) (simp_all add: issues)

lemma serve_gate:
  "admin_headers req = Some h \<Longrightarrow> \<exists>k. serve C cfg req = await (require_admin C cfg h) k"
  by (cases req)
    (auto simp: get_config_def update_config_def get_clash_config_def put_clash_config_def
      list_sources_def create_source_def update_source_def delete_source_def refresh_source_def
      list_combineds_def create_combined_def update_combined_def delete_combined_def
      preview_handler_def)

end
