(* ===== verification/Server_Lemmas.thy ===== *)
theory Server_Lemmas
  imports Subscribe
begin

text \<open>
  What each handler leaves behind, for every answer of the environment: the preconditions of
  the data layer and of the gate, and the frame of the handlers (which tables they can change).
\<close>

section \<open>Runs\<close>

declare outcome.case_cong [cong]

text \<open>Unfolding a handler to the tree of its effects.\<close>

lemmas run_simps = await_def map_error_def any_def db_query_def db_sql_def sql_def tx_def exec_Single
  require_admin_def validate_session_def slide_session_def member_ids_def get_setting_def
  set_setting_def now_rfc3339_def json_body_def path_param_def Let_def

lemma answers_any [simp]: "answers_in any_faults es"
  by (simp add: answers_in_def)

lemma answers_in_Cons [simp]:
  "answers_in G (e # es) \<longleftrightarrow> (case e of Answer f \<Rightarrow> G f | _ \<Rightarrow> True) \<and> answers_in G es"
  by (auto simp: answers_in_def split: event.split)

lemma answers_in_Nil [simp]: "answers_in G []"
  by (simp add: answers_in_def)

lemma run_post: "run exec es p d = (Return a, d') \<Longrightarrow> wp any_faults exec p Q d \<Longrightarrow> Q a d'"
  using run_wp [of exec es p d a d' any_faults Q] by simp

lemma run_post_calm:
  "run exec es p d = (Return a, d') \<Longrightarrow> answers_in calm es \<Longrightarrow> wp calm exec p Q d \<Longrightarrow> Q a d'"
  by (rule run_wp [where Q = Q])

lemma wp_db_sql [simp]:
  "wp any_faults exec (db_sql q) Q d \<longleftrightarrow>
     (\<forall>e. Q (Err (Sqlx e)) d) \<and> Q (map_err Sqlx (of_sum (fst (apply_sql q d)))) (snd (apply_sql q d))"
  by (simp add: db_sql_def)

lemma wp_db_sql_calm [simp]:
  "wp calm exec (db_sql q) Q d \<longleftrightarrow> Q (map_err Sqlx (of_sum (fst (apply_sql q d)))) (snd (apply_sql q d))"
  by (simp add: db_sql_def)

lemma wp_db_query [simp]:
  "wp any_faults exec (db_query C q) Q d \<longleftrightarrow>
     (\<forall>e. Q (Err (from_sqlx C e)) d) \<and>
     Q (map_err (from_sqlx C) (of_sum (fst (apply_sql q d)))) (snd (apply_sql q d))"
  by (simp add: db_query_def)

lemma wp_db_query_calm [simp]:
  "wp calm exec (db_query C q) Q d \<longleftrightarrow>
     Q (map_err (from_sqlx C) (of_sum (fst (apply_sql q d)))) (snd (apply_sql q d))"
  by (simp add: db_query_def)

lemma wp_any [simp]: "wp G X (any C p) Q d \<longleftrightarrow> wp G X p (\<lambda>r. Q (map_err (from_any C) r)) d"
  by (simp add: any_def)

lemma wp_if: "wp G X (if b then p else q) Q d = (if b then wp G X p Q d else wp G X q Q d)"
  by simp

section \<open>Sessions and the gate\<close>

definition touched :: "string \<Rightarrow> string \<Rightarrow> database \<Rightarrow> database" where
  "touched now hash d = d\<lparr>db_sessions :=
     map (\<lambda>s. if se_hash s = hash then s\<lparr>se_last := now\<rparr> else s) (db_sessions d)\<rparr>"

definition without_session :: "string \<Rightarrow> database \<Rightarrow> database" where
  "without_session hash d = d\<lparr>db_sessions := filter (\<lambda>s. se_hash s \<noteq> hash) (db_sessions d)\<rparr>"

definition has_session :: "string \<Rightarrow> database \<Rightarrow> bool" where
  "has_session hash d \<longleftrightarrow> hash \<in> se_hash ` set (db_sessions d)"

lemma find_session_None: "find (\<lambda>s. se_hash s = h) ss = None \<longleftrightarrow> h \<notin> se_hash ` set ss"
  by (auto simp: find_None_iff)

definition validated :: "string \<Rightarrow> database \<Rightarrow> (bool, any_error) outcome \<Rightarrow> database \<Rightarrow> bool" where
  "validated hash d r d' \<longleftrightarrow>
     (if r = Ok True then has_session hash d \<and> (\<exists>now. d' = touched now hash d)
      else d' = d \<or> (r = Ok False \<and> d' = without_session hash d))"

lemma wp_slide:
  "has_session hash d \<Longrightarrow> wp any_faults exec (slide_session C hash) (validated hash d) d"
  by (auto simp: slide_session_def validated_def touched_def)

lemma wp_validate: "wp any_faults exec (validate_session C t n) (validated (sha256_hex C t) d) d"
proof (cases "find (\<lambda>s. se_hash s = sha256_hex C t) (db_sessions d)")
  case None
  then show ?thesis by (simp add: validate_session_def Let_def validated_def)
next
  case (Some s)
  then have "has_session (sha256_hex C t) d"
    using find_session_None [of "sha256_hex C t" "db_sessions d"] by (auto simp: has_session_def)
  then have slide: "wp any_faults exec (slide_session C (sha256_hex C t)) (validated (sha256_hex C t) d) d"
    by (rule wp_slide)
  have drop: "wp any_faults exec (await (db_sql (Delete_Session (sha256_hex C t))) (\<lambda>_. Return (Ok False)))
      (validated (sha256_hex C t) d) d"
    by (simp add: validated_def without_session_def)
  show ?thesis
    using Some slide drop
    by (auto simp: validate_session_def Let_def validated_def expired_def datetime_add_def
        split: option.split)
qed

text \<open>The gate changes sessions only, and opens only for the hash of a session.\<close>

definition sessions_only :: "database \<Rightarrow> database \<Rightarrow> bool" where
  "sessions_only d d' \<longleftrightarrow> (\<exists>ss. d' = d\<lparr>db_sessions := ss\<rparr>)"

lemma sessions_only_simps [simp]:
  "sessions_only d d" "sessions_only d (touched now h d)" "sessions_only d (without_session h d)"
  by (auto simp: sessions_only_def touched_def without_session_def intro: exI [of _ "db_sessions d"])

lemma sessions_only_tables:
  assumes "sessions_only d d'"
  shows "db_sources d' = db_sources d" "db_combineds d' = db_combineds d" "db_members d' = db_members d"
    "db_users d' = db_users d" "db_settings d' = db_settings d"
    "db_sources_seq d' = db_sources_seq d" "db_combineds_seq d' = db_combineds_seq d"
  using assms by (auto simp: sessions_only_def)

definition gated :: "server_crates \<Rightarrow> headers \<Rightarrow> database \<Rightarrow> (unit, api_error) outcome \<Rightarrow> database \<Rightarrow> bool" where
  "gated C h d r d' \<longleftrightarrow>
     (case r of
        Ok _ \<Rightarrow> \<exists>t now. parse_bearer h = Ok t \<and> has_session (sha256_hex C t) d
                 \<and> d' = touched now (sha256_hex C t) d
      | Err e \<Rightarrow> d' = d \<or> (\<exists>t. parse_bearer h = Ok t \<and> ae_status e = 401 \<and> d' = without_session (sha256_hex C t) d)
      | Panic \<Rightarrow> d' = d)"

lemma wp_require_admin: "wp any_faults exec (require_admin C cfg h) (gated C h d) d"
proof (cases "parse_bearer h")
  case (Ok t)
  have "wp any_faults exec (validate_session C t (cfg_session_ttl_days cfg))
      (\<lambda>r d'. case map_err (from_any C) r of
          Ok valid \<Rightarrow> (if valid then gated C h d (Ok ()) d' else gated C h d (Err (unauthorized ''invalid session'')) d')
        | Err e \<Rightarrow> gated C h d (Err e) d' | Panic \<Rightarrow> gated C h d Panic d') d"
    using wp_validate
  proof (rule wp_mono)
    fix r d'
    assume "validated (sha256_hex C t) d r d'"
    then show "case map_err (from_any C) r of
          Ok valid \<Rightarrow> (if valid then gated C h d (Ok ()) d' else gated C h d (Err (unauthorized ''invalid session'')) d')
        | Err e \<Rightarrow> gated C h d (Err e) d' | Panic \<Rightarrow> gated C h d Panic d'"
      using Ok by (cases r) (auto simp: validated_def gated_def unauthorized_def)
  qed
  with Ok show ?thesis
    by (simp add: require_admin_def wp_if cong: outcome.case_cong if_cong)
qed (simp_all add: require_admin_def gated_def)

lemma gated_sessions_only: "gated C h d r d' \<Longrightarrow> sessions_only d d'"
  by (cases r) (auto simp: gated_def)

text \<open>A handler behind the gate: what holds after it follows from what holds behind the gate.\<close>

lemma wp_gate:
  assumes "\<And>d1. sessions_only d d1 \<Longrightarrow> wp any_faults exec (k ()) Q d1"
    and "\<And>e d1. sessions_only d d1 \<Longrightarrow> Q (Err e) d1" and "\<And>d1. sessions_only d d1 \<Longrightarrow> Q Panic d1"
  shows "wp any_faults exec (await (require_admin C cfg h) k) Q d"
  unfolding wp_await using wp_require_admin
proof (rule wp_mono)
  fix r d'
  assume "gated C h d r d'"
  then have "sessions_only d d'" by (rule gated_sessions_only)
  with assms show "case r of Ok a \<Rightarrow> wp any_faults exec (k a) Q d' | Err e \<Rightarrow> Q (Err e) d' | Panic \<Rightarrow> Q Panic d'"
    by (cases r) auto
qed

text \<open>Without a session the gate stays closed, and nothing happens.\<close>

definition no_session :: "server_crates \<Rightarrow> headers \<Rightarrow> database \<Rightarrow> bool" where
  "no_session C h d \<longleftrightarrow> (\<forall>t. parse_bearer h = Ok t \<longrightarrow> \<not> has_session (sha256_hex C t) d)"

lemma api_status [simp]:
  "ae_status (unauthorized m) = 401" "ae_status (from_any C x) = 500" "ae_status (from_sqlx C y) = 500"
  "ae_status (internal m) = 500" "ae_status (bad_request m) = 400" "ae_status (not_found m) = 404"
  "ae_status (conflict m) = 409" "ae_status (bad_gateway m) = 502"
  by (simp_all add: unauthorized_def from_any_def from_sqlx_def internal_def bad_request_def
      not_found_def conflict_def bad_gateway_def)

lemma validate_no_session:
  assumes "\<not> has_session (sha256_hex C t) d"
  shows "wp any_faults exec (validate_session C t n) (\<lambda>r d'. d' = d \<and> (r = Ok False \<or> (\<exists>e. r = Err e))) d"
    and "wp calm exec (validate_session C t n) (\<lambda>r d'. d' = d \<and> r = Ok False) d"
proof -
  have "find (\<lambda>s. se_hash s = sha256_hex C t) (db_sessions d) = None"
    using assms by (simp add: find_session_None has_session_def)
  then show "wp any_faults exec (validate_session C t n) (\<lambda>r d'. d' = d \<and> (r = Ok False \<or> (\<exists>e. r = Err e))) d"
    and "wp calm exec (validate_session C t n) (\<lambda>r d'. d' = d \<and> r = Ok False) d"
    by (simp_all add: validate_session_def Let_def)
qed

lemma gate_closed:
  assumes "no_session C h d"
  shows "wp any_faults exec (await (require_admin C cfg h) k)
      (\<lambda>r d'. d' = d \<and> (\<exists>e. r = Err e \<and> (ae_status e = 401 \<or> ae_status e = 500))) d" (is ?any)
    and "wp calm exec (await (require_admin C cfg h) k)
      (\<lambda>r d'. d' = d \<and> (\<exists>e. r = Err e \<and> ae_status e = 401)) d" (is ?calm)
proof -
  show ?any
  proof (cases "parse_bearer h")
    case (Ok t)
    with assms have no: "\<not> has_session (sha256_hex C t) d" by (simp add: no_session_def)
    with Ok show ?thesis
      by (simp add: require_admin_def) (rule wp_mono [OF validate_no_session(1) [OF no]], auto)
  qed (simp_all add: require_admin_def)
  show ?calm
  proof (cases "parse_bearer h")
    case (Ok t)
    with assms have no: "\<not> has_session (sha256_hex C t) d" by (simp add: no_session_def)
    with Ok show ?thesis
      by (simp add: require_admin_def) (rule wp_mono [OF validate_no_session(2) [OF no]], auto)
  qed (simp_all add: require_admin_def)
qed

section \<open>Accounts\<close>

definition setup_done ::
  "server_crates \<Rightarrow> setup_request body \<Rightarrow> database \<Rightarrow> (response, api_error) outcome \<Rightarrow> database \<Rightarrow> bool" where
  "setup_done C body d r d' \<longleftrightarrow>
     (case r of
        Ok resp \<Rightarrow> \<exists>b salt hash i created. body = Inr b \<and> resp = Username (trim (su_username b))
          \<and> valid_username (trim (su_username b)) \<and> 8 \<le> length (su_password b)
          \<and> su_password_confirm b = su_password b
          \<and> argon2_hash C salt (su_password b) = Inr hash \<and> db_users d = []
          \<and> d' = d\<lparr>db_users_seq := i, db_users := [\<lparr>us_id = i, us_name = trim (su_username b),
                    us_hash = hash, us_created = created\<rparr>]\<rparr>
      | Err _ \<Rightarrow> d' = d
      | Panic \<Rightarrow> False)"

lemma wp_setup: "wp any_faults exec (setup_handler C body) (setup_done C body d) d"
proof (cases body)
  case (Inl r)
  then show ?thesis by (simp add: setup_handler_def json_body_def setup_done_def)
next
  case (Inr b)
  show ?thesis
    by (auto simp: Inr setup_handler_def json_body_def create_user_if_empty_def hash_password_def
        now_rfc3339_def Let_def setup_done_def outcome_simps split: outcome.split option.split)
qed

definition with_session :: "string \<Rightarrow> string \<Rightarrow> database \<Rightarrow> database" where
  "with_session hash now d = d\<lparr>db_sessions := db_sessions d @
     [\<lparr>se_hash = hash, se_created = now, se_last = now\<rparr>]\<rparr>"

definition login_done ::
  "server_crates \<Rightarrow> login_request body \<Rightarrow> database \<Rightarrow> (response, api_error) outcome \<Rightarrow> database \<Rightarrow> bool" where
  "login_done C body d r d' \<longleftrightarrow>
     (case r of
        Ok resp \<Rightarrow> \<exists>b u t now. body = Inr b \<and> u \<in> set (db_users d) \<and> us_name u = trim (li_username b)
          \<and> verify_password_hash C (li_password b) (us_hash u)
          \<and> resp = Token t \<and> \<not> has_session (sha256_hex C t) d
          \<and> d' = with_session (sha256_hex C t) now d
      | Err _ \<Rightarrow> d' = d
      | Panic \<Rightarrow> False)"

lemma find_user: "find P us = Some u \<Longrightarrow> u \<in> set us \<and> P u"
  by (auto simp: find_Some_iff)

lemma wp_create_session:
  "(\<And>e. Q (Err e) d) \<Longrightarrow>
   (\<And>t now. \<not> has_session (sha256_hex C t) d \<Longrightarrow> Q (Ok t)
      (with_session (sha256_hex C t) now d)) \<Longrightarrow>
   wp any_faults exec (create_session C) Q d"
  by (auto simp: create_session_def gen_token_def Let_def has_session_def with_session_def)

lemma wp_login: "wp any_faults exec (login C body) (login_done C body d) d"
proof (cases body)
  case (Inl r)
  then show ?thesis by (simp add: login_def json_body_def login_done_def)
next
  case (Inr b)
  show ?thesis
  proof (cases "find (\<lambda>u. us_name u = trim (li_username b)) (db_users d)")
    case None
    then show ?thesis by (simp add: Inr login_def json_body_def verify_user_def login_done_def)
  next
    case (Some u)
    then show ?thesis using find_user [OF Some]
      by (auto simp: Inr login_def json_body_def verify_user_def login_done_def intro!: wp_create_session) blast
  qed
qed

text \<open>A change of the password: who it is for, and what is left after each way it can end.\<close>

definition with_password :: "string \<Rightarrow> string \<Rightarrow> database \<Rightarrow> database" where
  "with_password name hash d = d\<lparr>db_users :=
     map (\<lambda>u. if us_name u = name then u\<lparr>us_hash := hash\<rparr> else u) (db_users d)\<rparr>"

definition password_done ::
  "server_crates \<Rightarrow> change_password \<Rightarrow> database \<Rightarrow> (unit, api_error) outcome \<Rightarrow> database \<Rightarrow> bool" where
  "password_done C cp d r d' \<longleftrightarrow>
     (case r of
        Ok _ \<Rightarrow> 8 \<le> length (cp_new cp) \<and> (\<exists>u salt hash. u \<in> set (db_users d)
          \<and> verify_password_hash C (cp_old cp) (us_hash u) \<and> argon2_hash C salt (cp_new cp) = Inr hash
          \<and> d' = (with_password (us_name u) hash d)\<lparr>db_sessions := []\<rparr>)
      | Err _ \<Rightarrow> d' = d \<or> (\<exists>name hash. d' = with_password name hash d)
      | Panic \<Rightarrow> False)"

lemma password_done_intros:
  "password_done C cp d (Err e) d" "password_done C cp d (Err e) (with_password n hash d)"
  "8 \<le> length (cp_new cp) \<Longrightarrow> u \<in> set (db_users d) \<Longrightarrow> verify_password_hash C (cp_old cp) (us_hash u)
    \<Longrightarrow> argon2_hash C salt (cp_new cp) = Inr hash
    \<Longrightarrow> password_done C cp d (Ok ()) ((with_password (us_name u) hash d)\<lparr>db_sessions := []\<rparr>)"
  by (auto simp: password_done_def)

lemma wp_change_password:
  "wp any_faults exec (change_admin_password C cp) (password_done C cp d) d"
proof (cases "db_users d")
  case Nil
  then show ?thesis by (simp add: change_admin_password_def get_username_def password_done_def)
next
  case (Cons v us)
  have upd: "wp any_faults exec (update_password C (us_name v) (cp_new cp)) (\<lambda>r d'.
      case r of Ok _ \<Rightarrow> \<exists>salt hash. argon2_hash C salt (cp_new cp) = Inr hash \<and> d' = with_password (us_name v) hash d
        | Err _ \<Rightarrow> d' = d \<or> (\<exists>name hash. d' = with_password name hash d) | Panic \<Rightarrow> False) d"
    by (auto simp: update_password_def hash_password_def with_password_def outcome_simps split: outcome.split)
  have "wp any_faults exec (await (any C (update_password C (us_name v) (cp_new cp))) (\<lambda>_. any C delete_all_sessions))
      (password_done C cp d) d"
    if "verify_password_hash C (cp_old cp) (us_hash v)" and "8 \<le> length (cp_new cp)"
    unfolding wp_await wp_any
  proof (rule wp_mono [OF upd])
    fix r :: "(unit, any_error) outcome" and d'
    assume *: "case r of Ok _ \<Rightarrow> \<exists>salt hash. argon2_hash C salt (cp_new cp) = Inr hash \<and> d' = with_password (us_name v) hash d
        | Err _ \<Rightarrow> d' = d \<or> (\<exists>name hash. d' = with_password name hash d) | Panic \<Rightarrow> False"
    show "case map_err (from_any C) r of
        Ok a \<Rightarrow> wp any_faults exec delete_all_sessions (\<lambda>r. password_done C cp d (map_err (from_any C) r)) d'
      | Err e \<Rightarrow> password_done C cp d (Err e) d' | Panic \<Rightarrow> password_done C cp d Panic d'"
    proof (cases r)
      case (Ok a)
      with * obtain salt hash where hash: "argon2_hash C salt (cp_new cp) = Inr hash"
        and d': "d' = with_password (us_name v) hash d" by auto
      have "v \<in> set (db_users d)" using Cons by simp
      from that(2) this that(1) hash have "password_done C cp d (Ok ()) (d'\<lparr>db_sessions := []\<rparr>)"
        unfolding d' by (rule password_done_intros(3))
      moreover have "password_done C cp d (Err e) d'" for e
        unfolding d' by (rule password_done_intros(2))
      ultimately have ends: "password_done C cp d (Ok ()) (d'\<lparr>db_sessions := []\<rparr>)"
        "\<And>e. password_done C cp d (Err e) d'" .
      from ends Ok show ?thesis by (simp add: delete_all_sessions_def cong del: outcome.case_cong)
    next
      case (Err e)
      with * show ?thesis by (auto simp: password_done_intros)
    qed (use * in simp)
  qed
  note changed = this
  have "wp any_faults exec (change_admin_password C cp) (password_done C cp d) d \<longleftrightarrow>
      (verify_password_hash C (cp_old cp) (us_hash v) \<and> 8 \<le> length (cp_new cp) \<longrightarrow>
       wp any_faults exec (await (any C (update_password C (us_name v) (cp_new cp))) (\<lambda>_. any C delete_all_sessions))
         (password_done C cp d) d)"
    using Cons by (simp add: change_admin_password_def get_username_def verify_user_def password_done_intros(1))
  with changed show ?thesis by blast
qed

lemma wp_config_dto: "wp any_faults exec (config_dto C) (\<lambda>r d'. d' = d) d"
  by (cases "db_users d") (simp_all add: config_dto_def get_username_def get_setting_def)

lemma wp_set_setting:
  "(\<And>e. Q (Err e) d) \<Longrightarrow> Q (Ok ()) (d\<lparr>db_settings := upsert k v (db_settings d)\<rparr>)
    \<Longrightarrow> wp any_faults exec (set_setting k v) Q d"
  by (simp add: set_setting_def cong del: outcome.case_cong)

text \<open>The effect of a whole request that changes the password.\<close>

definition password_changed :: "server_crates \<Rightarrow> change_password \<Rightarrow> database \<Rightarrow> database \<Rightarrow> bool" where
  "password_changed C cp d d' \<longleftrightarrow> db_sessions d' = [] \<and> 8 \<le> length (cp_new cp)
     \<and> (\<exists>u salt hash. u \<in> set (db_users d) \<and> verify_password_hash C (cp_old cp) (us_hash u)
          \<and> argon2_hash C salt (cp_new cp) = Inr hash
          \<and> db_users d' = db_users (with_password (us_name u) hash d))"

lemma wp_update_config_rest:
  assumes "password_changed C cp d d1"
  shows "wp any_faults exec (await (case s of None \<Rightarrow> Return (Ok ())
      | Some v \<Rightarrow> any C (set_setting v2ray_b64_key (if v then ''1'' else ''0''))) (\<lambda>_. config_dto C))
    (\<lambda>r d'. password_changed C cp d d') d1"
proof (cases s)
  case None
  with assms show ?thesis
    by (auto intro: wp_mono [OF wp_config_dto])
next
  case (Some v)
  have "password_changed C cp d (d1\<lparr>db_settings := m\<rparr>)" for m
    using assms by (simp add: password_changed_def)
  with assms Some show ?thesis
    by (simp cong del: outcome.case_cong) (auto intro!: wp_set_setting wp_mono [OF wp_config_dto])
qed

lemma wp_update_config:
  assumes "uc_change_password b = Some cp"
  shows "wp any_faults exec (update_config C cfg h (Inr b)) (\<lambda>r d'. \<forall>x. r = Ok x \<longrightarrow> password_changed C cp d d') d"
  unfolding update_config_def
proof (rule wp_gate)
  fix d1
  assume d1: "sessions_only d d1"
  let ?rest = "\<lambda>_::unit. await (case uc_v2ray_base64 b of None \<Rightarrow> Return (Ok ())
      | Some v \<Rightarrow> any C (set_setting v2ray_b64_key (if v then ''1'' else ''0''))) (\<lambda>_. config_dto C)"
  have "wp any_faults exec (await (change_admin_password C cp) ?rest)
      (\<lambda>r d'. \<forall>x. r = Ok x \<longrightarrow> password_changed C cp d d') d1"
    unfolding wp_await [of _ _ "change_admin_password C cp"]
  proof (rule wp_mono [OF wp_change_password])
    fix r :: "(unit, api_error) outcome" and d2
    assume r: "password_done C cp d1 r d2"
    show "case r of Ok a \<Rightarrow> wp any_faults exec (?rest a) (\<lambda>r d'. \<forall>x. r = Ok x \<longrightarrow> password_changed C cp d d') d2
      | Err e \<Rightarrow> \<forall>x. Err e = Ok x \<longrightarrow> password_changed C cp d d2
      | Panic \<Rightarrow> \<forall>x. Panic = Ok x \<longrightarrow> password_changed C cp d d2"
    proof (cases r)
      case (Ok a)
      have "db_users (with_password n hash d1) = db_users (with_password n hash d)" for n hash
        using sessions_only_tables(4) [OF d1] by (simp add: with_password_def)
      with Ok r sessions_only_tables(4) [OF d1] have "password_changed C cp d d2"
        by (fastforce simp: password_done_def password_changed_def)
      from wp_mono [OF wp_update_config_rest [OF this]] Ok show ?thesis
        by (simp del: wp_await cong del: outcome.case_cong)
    qed simp_all
  qed
  with assms show "wp any_faults exec (check (json_body (Inr b)) (\<lambda>b.
     await (case uc_change_password b of None \<Rightarrow> Return (Ok ()) | Some cp \<Rightarrow> change_admin_password C cp) (\<lambda>_.
     await (case uc_v2ray_base64 b of None \<Rightarrow> Return (Ok ())
            | Some v \<Rightarrow> any C (set_setting v2ray_b64_key (if v then ''1'' else ''0''))) (\<lambda>_. config_dto C))))
    (\<lambda>r d'. \<forall>x. r = Ok x \<longrightarrow> password_changed C cp d d') d1"
    by (simp add: json_body_def del: wp_await)
qed simp_all

end
