(* ===== verification/Server_Properties.thy ===== *)
theory Server_Properties
  imports Server_Lemmas Core_Properties
begin

text \<open>
  The properties of the server: what no interleaving of requests can break, what the gate lets
  through, what each handler does to the tables on success and on failure, and what a client
  of the subscription endpoint gets.
\<close>

section \<open>A concrete server\<close>

text \<open>Crates for the witnesses: instants print as one letter, a hash is its input with a mark.\<close>

definition sample_crates :: server_crates where
  "sample_crates = \<lparr>codecs = rfc_crates,
     argon2_hash = (\<lambda>salt p. Inr (CHR ''h'' # p)), phc_parse = (\<lambda>s. True),
     argon2_verify = (\<lambda>p s. s = CHR ''h'' # p),
     sha256_hex = (\<lambda>s. CHR ''#'' # s), hex_encode = (\<lambda>s. s),
     to_rfc3339 = (\<lambda>t. if t = 0 then ''0'' else ''1''),
     parse_rfc3339 = (\<lambda>s. if s = ''0'' then Some 0 else if s = ''1'' then Some second else None),
     datetime_range = (\<lambda>t. -8334601228800 * second \<le> t \<and> t < 8210266876800 * second),
     sqlx_text = (\<lambda>e. ''db'')\<rparr>"

definition sample_config :: app_config where
  "sample_config = from_env (\<lambda>_. None)"

definition sample_setup :: "setup_request body" where
  "sample_setup = Inr \<lparr>su_username = ''admin'', su_password = ''password'', su_password_confirm = ''password''\<rparr>"

definition bearer :: "string \<Rightarrow> headers" where
  "bearer t = [''authorization'' \<mapsto> ''Bearer '' @ t]"

lemma sample_crates_simps [simp]:
  "codecs sample_crates = rfc_crates" "argon2_hash sample_crates salt p = Inr (CHR ''h'' # p)"
  "phc_parse sample_crates s" "argon2_verify sample_crates p s \<longleftrightarrow> s = CHR ''h'' # p"
  "sha256_hex sample_crates s = CHR ''#'' # s" "hex_encode sample_crates s = s"
  "to_rfc3339 sample_crates t = (if t = 0 then ''0'' else ''1'')"
  "parse_rfc3339 sample_crates s = (if s = ''0'' then Some 0 else if s = ''1'' then Some second else None)"
  "datetime_range sample_crates t \<longleftrightarrow> -8334601228800 * second \<le> t \<and> t < 8210266876800 * second"
  by (simp_all add: sample_crates_def)

lemma sample_ttl [simp]: "cfg_session_ttl_days sample_config = 30" "cfg_max_nodes sample_config = 2000"
  by (simp_all add: sample_config_def from_env_def)

lemma bearer_simp [simp]: "list_all (\<lambda>c. 32 \<le> byte c \<and> byte c < 127) t \<Longrightarrow> parse_bearer (bearer t) = Ok t"
  by (auto simp: parse_bearer_Ok_iff bearer_def header_to_str_def list_all_iff)

section \<open>All interleavings\<close>

text \<open>
  C21. The database invariant survives every interleaving of any requests, whatever statements
  fail: there is at most one administrator, ids only grow, the names of combined subscriptions
  are distinct and fit a path segment, members refer to existing rows, and the settings are
  values their handlers accept.
\<close>

theorem server_invariant:
  assumes "interleave exec (range (serve C cfg)) ([], d0) (ps, d)" and "db_ok (codecs C) d0"
  shows "db_ok (codecs C) d \<and> length (db_users d) \<le> 1
    \<and> set (db_members d) \<subseteq> cb_id ` set (db_combineds d) \<times> so_id ` set (db_sources d)
    \<and> distinct (map cb_name (db_combineds d))"
proof -
  have "db_ok (codecs C) d"
    using db.interleave_keeps [OF assms(1)] assms(2) serve_issues by auto
  then show ?thesis by (simp add: db_ok_def accounts_ok_def members_ok_def combineds_ok_def)
qed

text \<open>Two setups at the same time: the second one to insert creates no second administrator.\<close>

definition two_setups :: "(stmt, db_error + reply, (response, api_error) outcome) prog list" where
  "two_setups = map (serve sample_crates sample_config) [Setup sample_setup, Setup sample_setup]"

definition race :: "(nat \<times> faults event) list" where
  "race = [(0, Bytes ''s''), (1, Bytes ''t''), (1, Time 0), (0, Time 0), (1, Answer []), (0, Answer [])]"

lemma sample_setup_valid: "valid_username (trim ''admin'')" "trim ''admin'' = ''admin''"
  by code_simp+

lemma sample_create:
  "serve sample_crates sample_config (Setup sample_setup) =
     Random (\<lambda>salt. Clock (\<lambda>t. Query (Single (Insert_User_If_Empty ''admin'' ''hpassword'' (to_rfc3339 sample_crates t)))
       (\<lambda>r. Return (case r of
           Inl e \<Rightarrow> if is_unique_violation e then Err (conflict ''admin user already exists'')
                     else Err (from_any sample_crates (Sqlx e))
         | Inr r \<Rightarrow> if affected r > 0 then Ok (Username ''admin'')
                     else Err (conflict ''admin user already exists'')))))"
  using sample_setup_valid
  by (auto simp: setup_handler_def sample_setup_def json_body_def create_user_if_empty_def hash_password_def
      now_rfc3339_def await_def db_sql_def map_error_def sql_def fun_eq_iff Let_def split: sum.split)

lemma race_result:
  "snd (play exec race (two_setups, empty_db)) =
     empty_db\<lparr>db_users_seq := 1, db_users := [\<lparr>us_id = 1, us_name = ''admin'', us_hash = ''hpassword'', us_created = ''0''\<rparr>]\<rparr>"
  unfolding race_def two_setups_def list.map sample_create
  by (simp add: exec_Single empty_db_def next_id_def)

theorem server_invariant_witness:
  "length (db_users (snd (play exec race (two_setups, empty_db)))) = 1
    \<and> db_ok rfc_crates (snd (play exec race (two_setups, empty_db)))"
proof -
  have "interleave exec (range (serve sample_crates sample_config)) ([], empty_db) (two_setups, empty_db)"
    by (rule interleave_requests) (auto simp: two_setups_def simp del: serve.simps)
  then have "interleave exec (range (serve sample_crates sample_config)) ([], empty_db)
      (fst (play exec race (two_setups, empty_db)), snd (play exec race (two_setups, empty_db)))"
    using play_interleave by simp
  from server_invariant [OF this] show ?thesis
    using empty_db_ok [of rfc_crates] by (simp add: race_result)
qed


section \<open>The gate\<close>

text \<open>
  C23. Without a valid bearer token no administrative request does anything: for a missing or
  malformed header, and for a token whose hash is not the hash of a session, each of the
  fourteen routes behind the gate answers 401 (500 when the database fails) and leaves the
  database as it was.
\<close>

theorem admin_gate:
  assumes "admin_headers req = Some h"
    and "no_session C h d"
    and "run exec es (serve C cfg req) d = (Return r, d')"
  shows "d' = d \<and> (\<exists>e. r = Err e \<and> (ae_status e = 401 \<or> ae_status e = 500))
    \<and> (answers_in calm es \<longrightarrow> (\<exists>e. r = Err e \<and> ae_status e = 401))"
proof -
  obtain k where k: "serve C cfg req = await (require_admin C cfg h) k"
    using serve_gate [OF assms(1)] by blast
  from run_post [OF assms(3), unfolded k, OF gate_closed(1) [OF assms(2)]]
    run_post_calm [OF assms(3) _, unfolded k, OF _ gate_closed(2) [OF assms(2)]]
  show ?thesis by blast
qed

lemma sample_no_session: "no_session sample_crates (bearer ''x'') empty_db"
  by (simp add: no_session_def has_session_def empty_db_def)

theorem admin_gate_witness:
  "\<exists>e. run exec [Answer []] (serve sample_crates sample_config (Delete_Source_Req (bearer ''x'') (Inr 1))) empty_db
      = (Return (Err e), empty_db) \<and> ae_status e = 401"
proof -
  let ?p = "serve sample_crates sample_config (Delete_Source_Req (bearer ''x'') (Inr 1))"
  have "\<exists>r. run exec [Answer []] ?p empty_db = (Return r, empty_db)"
    by (simp add: delete_source_def run_simps empty_db_def)
  then obtain r where r: "run exec [Answer []] ?p empty_db = (Return r, empty_db)" by blast
  from admin_gate [OF _ sample_no_session r] show ?thesis
    using r by (auto simp: calm_def)
qed

section \<open>Accounts and sessions\<close>




lemma sample_30_days: "session_ttl 30 = Some (30 * 86400 * second)"
  by (simp add: session_ttl_def try_days_def nanos_per_day_def)



text \<open>
  C25. A time to live that a time delta can hold but a date cannot makes the server panic: the
  first request with the token of a session, whose handler dies with the database unchanged,
  and the cleaning at the start. (A comment in \<open>db.rs\<close> says such values never panic; that is so
  only beyond 106751991167 days, the limit of a time delta.)
\<close>

theorem ttl_panics:
  assumes "session_ttl ttl_days = Some ttl"
    and "find (\<lambda>s. se_hash s = sha256_hex C token) (db_sessions d) = Some s"
    and "parse_rfc3339 C (se_last s) = Some since"
    and "\<not> datetime_range C (since + ttl)" and "\<not> datetime_range C (now - ttl)"
  shows "run exec [Answer []] (validate_session C token ttl_days) d = (Return Panic, d)
    \<and> run exec [Time now] (delete_expired_sessions C ttl_days) d = (Return Panic, d)"
  using assms by (simp add: run_simps expired_def datetime_add_def delete_expired_sessions_def)

theorem ttl_panics_witness:
  "run exec [Answer []] (validate_session sample_crates ''tok'' 100000000) (with_session ''#tok'' ''0'' empty_db)
    = (Return Panic, with_session ''#tok'' ''0'' empty_db)"
proof -
  have ttl: "session_ttl 100000000 = Some (100000000 * 86400 * second)"
    by (simp add: session_ttl_def try_days_def nanos_per_day_def)
  show ?thesis
    using ttl_panics [OF ttl, of sample_crates "''tok''" "with_session ''#tok'' ''0'' empty_db" _ 0 0]
    by (simp add: with_session_def empty_db_def second_def)
qed

text \<open>
  C26. Setup creates the administrator or nothing: on success there was no user before and there
  is exactly one after, with the trimmed and valid name and a hash of the confirmed password of
  at least eight bytes; every error leaves the database as it was; a valid request to a server
  that has an administrator is answered 409.
\<close>

theorem setup_creates_once:
  assumes "run exec es (serve C cfg (Setup body)) d = (Return r, d')"
  shows "setup_done C body d r d'
    \<and> (\<forall>b hash. body = Inr b \<and> valid_username (trim (su_username b)) \<and> 8 \<le> length (su_password b)
         \<and> su_password_confirm b = su_password b \<and> db_users d \<noteq> [] \<and> answers_in calm es
         \<and> (\<forall>salt. argon2_hash C salt (su_password b) = Inr (hash salt))
       \<longrightarrow> (\<exists>e. r = Err e \<and> ae_status e = 409))"
proof -
  have "wp calm exec (setup_handler C (Inr b)) (\<lambda>r d'. \<exists>e. r = Err e \<and> ae_status e = 409) d"
    if "valid_username (trim (su_username b))" "8 \<le> length (su_password b)"
      "su_password_confirm b = su_password b" "db_users d \<noteq> []"
      "\<forall>salt. argon2_hash C salt (su_password b) = Inr (hash salt)" for b hash
    using that by (simp add: setup_handler_def json_body_def create_user_if_empty_def hash_password_def
        now_rfc3339_def Let_def)
  with run_post_calm [OF assms] run_post [OF assms [simplified], OF wp_setup]
  show ?thesis by fastforce
qed

theorem setup_creates_once_witness:
  "setup_done sample_crates sample_setup empty_db (Ok (Username ''admin''))
     (empty_db\<lparr>db_users_seq := 1, db_users :=
        [\<lparr>us_id = 1, us_name = ''admin'', us_hash = ''hpassword'', us_created = ''0''\<rparr>]\<rparr>)"
proof -
  have "run exec [Bytes ''s'', Time 0, Answer []] (serve sample_crates sample_config (Setup sample_setup)) empty_db
      = (Return (Ok (Username ''admin'')), empty_db\<lparr>db_users_seq := 1, db_users :=
          [\<lparr>us_id = 1, us_name = ''admin'', us_hash = ''hpassword'', us_created = ''0''\<rparr>]\<rparr>)"
    unfolding sample_create by (simp add: exec_Single empty_db_def next_id_def)
  from setup_creates_once [OF this] show ?thesis by blast
qed

text \<open>
  C27. A login succeeds only with the password of an existing user, whatever fails: then exactly
  one session is added, under the hash of a fresh token, and any other ending leaves the
  database as it was. A name that no user has is refused with 401 like a wrong password, though
  the dummy hash is verified for it.
\<close>

theorem login_needs_password:
  assumes "run exec es (serve C cfg (Login body)) d = (Return r, d')"
  shows "login_done C body d r d'
    \<and> (\<forall>b. body = Inr b \<and> answers_in calm es
         \<and> (\<forall>u \<in> set (db_users d). us_name u = trim (li_username b)
              \<longrightarrow> \<not> verify_password_hash C (li_password b) (us_hash u))
       \<longrightarrow> (\<exists>e. r = Err e \<and> ae_status e = 401))"
proof -
  have "wp calm exec (login C (Inr b)) (\<lambda>r d'. \<exists>e. r = Err e \<and> ae_status e = 401) d"
    if "\<forall>u \<in> set (db_users d). us_name u = trim (li_username b)
          \<longrightarrow> \<not> verify_password_hash C (li_password b) (us_hash u)" for b
    using that find_user [of "\<lambda>u. us_name u = trim (li_username b)" "db_users d"]
    by (cases "find (\<lambda>u. us_name u = trim (li_username b)) (db_users d)")
      (auto simp: login_def json_body_def verify_user_def)
  with run_post_calm [OF assms] run_post [OF assms [simplified], OF wp_login]
  show ?thesis by fastforce
qed

definition admin_db :: database where
  "admin_db = with_session ''#old'' ''0'' (empty_db\<lparr>db_users_seq := 1,
     db_users := [\<lparr>us_id = 1, us_name = ''admin'', us_hash = ''hpassword'', us_created = ''0''\<rparr>]\<rparr>)"

lemmas admin_db_simps = admin_db_def with_session_def empty_db_def

definition dummy_login :: "login_request body" where
  "dummy_login = Inr \<lparr>li_username = ''nobody'', li_password = ''dummy-password''\<rparr>"

theorem login_needs_password_witness:
  "\<exists>e. fst (run exec [Answer []] (serve sample_crates sample_config (Login dummy_login)) admin_db)
      = Return (Err e) \<and> ae_status e = 401"
proof -
  let ?p = "serve sample_crates sample_config (Login dummy_login)"
  have t: "trim ''nobody'' = ''nobody''" by code_simp
  have "\<exists>r. run exec [Answer []] ?p admin_db = (Return r, admin_db)"
    by (simp add: login_def dummy_login_def run_simps verify_user_def t admin_db_simps)
  then obtain r where r: "run exec [Answer []] ?p admin_db = (Return r, admin_db)" by blast
  from login_needs_password [OF r] show ?thesis
    using r by (auto simp: dummy_login_def t calm_def admin_db_simps)
qed

text \<open>
  C28. A successful change of the password needs the old one, sets a hash of the new one for
  that user, and ends every session, that of the request included.
\<close>

theorem password_change_ends_sessions:
  assumes "run exec es (serve C cfg (Put_Config h (Inr b))) d = (Return (Ok resp), d')"
    and "uc_change_password b = Some cp"
  shows "password_changed C cp d d'"
  using run_post [OF assms(1) [simplified], OF wp_update_config [OF assms(2)]] by simp

definition new_password :: update_config_body where
  "new_password = \<lparr>uc_change_password = Some \<lparr>cp_old = ''password'', cp_new = ''password2''\<rparr>, uc_v2ray_base64 = None\<rparr>"

text \<open>The answers of a request that changes the password, up to the deletion of the sessions.\<close>

definition change_events :: "faults event list" where
  "change_events = [Answer [], Time 0, Time 0, Answer [], Answer [], Answer [], Bytes ''s'', Answer []]"

definition changed_db :: database where
  "changed_db = admin_db\<lparr>db_users :=
     [\<lparr>us_id = 1, us_name = ''admin'', us_hash = ''hpassword2'', us_created = ''0''\<rparr>]\<rparr>"

definition old_token :: headers where
  "old_token = bearer ''old''"

lemma old_token_bearer [simp]: "parse_bearer old_token = Ok ''old''"
proof -
  have "list_all (\<lambda>c. 32 \<le> byte c \<and> byte c < 127) ''old''" by code_simp
  then show ?thesis unfolding old_token_def by (rule bearer_simp)
qed

lemma change_run:
  "run exec (change_events @ [Answer x, Answer [], Answer []])
      (serve sample_crates sample_config (Put_Config old_token (Inr new_password))) admin_db
    = (case fst (pop x) of
         None \<Rightarrow> (Return (Ok (Config_Dto ''admin'' True)), changed_db\<lparr>db_sessions := []\<rparr>)
       | Some e \<Rightarrow> (Return (Err (from_any sample_crates (Sqlx e))), changed_db))"
  by (simp add: change_events_def changed_db_def update_config_def change_admin_password_def run_simps
      get_username_def verify_user_def verify_password_hash_def update_password_def hash_password_def
      delete_all_sessions_def config_dto_def new_password_def admin_db_simps sample_30_days expired_def
      datetime_add_def second_def whole_second_def split: option.split cong del: outcome.case_cong)

theorem password_change_ends_sessions_witness:
  "password_changed sample_crates \<lparr>cp_old = ''password'', cp_new = ''password2''\<rparr> admin_db
     (changed_db\<lparr>db_sessions := []\<rparr>)"
proof -
  have "run exec (change_events @ [Answer [], Answer [], Answer []])
      (serve sample_crates sample_config (Put_Config old_token (Inr new_password))) admin_db
    = (Return (Ok (Config_Dto ''admin'' True)), changed_db\<lparr>db_sessions := []\<rparr>)"
    using change_run [of "[]"] by (simp del: serve.simps)
  from password_change_ends_sessions [OF this] show ?thesis by (simp add: new_password_def)
qed

text \<open>
  The change of the password and the deletion of the sessions are two statements: when the
  second fails, the request is answered 500, but the new password is in force and the token of
  before is still accepted.
\<close>

theorem stale_session_survives:
  "\<exists>es e. run exec es (serve sample_crates sample_config (Put_Config old_token (Inr new_password))) admin_db
      = (Return (Err e), changed_db)
    \<and> ae_status e = 500 \<and> us_hash (hd (db_users changed_db)) = ''hpassword2''
    \<and> fst (run exec [Answer [], Time 0, Time 0, Answer []] (require_admin sample_crates sample_config old_token) changed_db)
      = Return (Ok ())"
proof -
  have "fst (run exec [Answer [], Time 0, Time 0, Answer []] (require_admin sample_crates sample_config old_token) changed_db)
      = Return (Ok ())"
    by (simp add: run_simps changed_db_def admin_db_simps sample_30_days expired_def datetime_add_def
        second_def whole_second_def cong del: outcome.case_cong)
  moreover have "us_hash (hd (db_users changed_db)) = ''hpassword2''" by (simp add: changed_db_def)
  ultimately show ?thesis
    using change_run [of "[Some (DriverError [])]"] by (intro exI conjI) (auto simp del: serve.simps)
qed

end
