(* ===== verification/Combined_Lemmas.thy ===== *)
theory Combined_Lemmas
  imports Server_Lemmas
begin

text \<open>
  What the handlers of combined subscriptions do to the tables, and the tables seen as a
  catalog: a map from names to the id and the set of sources of a combined subscription, on
  which every operation of the handlers is a simple update.
\<close>

section \<open>Creation\<close>

lemma wp_create_rows:
  assumes "\<And>e. Q (Err e) d"
    and "\<And>i. next_id (db_combineds_seq d) = Some i \<Longrightarrow> name \<notin> cb_name ` set (db_combineds d)
           \<Longrightarrow> Q (Ok i) (with_combined i name created ids d)"
  shows "wp any_faults exec (create_combined_rows C name created ids) Q d"
proof -
  have tx: "wp any_faults exec (tx (Create_Combined_Tx name created ids)) R d"
    if "\<And>fs. R (of_sum (fst (create_combined_tx fs name created ids d))) (snd (create_combined_tx fs name created ids d))" for R
    using that by (simp add: wp_tx exec_def)
  show ?thesis
    unfolding create_combined_rows_def wp_await wp_map_error
    apply (rule tx)
    subgoal for fs
      by (cases rule: create_tx_cases [of fs name created ids d]) (simp_all add: assms)
    done
qed

lemma members_of_new:
  assumes "members_ok d" and "combineds_ok d" and "sources_ok d" and "next_id (db_combineds_seq d) = Some i"
  shows "sort (map snd (filter (\<lambda>(c, s). c = i) (db_members (with_combined i name created ids d))))
    = filter (\<lambda>s. s \<in> set ids) (map so_id (db_sources d))"
proof -
  have fresh: "i \<notin> cb_id ` set (db_combineds d)"
    using assms(2,4) keyed_fresh by (fastforce simp: combineds_ok_def)
  then have old: "(i, s) \<notin> set (db_members d)" for s
    using assms(1) by (auto simp: members_ok_def)
  then have "filter (\<lambda>(c, s). c = i) (db_members d) = []"
    by (auto simp: filter_empty_conv)
  moreover have "new_members i ids d = map (Pair i) (filter (\<lambda>s. s \<in> set ids) (map so_id (db_sources d)))"
    using old by (simp add: new_members_def)
  moreover have "sorted (map so_id (db_sources d))"
    using assms(3) by (simp add: sources_ok_def keyed_def strict_sorted_iff)
  then have "sorted (filter (\<lambda>s. s \<in> set ids) (map so_id (db_sources d)))"
    by (rule sorted_wrt_filter)
  ultimately show ?thesis
    by (simp add: with_combined_def comp_def sorted_sort_id del: filter_map)
qed

text \<open>How a creation can end: without a trace, or with the row and all its members.\<close>

definition combined_made ::
  "server_crates \<Rightarrow> create_combined_body \<Rightarrow> database \<Rightarrow> (response, api_error) outcome \<Rightarrow> database \<Rightarrow> bool" where
  "combined_made C b d r d' \<longleftrightarrow> (\<exists>d1. sessions_only d d1 \<and>
     ((\<forall>x. r \<noteq> Ok x) \<and> d' = d1 \<or>
      (\<exists>i created. let ids = unwrap_or [] (cc_source_ids b) in
         next_id (db_combineds_seq d) = Some i \<and> valid_combined_name (cc_name b)
         \<and> cc_name b \<notin> cb_name ` set (db_combineds d)
         \<and> d' = with_combined i (cc_name b) created ids d1
         \<and> (r = Ok (Combined_Created (dto i (cc_name b) created
                (filter (\<lambda>s. s \<in> set ids) (map so_id (db_sources d)))))
            \<or> (\<exists>e. r = Err (from_sqlx C e))))))"

lemma combined_made_same: "sessions_only d d1 \<Longrightarrow> (\<forall>x. r \<noteq> Ok x) \<Longrightarrow> combined_made C b d r d1"
  by (auto simp: combined_made_def)

lemma sessions_only_ok: "sessions_only d d1 \<Longrightarrow> members_ok d1 = members_ok d \<and> combineds_ok d1 = combineds_ok d
    \<and> sources_ok d1 = sources_ok d"
  by (auto simp: members_ok_def combineds_ok_def sources_ok_def sessions_only_tables)

lemma wp_create_combined:
  assumes "db_ok E d"
  shows "wp any_faults exec (create_combined C cfg h (Inr b)) (combined_made C b d) d"
  unfolding create_combined_def
proof (rule wp_gate)
  fix d1
  assume d1: "sessions_only d d1"
  let ?ids = "unwrap_or [] (cc_source_ids b)"
  have rows: "wp any_faults exec (await (create_combined_rows C (cc_name b) created ?ids) (\<lambda>i.
      await (member_ids C i) (\<lambda>source_ids. Return (Ok (Combined_Created (dto i (cc_name b) created source_ids))))))
    (combined_made C b d) d1" if "valid_combined_name (cc_name b)" for created
    unfolding wp_await [of _ _ "create_combined_rows C (cc_name b) created ?ids"]
  proof (rule wp_create_rows)
    fix i
    assume i: "next_id (db_combineds_seq d1) = Some i" "cc_name b \<notin> cb_name ` set (db_combineds d1)"
    have made: "combined_made C b d r (with_combined i (cc_name b) created ?ids d1)"
      if "r = Ok (Combined_Created (dto i (cc_name b) created
                (filter (\<lambda>s. s \<in> set ?ids) (map so_id (db_sources d))))) \<or> (\<exists>e. r = Err (from_sqlx C e))" for r
      unfolding combined_made_def
      using that i d1 \<open>valid_combined_name _\<close> sessions_only_tables [OF d1]
      by (intro exI [of _ d1] conjI disjI2 exI [of _ i] exI [of _ created]) (auto simp: Let_def)
    have err: "combined_made C b d (Err (from_sqlx C e)) (with_combined i (cc_name b) created ?ids d1)" for e
      by (rule made) blast
    have "sort (map snd (filter (\<lambda>(c, s). c = i) (db_members (with_combined i (cc_name b) created ?ids d1))))
      = filter (\<lambda>s. s \<in> set ?ids) (map so_id (db_sources d))"
      using members_of_new [of d1 i "cc_name b" created ?ids] assms i(1) sessions_only_ok [OF d1]
      by (simp add: db_ok_def sessions_only_tables [OF d1])
    then show "case Ok i of Ok a \<Rightarrow> wp any_faults exec
          (await (member_ids C a) (\<lambda>source_ids. Return (Ok (Combined_Created (dto a (cc_name b) created source_ids)))))
          (combined_made C b d) (with_combined i (cc_name b) created ?ids d1)
        | Err e \<Rightarrow> combined_made C b d (Err e) (with_combined i (cc_name b) created ?ids d1)
        | Panic \<Rightarrow> combined_made C b d Panic (with_combined i (cc_name b) created ?ids d1)"
      by (simp add: member_ids_def made err)
  qed (simp add: combined_made_same [OF d1])
  show "wp any_faults exec (check (json_body (Inr b)) (\<lambda>b.
     if \<not> valid_combined_name (cc_name b) then Return (Err name_error)
     else now_rfc3339 C (\<lambda>created_at.
       await (create_combined_rows C (cc_name b) created_at (unwrap_or [] (cc_source_ids b))) (\<lambda>i.
       await (member_ids C i) (\<lambda>source_ids.
       Return (Ok (Combined_Created (dto i (cc_name b) created_at source_ids)))))))) (combined_made C b d) d1"
    using rows by (simp add: json_body_def now_rfc3339_def combined_made_same [OF d1] del: wp_await)
qed (simp_all add: combined_made_same)

section \<open>The catalog\<close>

text \<open>The abstract state: by id, the name and the set of sources of a combined subscription.\<close>

type_synonym catalog = "int \<rightharpoonup> string \<times> int set"

definition catalog :: "database \<Rightarrow> catalog" where
  "catalog d i = map_option (\<lambda>c. (cb_name c, {s. (i, s) \<in> set (db_members d)}))
     (find (\<lambda>c. cb_id c = i) (db_combineds d))"

definition source_ids :: "database \<Rightarrow> int set" where
  "source_ids d = so_id ` set (db_sources d)"

definition map_members :: "(int \<Rightarrow> int set \<Rightarrow> int set) \<Rightarrow> catalog \<Rightarrow> catalog" where
  "map_members f m = (\<lambda>i. map_option (\<lambda>(n, M). (n, f i M)) (m i))"

text \<open>What a statement that was carried out does to the catalog, given the sources there are.\<close>

fun created_id :: "reply \<Rightarrow> int option" where
  "created_id (Row_Id i) = Some i"
| "created_id _ = None"

definition catalog_insert :: "string \<Rightarrow> int set \<Rightarrow> reply \<Rightarrow> catalog \<Rightarrow> catalog" where
  "catalog_insert name M r m = (case created_id r of Some i \<Rightarrow> m(i \<mapsto> (name, M)) | None \<Rightarrow> m)"

definition catalog_step :: "int set \<Rightarrow> stmt \<Rightarrow> reply \<Rightarrow> catalog \<Rightarrow> catalog" where
  "catalog_step S s r m =
     (case s of
        Create_Combined_Tx name created ids \<Rightarrow> catalog_insert name (set ids \<inter> S) r m
      | Replace_Members_Tx cid ids \<Rightarrow> map_members (\<lambda>i M. if i = cid then set ids \<inter> S else M) m
      | Single q \<Rightarrow>
     (case q of
        Insert_Combined name created \<Rightarrow> catalog_insert name {} r m
      | Insert_Members cid ids \<Rightarrow> map_members (\<lambda>i M. if i = cid then M \<union> set ids \<inter> S else M) m
      | Delete_Members cid \<Rightarrow> map_members (\<lambda>i M. if i = cid then {} else M) m
      | Rename_Combined cid name \<Rightarrow> m(cid := map_option (\<lambda>(_, M). (name, M)) (m cid))
      | Delete_Combined cid \<Rightarrow> m(cid := None)
      | Delete_Source sid \<Rightarrow> map_members (\<lambda>_ M. M - {sid}) m
      | _ \<Rightarrow> m))"

lemma catalog_same: "db_combineds d' = db_combineds d \<Longrightarrow> db_members d' = db_members d \<Longrightarrow> catalog d' = catalog d"
  by (rule ext) (simp add: catalog_def)

lemma find_ne: "find (\<lambda>x. f x = i) (filter (\<lambda>x. f x \<noteq> j) xs) = (if i = j then None else find (\<lambda>x. f x = i) xs)"
  by (induction xs) auto

lemma find_map_keep:
  "(\<And>x. f (g x) = f x) \<Longrightarrow> find (\<lambda>x. f x = i) (map g xs) = map_option g (find (\<lambda>x. f x = i) xs)"
  by (induction xs) auto

lemma find_snoc: "find P (xs @ [x]) = (case find P xs of Some y \<Rightarrow> Some y | None \<Rightarrow> if P x then Some x else None)"
  by (induction xs) auto

lemma find_absent: "i \<notin> f ` set xs \<Longrightarrow> find (\<lambda>x. f x = i) xs = None"
  by (auto simp: find_None_iff)

lemma fresh_combined:
  assumes "db_ok E d" and "next_id (db_combineds_seq d) = Some i"
  shows "i \<notin> cb_id ` set (db_combineds d)" and "(i, s) \<notin> set (db_members d)"
proof -
  show fresh: "i \<notin> cb_id ` set (db_combineds d)"
    using assms keyed_fresh by (fastforce simp: db_ok_def combineds_ok_def)
  with assms(1) show "(i, s) \<notin> set (db_members d)" by (auto simp: db_ok_def members_ok_def)
qed

lemma catalog_created:
  assumes "db_ok E d" and "next_id (db_combineds_seq d) = Some i"
  shows "catalog (with_combined i name created ids d) = (catalog d)(i \<mapsto> (name, set ids \<inter> source_ids d))"
  using fresh_combined [OF assms] find_absent [OF fresh_combined(1) [OF assms]]
  by (auto simp: catalog_def with_combined_def new_members_def source_ids_def find_snoc fun_eq_iff
      split: option.split)

lemma catalog_members:
  "catalog (with_members cid ids d) = map_members (\<lambda>i M. if i = cid then set ids \<inter> source_ids d else M) (catalog d)"
  by (auto simp: catalog_def with_members_def map_members_def source_ids_def fun_eq_iff
      option.map_comp comp_def intro!: map_option_cong)

lemma catalog_sql:
  assumes "db_ok E d" and "apply_sql q d = (Inr r, d')"
  shows "catalog d' = catalog_step (source_ids d) (Single q) r (catalog d)"
proof (cases q)
  case (Insert_Combined name created)
  with assms obtain i where i: "next_id (db_combineds_seq d) = Some i" "r = Row_Id i"
    "d' = d\<lparr>db_combineds_seq := i, db_combineds := db_combineds d @ [\<lparr>cb_id = i, cb_name = name, cb_created = created\<rparr>]\<rparr>"
    by (auto split: if_splits option.splits)
  then have "d' = with_combined i name created [] d" by (simp add: with_combined_def new_members_def)
  then have "catalog d' = (catalog d)(i \<mapsto> (name, {}))"
    using catalog_created [OF assms(1) i(1), of name created "[]"] by simp
  with i(2) Insert_Combined show ?thesis by (simp add: catalog_step_def catalog_insert_def)
next
  case (Insert_Members cid ids)
  with assms(2) have "d' = d\<lparr>db_members := db_members d @ new_members cid ids d\<rparr>" by (auto split: if_splits)
  with Insert_Members show ?thesis
    by (auto simp: catalog_step_def catalog_def map_members_def new_members_def source_ids_def fun_eq_iff option.map_comp comp_def
        intro!: map_option_cong)
next
  case (Delete_Members cid)
  with assms(2) show ?thesis
    by (auto simp: catalog_step_def catalog_def map_members_def fun_eq_iff option.map_comp comp_def intro!: map_option_cong)
next
  case (Delete_Source sid)
  with assms(2) show ?thesis
    by (auto simp: catalog_step_def catalog_def map_members_def fun_eq_iff option.map_comp comp_def intro!: map_option_cong)
next
  case (Delete_Combined cid)
  with assms(2) show ?thesis
    by (auto simp: catalog_step_def catalog_def fun_eq_iff find_ne intro!: map_option_cong)
next
  case (Rename_Combined cid name)
  with assms(2) have "d' = d\<lparr>db_combineds := map (\<lambda>c. if cb_id c = cid then c\<lparr>cb_name := name\<rparr> else c) (db_combineds d)\<rparr>"
    by (auto split: if_splits)
  with Rename_Combined show ?thesis
    by (auto simp: catalog_step_def catalog_def fun_eq_iff find_map_keep option.map_comp comp_def find_Some_iff intro!: map_option_cong)
qed (use assms(2) in \<open>auto simp: catalog_step_def split: if_splits option.splits intro!: catalog_same\<close>)

section \<open>The list\<close>

lemma members_sorted:
  assumes "distinct ps"
  shows "map snd (filter (\<lambda>(c, s). c = cid) (sort ps)) = sorted_list_of_set {s. (cid, s) \<in> set (ps :: (int \<times> int) list)}"
proof -
  let ?xs = "map snd (filter (\<lambda>(c, s). c = cid) ps)"
  have "distinct ?xs" using assms by (auto simp: distinct_map inj_on_def)
  moreover have "set ?xs = {s. (cid, s) \<in> set ps}" by force
  ultimately show ?thesis
    by (metis distinct_remdups_id sorted_list_of_set_sort_remdups sorted_members)
qed

lemma listed:
  assumes "db_ok E d"
  shows "combined_dtos (db_combineds d) (group_members (sort (db_members d)) Map.empty) =
    map (\<lambda>c. dto (cb_id c) (cb_name c) (cb_created c)
      (sorted_list_of_set {s. (cb_id c, s) \<in> set (db_members d)})) (db_combineds d)"
proof -
  have "distinct (map cb_id (db_combineds d))" "distinct (db_members d)"
    using assms keyed_distinct by (auto simp: db_ok_def combineds_ok_def members_ok_def)
  then show ?thesis
    by (simp add: combined_dtos_eq group_members_eq members_sorted)
qed

lemma wp_list_combineds:
  assumes "db_ok E d"
  shows "wp any_faults exec (list_combineds C cfg h) (\<lambda>r d'. \<forall>x. r = Ok x \<longrightarrow>
    x = Combined_List (map (\<lambda>c. dto (cb_id c) (cb_name c) (cb_created c)
      (sorted_list_of_set {s. (cb_id c, s) \<in> set (db_members d)})) (db_combineds d))) d"
  unfolding list_combineds_def
  by (rule wp_gate) (simp_all add: sessions_only_tables listed [OF assms, symmetric])

end
