(* ===== verification/Fetch_Lemmas.thy ===== *)
theory Fetch_Lemmas
  imports Server_Lemmas
begin

text \<open>
  What the concurrent fetch returns for every order of completion, and what the subscription
  endpoint makes of it.
\<close>

section \<open>The tasks\<close>

text \<open>A result that the task of a source can have.\<close>

definition task_of :: "crates \<Rightarrow> nat \<Rightarrow> source_row \<Rightarrow> task_result \<Rightarrow> bool" where
  "task_of E m s r \<longleftrightarrow>
     (if so_kind s = ''single'' then r = map_option (Pair (so_name s)) (single_nodes E (so_url s))
      else \<exists>reply. r = map_option (Pair (so_name s)) (remote_nodes E m (fetch_text reply)))"

lemma wp_tasks:
  "(\<And>rs. list_all2 (task_of E m) ss rs \<Longrightarrow> Q rs d) \<Longrightarrow> wp G X (source_tasks E m ss) Q d"
proof (induction ss arbitrary: Q)
  case Nil
  then show ?case by simp
next
  case (Cons s ss)
  have rest: "wp G X (source_tasks E m ss) (\<lambda>rs. Q (r # rs)) d" if "task_of E m s r" for r
    using that Cons by simp
  show ?case
  proof (cases "so_kind s = ''single''")
    case True
    then show ?thesis using rest by (simp add: source_task_def task_of_def)
  next
    case False
    have "wp G X (source_tasks E m ss)
        (\<lambda>rs. Q (map_option (Pair (so_name s)) (remote_nodes E m (fetch_text reply)) # rs)) d" for reply
      by (rule rest) (use False in \<open>auto simp: task_of_def\<close>)
    with False show ?thesis by (simp add: source_task_def fetch_source_def)
  qed
qed

section \<open>Merging\<close>

definition merged ::
  "nat \<Rightarrow> task_result list \<Rightarrow> proxy_node list \<times> source_error list \<Rightarrow> bool" where
  "merged m rs x \<longleftrightarrow> (\<exists>all. mset all = mset (ok_nodes rs) \<and> fst x = take m all)
     \<and> mset (snd x) = mset (failures rs)"

lemma collect_merged:
  assumes "mset js = mset [0..<length rs]"
  shows "merged m rs (case collect (map (\<lambda>i. rs ! i) js) [] [] of (ns, es) \<Rightarrow> (take m ns, es))"
  using ok_nodes_order [OF collected_order [OF assms]] failures_order [OF collected_order [OF assms]]
  by (auto simp: merged_def collect_eq)

definition selected :: "int list option \<Rightarrow> database \<Rightarrow> source_row list" where
  "selected source_ids d = (case source_ids of
     Some ids \<Rightarrow> filter (\<lambda>s. so_id s \<in> set ids) (db_sources d) | None \<Rightarrow> db_sources d)"

definition query_failed :: "server_crates \<Rightarrow> int list option \<Rightarrow> proxy_node list \<times> source_error list \<Rightarrow> bool" where
  "query_failed C source_ids x \<longleftrightarrow> fst x = [] \<and>
     (case source_ids of
        None \<Rightarrow> snd x = []
      | Some ids \<Rightarrow> \<exists>e. snd x = [\<lparr>sr_name = ''combined'', sr_reason = ''member query failed: '' @ sqlx_text C e\<rparr>])"

definition fetched ::
  "server_crates \<Rightarrow> app_config \<Rightarrow> int list option \<Rightarrow> database \<Rightarrow> proxy_node list \<times> source_error list \<Rightarrow> bool" where
  "fetched C cfg source_ids d x \<longleftrightarrow> query_failed C source_ids x \<or>
     (\<exists>rs. list_all2 (task_of (codecs C) (cfg_max_nodes cfg)) (selected source_ids d) rs
        \<and> merged (cfg_max_nodes cfg) rs x)"

lemma fetched_bound: "fetched C cfg ids d x \<Longrightarrow> length (fst x) \<le> cfg_max_nodes cfg"
  by (auto simp: fetched_def query_failed_def merged_def)

lemma wp_select_sources:
  assumes "Q (selected ids d, []) d"
    and "\<And>es. query_failed C ids ([], es) \<Longrightarrow> Q ([], es) d"
  shows "wp any_faults exec (select_sources C ids) Q d"
proof (cases ids)
  case None
  then show ?thesis using assms by (simp add: select_sources_def selected_def query_failed_def)
next
  case (Some l)
  have "Q ([], [\<lparr>sr_name = ''combined'', sr_reason = ''member query failed: '' @ sqlx_text C e\<rparr>]) d" for e
    by (rule assms(2)) (auto simp: query_failed_def Some)
  with Some assms(1) show ?thesis
    by (cases "l = []") (simp_all add: select_sources_def selected_def)
qed

lemma list_all2_Nil_simp: "list_all2 P [] rs \<longleftrightarrow> rs = []"
  by (cases rs) simp_all

lemma wp_fetch_and_merge:
  "wp any_faults exec (fetch_and_merge C cfg ids) (\<lambda>x d'. d' = d \<and> fetched C cfg ids d x) d"
  unfolding fetch_and_merge_def wp_bind
proof (rule wp_select_sources)
  have "wp any_faults exec (source_tasks (codecs C) (cfg_max_nodes cfg) (selected ids d))
    (\<lambda>rs d'. \<forall>js. mset js = mset [0..<length rs] \<longrightarrow>
       d' = d \<and> fetched C cfg ids d (case collect (map (\<lambda>i. rs ! i) js) [] [] of
         (ns, es) \<Rightarrow> (take (cfg_max_nodes cfg) ns, es))) d"
    using collect_merged by (intro wp_tasks) (auto simp: fetched_def)
  then show "wp any_faults exec (case (selected ids d, []) of (sources, errors) \<Rightarrow>
      bind (source_tasks (codecs C) (cfg_max_nodes cfg) sources) (\<lambda>results.
      Join (length results) (\<lambda>order.
      let (all_nodes, errors) = collect (map (\<lambda>i. results ! i) order) [] errors
      in Return (take (cfg_max_nodes cfg) all_nodes, errors)))) (\<lambda>x d'. d' = d \<and> fetched C cfg ids d x) d"
    by (simp add: case_prod_beta Let_def) (erule wp_mono, simp)
next
  fix es
  assume "query_failed C ids ([], es)"
  then show "wp any_faults exec (case ([], es) of (sources, errors) \<Rightarrow>
      bind (source_tasks (codecs C) (cfg_max_nodes cfg) sources) (\<lambda>results.
      Join (length results) (\<lambda>order.
      let (all_nodes, errors) = collect (map (\<lambda>i. results ! i) order) [] errors
      in Return (take (cfg_max_nodes cfg) all_nodes, errors)))) (\<lambda>x d'. d' = d \<and> fetched C cfg ids d x) d"
    by (simp add: Let_def fetched_def)
qed

section \<open>Subscriptions\<close>

definition subscribed ::
  "server_crates \<Rightarrow> app_config \<Rightarrow> int list \<Rightarrow> database \<Rightarrow> (response, api_error) outcome \<Rightarrow> bool" where
  "subscribed C cfg members d r \<longleftrightarrow> (\<forall>x. r = Ok x \<longrightarrow>
     (\<exists>nodes errors t. x = Subscription t \<and> fetched C cfg (Some members) d (nodes, errors)
        \<and> (nodes \<noteq> [] \<or> errors = [])
        \<and> (if map_of (db_settings d) v2ray_b64_key = Some ''0''
           then serialize_v2ray_plain (codecs C) nodes = Ok t
           else serialize_v2ray (codecs C) nodes = Ok t)))"

lemma wp_get_setting:
  "(\<And>e. Q (Err e) d) \<Longrightarrow> Q (Ok (map_of (db_settings d) k)) d \<Longrightarrow> wp any_faults exec (get_setting k) Q d"
  by (simp add: get_setting_def)

lemma wp_subscribe_v2ray:
  "wp any_faults exec (subscribe_v2ray C cfg members) (\<lambda>r d'. d' = d \<and> subscribed C cfg members d r) d"
  unfolding subscribe_v2ray_def wp_bind
proof (rule wp_mono [OF wp_fetch_and_merge])
  fix x d'
  assume "d' = d \<and> fetched C cfg (Some members) d x"
  moreover obtain nodes errors where x: "x = (nodes, errors)" by (cases x)
  ultimately have f: "d' = d" "fetched C cfg (Some members) d (nodes, errors)" by simp_all
  have "wp any_faults exec (await (any C (get_setting v2ray_b64_key)) (\<lambda>setting.
       check (map_err serialize_failed
         (if setting \<noteq> Some ''0'' then serialize_nodes (codecs C) nodes V2ray
          else serialize_v2ray_plain (codecs C) nodes)) (\<lambda>body.
       Return (Ok (Subscription body))))) (\<lambda>r d'. d' = d \<and> subscribed C cfg members d r) d"
    if "nodes \<noteq> [] \<or> errors = []"
    unfolding wp_await wp_any
  proof (rule wp_get_setting)
    show "case map_err (from_any C) (Ok (map_of (db_settings d) v2ray_b64_key)) of
        Ok setting \<Rightarrow> wp any_faults exec (check (map_err serialize_failed
         (if setting \<noteq> Some ''0'' then serialize_nodes (codecs C) nodes V2ray
          else serialize_v2ray_plain (codecs C) nodes)) (\<lambda>body. Return (Ok (Subscription body))))
          (\<lambda>r d'. d' = d \<and> subscribed C cfg members d r) d
      | Err e \<Rightarrow> d = d \<and> subscribed C cfg members d (Err e) | Panic \<Rightarrow> d = d \<and> subscribed C cfg members d Panic"
      using that f(2) by (auto simp: wp_check subscribed_def serialize_nodes_def outcome_simps split: outcome.split)
  qed (simp add: subscribed_def)
  then show "wp any_faults exec (case x of (nodes, errors) \<Rightarrow>
     if nodes = [] \<and> errors \<noteq> [] then Return (Err (all_failed errors))
     else await (any C (get_setting v2ray_b64_key)) (\<lambda>setting.
       check (map_err serialize_failed
         (if setting \<noteq> Some ''0'' then serialize_nodes (codecs C) nodes V2ray
          else serialize_v2ray_plain (codecs C) nodes)) (\<lambda>body.
       Return (Ok (Subscription body))))) (\<lambda>r d'. d' = d \<and> subscribed C cfg members d r) d'"
    by (auto simp: x f(1) subscribed_def simp del: wp_await)
qed

lemma wp_subscribe_clash: "wp any_faults exec (subscribe_clash C h name) (\<lambda>r d'. d' = d) d"
  by (auto simp: subscribe_clash_def wp_check split: outcome.split intro!: wp_get_setting)

lemma find_row: "find P xs = Some x \<Longrightarrow> x \<in> set xs \<and> P x"
  by (auto simp: find_Some_iff)

definition subscription_of ::
  "server_crates \<Rightarrow> app_config \<Rightarrow> string \<Rightarrow> database \<Rightarrow> (response, api_error) outcome \<Rightarrow> bool" where
  "subscription_of C cfg name d r \<longleftrightarrow>
     (\<forall>x. r = Ok x \<longrightarrow> name \<in> cb_name ` set (db_combineds d))"

lemma wp_subscribe:
  "wp any_faults exec (subscribe_handler C cfg name h q) (\<lambda>r d'. d' = d \<and> subscription_of C cfg name d r) d"
proof (cases "find (\<lambda>c. cb_name c = name) (db_combineds d)")
  case None
  then show ?thesis
    by (simp add: subscribe_handler_def wp_check subscription_of_def split: outcome.split)
next
  case (Some c)
  then have "name \<in> cb_name ` set (db_combineds d)" using find_row by fastforce
  then have ok: "subscription_of C cfg name d r" for r by (simp add: subscription_of_def)
  have "wp any_faults exec (subscribe_clash C h name) (\<lambda>r d'. d' = d) d"
    "wp any_faults exec (subscribe_v2ray C cfg m) (\<lambda>r d'. d' = d) d" for m
    using wp_subscribe_clash wp_mono [OF wp_subscribe_v2ray] by auto
  with Some ok show ?thesis
    by (auto simp: subscribe_handler_def wp_check split: outcome.split output_format.split)
qed

end
