(* ===== verification/Delivery_Properties.thy ===== *)
theory Delivery_Properties
  imports Server_Properties Combined_Lemmas Fetch_Lemmas
begin

text \<open>
  The properties of combined subscriptions and of what is delivered: creation, the catalog,
  the grouped list, the fetch of many sources, the cap on a body, the subscription endpoint
  and the static fallback.
\<close>

section \<open>A concrete database\<close>

text \<open>One single source with a vless link, one combined subscription of it, the setting for plain text.\<close>

definition sample_db :: database where
  "sample_db = admin_db
     \<lparr>db_sources := [\<lparr>so_id = 1, so_url = sample_link, so_name = ''home'', so_kind = ''single'', so_created = ''0''\<rparr>],
      db_sources_seq := 1,
      db_combineds := [\<lparr>cb_id = 1, cb_name = ''all'', cb_created = ''0''\<rparr>], db_combineds_seq := 1,
      db_members := [(1, 1)], db_settings := [(v2ray_b64_key, ''0'')]\<rparr>"

lemma sample_db_ok: "db_ok rfc_crates sample_db"
proof -
  have "valid_combined_name ''all''" by code_simp
  then show ?thesis
    by (simp add: sample_db_def admin_db_simps db_parts keyed_def source_kind_def setting_ok_def)
qed

text \<open>The answers that open the gate for the token of the sample session.\<close>

definition gate_events :: "faults event list" where
  "gate_events = [Answer [], Time 0, Time 0, Answer []]"

lemma gate_run_bearer:
  "parse_bearer h = Ok ''old'' \<Longrightarrow> db_sessions d = db_sessions admin_db \<Longrightarrow>
     run exec (gate_events @ es) (await (require_admin sample_crates sample_config h) k) d
       = run exec es (k ()) d"
proof -
  assume h: "parse_bearer h = Ok ''old''" and old: "db_sessions d = db_sessions admin_db"
  then have s: "db_sessions d = [\<lparr>se_hash = ''#old'', se_created = ''0'', se_last = ''0''\<rparr>]"
    by (simp add: admin_db_simps)
  have "d\<lparr>db_sessions := db_sessions d\<rparr> = d" by simp
  then have same: "d\<lparr>db_sessions := [\<lparr>se_hash = ''#old'', se_created = ''0'', se_last = ''0''\<rparr>]\<rparr> = d"
    by (simp only: s)
  from s h show ?thesis
    by (simp add: gate_events_def run_simps sample_30_days expired_def datetime_add_def
        second_def whole_second_def cong del: outcome.case_cong) (simp only: same)
qed

lemmas gate_run = gate_run_bearer [OF old_token_bearer]

section \<open>Combined subscriptions\<close>

text \<open>
  C30. A combined subscription is created with all its members or not at all: with an error
  before the commit nothing but the sessions has changed; otherwise the row is there under a
  fresh id and an unused, valid name, its members are exactly the existing ones of the requested
  sources in the order of their ids, and the answer says so (or the members could not be read
  back and it is an error).
\<close>

theorem create_combined_atomic:
  assumes "db_ok E d"
    and "run exec es (serve C cfg (Create_Combined h (Inr b))) d = (Return r, d')"
  shows "combined_made C b d r d'"
  using run_post [OF assms(2) [simplified], OF wp_create_combined [OF assms(1)]] .

definition new_combined :: create_combined_body where
  "new_combined = \<lparr>cc_name = ''one'', cc_source_ids = Some [7, 1]\<rparr>"

theorem create_combined_atomic_witness:
  "combined_made sample_crates new_combined sample_db
     (Ok (Combined_Created (dto 2 ''one'' ''0'' [1]))) (with_combined 2 ''one'' ''0'' [7, 1] sample_db)"
proof -
  have name: "valid_combined_name ''one''" by code_simp
  have "run exec (gate_events @ [Time 0, Answer [], Answer []])
      (serve sample_crates sample_config (Create_Combined old_token (Inr new_combined))) sample_db
    = (Return (Ok (Combined_Created (dto 2 ''one'' ''0'' [1]))), with_combined 2 ''one'' ''0'' [7, 1] sample_db)"
    unfolding serve.simps create_combined_def
    by (subst gate_run, simp add: sample_db_def)
      (simp add: run_simps new_combined_def name create_combined_rows_def exec_def create_combined_tx_def faulty_def
        insert_members_sql_def sample_db_def admin_db_simps next_id_def new_members_def with_combined_def)
  from create_combined_atomic [OF sample_db_ok this] show ?thesis .
qed

text \<open>
  C31. The list of combined subscriptions, built from two queries by grouping, is what asking for
  the members of each one by one would give: every row in the order of its id with the sorted
  ids of its sources.
\<close>

theorem list_groups_members:
  assumes "db_ok E d"
    and "run exec es (serve C cfg (List_Combineds h)) d = (Return (Ok x), d')"
  shows "x = Combined_List (map (\<lambda>c. dto (cb_id c) (cb_name c) (cb_created c)
    (sorted_list_of_set {s. (cb_id c, s) \<in> set (db_members d)})) (db_combineds d))"
  using run_post [OF assms(2) [simplified], OF wp_list_combineds [OF assms(1)]] by simp

theorem list_groups_members_witness:
  "map (\<lambda>c. dto (cb_id c) (cb_name c) (cb_created c)
      (sorted_list_of_set {s. (cb_id c, s) \<in> set (db_members sample_db)})) (db_combineds sample_db)
    = [dto 1 ''all'' ''0'' [1]]"
proof -
  have "run exec (gate_events @ [Answer [], Answer []])
      (serve sample_crates sample_config (List_Combineds old_token)) sample_db
    = (Return (Ok (Combined_List [dto 1 ''all'' ''0'' [1]])), sample_db)"
    unfolding serve.simps list_combineds_def
    by (subst gate_run, simp add: sample_db_def) (simp add: run_simps sample_db_def)
  from list_groups_members [OF sample_db_ok this] show ?thesis by simp
qed

text \<open>
  C32. The tables refine a catalog, the map from the id of a combined subscription to its name
  and its set of sources: every statement and both transactions, whatever fails, change the
  catalog as the simple map operation they stand for (insertion, replacement of the set,
  renaming, deletion, removal of one source everywhere) or leave it as it is.
\<close>

theorem catalog_refines:
  assumes "db_ok E d" and "exec fs s d = (reply, d')"
  shows "catalog d' = (case reply of
     Inl e \<Rightarrow> catalog d | Inr r \<Rightarrow> catalog_step (source_ids d) s r (catalog d))"
proof (cases s)
  case (Single q)
  show ?thesis
  proof (cases "fst (pop fs)")
    case None
    with assms(2) Single have q: "apply_sql q d = (reply, d')" by (simp add: exec_Single)
    show ?thesis
    proof (cases reply)
      case (Inl e)
      then have "d' = d" using q by (cases q) (auto split: if_splits option.splits)
      with Inl show ?thesis by simp
    next
      case (Inr r)
      with catalog_sql [OF assms(1)] q Single show ?thesis by simp
    qed
  qed (use assms(2) Single in \<open>auto simp: exec_Single\<close>)
next
  case (Create_Combined_Tx name created ids)
  with assms show ?thesis
    by (cases rule: create_tx_cases [of fs name created ids d]) (auto simp: exec_def catalog_created catalog_step_def catalog_insert_def)
next
  case (Replace_Members_Tx cid ids)
  with assms(2) show ?thesis
    by (cases rule: replace_tx_cases [of fs cid ids d]) (auto simp: exec_def catalog_members catalog_step_def)
qed

theorem catalog_refines_witness:
  "catalog (with_members 1 [] sample_db) 1 = Some (''all'', {})"
proof -
  have "exec [] (Replace_Members_Tx 1 []) sample_db = (Inr Done, with_members 1 [] sample_db)"
    by (simp add: exec_def replace_members_tx_def faulty_def insert_members_sql_def with_members_def)
  from catalog_refines [OF sample_db_ok this] show ?thesis
    by (simp add: catalog_step_def map_members_def catalog_def sample_db_def)
qed

section \<open>Fetching\<close>


lemma sample_single: "single_nodes rfc_crates sample_link = Some (Inr [norm_node sample_vless])"
proof -
  have "serialize_link rfc_crates sample_vless = Ok sample_link" "wf_node rfc_crates sample_vless" by code_simp+
  then have "parse_line rfc_crates sample_link = Ok (norm_node sample_vless)"
    using rfc.node_trip [of sample_vless] by (auto simp: link_of_def)
  then show ?thesis by (simp add: single_nodes_def)
qed


text \<open>
  C34. A body is accepted only from a response with a success status and is never longer than
  16 MiB: it is the text received, whole or cut at that limit when more came, and valid UTF-8.
\<close>

theorem body_capped:
  assumes "fetch_text r = Inr t"
  shows "length t \<le> max_body_bytes \<and> utf8_valid t
    \<and> (\<exists>status shown got rest. r = Response status shown (map Inr got @ rest) \<and> is_success status
         \<and> t = take max_body_bytes (concat got)
         \<and> (rest = [] \<or> max_body_bytes < length (concat got)))"
proof -
  obtain status shown chunks where r: "r = Response status shown chunks" "is_success status"
    "read_body chunks [] = Inr t" "utf8_valid t"
    using assms by (auto simp: fetch_text_def split: http_reply.splits if_splits sum.splits)
  from read_body_Inr [OF r(3)] r(1,2,4) show ?thesis by auto
qed

theorem body_capped_witness:
  "fetch_text (Response 200 [] [Inr ''ab'', Inr ''c'']) = Inr ''abc'' \<and> utf8_valid ''abc''"
proof -
  have "utf8_valid ''abc''" by code_simp
  then have "fetch_text (Response 200 [] [Inr ''ab'', Inr ''c'']) = Inr ''abc''"
    by (simp add: fetch_text_def is_success_def max_body_bytes_def)
  with body_capped [OF this] show ?thesis by simp
qed

section \<open>The subscription endpoint\<close>

text \<open>
  C35. The public endpoint only reads: whatever it answers and whatever fails, the database is
  the same afterwards. It answers with a subscription only under the name of a combined
  subscription, and an unknown name gets 404.
\<close>

theorem subscribe_only_reads:
  assumes "run exec es (serve C cfg (Subscribe_Req name h q)) d = (Return r, d')"
  shows "d' = d \<and> ((\<exists>x. r = Ok x) \<longrightarrow> name \<in> cb_name ` set (db_combineds d))
    \<and> (name \<notin> cb_name ` set (db_combineds d) \<and> answers_in calm es \<and> (\<exists>f. q = Inr f)
         \<longrightarrow> (\<exists>e. r = Err e \<and> ae_status e = 404))"
proof -
  have "wp calm exec (subscribe_handler C cfg name h q) (\<lambda>r d'. \<exists>e. r = Err e \<and> ae_status e = 404) d"
    if "name \<notin> cb_name ` set (db_combineds d)" "\<exists>f. q = Inr f"
    using that find_absent [OF that(1)] by (auto simp: subscribe_handler_def query_params_def)
  with run_post_calm [OF assms] run_post [OF assms [simplified] wp_subscribe]
  show ?thesis by (auto simp: subscription_of_def)
qed

theorem subscribe_only_reads_witness:
  "\<exists>e. run exec [Answer []] (serve sample_crates sample_config (Subscribe_Req ''none'' Map.empty (Inr None))) sample_db
    = (Return (Err e), sample_db) \<and> ae_status e = 404"
proof -
  let ?p = "serve sample_crates sample_config (Subscribe_Req ''none'' Map.empty (Inr None))"
  have "\<exists>r. run exec [Answer []] ?p sample_db = (Return r, sample_db)"
    by (simp add: subscribe_handler_def query_params_def run_simps sample_db_def)
  then obtain r where r: "run exec [Answer []] ?p sample_db = (Return r, sample_db)" by blast
  from subscribe_only_reads [OF r] show ?thesis
    using r by (auto simp: sample_db_def calm_def)
qed

lemma clash_subscription_ok:
  assumes "template_ok E t" and "\<forall>v. \<exists>s. yaml_to_string E v = Inr s"
  shows "\<exists>body. serialize_clash_subscription E t key url = Ok body"
proof -
  obtain m where m: "yaml_from_str E t = Inr (YMapping m)"
    using assms(1) by (auto simp: template_ok_def is_mapping_def split: sum.splits yaml.splits)
  obtain doc where "clash_document (YMapping m) key url = Ok doc"
    by (simp add: clash_document_def Let_def)
  moreover obtain s where "yaml_to_string E doc = Inr s" using assms(2) by blast
  ultimately show ?thesis using m by (simp add: serialize_clash_subscription_def)
qed

lemma stored_template_ok:
  "settings_ok E d \<Longrightarrow> map_of (db_settings d) template_key = Some t \<Longrightarrow> template_ok E t"
  by (auto simp: settings_ok_def setting_ok_def template_key_def v2ray_b64_key_def dest!: map_of_SomeD)

text \<open>
  C36. What the administrator may store as a template is enough for the endpoint: in a database
  that satisfies the invariant, a request for the Clash format of an existing combined
  subscription with a host header is answered with a subscription, never with an error about
  the template, when the printer of YAML does not fail and the factory template is a mapping.
\<close>

theorem clash_subscription_served:
  assumes "db_ok (codecs C) d" and "name \<in> cb_name ` set (db_combineds d)"
    and "template_ok (codecs C) default_template" and "\<forall>v. \<exists>s. yaml_to_string (codecs C) v = Inr s"
    and "output_format_param f = Ok Clash" and "host_of h = Ok host"
    and "run exec es (serve C cfg (Subscribe_Req name h (Inr f))) d = (Return r, d')" and "answers_in calm es"
  shows "\<exists>body. r = Ok (Subscription body)"
proof -
  let ?t = "unwrap_or default_template (map_of (db_settings d) template_key)"
  have "template_ok (codecs C) ?t"
    using assms(1,3) stored_template_ok
    by (cases "map_of (db_settings d) template_key") (auto simp: db_ok_def)
  then obtain body where body: "serialize_clash_subscription (codecs C) ?t name (provider_url h host name) = Ok body"
    using clash_subscription_ok assms(4) by blast
  obtain c where "find (\<lambda>c. cb_name c = name) (db_combineds d) = Some c"
    using assms(2) by (cases "find (\<lambda>c. cb_name c = name) (db_combineds d)") (auto simp: find_None_iff)
  then have "wp calm exec (subscribe_handler C cfg name h (Inr f)) (\<lambda>r d'. \<exists>body. r = Ok (Subscription body)) d"
    using assms(5,6) body
    by (simp add: subscribe_handler_def query_params_def subscribe_clash_def get_setting_def)
  from run_post_calm [OF assms(7) [simplified] assms(8) this] show ?thesis .
qed

text \<open>Crates that read every text as the empty mapping.\<close>

definition yaml_sample :: server_crates where
  "yaml_sample = sample_crates\<lparr>codecs := rfc_crates\<lparr>yaml_from_str := \<lambda>_. Inr (YMapping []), yaml_to_string := \<lambda>_. Inr ''{}''\<rparr>\<rparr>"

theorem clash_subscription_served_witness:
  "\<exists>body. fst (run exec [Answer [], Answer [], Answer []]
     (serve yaml_sample sample_config (Subscribe_Req ''all'' [''host'' \<mapsto> ''h''] (Inr None))) sample_db)
     = Return (Ok (Subscription body))"
proof -
  let ?E = "codecs yaml_sample" and ?h = "[''host'' \<mapsto> ''h'']"
  let ?p = "serve yaml_sample sample_config (Subscribe_Req ''all'' ?h (Inr None))"
  have ok: "db_ok ?E sample_db"
    using sample_db_ok by (simp add: db_ok_def settings_ok_def setting_ok_def sample_db_def)
  have host: "host_of ?h = Ok ''h''"
    by (simp add: host_of_def) code_simp
  have template: "template_ok ?E default_template"
    by (simp add: template_ok_def is_mapping_def yaml_sample_def)
  have "\<exists>r. run exec [Answer [], Answer [], Answer []] ?p sample_db = (Return r, sample_db)"
    by (simp add: subscribe_handler_def query_params_def output_format_param_def subscribe_clash_def host
        run_simps sample_db_def yaml_sample_def serialize_clash_subscription_def clash_document_def template_key_def
        v2ray_b64_key_def)
  then obtain r where r: "run exec [Answer [], Answer [], Answer []] ?p sample_db = (Return r, sample_db)" by blast
  have "\<exists>body. r = Ok (Subscription body)"
    by (rule clash_subscription_served [OF ok _ template _ _ host r])
      (simp_all add: sample_db_def yaml_sample_def output_format_param_def calm_def)
  then show ?thesis using r by auto
qed

text \<open>
  C37. What one server delivers, another one reads: a subscription in the v2ray format is the
  list of links of the merged nodes, as text when the setting says so and else as base64, and a
  server that has the endpoint as a remote source gets from it the normal form of those nodes
  the format carries, in order, up to its own limit (under the bounds of the line loop and the
  decoder).
\<close>

theorem delivered_subscription_reads_back:
  assumes "codec_crates (codecs C)"
    and "run exec es (subscribe_v2ray C cfg members) d = (Return (Ok x), d')"
  shows "\<exists>nodes errors t. x = Subscription t \<and> fetched C cfg (Some members) d (nodes, errors) \<and> (nodes \<noteq> [] \<or> errors = [])
    \<and> (\<forall>plain. serialize_v2ray_plain (codecs C) nodes = Ok plain
        \<and> list_all (wf_node (codecs C)) (carried nodes)
        \<and> list_all (\<lambda>l. length l \<le> max_line_len) (lines plain) \<and> 12 < length plain \<and> fits_b64 plain
        \<and> take m (carried nodes) \<noteq> []
       \<longrightarrow> remote_nodes (codecs C) m (Inr t) = Some (Inr (take m (map norm_node (carried nodes)))))"
proof -
  obtain nodes errors t where x: "x = Subscription t" "fetched C cfg (Some members) d (nodes, errors)"
      "nodes \<noteq> [] \<or> errors = []"
    and t: "serialize_v2ray_plain (codecs C) nodes = Ok t \<or> serialize_v2ray (codecs C) nodes = Ok t"
    using run_post [OF assms(2) wp_subscribe_v2ray] by (fastforce simp: subscribed_def split: if_splits)
  have "remote_nodes (codecs C) m (Inr t) = Some (Inr (take m (map norm_node (carried nodes))))"
    if p: "serialize_v2ray_plain (codecs C) nodes = Ok plain" and w: "list_all (wf_node (codecs C)) (carried nodes)"
      and l: "list_all (\<lambda>l. length l \<le> max_line_len) (lines plain)" and b: "12 < length plain" "fits_b64 plain"
      and ne: "take m (carried nodes) \<noteq> []" for plain
  proof -
    have "parse_subscription_text (codecs C) t m = Some (take m (map norm_node (carried nodes)), 0)"
      using t codec_crates.plain_trip [OF assms(1), of nodes m] codec_crates.b64_trip [OF assms(1), of nodes m] p w l b
      by (auto simp: list_all_iff)
    moreover have "take m (map norm_node (carried nodes)) \<noteq> []" using ne by (simp add: take_map)
    ultimately show ?thesis by (simp add: remote_nodes_def)
  qed
  with x show ?thesis by blast
qed

lemma sample_normal:
  "serialize_v2ray_plain rfc_crates [norm_node sample_vless] = Ok sample_link"
  "list_all (wf_node rfc_crates) (carried [norm_node sample_vless])"
  "map norm_node (carried [norm_node sample_vless]) = [norm_node sample_vless]"
  by code_simp+

lemma sample_carried: "carried [norm_node sample_vless] \<noteq> []"
  using sample_normal(3) by auto

theorem delivered_subscription_reads_back_witness:
  "fst (run exec [Answer [], Joined [0], Answer []] (subscribe_v2ray sample_crates sample_config [1]) sample_db)
      = Return (Ok (Subscription sample_link))
    \<and> remote_nodes rfc_crates 5 (Inr sample_link) = Some (Inr [norm_node sample_vless])"
proof -
  have "run exec [Answer [], Joined [0], Answer []] (subscribe_v2ray sample_crates sample_config [1]) sample_db
      = (Return (Ok (Subscription sample_link)), sample_db)"
    by (simp add: subscribe_v2ray_def fetch_and_merge_def select_sources_def run_simps sample_db_def
        source_task_def sample_single sample_normal v2ray_b64_key_def)
  moreover from delivered_subscription_reads_back [OF _ this, of 5] rfc.codec_crates_axioms
  obtain nodes errors where n: "fetched sample_crates sample_config (Some [1]) sample_db (nodes, errors)"
      "nodes \<noteq> [] \<or> errors = []"
    and again: "\<And>plain. serialize_v2ray_plain rfc_crates nodes = Ok plain
        \<and> list_all (wf_node rfc_crates) (carried nodes)
        \<and> list_all (\<lambda>l. length l \<le> max_line_len) (lines plain) \<and> 12 < length plain \<and> fits_b64 plain
        \<and> take 5 (carried nodes) \<noteq> []
       \<Longrightarrow> remote_nodes rfc_crates 5 (Inr sample_link) = Some (Inr (take 5 (map norm_node (carried nodes))))"
    by auto
  from n have "nodes = [norm_node sample_vless]"
    by (auto simp: fetched_def query_failed_def selected_def sample_db_def list_all2_Cons1 task_of_def
        sample_single merged_def ok_nodes_def)
  with again [of sample_link] sample_normal sample_carried
  have "remote_nodes rfc_crates 5 (Inr sample_link) = Some (Inr [norm_node sample_vless])"
    by (simp add: sample_lines sample_length max_line_len_def fits_b64_def)
  ultimately show ?thesis by simp
qed

section \<open>Static files\<close>



text \<open>
  An encoded slash before the name of the route is decoded only after the leading slashes are
  gone, so that the decoded path begins with a slash and none of the names match.
\<close>

lemma encoded_slash_reaches_page:
  "static_fallback rfc_crates (\<lambda>f. if f = ''w/index.html'' then Some ''page'' else None) ''w'' ''/%2Fadmin''
    = Page ''page''"
  by code_simp

end
