(* ===== verification/Migrate.thy ===== *)
theory Migrate
  imports Settings
begin

text \<open>
  \<open>init_db\<close>: the statements that bring the file of any older version to the present tables. A
  column may be missing or left over, a table may be missing, and the process may stop between
  any two statements and start again. The invariant of the migration says what of the old file
  every state on the way still shows; it holds under every statement, so also after any number
  of attempts that broke off.
\<close>

section \<open>The file\<close>

text \<open>
  A column that is missing has no values: the field of its rows then says nothing. The values of
  \<open>enabled\<close> are kept apart, because the present rows have no such field.
\<close>

record sources_table =
  tb_has_kind :: bool
  tb_enabled :: "bool list option"
  tb_sources :: "source_row list"

record sessions_table =
  tb_has_last_used :: bool
  tb_sessions :: "session_row list"

record disk =
  dk_sources :: "sources_table option"
  dk_sources_seq :: int
  dk_settings :: "(string \<times> string) list option"
  dk_combineds :: "combined_row list option"
  dk_combineds_seq :: int
  dk_members :: "(int \<times> int) list option"
  dk_users :: "user_row list option"
  dk_users_seq :: int
  dk_sessions :: "sessions_table option"

section \<open>The statements\<close>

datatype ddl =
  Create_Sources | Add_Kind | Drop_Enabled | Create_Settings | Create_Combineds | Create_Members
| Create_Users | Create_Sessions | Add_Last_Used | Fill_Last_Used | Cut_Last_Used

definition no_table :: "string \<Rightarrow> db_error" where
  "no_table t = DatabaseError (''no such table: '' @ t)"

definition duplicate_column :: "string \<Rightarrow> db_error" where
  "duplicate_column c = DatabaseError (''duplicate column name: '' @ c)"

definition no_column :: "string \<Rightarrow> db_error" where
  "no_column c = DatabaseError (''no such column: '' @ CHR 0x22 # c @ [CHR 0x22])"

text \<open>\<open>substr\<close> counts characters, not bytes.\<close>

fun take_chars :: "nat \<Rightarrow> string \<Rightarrow> string" where
  "take_chars n [] = []"
| "take_chars n (c # cs) =
     (if continuation c then c # take_chars n cs
      else (case n of 0 \<Rightarrow> [] | Suc m \<Rightarrow> c # take_chars m cs))"

definition cut_fraction :: "string \<Rightarrow> string" where
  "cut_fraction t = (if contains_str ''.'' t then take_chars 19 t @ ''Z'' else t)"

text \<open>\<open>now\<close> is what \<open>strftime\<close> makes of the time of the statement.\<close>

fun apply_ddl :: "string \<Rightarrow> ddl \<Rightarrow> disk \<Rightarrow> (db_error + unit) \<times> disk" where
  "apply_ddl now Create_Sources d =
     (Inr (), if dk_sources d = None
              then d\<lparr>dk_sources := Some \<lparr>tb_has_kind = True, tb_enabled = None, tb_sources = []\<rparr>\<rparr> else d)"
| "apply_ddl now Add_Kind d =
     (case dk_sources d of
        None \<Rightarrow> (Inl (no_table ''sources''), d)
      | Some t \<Rightarrow>
          if tb_has_kind t then (Inl (duplicate_column ''kind''), d)
          else (Inr (), d\<lparr>dk_sources := Some (t\<lparr>tb_has_kind := True,
                 tb_sources := map (\<lambda>s. s\<lparr>so_kind := ''remote''\<rparr>) (tb_sources t)\<rparr>)\<rparr>))"
| "apply_ddl now Drop_Enabled d =
     (case dk_sources d of
        None \<Rightarrow> (Inl (no_table ''sources''), d)
      | Some t \<Rightarrow>
          if tb_enabled t = None then (Inl (no_column ''enabled''), d)
          else (Inr (), d\<lparr>dk_sources := Some (t\<lparr>tb_enabled := None\<rparr>)\<rparr>))"
| "apply_ddl now Create_Settings d =
     (Inr (), if dk_settings d = None then d\<lparr>dk_settings := Some []\<rparr> else d)"
| "apply_ddl now Create_Combineds d =
     (Inr (), if dk_combineds d = None then d\<lparr>dk_combineds := Some []\<rparr> else d)"
| "apply_ddl now Create_Members d =
     (Inr (), if dk_members d = None then d\<lparr>dk_members := Some []\<rparr> else d)"
| "apply_ddl now Create_Users d =
     (Inr (), if dk_users d = None then d\<lparr>dk_users := Some []\<rparr> else d)"
| "apply_ddl now Create_Sessions d =
     (Inr (), if dk_sessions d = None
              then d\<lparr>dk_sessions := Some \<lparr>tb_has_last_used = True, tb_sessions = []\<rparr>\<rparr> else d)"
| "apply_ddl now Add_Last_Used d =
     (case dk_sessions d of
        None \<Rightarrow> (Inl (no_table ''sessions''), d)
      | Some t \<Rightarrow>
          if tb_has_last_used t then (Inl (duplicate_column ''last_used_at''), d)
          else (Inr (), d\<lparr>dk_sessions := Some (t\<lparr>tb_has_last_used := True,
                 tb_sessions := map (\<lambda>s. s\<lparr>se_last := []\<rparr>) (tb_sessions t)\<rparr>)\<rparr>))"
| "apply_ddl now Fill_Last_Used d =
     (case dk_sessions d of
        None \<Rightarrow> (Inl (no_table ''sessions''), d)
      | Some t \<Rightarrow>
          if \<not> tb_has_last_used t then (Inl (no_column ''last_used_at''), d)
          else (Inr (), d\<lparr>dk_sessions := Some (t\<lparr>tb_sessions :=
                 map (\<lambda>s. if se_last s = [] then s\<lparr>se_last := now\<rparr> else s) (tb_sessions t)\<rparr>)\<rparr>))"
| "apply_ddl now Cut_Last_Used d =
     (case dk_sessions d of
        None \<Rightarrow> (Inl (no_table ''sessions''), d)
      | Some t \<Rightarrow>
          if \<not> tb_has_last_used t then (Inl (no_column ''last_used_at''), d)
          else (Inr (), d\<lparr>dk_sessions := Some (t\<lparr>tb_sessions :=
                 map (\<lambda>s. s\<lparr>se_last := cut_fraction (se_last s)\<rparr>) (tb_sessions t)\<rparr>)\<rparr>))"

text \<open>An answer of the environment: the statement fails and leaves the file alone, or it runs.\<close>

type_synonym ddl_answer = "db_error option \<times> string"

definition exec_ddl :: "ddl_answer \<Rightarrow> ddl \<Rightarrow> disk \<Rightarrow> (db_error + unit) \<times> disk" where
  "exec_ddl f s d = (case f of (Some e, _) \<Rightarrow> (Inl e, d) | (None, now) \<Rightarrow> apply_ddl now s d)"

section \<open>\<open>init_db\<close>\<close>

type_synonym 'a ddl_action = "(ddl, db_error + unit, ('a, any_error) outcome) prog"

text \<open>A statement whose failure ends the migration, or is passed over when its text says so.\<close>

definition execute :: "ddl \<Rightarrow> unit ddl_action" where
  "execute s = Query s (\<lambda>r. Return (map_err Sqlx (of_sum r)))"

definition execute_unless :: "server_crates \<Rightarrow> string \<Rightarrow> ddl \<Rightarrow> unit ddl_action" where
  "execute_unless C harmless s =
     Query s (\<lambda>r. case r of
       Inl e \<Rightarrow> if \<not> contains_str harmless (sqlx_text C e) then Return (Err (Sqlx e)) else Return (Ok ())
     | Inr _ \<Rightarrow> Return (Ok ()))"

definition init_db :: "server_crates \<Rightarrow> unit ddl_action" where
  "init_db C =
     await (execute Create_Sources) (\<lambda>_.
     await (execute_unless C ''duplicate column name'' Add_Kind) (\<lambda>_.
     await (execute_unless C ''no such column'' Drop_Enabled) (\<lambda>_.
     await (execute Create_Settings) (\<lambda>_.
     await (execute Create_Combineds) (\<lambda>_.
     await (execute Create_Members) (\<lambda>_.
     await (execute Create_Users) (\<lambda>_.
     await (execute Create_Sessions) (\<lambda>_.
     await (execute_unless C ''duplicate column name'' Add_Last_Used) (\<lambda>_.
     await (execute Fill_Last_Used) (\<lambda>_.
     await (execute Cut_Last_Used) (\<lambda>_. Return (Ok ()))))))))))))"

text \<open>The database of the handlers, once the tables are the present ones.\<close>

definition sources_of :: "disk \<Rightarrow> source_row list" where
  "sources_of d =
     (case dk_sources d of
        None \<Rightarrow> []
      | Some t \<Rightarrow> if tb_has_kind t then tb_sources t
                  else map (\<lambda>s. s\<lparr>so_kind := ''remote''\<rparr>) (tb_sources t))"

definition sessions_of :: "disk \<Rightarrow> session_row list" where
  "sessions_of d =
     (case dk_sessions d of
        None \<Rightarrow> []
      | Some t \<Rightarrow> if tb_has_last_used t then tb_sessions t
                  else map (\<lambda>s. s\<lparr>se_last := []\<rparr>) (tb_sessions t))"

definition database_of :: "disk \<Rightarrow> database" where
  "database_of d =
     \<lparr>db_sources = sources_of d, db_sources_seq = dk_sources_seq d,
      db_combineds = unwrap_or [] (dk_combineds d), db_combineds_seq = dk_combineds_seq d,
      db_members = unwrap_or [] (dk_members d), db_users = unwrap_or [] (dk_users d),
      db_users_seq = dk_users_seq d, db_sessions = sessions_of d,
      db_settings = unwrap_or [] (dk_settings d)\<rparr>"

section \<open>What every statement keeps\<close>

text \<open>
  A session of the old file and what has become of it: the time of its last use is the old one,
  with its fraction cut off or not, and any time when the old file had none.
\<close>

definition same_session :: "session_row \<Rightarrow> session_row \<Rightarrow> bool" where
  "same_session s0 s \<longleftrightarrow> se_hash s = se_hash s0 \<and> se_created s = se_created s0
     \<and> (se_last s0 \<noteq> [] \<longrightarrow> (\<exists>n. se_last s = (cut_fraction ^^ n) (se_last s0)))"

definition upgraded_from :: "disk \<Rightarrow> disk \<Rightarrow> bool" where
  "upgraded_from d0 d \<longleftrightarrow>
     database_of d = (database_of d0)\<lparr>db_sessions := sessions_of d\<rparr>
     \<and> list_all2 same_session (sessions_of d0) (sessions_of d)"

lemma same_session_refl [simp]: "same_session s s"
  by (auto simp: same_session_def intro: exI [of _ 0])

lemma upgraded_refl [simp]: "upgraded_from d d"
proof -
  have "db_sessions (database_of d) = sessions_of d" by (simp add: database_of_def)
  then show ?thesis by (simp add: upgraded_from_def list_all2_same)
qed

lemma same_session_step:
  assumes "same_session s0 s" and "se_hash s' = se_hash s" and "se_created s' = se_created s"
    and "se_last s \<noteq> [] \<Longrightarrow> se_last s' = se_last s \<or> se_last s' = cut_fraction (se_last s)"
    and "cut_fraction [] = []"
  shows "same_session s0 s'"
proof -
  have nonempty: "se_last s \<noteq> []" if "se_last s0 \<noteq> []"
  proof -
    from assms(1) that obtain n where n: "se_last s = (cut_fraction ^^ n) (se_last s0)"
      by (auto simp: same_session_def)
    have "(cut_fraction ^^ n) (se_last s0) \<noteq> []" for n
      using that by (induction n) (auto simp: cut_fraction_def)
    with n show ?thesis by simp
  qed
  have "\<exists>n. se_last s' = (cut_fraction ^^ n) (se_last s0)" if l: "se_last s0 \<noteq> []"
  proof -
    from assms(1) l obtain n where n: "se_last s = (cut_fraction ^^ n) (se_last s0)"
      by (auto simp: same_session_def)
    from assms(4) [OF nonempty [OF l]] show ?thesis
    proof
      assume "se_last s' = se_last s"
      with n show ?thesis by (intro exI [of _ n]) simp
    next
      assume "se_last s' = cut_fraction (se_last s)"
      with n show ?thesis by (intro exI [of _ "Suc n"]) simp
    qed
  qed
  with assms(1-3) show ?thesis by (simp add: same_session_def)
qed

lemma cut_nothing [simp]: "cut_fraction [] = []"
  by (simp add: cut_fraction_def)

lemma sessions_step:
  assumes "list_all2 same_session ss0 ss"
    and "\<And>s. se_hash (g s) = se_hash s" and "\<And>s. se_created (g s) = se_created s"
    and "\<And>s. se_last s \<noteq> [] \<Longrightarrow> se_last (g s) = se_last s \<or> se_last (g s) = cut_fraction (se_last s)"
  shows "list_all2 same_session ss0 (map g ss)"
proof -
  have "same_session s0 (g s)" if "same_session s0 s" for s0 s
    by (rule same_session_step [OF that assms(2-4) cut_nothing])
  then show ?thesis using assms(1) by (simp add: list_all2_map2 list_all2_mono)
qed

lemma upgraded_sessions:
  assumes "upgraded_from d0 d" and "dk_sessions d = Some t" and "tb_has_last_used t"
    and "\<And>s. se_hash (g s) = se_hash s" and "\<And>s. se_created (g s) = se_created s"
    and "\<And>s. se_last s \<noteq> [] \<Longrightarrow> se_last (g s) = se_last s \<or> se_last (g s) = cut_fraction (se_last s)"
  shows "upgraded_from d0 (d\<lparr>dk_sessions := Some (t\<lparr>tb_sessions := map g (tb_sessions t)\<rparr>)\<rparr>)"
  using assms(1-3) sessions_step [OF _ assms(4-6), of "sessions_of d0" "tb_sessions t"]
  by (simp add: upgraded_from_def sessions_of_def database_of_def sources_of_def)

text \<open>The statements on the schema change nothing the handlers can see.\<close>

lemma schema_keeps_database:
  assumes "s \<noteq> Fill_Last_Used" and "s \<noteq> Cut_Last_Used"
  shows "database_of (snd (apply_ddl now s d)) = database_of d"
  using assms by (cases s)
    (auto simp: database_of_def sources_of_def sessions_of_def split: option.split)

lemma upgraded_by_database:
  assumes "upgraded_from d0 d" and "database_of d' = database_of d"
  shows "upgraded_from d0 d'"
proof -
  have "sessions_of e = db_sessions (database_of e)" for e by (simp add: database_of_def)
  with assms show ?thesis by (simp add: upgraded_from_def)
qed

lemma apply_ddl_keeps:
  assumes "upgraded_from d0 d"
  shows "upgraded_from d0 (snd (apply_ddl now s d))"
proof -
  consider "s = Fill_Last_Used" | "s = Cut_Last_Used" | "s \<noteq> Fill_Last_Used" "s \<noteq> Cut_Last_Used"
    by blast
  then show ?thesis
  proof cases
    case 3
    then show ?thesis by (intro upgraded_by_database [OF assms] schema_keeps_database)
  qed (use assms in \<open>auto split: option.split intro!: upgraded_sessions\<close>)
qed

interpretation migration: statement_invariant exec_ddl "upgraded_from d0" "\<lambda>_. True" for d0
  by unfold_locales (auto simp: exec_ddl_def split: prod.split option.split intro: apply_ddl_keeps)

end
