(* ===== verification/Migrate_Lemmas.thy ===== *)
theory Migrate_Lemmas
  imports Migrate
begin

text \<open>
  What each statement of \<open>init_db\<close> establishes, that no later one undoes it, and so what the
  migration has reached when it comes to its end.
\<close>

section \<open>What a statement establishes\<close>

fun established :: "ddl \<Rightarrow> disk \<Rightarrow> bool" where
  "established Create_Sources d \<longleftrightarrow> dk_sources d \<noteq> None"
| "established Add_Kind d \<longleftrightarrow> (case dk_sources d of None \<Rightarrow> False | Some t \<Rightarrow> tb_has_kind t)"
| "established Drop_Enabled d \<longleftrightarrow> (case dk_sources d of None \<Rightarrow> False | Some t \<Rightarrow> tb_enabled t = None)"
| "established Create_Settings d \<longleftrightarrow> dk_settings d \<noteq> None"
| "established Create_Combineds d \<longleftrightarrow> dk_combineds d \<noteq> None"
| "established Create_Members d \<longleftrightarrow> dk_members d \<noteq> None"
| "established Create_Users d \<longleftrightarrow> dk_users d \<noteq> None"
| "established Create_Sessions d \<longleftrightarrow> dk_sessions d \<noteq> None"
| "established Add_Last_Used d \<longleftrightarrow> (case dk_sessions d of None \<Rightarrow> False | Some t \<Rightarrow> tb_has_last_used t)"
| "established Fill_Last_Used d \<longleftrightarrow>
     (case dk_sessions d of
        None \<Rightarrow> False
      | Some t \<Rightarrow> tb_has_last_used t \<and> (\<forall>s \<in> set (tb_sessions t). se_last s \<noteq> []))"
| "established Cut_Last_Used d \<longleftrightarrow>
     (case dk_sessions d of
        None \<Rightarrow> False
      | Some t \<Rightarrow> tb_has_last_used t \<and> (\<forall>s \<in> set (tb_sessions t). se_last s \<in> range cut_fraction))"

definition current :: "disk \<Rightarrow> bool" where
  "current d \<longleftrightarrow> (\<forall>s. established s d)"

text \<open>
  The answers the migration may count on: a time is a text without a point, as its format says,
  and a fault is not worded like one of the two errors that are passed over.
\<close>

definition honest :: "server_crates \<Rightarrow> ddl_answer \<Rightarrow> bool" where
  "honest C f \<longleftrightarrow> snd f \<noteq> [] \<and> \<not> contains_str ''.'' (snd f)
     \<and> (case fst f of
          None \<Rightarrow> True
        | Some e \<Rightarrow> \<not> contains_str ''duplicate column name'' (sqlx_text C e)
                  \<and> \<not> contains_str ''no such column'' (sqlx_text C e))"

text \<open>The display of an error of the driver shows the message of SQLite.\<close>

definition sqlx_shows :: "server_crates \<Rightarrow> bool" where
  "sqlx_shows C \<longleftrightarrow> (\<forall>m. contains_str m (sqlx_text C (DatabaseError m)))"

lemma contains_trans: "contains_str p m \<Longrightarrow> contains_str m s \<Longrightarrow> contains_str p s"
proof -
  assume "contains_str p m" and "contains_str m s"
  then obtain a b c d where "m = a @ p @ b" "s = c @ m @ d" by (auto simp: contains_str_iff)
  then have "s = (c @ a) @ p @ (b @ d)" by simp
  then show "contains_str p s" unfolding contains_str_iff by blast
qed

lemma passed_over:
  assumes "sqlx_shows C"
  shows "contains_str ''duplicate column name'' (sqlx_text C (duplicate_column c))"
    and "contains_str ''no such column'' (sqlx_text C (no_column c))"
proof -
  have "contains_str ''duplicate column name'' (''duplicate column name: '' @ c)"
    unfolding contains_str_iff by (rule exI [of _ "[]"]) auto
  then show "contains_str ''duplicate column name'' (sqlx_text C (duplicate_column c))"
    using assms unfolding sqlx_shows_def duplicate_column_def by (blast intro: contains_trans)
  have "contains_str ''no such column'' (''no such column: '' @ CHR 0x22 # c @ [CHR 0x22])"
    unfolding contains_str_iff by (rule exI [of _ "[]"]) auto
  then show "contains_str ''no such column'' (sqlx_text C (no_column c))"
    using assms unfolding sqlx_shows_def no_column_def by (blast intro: contains_trans)
qed

lemma cut_nonempty: "t \<noteq> [] \<Longrightarrow> cut_fraction t \<noteq> []"
  by (simp add: cut_fraction_def)

lemma cut_of_plain: "\<not> contains_str ''.'' now \<Longrightarrow> now \<in> range cut_fraction"
  by (metis cut_fraction_def rangeI)

lemma established_kept:
  assumes "established t d" and "now \<noteq> []" and "\<not> contains_str ''.'' now"
  shows "established t (snd (apply_ddl now s d))"
  using assms cut_of_plain [OF assms(3)]
  by (cases t; cases s) (auto split: option.splits simp: cut_nonempty)

lemma done_established: "fst (apply_ddl now s d) = Inr () \<Longrightarrow> now \<noteq> [] \<Longrightarrow> established s (snd (apply_ddl now s d))"
  by (cases s) (auto split: option.splits if_splits)

text \<open>The tables and columns a statement works on.\<close>

fun needed :: "ddl \<Rightarrow> ddl set" where
  "needed Add_Kind = {Create_Sources}"
| "needed Drop_Enabled = {Create_Sources}"
| "needed Add_Last_Used = {Create_Sessions}"
| "needed Fill_Last_Used = {Add_Last_Used}"
| "needed Cut_Last_Used = {Add_Last_Used}"
| "needed _ = {}"

fun harmless_error :: "ddl \<Rightarrow> db_error option" where
  "harmless_error Add_Kind = Some (duplicate_column ''kind'')"
| "harmless_error Drop_Enabled = Some (no_column ''enabled'')"
| "harmless_error Add_Last_Used = Some (duplicate_column ''last_used_at'')"
| "harmless_error _ = None"

lemma failed_established:
  assumes "\<forall>t \<in> needed s. established t d" and "fst (apply_ddl now s d) = Inl e"
  shows "harmless_error s = Some e \<and> established s d \<and> snd (apply_ddl now s d) = d"
  using assms by (cases s) (auto split: option.splits if_splits)

section \<open>The end of the migration\<close>

definition all_established :: "ddl set \<Rightarrow> disk \<Rightarrow> bool" where
  "all_established T d \<longleftrightarrow> (\<forall>t \<in> T. established t d)"

lemma run_statement:
  assumes "all_established T d" and "needed s \<subseteq> T" and "honest C (None, now)"
  shows "all_established (insert s T) (snd (apply_ddl now s d))"
proof -
  have now: "now \<noteq> []" "\<not> contains_str ''.'' now" using assms(3) by (simp_all add: honest_def)
  have "established s (snd (apply_ddl now s d))"
  proof (cases "fst (apply_ddl now s d)")
    case (Inl e)
    moreover have "\<forall>t \<in> needed s. established t d" using assms(1,2) by (auto simp: all_established_def)
    ultimately show ?thesis using failed_established by metis
  next
    case (Inr u)
    then show ?thesis using done_established now(1) by simp
  qed
  then show ?thesis
    using assms(1) established_kept [OF _ now] by (simp add: all_established_def)
qed

lemma wp_execute:
  assumes "all_established T d" and "needed s \<subseteq> T" and "harmless_error s = None"
    and "\<And>f. G f \<Longrightarrow> honest C f"
    and "\<And>d'. all_established (insert s T) d' \<Longrightarrow> wp G exec_ddl k Q d'"
    and "\<And>e now. G (Some e, now) \<Longrightarrow> Q (Err (Sqlx e)) d"
  shows "wp G exec_ddl (await (execute s) (\<lambda>_. k)) Q d"
proof -
  have ok: "fst (apply_ddl now s d) = Inr ()" for now
    using failed_established [of s d now] assms(1-3)
    by (cases "fst (apply_ddl now s d)") (auto simp: all_established_def)
  show ?thesis
    using run_statement [OF assms(1,2), of C] assms(4-6)
    by (auto simp: execute_def exec_ddl_def ok split: option.split)
qed

lemma wp_execute_unless:
  assumes "all_established T d" and "needed s \<subseteq> T"
    and "\<And>e. harmless_error s = Some e \<Longrightarrow> contains_str harmless (sqlx_text C e)"
    and "\<And>f. G f \<Longrightarrow> honest C f"
    and "harmless = ''duplicate column name'' \<or> harmless = ''no such column''"
    and "\<And>d'. all_established (insert s T) d' \<Longrightarrow> wp G exec_ddl k Q d'"
    and "\<And>e now. G (Some e, now) \<Longrightarrow> Q (Err (Sqlx e)) d"
  shows "wp G exec_ddl (await (execute_unless C harmless s) (\<lambda>_. k)) Q d"
proof -
  have need: "\<forall>t \<in> needed s. established t d" using assms(1,2) by (auto simp: all_established_def)
  have "wp G exec_ddl (execute_unless C harmless s)
      (\<lambda>r d'. r = Ok () \<and> all_established (insert s T) d' \<or> (\<exists>e now. G (Some e, now) \<and> r = Err (Sqlx e) \<and> d' = d)) d"
    unfolding execute_unless_def wp.simps
  proof (intro allI impI)
    fix f
    assume g: "G f"
    obtain fault now where f: "f = (fault, now)" by (cases f)
    show "wp G exec_ddl
        (case fst (exec_ddl f s d) of
           Inl e \<Rightarrow> if \<not> contains_str harmless (sqlx_text C e) then Return (Err (Sqlx e)) else Return (Ok ())
         | Inr _ \<Rightarrow> Return (Ok ()))
        (\<lambda>r d'. r = Ok () \<and> all_established (insert s T) d' \<or> (\<exists>e now. G (Some e, now) \<and> r = Err (Sqlx e) \<and> d' = d))
        (snd (exec_ddl f s d))"
    proof (cases fault)
      case None
      then have "honest C (None, now)" using assms(4) g f by simp
      from run_statement [OF assms(1,2) this] show ?thesis
        using failed_established [OF need, of now] assms(3) None f
        by (auto simp: exec_ddl_def split: sum.split)
    next
      case (Some e)
      then have "\<not> contains_str harmless (sqlx_text C e)"
        using assms(4) [OF g] assms(5) f by (auto simp: honest_def)
      then show ?thesis using Some f g by (auto simp: exec_ddl_def)
    qed
  qed
  then show ?thesis
    unfolding wp_await by (rule wp_mono) (use assms(6,7) in auto)
qed

lemma current_all:
  assumes "all_established {Create_Sources, Add_Kind, Drop_Enabled, Create_Settings, Create_Combineds,
      Create_Members, Create_Users, Create_Sessions, Add_Last_Used, Fill_Last_Used, Cut_Last_Used} d"
  shows "current d"
  unfolding current_def
proof
  fix s
  show "established s d" using assms by (cases s) (simp_all add: all_established_def del: established.simps)
qed

text \<open>The migration comes to its end with the present tables, or with the error of a fault.\<close>

definition settled :: "(ddl_answer \<Rightarrow> bool) \<Rightarrow> (unit, any_error) outcome \<Rightarrow> disk \<Rightarrow> bool" where
  "settled G r d \<longleftrightarrow> r = Ok () \<and> current d \<or> (\<exists>e now. G (Some e, now) \<and> r = Err (Sqlx e))"

lemma execute_step:
  assumes "\<forall>f. G f \<longrightarrow> honest C f" and "all_established T d"
    and "needed s \<subseteq> T \<and> harmless_error s = None"
    and "\<And>d'. all_established (insert s T) d' \<Longrightarrow> wp G exec_ddl k (settled G) d'"
  shows "wp G exec_ddl (await (execute s) (\<lambda>_. k)) (settled G) d"
  using assms by (intro wp_execute [where T = T and C = C]) (auto simp: settled_def)

lemma execute_unless_step:
  assumes "sqlx_shows C" and "\<forall>f. G f \<longrightarrow> honest C f" and "all_established T d"
    and "needed s \<subseteq> T \<and> (harmless, s) \<in> {(''duplicate column name'', Add_Kind),
      (''no such column'', Drop_Enabled), (''duplicate column name'', Add_Last_Used)}"
    and "\<And>d'. all_established (insert s T) d' \<Longrightarrow> wp G exec_ddl k (settled G) d'"
  shows "wp G exec_ddl (await (execute_unless C harmless s) (\<lambda>_. k)) (settled G) d"
  using assms(2-5) passed_over [OF assms(1)]
  by (intro wp_execute_unless [where T = T]) (auto simp: settled_def)

lemma wp_init_db:
  assumes shows_text: "sqlx_shows C" and honest: "\<forall>f. G f \<longrightarrow> honest C f"
  shows "wp G exec_ddl (init_db C) (settled G) d"
proof -
  have "all_established {} d" by (simp add: all_established_def)
  then show ?thesis
    unfolding init_db_def
    by (elim execute_step [where G = G, OF honest] execute_unless_step [where G = G, OF shows_text honest])
      (simp_all add: settled_def current_all insert_commute)
qed

end
