(* ===== verification/Boot.thy ===== *)
theory Boot
  imports Migrate Accounts
begin

text \<open>
  The start of the process: \<open>main.rs\<close>, \<open>AppState::new\<close> of \<open>state.rs\<close>, and the permits of the
  semaphore it makes, which the fetches of all requests share (\<open>service.rs\<close>).
\<close>

section \<open>The state of the application\<close>

record app_state =
  st_cfg :: app_config
  st_permits :: nat

text \<open>
  \<open>client_builds\<close> says for which timeouts \<open>reqwest\<close> can build a client, and \<open>max_permits\<close> is
  \<open>Semaphore::MAX_PERMITS\<close>, beyond which \<open>Semaphore::new\<close> panics. The outcome \<open>None\<close> is a panic.
\<close>

definition app_state_new :: "nat \<Rightarrow> (nat \<Rightarrow> bool) \<Rightarrow> app_config \<Rightarrow> app_state option" where
  "app_state_new max_permits client_builds cfg =
     (let concurrency = max (cfg_concurrency cfg) 1 in
      if \<not> client_builds (cfg_timeout_secs cfg) then None
      else if concurrency > max_permits then None
      else Some \<lparr>st_cfg = cfg, st_permits = concurrency\<rparr>)"

section \<open>\<open>main\<close>\<close>

datatype boot = Serving app_state database | Boot_Failed any_error | Boot_Io string | Boot_Panic | Booting

text \<open>
  \<open>listen\<close> is the error of binding a port, if any. The events are the answers the migration and
  the deletion of old sessions get; when they run out the process is still booting.
\<close>

definition boot ::
  "server_crates \<Rightarrow> nat \<Rightarrow> (nat \<Rightarrow> bool) \<Rightarrow> (u16 \<Rightarrow> string option) \<Rightarrow> (string \<Rightarrow> string option)
     \<Rightarrow> ddl_answer event list \<Rightarrow> faults event list \<Rightarrow> disk \<Rightarrow> boot" where
  "boot C max_permits client_builds listen env es fs d =
     (let cfg = from_env env in
      case run exec_ddl es (init_db C) d of
        (Return (Ok _), d1) \<Rightarrow>
          (case run exec fs (delete_expired_sessions C (cfg_session_ttl_days cfg)) (database_of d1) of
             (Return (Ok _), db) \<Rightarrow>
               (case app_state_new max_permits client_builds cfg of
                  None \<Rightarrow> Boot_Panic
                | Some st \<Rightarrow>
                    (case listen (cfg_port cfg) of
                       Some e \<Rightarrow> Boot_Io e
                     | None \<Rightarrow> Serving st db))
           | (Return (Err e), _) \<Rightarrow> Boot_Failed e
           | (Return Panic, _) \<Rightarrow> Boot_Panic
           | _ \<Rightarrow> Booting)
      | (Return (Err e), _) \<Rightarrow> Boot_Failed e
      | (Return Panic, _) \<Rightarrow> Boot_Panic
      | _ \<Rightarrow> Booting)"

section \<open>The permits\<close>

text \<open>
  The requests under way, each with the sources it has yet to spawn a task for, and its tasks
  under way, each of which holds a permit until its end. A request that is dropped, because its
  client went away, aborts its tasks, whose permits go back.
\<close>

record job =
  jb_waiting :: nat
  jb_running :: nat

record pool =
  pl_permits :: nat
  pl_jobs :: "job list"

definition new_pool :: "app_state \<Rightarrow> pool" where
  "new_pool st = \<lparr>pl_permits = st_permits st, pl_jobs = []\<rparr>"

inductive arrives :: "pool \<Rightarrow> pool \<Rightarrow> bool" where
  arrive: "arrives p (p\<lparr>pl_jobs := pl_jobs p @ [\<lparr>jb_waiting = n, jb_running = 0\<rparr>]\<rparr>)"

inductive advances :: "pool \<Rightarrow> pool \<Rightarrow> bool" where
  acquire: "i < length (pl_jobs p) \<Longrightarrow> pl_jobs p ! i = \<lparr>jb_waiting = Suc n, jb_running = m\<rparr>
    \<Longrightarrow> pl_permits p = Suc k
    \<Longrightarrow> advances p (p\<lparr>pl_permits := k, pl_jobs := (pl_jobs p)[i := \<lparr>jb_waiting = n, jb_running = Suc m\<rparr>]\<rparr>)"
| complete: "i < length (pl_jobs p) \<Longrightarrow> pl_jobs p ! i = \<lparr>jb_waiting = n, jb_running = Suc m\<rparr>
    \<Longrightarrow> advances p (p\<lparr>pl_permits := Suc (pl_permits p),
          pl_jobs := (pl_jobs p)[i := \<lparr>jb_waiting = n, jb_running = m\<rparr>]\<rparr>)"

inductive drops :: "pool \<Rightarrow> pool \<Rightarrow> bool" where
  drop: "i < length (pl_jobs p) \<Longrightarrow> pl_jobs p ! i = \<lparr>jb_waiting = n, jb_running = m\<rparr>
    \<Longrightarrow> drops p (p\<lparr>pl_permits := pl_permits p + m,
          pl_jobs := (pl_jobs p)[i := \<lparr>jb_waiting = 0, jb_running = 0\<rparr>]\<rparr>)"

definition running :: "pool \<Rightarrow> nat" where
  "running p = sum_list (map jb_running (pl_jobs p))"

definition idle :: "pool \<Rightarrow> bool" where
  "idle p \<longleftrightarrow> list_all (\<lambda>j. jb_waiting j = 0 \<and> jb_running j = 0) (pl_jobs p)"

inductive reaches :: "pool \<Rightarrow> pool \<Rightarrow> bool" for p where
  here: "reaches p p"
| there: "reaches p q \<Longrightarrow> arrives q r \<or> advances q r \<or> drops q r \<Longrightarrow> reaches p r"

lemma idle_running: "idle p \<Longrightarrow> running p = 0"
  by (auto simp: idle_def running_def list_all_iff)

subsection \<open>Conservation, progress and termination\<close>

lemma job_update:
  fixes f :: "job \<Rightarrow> nat"
  assumes "i < length js" and "js ! i = j"
  obtains r where "sum_list (map f js) = r + f j" and "\<And>x. sum_list (map f (js[i := x])) = r + f x"
proof -
  have js: "js = take i js @ j # List.drop (Suc i) js" using assms id_take_nth_drop by metis
  have upd: "js[i := x] = take i js @ x # List.drop (Suc i) js" for x
    using assms(1) by (rule upd_conv_take_nth_drop)
  show thesis
  proof (rule that)
    show "sum_list (map f js) = (sum_list (map f (take i js)) + sum_list (map f (List.drop (Suc i) js))) + f j"
      by (subst js) simp
    show "sum_list (map f (js[i := x])) =
        (sum_list (map f (take i js)) + sum_list (map f (List.drop (Suc i) js))) + f x" for x
      unfolding upd by simp
  qed
qed

inductive_cases advancesE: "advances p q"
inductive_cases dropsE: "drops p q"

lemma advances_permits: "advances p q \<Longrightarrow> pl_permits q + running q = pl_permits p + running p"
  by (erule advancesE) (auto simp: running_def elim!: job_update [where f = jb_running])

lemma drops_permits: "drops p q \<Longrightarrow> pl_permits q + running q = pl_permits p + running p"
  by (erule dropsE) (auto simp: running_def elim!: job_update [where f = jb_running])

lemma arrives_permits: "arrives p q \<Longrightarrow> pl_permits q + running q = pl_permits p + running p"
  by (auto simp: arrives.simps running_def)

lemma reaches_permits: "reaches p q \<Longrightarrow> pl_permits q + running q = pl_permits p + running p"
  by (induction rule: reaches.induct) (auto simp: advances_permits drops_permits arrives_permits)

text \<open>A source is worth two units of work while it waits and one while it runs.\<close>

definition work :: "pool \<Rightarrow> nat" where
  "work p = sum_list (map (\<lambda>j. 2 * jb_waiting j + jb_running j) (pl_jobs p))"

lemma advances_work: "advances p q \<Longrightarrow> work q < work p"
  by (erule advancesE)
    (auto simp: work_def elim!: job_update [where f = "\<lambda>j. 2 * jb_waiting j + jb_running j"])

text \<open>With at least one permit in all, some request can go on while any is unfinished.\<close>

lemma not_idle_advances:
  assumes "\<not> idle p" and "0 < pl_permits p + running p"
  shows "\<exists>q. advances p q"
proof (cases "\<exists>i < length (pl_jobs p). 0 < jb_running (pl_jobs p ! i)")
  case True
  then obtain i m where i: "i < length (pl_jobs p)" and "jb_running (pl_jobs p ! i) = Suc m"
    using gr0_implies_Suc by blast
  then have "pl_jobs p ! i = \<lparr>jb_waiting = jb_waiting (pl_jobs p ! i), jb_running = Suc m\<rparr>"
    by (cases "pl_jobs p ! i") simp
  with i show ?thesis by (blast intro: advances.complete)
next
  case False
  then have none: "\<forall>j \<in> set (pl_jobs p). jb_running j = 0" by (auto simp: in_set_conv_nth)
  then have "running p = 0" by (simp add: running_def)
  with assms(2) obtain k where k: "pl_permits p = Suc k" using gr0_implies_Suc by auto
  from assms(1) none obtain i where i: "i < length (pl_jobs p)" and "0 < jb_waiting (pl_jobs p ! i)"
    by (auto simp: idle_def list_all_iff in_set_conv_nth)
  then obtain n where "jb_waiting (pl_jobs p ! i) = Suc n" using gr0_implies_Suc by blast
  then have "pl_jobs p ! i = \<lparr>jb_waiting = Suc n, jb_running = jb_running (pl_jobs p ! i)\<rparr>"
    by (cases "pl_jobs p ! i") simp
  with i k show ?thesis by (blast intro: advances.acquire)
qed

text \<open>So the requests under way are served, in whatever order the permits are given.\<close>

lemma advances_accp: "Wellfounded.accp (\<lambda>q p. advances p q) p"
proof (induction "work p" arbitrary: p rule: less_induct)
  case less
  show ?case by (rule accp.accI) (use less advances_work in blast)
qed

lemma reaches_idle:
  assumes "0 < pl_permits p + running p"
  shows "\<exists>q. advances\<^sup>*\<^sup>* p q \<and> idle q"
  using assms
proof (induction "work p" arbitrary: p rule: less_induct)
  case less
  show ?case
  proof (cases "idle p")
    case False
    then obtain q where q: "advances p q" using not_idle_advances [OF False less.prems] by blast
    then have "0 < pl_permits q + running q" using advances_permits less.prems by simp
    with less.hyps [OF advances_work [OF q]] obtain r where "advances\<^sup>*\<^sup>* q r" "idle r" by blast
    with q show ?thesis by (meson converse_rtranclp_into_rtranclp)
  qed blast
qed

end
