(* ===== verification/Start_Properties.thy ===== *)
theory Start_Properties
  imports Migrate_Lemmas Boot Server_Lemmas Rfc_Codecs
begin

text \<open>
  The properties of the start: what the migration makes of an old file, how the process can come
  up or fail to, and what the permits of the semaphore guarantee.
\<close>

section \<open>The migration\<close>

text \<open>The file after a number of attempts, each of which stopped somewhere.\<close>

primrec attempts :: "server_crates \<Rightarrow> ddl_answer event list list \<Rightarrow> disk \<Rightarrow> disk" where
  "attempts C [] d = d"
| "attempts C (es # rest) d = attempts C rest (snd (run exec_ddl es (init_db C) d))"

lemma attempts_upgrade: "upgraded_from d0 d \<Longrightarrow> upgraded_from d0 (attempts C tries d)"
  by (induction tries arbitrary: d) (simp_all add: migration.run_keeps)

text \<open>A time whose point, if it has one, comes after the second: ASCII, as RFC 3339 prints it.\<close>

definition dated :: "string \<Rightarrow> bool" where
  "dated t \<longleftrightarrow> 19 \<le> length t \<and> list_all ascii t \<and> CHR ''.'' \<notin> set (take 19 t)"

lemma ascii_not_continuation: "ascii c \<Longrightarrow> \<not> continuation c"
  by (simp add: ascii_def continuation_def)

lemma take_chars_ascii: "list_all ascii t \<Longrightarrow> take_chars n t = take n t"
  by (induction n t rule: take_chars.induct) (auto simp: ascii_not_continuation split: nat.split)

lemma contains_char: "contains_str [c] t \<longleftrightarrow> c \<in> set t"
  by (auto simp: contains_str_iff in_set_conv_decomp)

lemma cut_plain: "CHR ''.'' \<notin> set t \<Longrightarrow> cut_fraction t = t"
  by (simp add: cut_fraction_def contains_char)

lemma cut_dated: "dated t \<Longrightarrow> CHR ''.'' \<notin> set (cut_fraction t)"
  by (auto simp: cut_fraction_def dated_def take_chars_ascii contains_char)

lemma cut_iterated: "dated t \<Longrightarrow> (cut_fraction ^^ n) t \<in> {t, cut_fraction t}"
proof (induction n)
  case (Suc n)
  then show ?case using cut_plain [OF cut_dated [OF Suc.prems]] by auto
qed simp

lemma take_chars_short: "list_all ascii (take_chars n x) \<Longrightarrow> length (take_chars n x) \<le> n"
  by (induction n x rule: take_chars.induct) (auto simp: ascii_not_continuation split: nat.splits)

lemma cut_of_dated:
  assumes "dated (cut_fraction x)"
  shows "CHR ''.'' \<notin> set (cut_fraction x)"
proof (cases "CHR ''.'' \<in> set x")
  case True
  then have t: "cut_fraction x = take_chars 19 x @ ''Z''" by (simp add: cut_fraction_def contains_char)
  then have "length (take_chars 19 x) \<le> 19"
    using assms by (intro take_chars_short) (simp add: dated_def)
  then have "set (take_chars 19 x) \<subseteq> set (take 19 (cut_fraction x))" unfolding t by simp
  then show ?thesis using assms unfolding dated_def t by auto
next
  case False
  then show ?thesis by (simp add: cut_plain)
qed

lemma cut_reached:
  assumes "dated t" and "(cut_fraction ^^ n) t \<in> range cut_fraction"
  shows "(cut_fraction ^^ n) t = cut_fraction t"
  using cut_iterated [OF assms(1), of n] assms cut_of_dated cut_plain by auto

lemma upgraded_session:
  assumes "same_session s0 s" and "se_last s \<in> range cut_fraction" and "dated (se_last s0)"
  shows "se_last s = cut_fraction (se_last s0)"
proof -
  have "se_last s0 \<noteq> []" using assms(3) by (auto simp: dated_def)
  then obtain n where "se_last s = (cut_fraction ^^ n) (se_last s0)"
    using assms(1) by (auto simp: same_session_def)
  with cut_reached [OF assms(3)] assms(2) show ?thesis by metis
qed

lemma db_ok_sessions:
  "map se_hash ss = map se_hash (db_sessions d) \<Longrightarrow> db_ok E (d\<lparr>db_sessions := ss\<rparr>) = db_ok E d"
  by (simp add: db_ok_def sources_ok_def combineds_ok_def members_ok_def accounts_ok_def settings_ok_def)

lemma upgraded_hashes: "upgraded_from d0 d \<Longrightarrow> map se_hash (sessions_of d) = map se_hash (sessions_of d0)"
  by (auto simp: upgraded_from_def same_session_def list_all2_conv_all_nth intro!: nth_equalityI)

lemma upgraded_db_ok:
  assumes "upgraded_from d0 d"
  shows "db_ok E (database_of d) = db_ok E (database_of d0)"
proof -
  have "sessions_of d0 = db_sessions (database_of d0)" by (simp add: database_of_def)
  then show ?thesis
    using assms upgraded_hashes [OF assms] db_ok_sessions [of "sessions_of d" "database_of d0" E]
    by (simp add: upgraded_from_def)
qed

lemma init_db_ends:
  assumes "sqlx_shows C" and "answers_in (honest C) es"
    and "run exec_ddl es (init_db C) (attempts C tries d0) = (Return r, d)"
  shows "upgraded_from d0 d"
    and "r = Ok () \<and> current d \<or> (\<exists>e now. Answer (Some e, now) \<in> set es \<and> r = Err (Sqlx e))"
proof -
  show "upgraded_from d0 d"
    using migration.run_keeps [of "init_db C" d0 "attempts C tries d0" es] assms(3)
    by (simp add: attempts_upgrade)
  let ?G = "\<lambda>f. honest C f \<and> Answer f \<in> set es"
  have "wp ?G exec_ddl (init_db C) (settled ?G) (attempts C tries d0)"
    by (rule wp_init_db [OF assms(1)]) simp
  moreover have "answers_in ?G es" using assms(2) by (simp add: answers_in_def)
  ultimately have "settled ?G r d" by (rule run_wp [OF assms(3)])
  then show "r = Ok () \<and> current d \<or> (\<exists>e now. Answer (Some e, now) \<in> set es \<and> r = Err (Sqlx e))"
    by (auto simp: settled_def)
qed

text \<open>
  C13. However often the process was stopped within the migration of an old file before, and
  whatever columns and tables the file lacked: a run that comes to its end has either hit a fault,
  whose error it returns, or brought every table to its present columns. In both cases no row was
  lost or changed, except that a source of a file without kinds is remote and that the times of
  last use are filled in or cut to the second; and a file whose contents satisfy the invariant of
  the database still does.
\<close>

theorem migration_heals:
  assumes "sqlx_shows C" and "answers_in (honest C) es"
    and "run exec_ddl es (init_db C) (attempts C tries d0) = (Return r, d)"
  shows "(r = Ok () \<and> current d \<or> (\<exists>e now. Answer (Some e, now) \<in> set es \<and> r = Err (Sqlx e)))
    \<and> database_of d = (database_of d0)\<lparr>db_sessions := sessions_of d\<rparr>
    \<and> list_all2 (\<lambda>s0 s. se_hash s = se_hash s0 \<and> se_created s = se_created s0
          \<and> (r = Ok () \<longrightarrow> dated (se_last s0) \<longrightarrow> se_last s = cut_fraction (se_last s0)))
        (sessions_of d0) (sessions_of d)
    \<and> (db_ok E (database_of d0) \<longrightarrow> db_ok E (database_of d))"
proof -
  note up = init_db_ends(1) [OF assms] and fin = init_db_ends(2) [OF assms]
  have cut: "se_last s \<in> range cut_fraction" if "r = Ok ()" "s \<in> set (sessions_of d)" for s
  proof -
    have "established Cut_Last_Used d" using fin that(1) by (auto simp: current_def)
    with that(2) show ?thesis by (auto simp: sessions_of_def split: option.splits)
  qed
  have "list_all2 same_session (sessions_of d0) (sessions_of d)" using up by (simp add: upgraded_from_def)
  then have rows: "list_all2 (\<lambda>s0 s. se_hash s = se_hash s0 \<and> se_created s = se_created s0
          \<and> (r = Ok () \<longrightarrow> dated (se_last s0) \<longrightarrow> se_last s = cut_fraction (se_last s0)))
        (sessions_of d0) (sessions_of d)"
    using cut upgraded_session unfolding list_all2_conv_all_nth by (auto simp: same_session_def)
  have kept: "database_of d = (database_of d0)\<lparr>db_sessions := sessions_of d\<rparr>"
    using up by (simp only: upgraded_from_def)
  show ?thesis using upgraded_db_ok [OF up] by (intro conjI fin rows kept) blast
qed

text \<open>A file of the first version, on which an earlier migration stopped after two statements.\<close>

definition plain_crates :: server_crates where
  "plain_crates = \<lparr>codecs = rfc_crates, argon2_hash = (\<lambda>salt p. Inr p), phc_parse = (\<lambda>s. True),
     argon2_verify = (\<lambda>p s. s = p), sha256_hex = (\<lambda>s. s), hex_encode = (\<lambda>s. s),
     to_rfc3339 = (\<lambda>t. if t = 0 then ''0'' else ''1''), parse_rfc3339 = (\<lambda>s. None),
     datetime_range = (\<lambda>t. 0 \<le> t),
     sqlx_text = (\<lambda>e. case e of DatabaseError m \<Rightarrow> m | DriverError m \<Rightarrow> m)\<rparr>"

definition old_disk :: disk where
  "old_disk = \<lparr>
     dk_sources = Some \<lparr>tb_has_kind = False, tb_enabled = Some [True],
       tb_sources = [\<lparr>so_id = 1, so_url = ''http://a'', so_name = ''a'', so_kind = [], so_created = ''0''\<rparr>]\<rparr>,
     dk_sources_seq = 1, dk_settings = None, dk_combineds = None, dk_combineds_seq = 0, dk_members = None,
     dk_users = None, dk_users_seq = 0,
     dk_sessions = Some \<lparr>tb_has_last_used = False,
       tb_sessions = [\<lparr>se_hash = ''h'', se_created = ''0'', se_last = []\<rparr>]\<rparr>\<rparr>"

definition good_answers :: "ddl_answer event list" where
  "good_answers = replicate 11 (Answer (None, ''2026''))"

lemma plain_shows: "sqlx_shows plain_crates"
  by (auto simp: sqlx_shows_def plain_crates_def contains_str_iff intro: exI [of _ "[]"])

lemma good_honest: "answers_in (honest plain_crates) good_answers"
  by (simp add: answers_in_def good_answers_def honest_def contains_char)

lemma old_disk_heals:
  "case fst (run exec_ddl good_answers (init_db plain_crates) (attempts plain_crates [take 2 good_answers] old_disk))
   of Return r \<Rightarrow> r = Ok () | _ \<Rightarrow> False"
  by code_simp

lemma old_disk_ok: "db_ok rfc_crates (database_of old_disk)"
  by (simp add: db_parts old_disk_def database_of_def sources_of_def sessions_of_def keyed_def source_kind_def)

theorem migration_heals_witness:
  "let d = snd (run exec_ddl good_answers (init_db plain_crates) (attempts plain_crates [take 2 good_answers] old_disk))
   in current d \<and> db_sources (database_of d) = sources_of old_disk \<and> db_ok rfc_crates (database_of d)"
proof -
  obtain d where run: "run exec_ddl good_answers (init_db plain_crates)
      (attempts plain_crates [take 2 good_answers] old_disk) = (Return (Ok ()), d)"
    using old_disk_heals by (auto simp: case_prod_beta prod_eq_iff split: prog.splits)
  from migration_heals [OF plain_shows good_honest run, of rfc_crates] old_disk_ok
  have "current d" "db_sources (database_of d) = sources_of old_disk" "db_ok rfc_crates (database_of d)"
    by (auto simp: good_answers_def database_of_def)
  with run show ?thesis by simp
qed

section \<open>The outcomes of the start\<close>

lemma run_delete_expired:
  assumes "run exec fs (delete_expired_sessions C n) d = (Return r, d')"
  obtains (ok) "r = Ok ()" "\<exists>P. d' = d\<lparr>db_sessions := filter P (db_sessions d)\<rparr>"
  | (fault) x xs where "Answer xs \<in> set fs" "Some x \<in> set xs" "r = Err (Sqlx x)"
  | (panic) ttl now where "r = Panic" "session_ttl n = Some ttl" "Time now \<in> set fs"
      "\<not> datetime_range C (now - ttl)"
proof (cases "session_ttl n")
  case None
  have "d = d\<lparr>db_sessions := filter (\<lambda>_. True) (db_sessions d)\<rparr>" by simp
  moreover have "r = Ok ()" "d' = d"
    using None assms by (cases fs; simp add: delete_expired_sessions_def)+
  ultimately show thesis using ok by metis
next
  case (Some ttl)
  then obtain now es where fs: "fs = Time now # es"
    using assms by (cases fs; cases "hd fs") (auto simp: delete_expired_sessions_def)
  show thesis
  proof (cases "datetime_range C (now - ttl)")
    case False
    with Some fs assms panic [of ttl now] show thesis
      by (cases es) (auto simp: delete_expired_sessions_def datetime_add_def)
  next
    case True
    with Some fs assms obtain xs gs where es: "es = Answer xs # gs"
      by (cases es; cases "hd es") (auto simp: delete_expired_sessions_def datetime_add_def run_simps)
    show thesis
    proof (cases "fst (pop xs)")
      case (Some e)
      then have "Some e \<in> set xs" by (cases xs) auto
      with Some True fs es assms \<open>session_ttl n = Some ttl\<close> fault [of xs e] show thesis
        by (cases gs) (auto simp: delete_expired_sessions_def datetime_add_def run_simps)
    next
      case None
      with True fs es assms \<open>session_ttl n = Some ttl\<close> ok show thesis
        by (cases gs) (auto simp: delete_expired_sessions_def datetime_add_def run_simps)
    qed
  qed
qed

text \<open>What the deletion of old sessions leaves of a migrated file.\<close>

lemma cleaned_sessions:
  assumes "upgraded_from d0 d" and "run exec fs (delete_expired_sessions C n) (database_of d) = (q, db)"
    and "\<exists>P. db = (database_of d)\<lparr>db_sessions := filter P (db_sessions (database_of d))\<rparr>"
  shows "db = (database_of d0)\<lparr>db_sessions := db_sessions db\<rparr>"
    and "set (db_sessions db) \<subseteq> set (sessions_of d)"
    and "se_hash ` set (sessions_of d) = se_hash ` set (sessions_of d0)"
    and "db_ok E (database_of d0) \<Longrightarrow> db_ok E db"
proof -
  have "db = (database_of d)\<lparr>db_sessions := db_sessions db\<rparr>" using assms(3) by auto
  then show "db = (database_of d0)\<lparr>db_sessions := db_sessions db\<rparr>"
    using assms(1) by (simp add: upgraded_from_def)
  show "set (db_sessions db) \<subseteq> set (sessions_of d)" using assms(3) by (auto simp: database_of_def)
  show "se_hash ` set (sessions_of d) = se_hash ` set (sessions_of d0)"
    using upgraded_hashes [OF assms(1)] by (metis set_map)
  assume "db_ok E (database_of d0)"
  then have "db_ok E (snd (run exec fs (delete_expired_sessions C n) (database_of d)))"
    using upgraded_db_ok [OF assms(1)] by (intro db.run_keeps issues_sessions) simp
  then show "db_ok E db" using assms(2) by simp
qed

text \<open>
  C29. How the process can come up, and why it can fail to: it serves only with a migrated file,
  none of whose rows is lost but old sessions, with a permit at least and as many as configured;
  an error it ends with is one the database or the system reported; and it panics for three
  reasons only, all of them in the configuration: more permits than a semaphore can have, a
  timeout no client can be built with, or a time to live that leads out of the calendar.
\<close>

theorem boot_outcomes:
  assumes "sqlx_shows C" and "answers_in (honest C) es"
  shows "case boot C max_permits client_builds listen env es fs d0 of
      Serving st db \<Rightarrow>
        st_cfg st = from_env env \<and> listen (cfg_port (from_env env)) = None
        \<and> 1 \<le> st_permits st \<and> st_permits st \<le> max_permits
        \<and> (\<exists>d. current d \<and> db = (database_of d0)\<lparr>db_sessions := db_sessions db\<rparr>
              \<and> set (db_sessions db) \<subseteq> set (sessions_of d)
              \<and> se_hash ` set (sessions_of d) = se_hash ` set (sessions_of d0))
        \<and> (db_ok E (database_of d0) \<longrightarrow> db_ok E db)
    | Boot_Failed e \<Rightarrow>
        \<exists>x. e = Sqlx x \<and> ((\<exists>now. Answer (Some x, now) \<in> set es) \<or> (\<exists>xs. Answer xs \<in> set fs \<and> Some x \<in> set xs))
    | Boot_Io m \<Rightarrow> listen (cfg_port (from_env env)) = Some m
    | Boot_Panic \<Rightarrow>
        max (cfg_concurrency (from_env env)) 1 > max_permits
        \<or> \<not> client_builds (cfg_timeout_secs (from_env env))
        \<or> (\<exists>ttl now. session_ttl (cfg_session_ttl_days (from_env env)) = Some ttl
              \<and> Time now \<in> set fs \<and> \<not> datetime_range C (now - ttl))
    | Booting \<Rightarrow> True"
    (is "?P (boot C max_permits client_builds listen env es fs d0)")
proof -
  obtain p d where run: "run exec_ddl es (init_db C) d0 = (p, d)" by fastforce
  let ?cfg = "from_env env"
  let ?clean = "delete_expired_sessions C (cfg_session_ttl_days ?cfg)"
  obtain q db where clean: "run exec fs ?clean (database_of d) = (q, db)" by fastforce
  consider (booting) "\<forall>r. p \<noteq> Return r" | (failed) e now where "p = Return (Err (Sqlx e))" "Answer (Some e, now) \<in> set es"
    | (stopped) "p = Return (Ok ())" "\<forall>r. q \<noteq> Return r"
    | (cleaned) r where "p = Return (Ok ())" "current d" "upgraded_from d0 d" "q = Return r"
    using init_db_ends [OF assms, of "[]" d0 _ d] run by (cases p) (simp; blast)+
  then show ?thesis
  proof cases
    case booting
    with run show ?thesis by (simp add: boot_def Let_def split: prog.split)
  next
    case failed
    with run show ?thesis by (auto simp: boot_def Let_def)
  next
    case stopped
    with run clean show ?thesis by (simp add: boot_def Let_def split: prog.split)
  next
    case cleaned
    note starts = run clean cleaned(1,4)
    from clean [unfolded cleaned(4)] show ?thesis
    proof (cases rule: run_delete_expired)
      case fault
      with starts show ?thesis by (auto simp: boot_def Let_def)
    next
      case panic
      with starts show ?thesis by (auto simp: boot_def Let_def)
    next
      case ok
      with starts cleaned_sessions [OF cleaned(3) clean ok(2)] cleaned(2) show ?thesis
        by (auto simp: boot_def Let_def app_state_new_def split: option.split)
    qed
  qed
qed


text \<open>The old file above, migrated and served.\<close>

definition half_migrated :: disk where
  "half_migrated = attempts plain_crates [take 2 good_answers] old_disk"

definition old_boot :: boot where
  "old_boot = boot plain_crates 100 (\<lambda>_. True) (\<lambda>_. None) (\<lambda>_. None) good_answers
     [Time (40 * 86400 * second), Answer []] half_migrated"

lemma half_migrated_ok: "db_ok rfc_crates (database_of half_migrated)"
  unfolding half_migrated_def
  using upgraded_db_ok [OF attempts_upgrade [OF upgraded_refl]] old_disk_ok by (simp only:)

lemma plain_crates_simps [simp]:
  "to_rfc3339 plain_crates t = (if t = 0 then ''0'' else ''1'')" "datetime_range plain_crates t \<longleftrightarrow> 0 \<le> t"
  by (simp_all add: plain_crates_def)

lemma old_boot_serves: "\<exists>db. old_boot = Serving \<lparr>st_cfg = from_env (\<lambda>_. None), st_permits = 8\<rparr> db"
proof -
  obtain d where run: "run exec_ddl good_answers (init_db plain_crates) half_migrated = (Return (Ok ()), d)"
    using old_disk_heals by (auto simp: half_migrated_def case_prod_beta prod_eq_iff split: prog.splits)
  have "session_ttl 30 = Some (30 * 86400 * second)"
    by (simp add: session_ttl_def try_days_def nanos_per_day_def)
  then have "fst (run exec [Time (40 * 86400 * second), Answer []] (delete_expired_sessions plain_crates 30) d')
      = Return (Ok ())" for d'
    by (simp add: delete_expired_sessions_def datetime_add_def run_simps second_def)
  moreover have "cfg_session_ttl_days (from_env (\<lambda>_. None)) = 30" "cfg_concurrency (from_env (\<lambda>_. None)) = 8"
    by (simp_all add: from_env_def)
  ultimately show ?thesis
    by (simp add: old_boot_def boot_def run app_state_new_def Let_def case_prod_beta del: run.simps)
qed

theorem boot_outcomes_witness:
  "case old_boot of Serving st db \<Rightarrow> st_permits st \<le> 100 \<and> db_ok rfc_crates db | _ \<Rightarrow> False"
  using boot_outcomes [OF plain_shows good_honest, where E = rfc_crates and max_permits = 100
      and client_builds = "\<lambda>_. True" and listen = "\<lambda>_. None" and env = "\<lambda>_. None"
      and fs = "[Time (40 * 86400 * second), Answer []]" and ?d0.0 = half_migrated] half_migrated_ok
    old_boot_serves
  by (auto simp: old_boot_def)

section \<open>The permits\<close>




end
