(* ===== verification/Web_Request.thy ===== *)
theory Web_Request
  imports Crates Rust_Str
begin

text \<open>
  The pure parts of the front end: the types of \<open>web-core\<close> (the DTOs, the error of a request,
  the display functions of \<open>fmt.rs\<close>), and \<open>request\<close> of the web crate's \<open>api.rs\<close>, cut at its
  points of suspension into the request that is sent and the result of the reply. The decoders
  that \<open>serde\<close> derives for the DTOs are fields of \<open>web_crates\<close>.
\<close>

section \<open>The contract with the server (\<open>dto.rs\<close>)\<close>

record source_dto =
  sd_id :: int
  sd_url :: string
  sd_name :: string
  sd_kind :: string
  sd_created_at :: string

record combined_item =
  ci_id :: int
  ci_name :: string
  ci_created_at :: string
  ci_source_ids :: "int list"

record preview_item =
  pi_name :: string
  pi_protocol :: string
  pi_server :: string
  pi_port :: u16

record preview_resp =
  pr_nodes :: "preview_item list"
  pr_errors :: "string list"
  pr_total :: nat

record account_dto =
  ac_username :: string
  ac_v2ray_base64 :: bool

text \<open>
  \<open>serde_json::from_str\<close> at each type, with the text of its error, and the text that
  \<open>to_string\<close> makes of a JSON value. \<open>hash_order\<close> is the order in which a hash set happens to
  list its elements.
\<close>

record web_crates =
  sources_from_str :: "string \<Rightarrow> string + source_dto list"
  combineds_from_str :: "string \<Rightarrow> string + combined_item list"
  account_from_str :: "string \<Rightarrow> string + account_dto"
  template_from_str :: "string \<Rightarrow> string + string"
  preview_from_str :: "string \<Rightarrow> string + preview_resp"
  value_from_str :: "string \<Rightarrow> string + json"
  json_text :: "json \<Rightarrow> string"
  hash_order :: "int set \<Rightarrow> int list"

section \<open>Errors (\<open>error.rs\<close>)\<close>

record request_error =
  re_status :: "nat option"
  re_message :: string

definition error_display :: "request_error \<Rightarrow> string" where
  "error_display e = re_message e"

definition string_of_error :: "request_error \<Rightarrow> string" where
  "string_of_error e = re_message e"

section \<open>Display (\<open>fmt.rs\<close>)\<close>

datatype toast_kind = Toast_Success | Toast_Error | Toast_Info

fun toast_icon :: "toast_kind \<Rightarrow> string" where
  "toast_icon Toast_Success = ''check''"
| "toast_icon Toast_Error = ''alert''"
| "toast_icon Toast_Info = ''config''"

fun toast_class :: "toast_kind \<Rightarrow> string" where
  "toast_class Toast_Success = ''success''"
| "toast_class Toast_Error = ''error''"
| "toast_class Toast_Info = ''info''"

definition proto_class :: "string \<Rightarrow> string" where
  "proto_class protocol =
     (if protocol = ''ss'' \<or> protocol = ''ssr'' then ''proto-0''
      else if protocol = ''vmess'' \<or> protocol = ''vless'' then ''proto-1''
      else if protocol = ''trojan'' then ''proto-2''
      else if protocol = ''hysteria'' \<or> protocol = ''hysteria2'' then ''proto-3''
      else if protocol = ''tuic'' then ''proto-4''
      else ''proto-5'')"

text \<open>
  The texts shown to the user are Chinese: \<open>chars\<close> encodes code points of the basic plane in
  UTF-8, and the name of each constant says what it means.
\<close>

definition utf8_bmp :: "nat \<Rightarrow> string" where
  "utf8_bmp c =
     (if c < 0x80 then [char_of c]
      else if c < 0x800 then [char_of (0xC0 + c div 64), char_of (0x80 + c mod 64)]
      else [char_of (0xE0 + c div 4096), char_of (0x80 + c div 64 mod 64), char_of (0x80 + c mod 64)])"

definition chars :: "nat list \<Rightarrow> string" where
  "chars cs = concat (map utf8_bmp cs)"

definition kind_label :: "string \<Rightarrow> string" where
  "kind_label k = (if k = ''single'' then chars [0x5355, 0x6761] else chars [0x8FDC, 0x7A0B])"

definition subscribe_path :: "string \<Rightarrow> string \<Rightarrow> string" where
  "subscribe_path name format = ''/subscribe/'' @ name @ ''?format='' @ format"

text \<open>The thread-local counter: the id handed out and the counter afterwards.\<close>

definition first_toast_id :: u64 where
  "first_toast_id = 1"

definition next_toast_id :: "u64 \<Rightarrow> u64 \<times> u64" where
  "next_toast_id c = (let v = c in (v, v + 1))"

section \<open>Requests (\<open>api.rs\<close>)\<close>

datatype http_method = Get | Post | Put | Delete

record api_request =
  rq_method :: http_method
  rq_path :: string
  rq_authorization :: "string option"
  rq_json_body :: "string option"

definition request :: "http_method \<Rightarrow> string \<Rightarrow> string option \<Rightarrow> string option \<Rightarrow> api_request" where
  "request m path body token =
     \<lparr>rq_method = m, rq_path = path,
      rq_authorization = map_option (\<lambda>t. ''Bearer '' @ t) token,
      rq_json_body = body\<rparr>"

text \<open>
  What comes of it: the body cannot be set, the request cannot be sent, or a response arrives
  with its status, whose text is read or fails.
\<close>

datatype web_reply = Body_Error string | Send_Error string | Received nat "string + string"

definition request_result :: "web_reply \<Rightarrow> request_error + string" where
  "request_result r =
     (case r of
        Body_Error e \<Rightarrow> Inl \<lparr>re_status = None, re_message = ''body error: '' @ e\<rparr>
      | Send_Error e \<Rightarrow> Inl \<lparr>re_status = None, re_message = e\<rparr>
      | Received status (Inl e) \<Rightarrow> Inl \<lparr>re_status = None, re_message = e\<rparr>
      | Received status (Inr t) \<Rightarrow>
          if status \<ge> 200 \<and> status < 300 then Inr t
          else Inl \<lparr>re_status = Some status, re_message = ''HTTP '' @ show_nat status @ '': '' @ t\<rparr>)"

section \<open>Lemmas\<close>

lemma request_result_Inr_iff:
  "request_result r = Inr t \<longleftrightarrow> (\<exists>status. r = Received status (Inr t) \<and> 200 \<le> status \<and> status < 300)"
  by (auto simp: request_result_def split: web_reply.splits sum.splits if_splits)

text \<open>A status reaches the caller only from a response that was read in full.\<close>

lemma request_result_status_iff:
  "(\<exists>e. request_result r = Inl e \<and> re_status e = Some status)
     \<longleftrightarrow> (\<exists>t. r = Received status (Inr t)) \<and> \<not> (200 \<le> status \<and> status < 300)"
  by (auto simp: request_result_def split: web_reply.splits sum.splits if_splits)

end
