(* ===== verification/Web_Texts.thy ===== *)
theory Web_Texts
  imports Web_Request
begin

text \<open>
  The messages of the front end, as code points; the comment beside each gives its meaning.
\<close>

definition parse_failed :: string where \<comment> \<open>parsing failed: \<close>
  "parse_failed = chars [0x89E3, 0x6790, 0x5931, 0x8D25, 0x3A, 0x20]"

definition setup_check_failed :: string where \<comment> \<open>checking the setup failed: \<close>
  "setup_check_failed = chars [0x68C0, 0x67E5, 0x521D, 0x59CB, 0x5316, 0x72B6, 0x6001, 0x5931, 0x8D25, 0x3A, 0x20]"

definition fill_in_account :: string where \<comment> \<open>enter a user name and a password\<close>
  "fill_in_account = chars [0x8BF7, 0x586B, 0x5199, 0x7528, 0x6237, 0x540D, 0x4E0E, 0x5BC6, 0x7801]"

definition token_missing :: string where \<comment> \<open>no token in the reply, try again\<close>
  "token_missing = chars [0x767B, 0x5F55, 0x54CD, 0x5E94, 0x7F3A, 0x5C11, 0x20, 0x74, 0x6F, 0x6B, 0x65, 0x6E, 0xFF0C, 0x8BF7, 0x91CD, 0x8BD5]"

definition login_failed :: string where \<comment> \<open>login failed: \<close>
  "login_failed = chars [0x767B, 0x5F55, 0x5931, 0x8D25, 0x3A, 0x20]"

definition passwords_differ :: string where \<comment> \<open>the two passwords differ\<close>
  "passwords_differ = chars [0x4E24, 0x6B21, 0x8F93, 0x5165, 0x7684, 0x5BC6, 0x7801, 0x4E0D, 0x4E00, 0x81F4]"

definition setup_failed :: string where \<comment> \<open>creation failed: \<close>
  "setup_failed = chars [0x521B, 0x5EFA, 0x5931, 0x8D25, 0x3A, 0x20]"

definition url_and_name_needed :: string where \<comment> \<open>URL and name must not be empty\<close>
  "url_and_name_needed = chars [0x55, 0x52, 0x4C, 0x20, 0x548C, 0x540D, 0x79F0, 0x4E0D, 0x80FD, 0x4E3A, 0x7A7A]"

definition source_added :: string where \<comment> \<open>source added\<close>
  "source_added = chars [0x8BA2, 0x9605, 0x6E90, 0x5DF2, 0x6DFB, 0x52A0]"

definition add_failed :: string where \<comment> \<open>adding failed: \<close>
  "add_failed = chars [0x6DFB, 0x52A0, 0x5931, 0x8D25, 0x3A, 0x20]"

definition source_updated :: string where \<comment> \<open>source updated\<close>
  "source_updated = chars [0x8BA2, 0x9605, 0x6E90, 0x5DF2, 0x66F4, 0x65B0]"

definition save_failed :: string where \<comment> \<open>saving failed: \<close>
  "save_failed = chars [0x4FDD, 0x5B58, 0x5931, 0x8D25, 0x3A, 0x20]"

definition delete_source_title :: string where \<comment> \<open>delete the source\<close>
  "delete_source_title = chars [0x5220, 0x9664, 0x8BA2, 0x9605, 0x6E90]"

definition confirm_before :: string where \<comment> \<open>really delete [\<close>
  "confirm_before = chars [0x786E, 0x5B9A, 0x5220, 0x9664, 0x300C]"

definition confirm_after :: string where \<comment> \<open>]? this cannot be undone\<close>
  "confirm_after = chars [0x300D, 0xFF1F, 0x6B64, 0x64CD, 0x4F5C, 0x4E0D, 0x53EF, 0x64A4, 0x9500, 0x3002]"

definition delete_text :: string where \<comment> \<open>delete\<close>
  "delete_text = chars [0x5220, 0x9664]"

definition deleted :: string where \<comment> \<open>deleted\<close>
  "deleted = chars [0x5DF2, 0x5220, 0x9664]"

definition delete_failed :: string where \<comment> \<open>deleting failed: \<close>
  "delete_failed = chars [0x5220, 0x9664, 0x5931, 0x8D25, 0x3A, 0x20]"

definition name_needed :: string where \<comment> \<open>the name must not be empty\<close>
  "name_needed = chars [0x7EC4, 0x5408, 0x540D, 0x79F0, 0x4E0D, 0x80FD, 0x4E3A, 0x7A7A]"

definition combined_saved :: string where \<comment> \<open>combined subscription saved\<close>
  "combined_saved = chars [0x7EC4, 0x5408, 0x8BA2, 0x9605, 0x5DF2, 0x4FDD, 0x5B58]"

definition delete_combined_title :: string where \<comment> \<open>delete the combined subscription\<close>
  "delete_combined_title = chars [0x5220, 0x9664, 0x7EC4, 0x5408, 0x8BA2, 0x9605]"

definition copied_text :: string where \<comment> \<open>copied to the clipboard\<close>
  "copied_text = chars [0x5DF2, 0x590D, 0x5236, 0x5230, 0x526A, 0x8D34, 0x677F]"

definition copy_failed :: string where \<comment> \<open>copying failed: \<close>
  "copy_failed = chars [0x590D, 0x5236, 0x5931, 0x8D25, 0x3A, 0x20]"

definition fill_in_all :: string where \<comment> \<open>fill in everything\<close>
  "fill_in_all = chars [0x8BF7, 0x586B, 0x5199, 0x5B8C, 0x6574]"

definition new_passwords_differ :: string where \<comment> \<open>the two new passwords differ\<close>
  "new_passwords_differ = chars [0x4E24, 0x6B21, 0x8F93, 0x5165, 0x7684, 0x65B0, 0x5BC6, 0x7801, 0x4E0D, 0x4E00, 0x81F4]"

definition change_failed :: string where \<comment> \<open>change failed: \<close>
  "change_failed = chars [0x4FEE, 0x6539, 0x5931, 0x8D25, 0x3A, 0x20]"

definition setting_saved :: string where \<comment> \<open>output setting saved\<close>
  "setting_saved = chars [0x8BA2, 0x9605, 0x8F93, 0x51FA, 0x8BBE, 0x7F6E, 0x5DF2, 0x4FDD, 0x5B58]"

definition template_needed :: string where \<comment> \<open>the template must not be empty\<close>
  "template_needed = chars [0x6A21, 0x677F, 0x4E0D, 0x80FD, 0x4E3A, 0x7A7A]"

definition clash_saved :: string where \<comment> \<open>Clash configuration saved\<close>
  "clash_saved = chars [0x43, 0x6C, 0x61, 0x73, 0x68, 0x20, 0x914D, 0x7F6E, 0x5DF2, 0x4FDD, 0x5B58]"

end
