(* ===== verification/Web_Labels.thy ===== *)
theory Web_Labels
  imports Web_Texts
begin

text \<open>
  The labels of the pages, as code points; the comment beside each gives its meaning.
\<close>

definition lb_name :: string where \<comment> \<open>name\<close>
  "lb_name = chars [0x540D, 0x79F0]"

definition lb_kind :: string where \<comment> \<open>kind\<close>
  "lb_kind = chars [0x7C7B, 0x578B]"

definition lb_actions :: string where \<comment> \<open>actions\<close>
  "lb_actions = chars [0x64CD, 0x4F5C]"

definition lb_preview :: string where \<comment> \<open>preview\<close>
  "lb_preview = chars [0x9884, 0x89C8]"

definition lb_edit :: string where \<comment> \<open>edit\<close>
  "lb_edit = chars [0x7F16, 0x8F91]"

definition lb_sources :: string where \<comment> \<open>sources\<close>
  "lb_sources = chars [0x8BA2, 0x9605, 0x6E90]"

definition lb_add_source :: string where \<comment> \<open>add a source\<close>
  "lb_add_source = chars [0x6DFB, 0x52A0, 0x8BA2, 0x9605, 0x6E90]"

definition lb_source_url :: string where \<comment> \<open>URL of the subscription\<close>
  "lb_source_url = chars [0x8BA2, 0x9605, 0x20, 0x55, 0x52, 0x4C]"

definition lb_single_hint :: string where \<comment> \<open>ss://..., vmess://... link of one node\<close>
  "lb_single_hint = chars [0x73, 0x73, 0x3A, 0x2F, 0x2F, 0x2E, 0x2E, 0x2E, 0x2C, 0x20, 0x76, 0x6D, 0x65, 0x73, 0x73, 0x3A,
     0x2F, 0x2F, 0x2E, 0x2E, 0x2E, 0x20, 0x5355, 0x6761, 0x8282, 0x70B9, 0x94FE, 0x63A5]"

definition lb_name_hint :: string where \<comment> \<open>for example: airport A\<close>
  "lb_name_hint = chars [0x4F8B, 0x5982, 0xFF1A, 0x673A, 0x573A, 0x20, 0x41]"

definition lb_add :: string where \<comment> \<open>add\<close>
  "lb_add = chars [0x6DFB, 0x52A0]"

definition lb_source_list :: string where \<comment> \<open>list of sources\<close>
  "lb_source_list = chars [0x8BA2, 0x9605, 0x6E90, 0x5217, 0x8868]"

definition lb_n_sources :: string where \<comment> \<open> sources\<close>
  "lb_n_sources = chars [0x20, 0x4E2A, 0x6E90]"

definition lb_no_sources :: string where \<comment> \<open>no sources yet\<close>
  "lb_no_sources = chars [0x6682, 0x65E0, 0x8BA2, 0x9605, 0x6E90]"

definition lb_no_sources_hint :: string where \<comment> \<open>fill in name and URL above and press add\<close>
  "lb_no_sources_hint = chars [0x5728, 0x4E0A, 0x65B9, 0x8868, 0x5355, 0x586B, 0x5199, 0x540D, 0x79F0, 0x4E0E, 0x8BA2, 0x9605,
     0x20, 0x55, 0x52, 0x4C, 0xFF0C, 0x70B9, 0x51FB, 0x300C, 0x6DFB, 0x52A0, 0x300D, 0x5F00, 0x59CB]"

definition lb_edit_before :: string where \<comment> \<open>edit [\<close>
  "lb_edit_before = chars [0x7F16, 0x8F91, 0x300C]"

definition lb_edit_after :: string where \<comment> \<open>]\<close>
  "lb_edit_after = chars [0x300D]"

definition lb_option_single :: string where \<comment> \<open>one node (single)\<close>
  "lb_option_single = chars [0x5355, 0x6761, 0xFF08, 0x73, 0x69, 0x6E, 0x67, 0x6C, 0x65, 0xFF09]"

definition lb_option_remote :: string where \<comment> \<open>link of a subscription (remote)\<close>
  "lb_option_remote = chars [0x8BA2, 0x9605, 0x94FE, 0x63A5, 0xFF08, 0x72, 0x65, 0x6D, 0x6F, 0x74, 0x65, 0xFF09]"

definition lb_cancel :: string where \<comment> \<open>cancel\<close>
  "lb_cancel = chars [0x53D6, 0x6D88]"

definition lb_save :: string where \<comment> \<open>save\<close>
  "lb_save = chars [0x4FDD, 0x5B58]"

definition lb_combineds :: string where \<comment> \<open>combined subscriptions\<close>
  "lb_combineds = chars [0x7EC4, 0x5408, 0x8BA2, 0x9605]"

definition lb_new_combined :: string where \<comment> \<open>new combined subscription\<close>
  "lb_new_combined = chars [0x65B0, 0x5EFA, 0x7EC4, 0x5408]"

definition lb_no_combineds :: string where \<comment> \<open>no combined subscriptions yet\<close>
  "lb_no_combineds = chars [0x6682, 0x65E0, 0x7EC4, 0x5408, 0x8BA2, 0x9605]"

definition lb_no_combineds_hint :: string where \<comment> \<open>create one and tick its members\<close>
  "lb_no_combineds_hint = chars [0x65B0, 0x5EFA, 0x7EC4, 0x5408, 0x5E76, 0x4ECE, 0x8BA2, 0x9605, 0x6E90, 0x4E2D, 0x52FE, 0x9009,
     0x6210, 0x5458, 0xFF0C, 0x751F, 0x6210, 0x72EC, 0x7ACB, 0x8BA2, 0x9605, 0x94FE, 0x63A5]"

definition lb_n_members :: string where \<comment> \<open> members\<close>
  "lb_n_members = chars [0x20, 0x4E2A, 0x6210, 0x5458]"

definition lb_edit_combined :: string where \<comment> \<open>edit the combined subscription\<close>
  "lb_edit_combined = chars [0x7F16, 0x8F91, 0x7EC4, 0x5408]"

definition lb_combined_name :: string where \<comment> \<open>name (letters, digits, -, _)\<close>
  "lb_combined_name = chars [0x7EC4, 0x5408, 0x540D, 0x79F0, 0xFF08, 0x5B57, 0x6BCD, 0x3001, 0x6570, 0x5B57, 0x3001, 0x2D,
     0x3001, 0x5F, 0xFF09]"

definition lb_combined_hint :: string where \<comment> \<open>for example: home\<close>
  "lb_combined_hint = chars [0x4F8B, 0x5982, 0xFF1A, 0x68, 0x6F, 0x6D, 0x65]"

definition lb_choose :: string where \<comment> \<open>choose the sources it contains\<close>
  "lb_choose = chars [0x9009, 0x62E9, 0x5305, 0x542B, 0x7684, 0x8BA2, 0x9605, 0x6E90, 0xFF08, 0x53EF, 0x591A, 0x9009,
     0xFF09]"

definition lb_no_members :: string where \<comment> \<open>no sources, add some first\<close>
  "lb_no_members = chars [0x6682, 0x65E0, 0x8BA2, 0x9605, 0x6E90, 0xFF0C, 0x8BF7, 0x5148, 0x5230, 0x300C, 0x8BA2, 0x9605,
     0x6E90, 0x300D, 0x9875, 0x6DFB, 0x52A0]"

definition lb_config :: string where \<comment> \<open>configuration\<close>
  "lb_config = chars [0x914D, 0x7F6E]"

definition lb_account :: string where \<comment> \<open>account\<close>
  "lb_account = chars [0x8D26, 0x53F7]"

definition lb_account_note :: string where \<comment> \<open>a change of the password ends every session\<close>
  "lb_account_note = chars [0x4FEE, 0x6539, 0x5BC6, 0x7801, 0x540E, 0x6240, 0x6709, 0x8BBE, 0x5907, 0xFF08, 0x542B, 0x5F53,
     0x524D, 0x4F1A, 0x8BDD, 0xFF09, 0x5C06, 0x88AB, 0x5F3A, 0x5236, 0x91CD, 0x65B0, 0x767B, 0x5F55,
     0x3002]"

definition lb_username :: string where \<comment> \<open>user name\<close>
  "lb_username = chars [0x7528, 0x6237, 0x540D]"

definition lb_old_password :: string where \<comment> \<open>current password\<close>
  "lb_old_password = chars [0x5F53, 0x524D, 0x5BC6, 0x7801]"

definition lb_new_password :: string where \<comment> \<open>new password\<close>
  "lb_new_password = chars [0x65B0, 0x5BC6, 0x7801]"

definition lb_new_password2 :: string where \<comment> \<open>confirm the new password\<close>
  "lb_new_password2 = chars [0x786E, 0x8BA4, 0x65B0, 0x5BC6, 0x7801]"

definition lb_change_password :: string where \<comment> \<open>change the password\<close>
  "lb_change_password = chars [0x4FEE, 0x6539, 0x5BC6, 0x7801]"

definition lb_output :: string where \<comment> \<open>output\<close>
  "lb_output = chars [0x8BA2, 0x9605, 0x8F93, 0x51FA]"

definition lb_output_note :: string where \<comment> \<open>whether the v2ray output is base64\<close>
  "lb_output_note = chars [0x76, 0x32, 0x72, 0x61, 0x79, 0x20, 0x8BA2, 0x9605, 0x8F93, 0x51FA, 0x662F, 0x5426, 0x4F7F,
     0x7528, 0x20, 0x62, 0x61, 0x73, 0x65, 0x36, 0x34, 0x20, 0x7F16, 0x7801, 0xFF1B, 0x5173, 0x95ED,
     0x540E, 0x6D4F, 0x89C8, 0x5668, 0x76F4, 0x63A5, 0x663E, 0x793A, 0x8282, 0x70B9, 0x20, 0x55,
     0x52, 0x49, 0x20, 0x6587, 0x672C, 0xFF08, 0x5BA2, 0x6237, 0x7AEF, 0x4E24, 0x79CD, 0x5F62,
     0x6001, 0x5747, 0x53EF, 0x89E3, 0x6790, 0xFF09, 0x3002]"

definition lb_base64 :: string where \<comment> \<open>v2ray output in base64\<close>
  "lb_base64 = chars [0x76, 0x32, 0x72, 0x61, 0x79, 0x20, 0x8F93, 0x51FA, 0x4F7F, 0x7528, 0x20, 0x62, 0x61, 0x73,
     0x65, 0x36, 0x34]"

definition lb_save_setting :: string where \<comment> \<open>save the setting\<close>
  "lb_save_setting = chars [0x4FDD, 0x5B58, 0x8BBE, 0x7F6E]"

definition lb_clash :: string where \<comment> \<open>Clash configuration\<close>
  "lb_clash = chars [0x43, 0x6C, 0x61, 0x73, 0x68, 0x20, 0x914D, 0x7F6E]"

definition lb_clash_note :: string where \<comment> \<open>edit the template here; providers and groups are added\<close>
  "lb_clash_note = chars [0x5728, 0x6B64, 0x7F16, 0x8F91, 0x20, 0x43, 0x6C, 0x61, 0x73, 0x68, 0x20, 0x8F93, 0x51FA,
     0x7684, 0x9ED8, 0x8BA4, 0x914D, 0x7F6E, 0xFF08, 0x5934, 0x90E8, 0x5B57, 0x6BB5, 0x3001, 0x64,
     0x6E, 0x73, 0x3001, 0x5206, 0x6D41, 0x20, 0x72, 0x75, 0x6C, 0x65, 0x73, 0x20, 0x7B49, 0xFF09,
     0x3002, 0x70, 0x72, 0x6F, 0x78, 0x79, 0x2D, 0x70, 0x72, 0x6F, 0x76, 0x69, 0x64, 0x65, 0x72,
     0x73, 0x20, 0x4E0E, 0x20, 0x70, 0x72, 0x6F, 0x78, 0x79, 0x2D, 0x67, 0x72, 0x6F, 0x75, 0x70,
     0x73, 0x20, 0x7531, 0x7CFB, 0x7EDF, 0x81EA, 0x52A8, 0x8FFD, 0x52A0, 0xFF0C, 0x65E0, 0x9700,
     0xFF08, 0x4E5F, 0x4E0D, 0x5E94, 0xFF09, 0x5728, 0x6B64, 0x7F16, 0x5199, 0x3002]"

definition lb_clash_hint :: string where \<comment> \<open>a short template\<close>
  "lb_clash_hint = chars [0x6D, 0x69, 0x78, 0x65, 0x64, 0x2D, 0x70, 0x6F, 0x72, 0x74, 0x3A, 0x20, 0x37, 0x38, 0x39, 0x30,
     0xA, 0x61, 0x6C, 0x6C, 0x6F, 0x77, 0x2D, 0x6C, 0x61, 0x6E, 0x3A, 0x20, 0x66, 0x61, 0x6C, 0x73,
     0x65, 0xA, 0x6D, 0x6F, 0x64, 0x65, 0x3A, 0x20, 0x72, 0x75, 0x6C, 0x65, 0xA, 0x6C, 0x6F, 0x67,
     0x2D, 0x6C, 0x65, 0x76, 0x65, 0x6C, 0x3A, 0x20, 0x69, 0x6E, 0x66, 0x6F, 0xA, 0xA, 0x72, 0x75,
     0x6C, 0x65, 0x73, 0x3A, 0xA, 0x20, 0x20, 0x2D, 0x20, 0x4D, 0x41, 0x54, 0x43, 0x48, 0x2C, 0x8282,
     0x70B9, 0x9009, 0x62E9]"

definition lb_password :: string where \<comment> \<open>password\<close>
  "lb_password = chars [0x5BC6, 0x7801]"

definition lb_password2 :: string where \<comment> \<open>confirm the password\<close>
  "lb_password2 = chars [0x786E, 0x8BA4, 0x5BC6, 0x7801]"

definition lb_create :: string where \<comment> \<open>create and log in\<close>
  "lb_create = chars [0x521B, 0x5EFA, 0x5E76, 0x767B, 0x5F55]"

definition lb_login :: string where \<comment> \<open>log in\<close>
  "lb_login = chars [0x767B, 0x5F55]"

definition lb_retry :: string where \<comment> \<open>try again\<close>
  "lb_retry = chars [0x91CD, 0x8BD5]"

definition lb_subtitle :: string where \<comment> \<open>aggregation and conversion of subscriptions\<close>
  "lb_subtitle = chars [0x8BA2, 0x9605, 0x805A, 0x5408, 0x4E0E, 0x8F6C, 0x6362, 0x7BA1, 0x7406]"

definition lb_load_failed :: string where \<comment> \<open>loading failed\<close>
  "lb_load_failed = chars [0x52A0, 0x8F7D, 0x5931, 0x8D25]"

definition lb_no_nodes :: string where \<comment> \<open>no nodes\<close>
  "lb_no_nodes = chars [0x6682, 0x65E0, 0x8282, 0x70B9]"

definition lb_no_nodes_hint :: string where \<comment> \<open>this source has no usable nodes\<close>
  "lb_no_nodes_hint = chars [0x8BE5, 0x8BA2, 0x9605, 0x6E90, 0x6682, 0x65E0, 0x53EF, 0x7528, 0x8282, 0x70B9]"

definition lb_protocol :: string where \<comment> \<open>protocol\<close>
  "lb_protocol = chars [0x534F, 0x8BAE]"

definition lb_server :: string where \<comment> \<open>server\<close>
  "lb_server = chars [0x670D, 0x52A1, 0x5668]"

definition lb_port :: string where \<comment> \<open>port\<close>
  "lb_port = chars [0x7AEF, 0x53E3]"

definition lb_source_errors :: string where \<comment> \<open>errors of the sources\<close>
  "lb_source_errors = chars [0x6E90, 0x9519, 0x8BEF]"

definition lb_close :: string where \<comment> \<open>close\<close>
  "lb_close = chars [0x5173, 0x95ED]"

definition lb_manage :: string where \<comment> \<open>subscriptions\<close>
  "lb_manage = chars [0x8BA2, 0x9605, 0x7BA1, 0x7406]"

definition lb_single_group :: string where \<comment> \<open>single subscriptions\<close>
  "lb_single_group = chars [0x5355, 0x6761, 0x8BA2, 0x9605]"

definition lb_local :: string where \<comment> \<open>local subscriptions\<close>
  "lb_local = chars [0x672C, 0x5730, 0x8BA2, 0x9605]"

definition lb_remote :: string where \<comment> \<open>remote subscriptions\<close>
  "lb_remote = chars [0x8FDC, 0x7A0B, 0x8BA2, 0x9605]"

definition lb_logout :: string where \<comment> \<open>log out\<close>
  "lb_logout = chars [0x9000, 0x51FA, 0x767B, 0x5F55]"

definition lb_no_window :: string where \<comment> \<open>no window\<close>
  "lb_no_window = chars [0x65E0, 0x7A97, 0x53E3]"

definition lb_clipboard_unreadable :: string where \<comment> \<open>the clipboard cannot be read: \<close>
  "lb_clipboard_unreadable = chars [0x65E0, 0x6CD5, 0x8BFB, 0x53D6, 0x526A, 0x8D34, 0x677F, 0x3A, 0x20]"

definition lb_clipboard_missing :: string where \<comment> \<open>no clipboard: HTTPS or localhost is needed\<close>
  "lb_clipboard_missing = chars [0x526A, 0x8D34, 0x677F, 0x4E0D, 0x53EF, 0x7528, 0xFF1A, 0x9700, 0x20, 0x48, 0x54, 0x54, 0x50,
     0x53, 0x20, 0x6216, 0x20, 0x6C, 0x6F, 0x63, 0x61, 0x6C, 0x68, 0x6F, 0x73, 0x74, 0x20, 0x8BBF,
     0x95EE]"

end
