(* ===== verification/Web_Data.thy ===== *)
theory Web_Data
  imports Web_Texts
begin

text \<open>
  \<open>data.rs\<close>: the cache of the front end. Each of its four units has a status, the last data
  and an error text; a load marks its unit as loading and spawns a task that sends the request
  and stores the result, and a set of units in flight keeps a second load from starting.

  A task belongs to the scope it was spawned in, as the documentation of \<open>dioxus::spawn\<close> says:
  when the component of the scope is unmounted its tasks are dropped, wherever they are
  suspended. \<open>unmount\<close> is that event; a dropped task stores nothing and leaves the set of units
  in flight alone.
\<close>

section \<open>State\<close>

datatype unit_key = Sources_Unit | Combineds_Unit | Config_Unit | Clash_Config_Unit

datatype cache_status = Idle | Loading | Ready | Failed

record 'a cache_state =
  cs_status :: cache_status
  cs_data :: "'a option"
  cs_error :: string

definition cache_default :: "'a cache_state" where
  "cache_default = \<lparr>cs_status = Idle, cs_data = None, cs_error = []\<rparr>"

datatype scope = Shell_Scope | Page_Scope | Editor_Scope

text \<open>
  A spawned task: its unit, the data of all four units when it was spawned, the scope that owns
  it, and the request it has sent (none until it is first polled).
\<close>

record load_task =
  lt_key :: unit_key
  lt_stale_sources :: "source_dto list option"
  lt_stale_combineds :: "combined_item list option"
  lt_stale_config :: "account_dto option"
  lt_stale_clash_config :: "string option"
  lt_scope :: scope
  lt_sent :: "api_request option"

record data_store =
  ds_sources :: "source_dto list cache_state"
  ds_combineds :: "combined_item list cache_state"
  ds_config :: "account_dto cache_state"
  ds_clash_config :: "string cache_state"
  ds_token :: "string option"
  ds_in_flight :: "unit_key set"
  ds_tasks :: "load_task list"

definition provide :: "string option \<Rightarrow> data_store" where
  "provide token =
     \<lparr>ds_sources = cache_default, ds_combineds = cache_default, ds_config = cache_default,
      ds_clash_config = cache_default, ds_token = token, ds_in_flight = {}, ds_tasks = []\<rparr>"

section \<open>Fetching a unit\<close>

text \<open>The part the four fetch functions share after their request.\<close>

definition decode_reply :: "(string \<Rightarrow> string + 'a) \<Rightarrow> web_reply \<Rightarrow> string + 'a" where
  "decode_reply decode r =
     (case request_result r of
        Inl e \<Rightarrow> Inl (string_of_error e)
      | Inr body \<Rightarrow> (case decode body of Inl e \<Rightarrow> Inl (parse_failed @ e) | Inr d \<Rightarrow> Inr d))"

definition fetch_sources :: "web_crates \<Rightarrow> web_reply \<Rightarrow> string + source_dto list" where
  "fetch_sources W r = decode_reply (sources_from_str W) r"

definition fetch_combineds :: "web_crates \<Rightarrow> web_reply \<Rightarrow> string + combined_item list" where
  "fetch_combineds W r = decode_reply (combineds_from_str W) r"

definition fetch_config :: "web_crates \<Rightarrow> web_reply \<Rightarrow> string + account_dto" where
  "fetch_config W r = decode_reply (account_from_str W) r"

definition fetch_clash_config :: "web_crates \<Rightarrow> web_reply \<Rightarrow> string + string" where
  "fetch_clash_config W r = decode_reply (template_from_str W) r"

fun unit_request :: "unit_key \<Rightarrow> string option \<Rightarrow> api_request" where
  "unit_request Sources_Unit token = request Get ''/admin/sources'' None token"
| "unit_request Combineds_Unit token = request Get ''/admin/combineds'' None token"
| "unit_request Config_Unit token = request Get ''/admin/config'' None token"
| "unit_request Clash_Config_Unit token = request Get ''/admin/clash-config'' None token"

section \<open>Operations\<close>

fun required_units :: "nat \<Rightarrow> unit_key list" where
  "required_units tab =
     (if tab = 0 then [Sources_Unit]
      else if tab = 1 then [Sources_Unit]
      else if tab = 2 then [Combineds_Unit, Sources_Unit]
      else if tab = 3 then [Clash_Config_Unit]
      else [Config_Unit])"

declare required_units.simps [simp del]

fun status_of :: "unit_key \<Rightarrow> data_store \<Rightarrow> cache_status" where
  "status_of Sources_Unit s = cs_status (ds_sources s)"
| "status_of Combineds_Unit s = cs_status (ds_combineds s)"
| "status_of Config_Unit s = cs_status (ds_config s)"
| "status_of Clash_Config_Unit s = cs_status (ds_clash_config s)"

definition all_ready :: "nat \<Rightarrow> data_store \<Rightarrow> bool" where
  "all_ready tab s = list_all (\<lambda>k. status_of k s = Ready) (required_units tab)"

definition all_finished :: "nat \<Rightarrow> data_store \<Rightarrow> bool" where
  "all_finished tab s = list_all (\<lambda>k. status_of k s \<noteq> Loading) (required_units tab)"

definition any_idle :: "nat \<Rightarrow> data_store \<Rightarrow> bool" where
  "any_idle tab s = list_ex (\<lambda>k. status_of k s = Idle) (required_units tab)"

definition set_loading :: "'a cache_state \<Rightarrow> 'a cache_state" where
  "set_loading cur = \<lparr>cs_status = Loading, cs_data = cs_data cur, cs_error = []\<rparr>"

fun mark_loading :: "unit_key \<Rightarrow> data_store \<Rightarrow> data_store" where
  "mark_loading Sources_Unit s = s\<lparr>ds_sources := set_loading (ds_sources s)\<rparr>"
| "mark_loading Combineds_Unit s = s\<lparr>ds_combineds := set_loading (ds_combineds s)\<rparr>"
| "mark_loading Config_Unit s = s\<lparr>ds_config := set_loading (ds_config s)\<rparr>"
| "mark_loading Clash_Config_Unit s = s\<lparr>ds_clash_config := set_loading (ds_clash_config s)\<rparr>"

definition spawn_load :: "scope \<Rightarrow> unit_key \<Rightarrow> data_store \<Rightarrow> load_task" where
  "spawn_load sc key s =
     \<lparr>lt_key = key, lt_stale_sources = cs_data (ds_sources s),
      lt_stale_combineds = cs_data (ds_combineds s), lt_stale_config = cs_data (ds_config s),
      lt_stale_clash_config = cs_data (ds_clash_config s), lt_scope = sc, lt_sent = None\<rparr>"

definition load :: "scope \<Rightarrow> unit_key \<Rightarrow> data_store \<Rightarrow> data_store" where
  "load sc key s =
     (if key \<in> ds_in_flight s then s
      else let s' = mark_loading key s
           in s'\<lparr>ds_in_flight := insert key (ds_in_flight s'),
                 ds_tasks := ds_tasks s' @ [spawn_load sc key s']\<rparr>)"

definition refresh :: "scope \<Rightarrow> unit_key \<Rightarrow> data_store \<Rightarrow> data_store" where
  "refresh sc key s = load sc key s"

definition ensure_unit :: "scope \<Rightarrow> unit_key \<Rightarrow> data_store \<Rightarrow> data_store" where
  "ensure_unit sc key s =
     (let st = status_of key s in if st \<noteq> Ready \<and> st \<noteq> Loading then load sc key s else s)"

definition ensure_loaded :: "scope \<Rightarrow> nat \<Rightarrow> data_store \<Rightarrow> data_store" where
  "ensure_loaded sc tab s = fold (ensure_unit sc) (required_units tab) s"

section \<open>The life of a task\<close>

text \<open>The first poll reads the token and sends the request.\<close>

definition start_task :: "load_task \<Rightarrow> data_store \<Rightarrow> data_store" where
  "start_task t s =
     s\<lparr>ds_tasks := map (\<lambda>u. if u = t then u\<lparr>lt_sent := Some (unit_request (lt_key u) (ds_token s))\<rparr> else u)
                   (ds_tasks s)\<rparr>"

definition loaded :: "'a option \<Rightarrow> string + 'a \<Rightarrow> 'a cache_state" where
  "loaded stale r =
     (case r of
        Inr d \<Rightarrow> \<lparr>cs_status = Ready, cs_data = Some d, cs_error = []\<rparr>
      | Inl e \<Rightarrow> \<lparr>cs_status = Failed, cs_data = stale, cs_error = e\<rparr>)"

definition store_result :: "web_crates \<Rightarrow> load_task \<Rightarrow> web_reply \<Rightarrow> data_store \<Rightarrow> data_store" where
  "store_result W t r s =
     (case lt_key t of
        Sources_Unit \<Rightarrow> s\<lparr>ds_sources := loaded (lt_stale_sources t) (fetch_sources W r)\<rparr>
      | Combineds_Unit \<Rightarrow> s\<lparr>ds_combineds := loaded (lt_stale_combineds t) (fetch_combineds W r)\<rparr>
      | Config_Unit \<Rightarrow> s\<lparr>ds_config := loaded (lt_stale_config t) (fetch_config W r)\<rparr>
      | Clash_Config_Unit \<Rightarrow>
          s\<lparr>ds_clash_config := loaded (lt_stale_clash_config t) (fetch_clash_config W r)\<rparr>)"

text \<open>The reply arrives: the rest of the task runs to its end without another suspension.\<close>

definition finish_task :: "web_crates \<Rightarrow> load_task \<Rightarrow> web_reply \<Rightarrow> data_store \<Rightarrow> data_store" where
  "finish_task W t r s =
     (let s' = store_result W t r s
      in s'\<lparr>ds_in_flight := ds_in_flight s' - {lt_key t}, ds_tasks := remove1 t (ds_tasks s')\<rparr>)"

definition unmount :: "scope \<Rightarrow> data_store \<Rightarrow> data_store" where
  "unmount sc s = s\<lparr>ds_tasks := filter (\<lambda>t. lt_scope t \<noteq> sc) (ds_tasks s)\<rparr>"

end
