(* ===== verification/Web_Store.thy ===== *)
theory Web_Store
  imports Web_Data
begin

text \<open>
  The invariant of the cache and the contract its operations keep, as a locale: an operation
  keeps the invariant, no unit loses its data, and a unit whose task was dropped stays as it is.
\<close>

section \<open>The invariant\<close>

fun has_data :: "unit_key \<Rightarrow> data_store \<Rightarrow> bool" where
  "has_data Sources_Unit s \<longleftrightarrow> cs_data (ds_sources s) \<noteq> None"
| "has_data Combineds_Unit s \<longleftrightarrow> cs_data (ds_combineds s) \<noteq> None"
| "has_data Config_Unit s \<longleftrightarrow> cs_data (ds_config s) \<noteq> None"
| "has_data Clash_Config_Unit s \<longleftrightarrow> cs_data (ds_clash_config s) \<noteq> None"

text \<open>The data a task falls back on is the data its unit still shows.\<close>

definition stale_current :: "data_store \<Rightarrow> load_task \<Rightarrow> bool" where
  "stale_current s t \<longleftrightarrow>
     (case lt_key t of
        Sources_Unit \<Rightarrow> lt_stale_sources t = cs_data (ds_sources s)
      | Combineds_Unit \<Rightarrow> lt_stale_combineds t = cs_data (ds_combineds s)
      | Config_Unit \<Rightarrow> lt_stale_config t = cs_data (ds_config s)
      | Clash_Config_Unit \<Rightarrow> lt_stale_clash_config t = cs_data (ds_clash_config s))"

definition unit_ok :: "data_store \<Rightarrow> unit_key \<Rightarrow> bool" where
  "unit_ok s k \<longleftrightarrow> (status_of k s = Loading \<longleftrightarrow> k \<in> ds_in_flight s)
     \<and> (status_of k s = Ready \<longrightarrow> has_data k s) \<and> (status_of k s = Idle \<longrightarrow> \<not> has_data k s)"

definition store_ok :: "data_store \<Rightarrow> bool" where
  "store_ok s \<longleftrightarrow> unit_ok s Sources_Unit \<and> unit_ok s Combineds_Unit \<and> unit_ok s Config_Unit
     \<and> unit_ok s Clash_Config_Unit \<and> distinct (map lt_key (ds_tasks s))
     \<and> list_all (\<lambda>t. lt_key t \<in> ds_in_flight s \<and> stale_current s t) (ds_tasks s)"

text \<open>A unit in flight without a task: its load was dropped with the scope that owned it.\<close>

definition orphaned :: "unit_key \<Rightarrow> data_store \<Rightarrow> bool" where
  "orphaned k s \<longleftrightarrow> k \<in> ds_in_flight s \<and> k \<notin> lt_key ` set (ds_tasks s)"

lemma unit_ok_all: "store_ok s \<Longrightarrow> unit_ok s k"
  by (cases k) (simp_all add: store_ok_def)

lemma store_okI:
  assumes "\<And>k. unit_ok s k" and "distinct (map lt_key (ds_tasks s))"
    and "\<And>t. t \<in> set (ds_tasks s) \<Longrightarrow> lt_key t \<in> ds_in_flight s \<and> stale_current s t"
  shows "store_ok s"
  using assms by (simp add: store_ok_def list_all_iff)

lemma store_ok_task:
  "store_ok s \<Longrightarrow> t \<in> set (ds_tasks s) \<Longrightarrow> lt_key t \<in> ds_in_flight s \<and> stale_current s t"
  by (simp add: store_ok_def list_all_iff)

lemma store_ok_distinct: "store_ok s \<Longrightarrow> distinct (map lt_key (ds_tasks s))"
  by (simp add: store_ok_def)

lemma task_of_key:
  "store_ok s \<Longrightarrow> t \<in> set (ds_tasks s) \<Longrightarrow> u \<in> set (ds_tasks s) \<Longrightarrow> lt_key u = lt_key t \<Longrightarrow> u = t"
  by (meson store_ok_distinct distinct_map inj_onD)

lemma provide_ok [simp]: "store_ok (provide token)"
  by (simp add: store_ok_def unit_ok_def provide_def cache_default_def)

section \<open>What each operation does to a unit\<close>

lemma mark_loading_status [simp]:
  "status_of k (mark_loading key s) = (if k = key then Loading else status_of k s)"
  by (cases k; cases key) (simp_all add: set_loading_def)

lemma mark_loading_data [simp]: "has_data k (mark_loading key s) = has_data k s"
  by (cases k; cases key) (simp_all add: set_loading_def)

lemma mark_loading_stale [simp]: "stale_current (mark_loading key s) t = stale_current s t"
  by (cases key) (simp_all add: set_loading_def stale_current_def split: unit_key.split)

lemma mark_loading_rest [simp]:
  "ds_in_flight (mark_loading key s) = ds_in_flight s" "ds_tasks (mark_loading key s) = ds_tasks s"
  "ds_token (mark_loading key s) = ds_token s"
  by (cases key; simp)+

lemma frame [simp]:
  "status_of k (s\<lparr>ds_in_flight := f\<rparr>) = status_of k s"
  "status_of k (s\<lparr>ds_tasks := ts\<rparr>) = status_of k s"
  "has_data k (s\<lparr>ds_in_flight := f\<rparr>) = has_data k s"
  "has_data k (s\<lparr>ds_tasks := ts\<rparr>) = has_data k s"
  "stale_current (s\<lparr>ds_in_flight := f\<rparr>) = stale_current s"
  "stale_current (s\<lparr>ds_tasks := ts\<rparr>) = stale_current s"
  by (cases k; simp; fail)+ (auto simp: stale_current_def fun_eq_iff split: unit_key.split)

lemma spawn_load_current [simp]: "stale_current s (spawn_load sc key s)"
  by (simp add: stale_current_def spawn_load_def split: unit_key.split)

lemma spawn_load_marked [simp]: "stale_current s (spawn_load sc key (mark_loading k s))"
  using spawn_load_current [of "mark_loading k s" sc key] by (simp only: mark_loading_stale)

lemma spawn_load_key [simp]: "lt_key (spawn_load sc key s) = key" "lt_scope (spawn_load sc key s) = sc"
  by (simp_all add: spawn_load_def)

lemma store_result_rest [simp]:
  "ds_in_flight (store_result W t r s) = ds_in_flight s" "ds_tasks (store_result W t r s) = ds_tasks s"
  "ds_token (store_result W t r s) = ds_token s"
  by (simp_all add: store_result_def split: unit_key.split)

lemma store_result_other:
  "k \<noteq> lt_key t \<Longrightarrow> status_of k (store_result W t r s) = status_of k s"
  "k \<noteq> lt_key t \<Longrightarrow> has_data k (store_result W t r s) = has_data k s"
  by (cases k; simp add: store_result_def split: unit_key.split)+

lemma store_result_stale:
  "lt_key u \<noteq> lt_key t \<Longrightarrow> stale_current (store_result W t r s) u = stale_current s u"
  by (cases "lt_key t"; cases "lt_key u") (simp_all add: store_result_def stale_current_def)

lemma store_result_status:
  "status_of (lt_key t) (store_result W t r s) = Ready \<and> has_data (lt_key t) (store_result W t r s)
   \<or> status_of (lt_key t) (store_result W t r s) = Failed"
  by (cases "lt_key t") (auto simp: store_result_def loaded_def split: sum.split)

lemma store_result_data:
  "stale_current s t \<Longrightarrow> has_data (lt_key t) s \<Longrightarrow> has_data (lt_key t) (store_result W t r s)"
  by (cases "lt_key t") (auto simp: store_result_def loaded_def stale_current_def split: sum.split)

section \<open>The contract of the operations\<close>

locale store_operation =
  fixes f :: "data_store \<Rightarrow> data_store"
  assumes keeps_ok: "store_ok s \<Longrightarrow> store_ok (f s)"
    and keeps_data: "store_ok s \<Longrightarrow> has_data k s \<Longrightarrow> has_data k (f s)"
    and keeps_orphan: "store_ok s \<Longrightarrow> orphaned k s \<Longrightarrow> orphaned k (f s)"
    and keeps_touched: "store_ok s \<Longrightarrow> status_of k s \<noteq> Idle \<Longrightarrow> status_of k (f s) \<noteq> Idle"
begin

lemma orphan_loading: "store_ok s \<Longrightarrow> orphaned k s \<Longrightarrow> status_of k (f s) = Loading"
  using unit_ok_all [OF keeps_ok] keeps_orphan by (fastforce simp: unit_ok_def orphaned_def)

end

lemma store_operation_comp:
  "store_operation f \<Longrightarrow> store_operation g \<Longrightarrow> store_operation (\<lambda>s. g (f s))"
  by (simp add: store_operation_def)

lemma store_operation_id: "store_operation (\<lambda>s. s)"
  by (simp add: store_operation_def)

lemma store_operation_fold:
  "(\<And>x. store_operation (g x)) \<Longrightarrow> store_operation (\<lambda>s. fold g xs s)"
proof (induction xs)
  case Nil
  then show ?case by (simp add: store_operation_id)
next
  case (Cons x xs)
  have "store_operation (g x)" by (rule Cons.prems)
  moreover have "store_operation (\<lambda>s. fold g xs s)" using Cons.prems by (rule Cons.IH)
  ultimately have "store_operation (\<lambda>s. fold g xs (g x s))" by (rule store_operation_comp)
  then show ?case by simp
qed

lemma load_ok:
  assumes "store_ok s"
  shows "store_ok (load sc key s)"
proof (cases "key \<in> ds_in_flight s")
  case True
  with assms show ?thesis by (simp add: load_def)
next
  case False
  let ?s = "load sc key s"
  show ?thesis
  proof (rule store_okI)
    fix k
    show "unit_ok ?s k"
      using unit_ok_all [OF assms, of k] False by (simp add: load_def Let_def unit_ok_def)
  next
    have "key \<notin> lt_key ` set (ds_tasks s)" using store_ok_task [OF assms] False by auto
    then show "distinct (map lt_key (ds_tasks ?s))"
      using False store_ok_distinct [OF assms] by (simp add: load_def Let_def)
  next
    fix t
    assume "t \<in> set (ds_tasks ?s)"
    then show "lt_key t \<in> ds_in_flight ?s \<and> stale_current ?s t"
      using False store_ok_task [OF assms, of t] by (auto simp: load_def Let_def)
  qed
qed

interpretation load: store_operation "load sc key" for sc key
proof unfold_locales
  fix s k
  assume ok: "store_ok s"
  show "store_ok (load sc key s)" using ok by (rule load_ok)
  show "has_data k s \<Longrightarrow> has_data k (load sc key s)" by (simp add: load_def Let_def)
  show "orphaned k s \<Longrightarrow> orphaned k (load sc key s)"
    by (cases "key \<in> ds_in_flight s") (auto simp: load_def Let_def orphaned_def)
  show "status_of k s \<noteq> Idle \<Longrightarrow> status_of k (load sc key s) \<noteq> Idle"
    by (simp add: load_def Let_def)
qed

interpretation ensure: store_operation "ensure_unit sc key" for sc key
  by unfold_locales
     (simp_all add: ensure_unit_def Let_def load.keeps_ok load.keeps_data load.keeps_orphan
       load.keeps_touched)

interpretation ensure_all: store_operation "ensure_loaded sc tab" for sc tab
proof -
  have "store_operation (\<lambda>s. fold (ensure_unit sc) (required_units tab) s)"
    by (rule store_operation_fold) (rule ensure.store_operation_axioms)
  then show "store_operation (ensure_loaded sc tab)"
    by (simp add: store_operation_def ensure_loaded_def)
qed

interpretation started: store_operation "start_task t" for t
proof unfold_locales
  fix s k
  assume ok: "store_ok s"
  let ?g = "\<lambda>u. if u = t then u\<lparr>lt_sent := Some (unit_request (lt_key u) (ds_token s))\<rparr> else u"
  have keys: "lt_key \<circ> ?g = lt_key" by (simp add: fun_eq_iff)
  have stale: "stale_current s' (?g u) = stale_current s' u" for s' u
    by (simp add: stale_current_def split: unit_key.split)
  show "store_ok (start_task t s)"
  proof (rule store_okI)
    show "unit_ok (start_task t s) k" for k
      using unit_ok_all [OF ok, of k] by (simp add: start_task_def unit_ok_def)
    show "distinct (map lt_key (ds_tasks (start_task t s)))"
      using store_ok_distinct [OF ok] by (simp add: start_task_def keys)
    fix u
    assume "u \<in> set (ds_tasks (start_task t s))"
    then obtain v where v: "v \<in> set (ds_tasks s)" and u: "u = ?g v"
      by (auto simp: start_task_def)
    show "lt_key u \<in> ds_in_flight (start_task t s) \<and> stale_current (start_task t s) u"
      using store_ok_task [OF ok v] unfolding u stale by (auto simp: start_task_def)
  qed
  show "has_data k s \<Longrightarrow> has_data k (start_task t s)" by (simp add: start_task_def)
  show "orphaned k s \<Longrightarrow> orphaned k (start_task t s)"
    by (auto simp: start_task_def orphaned_def)
  show "status_of k s \<noteq> Idle \<Longrightarrow> status_of k (start_task t s) \<noteq> Idle" by (simp add: start_task_def)
qed

interpretation unmounted: store_operation "unmount sc" for sc
proof unfold_locales
  fix s k
  assume ok: "store_ok s"
  show "store_ok (unmount sc s)"
  proof (rule store_okI)
    show "unit_ok (unmount sc s) k" for k
      using unit_ok_all [OF ok, of k] by (simp add: unmount_def unit_ok_def)
    show "distinct (map lt_key (ds_tasks (unmount sc s)))"
      using store_ok_distinct [OF ok] by (simp add: unmount_def distinct_map_filter)
  qed (use store_ok_task [OF ok] in \<open>simp add: unmount_def\<close>)
  show "has_data k s \<Longrightarrow> has_data k (unmount sc s)" by (simp add: unmount_def)
  show "orphaned k s \<Longrightarrow> orphaned k (unmount sc s)" by (auto simp: unmount_def orphaned_def)
  show "status_of k s \<noteq> Idle \<Longrightarrow> status_of k (unmount sc s) \<noteq> Idle" by (simp add: unmount_def)
qed

text \<open>A task that is not there cannot get a reply: the operation is guarded by its presence.\<close>

definition answer :: "web_crates \<Rightarrow> load_task \<Rightarrow> web_reply \<Rightarrow> data_store \<Rightarrow> data_store" where
  "answer W t r s = (if t \<in> set (ds_tasks s) \<and> lt_sent t \<noteq> None then finish_task W t r s else s)"

lemma finish_keys:
  assumes "store_ok s" and "t \<in> set (ds_tasks s)"
  shows "lt_key ` set (remove1 t (ds_tasks s)) = lt_key ` set (ds_tasks s) - {lt_key t}"
proof -
  have d: "distinct (ds_tasks s)" using store_ok_distinct [OF assms(1)] by (simp add: distinct_map)
  show ?thesis
    using assms(2) task_of_key [OF assms] by (auto simp: set_remove1_eq [OF d])
qed

lemma finish_ok:
  assumes ok: "store_ok s" and t: "t \<in> set (ds_tasks s)"
  shows "store_ok (finish_task W t r s)"
proof (rule store_okI)
  fix k
  show "unit_ok (finish_task W t r s) k"
  proof (cases "k = lt_key t")
    case True
    then show ?thesis
      using store_result_status [of t W r s] by (auto simp: finish_task_def Let_def unit_ok_def)
  next
    case False
    then show ?thesis using unit_ok_all [OF ok, of k]
      by (simp add: finish_task_def Let_def unit_ok_def store_result_other)
  qed
next
  show "distinct (map lt_key (ds_tasks (finish_task W t r s)))"
    using store_ok_distinct [OF ok]
    by (simp add: finish_task_def Let_def distinct_map distinct_remove1 inj_on_diff)
next
  fix u
  assume u: "u \<in> set (ds_tasks (finish_task W t r s))"
  then have in_s: "u \<in> set (ds_tasks s)"
    using set_remove1_subset [of t "ds_tasks s"] by (auto simp: finish_task_def Let_def)
  have "lt_key u \<noteq> lt_key t"
    using u finish_keys [OF ok t] by (auto simp: finish_task_def Let_def)
  then show "lt_key u \<in> ds_in_flight (finish_task W t r s) \<and> stale_current (finish_task W t r s) u"
    using store_ok_task [OF ok in_s] by (simp add: finish_task_def Let_def store_result_stale)
qed

interpretation answered: store_operation "answer W t r" for W t r
proof unfold_locales
  fix s k
  assume ok: "store_ok s"
  show "store_ok (answer W t r s)" using ok by (simp add: answer_def finish_ok)
  show "has_data k (answer W t r s)" if "has_data k s"
  proof (cases "k = lt_key t")
    case True
    then show ?thesis using that store_ok_task [OF ok, of t]
      by (auto simp: answer_def finish_task_def Let_def intro: store_result_data)
  next
    case False
    then show ?thesis using that by (simp add: answer_def finish_task_def Let_def store_result_other)
  qed
  show "orphaned k (answer W t r s)" if "orphaned k s"
    using that finish_keys [OF ok, of t]
    by (auto simp: answer_def finish_task_def Let_def orphaned_def)
  show "status_of k (answer W t r s) \<noteq> Idle" if "status_of k s \<noteq> Idle"
  proof (cases "k = lt_key t")
    case True
    then show ?thesis using that store_result_status [of t W r s]
      by (auto simp: answer_def finish_task_def Let_def)
  next
    case False
    then show ?thesis using that by (simp add: answer_def finish_task_def Let_def store_result_other)
  qed
qed

interpretation token: store_operation "\<lambda>s. s\<lparr>ds_token := t\<rparr>" for t
proof -
  have status: "status_of k (s\<lparr>ds_token := t\<rparr>) = status_of k s"
    and data: "has_data k (s\<lparr>ds_token := t\<rparr>) = has_data k s" for k and s :: data_store
    by (cases k; simp)+
  have stale: "stale_current (s\<lparr>ds_token := t\<rparr>) = stale_current s" for s
    by (auto simp: stale_current_def fun_eq_iff split: unit_key.split)
  show "store_operation (\<lambda>s. s\<lparr>ds_token := t\<rparr>)"
    by unfold_locales (simp_all add: status data stale store_ok_def unit_ok_def orphaned_def)
qed

section \<open>What a load leaves\<close>

text \<open>
  A unit that is not in flight is loaded afresh; one that is in flight is left alone, so a
  refresh after a change may end with the data that was read before it.
\<close>

lemma refresh_in_flight [simp]: "key \<in> ds_in_flight s \<Longrightarrow> refresh sc key s = s"
  by (simp add: refresh_def load_def)

lemma ensure_unit_touched: "status_of key (ensure_unit sc key s) = Ready
    \<or> status_of key (ensure_unit sc key s) = Loading" if "store_ok s"
  using unit_ok_all [OF that, of key] by (auto simp: ensure_unit_def Let_def load_def unit_ok_def)

lemma ensure_loaded_touched:
  assumes "store_ok s" and "k \<in> set (required_units tab)"
  shows "status_of k (ensure_loaded sc tab s) \<noteq> Idle"
proof -
  have "status_of k (fold (ensure_unit sc) ks s) \<noteq> Idle" if "k \<in> set ks" "store_ok s" for ks s
    using that
  proof (induction ks arbitrary: s)
    case Nil
    then show ?case by simp
  next
    case (Cons x xs)
    show ?case
    proof (cases "x = k")
      case True
      have "store_operation (\<lambda>s. fold (ensure_unit sc) xs s)"
        by (rule store_operation_fold) (rule ensure.store_operation_axioms)
      then show ?thesis
        using ensure_unit_touched [of s k sc] Cons.prems(2) ensure.keeps_ok [of s sc x]
        by (auto simp: True store_operation_def)
    next
      case False
      then show ?thesis
        using Cons.prems Cons.IH [of "ensure_unit sc x s"] ensure.keeps_ok [of s sc x] by auto
    qed
  qed
  then show ?thesis using assms by (simp add: ensure_loaded_def)
qed

text \<open>Tasks and calls are named by their position; an event that names none does nothing.\<close>

definition nth_option :: "'a list \<Rightarrow> nat \<Rightarrow> 'a option" where
  "nth_option xs i = (if i < length xs then Some (xs ! i) else None)"

definition start_load :: "nat \<Rightarrow> data_store \<Rightarrow> data_store" where
  "start_load i s =
     (case nth_option (ds_tasks s) i of
        None \<Rightarrow> s
      | Some t \<Rightarrow> if lt_sent t = None then start_task t s else s)"

definition answer_load :: "web_crates \<Rightarrow> nat \<Rightarrow> web_reply \<Rightarrow> data_store \<Rightarrow> data_store" where
  "answer_load W i r s = (case nth_option (ds_tasks s) i of None \<Rightarrow> s | Some t \<Rightarrow> answer W t r s)"

interpretation start_event: store_operation "start_load i" for i
  by unfold_locales
     (simp_all add: start_load_def started.keeps_ok started.keeps_data started.keeps_orphan
       started.keeps_touched split: option.split)

interpretation answer_event: store_operation "answer_load W i r" for W i r
  by unfold_locales
     (simp_all add: answer_load_def answered.keeps_ok answered.keeps_data answered.keeps_orphan
       answered.keeps_touched split: option.split)

text \<open>
  Once every task has had its reply, only the orphaned units are left in flight. The first task
  is started and answered again and again, with any replies.
\<close>

definition answer_all :: "web_crates \<Rightarrow> web_reply list \<Rightarrow> data_store \<Rightarrow> data_store" where
  "answer_all W rs s = fold (\<lambda>r d. answer_load W 0 r (start_load 0 d)) rs s"

lemma answer_first:
  fixes W :: web_crates and r :: web_reply
  assumes "store_ok s" and "ds_tasks s = t # ts"
  defines "s' \<equiv> answer_load W 0 r (start_load 0 s)"
  shows "ds_tasks s' = ts" and "ds_in_flight s' = ds_in_flight s - {lt_key t}"
proof -
  have "t \<notin> set ts" using store_ok_distinct [OF assms(1)] assms(2) by auto
  then have rest: "map (\<lambda>u. if u = t then g u else u) ts = ts" for g :: "load_task \<Rightarrow> load_task"
    by (intro map_idI) auto
  show "ds_tasks s' = ts" and "ds_in_flight s' = ds_in_flight s - {lt_key t}"
    using assms(2) rest
    by (auto simp: s'_def answer_load_def start_load_def start_task_def nth_option_def answer_def
        finish_task_def Let_def)
qed

lemma answer_all_in_flight:
  assumes "store_ok s" and "length (ds_tasks s) \<le> length rs"
  shows "store_ok (answer_all W rs s)
    \<and> ds_in_flight (answer_all W rs s) = ds_in_flight s - lt_key ` set (ds_tasks s)"
  unfolding answer_all_def using assms
proof (induction rs arbitrary: s)
  case Nil
  then show ?case by simp
next
  case (Cons r rs)
  let ?s = "answer_load W 0 r (start_load 0 s)"
  have ok: "store_ok ?s" using Cons.prems(1) by (intro answer_event.keeps_ok start_event.keeps_ok)
  show ?case
  proof (cases "ds_tasks s")
    case Nil
    then have "?s = s" by (simp add: start_load_def answer_load_def nth_option_def)
    with Cons.IH [of s] Cons.prems(1) Nil show ?thesis by simp
  next
    case (Cons t ts)
    then show ?thesis
      using Cons.IH [OF ok] answer_first [OF Cons.prems(1) Cons, of W r] Cons.prems(2) by auto
  qed
qed

end
