(* ===== verification/Web_Pages.thy ===== *)
theory Web_Pages
  imports Web_Data
begin

text \<open>
  The pages of the front end (\<open>components/\<close>) without their rendering: the signals of a page as a
  record, and each event handler cut at its point of suspension. The first half is the handler
  up to \<open>spawn\<close>: the page afterwards and the request its task sends, if any. The second half
  takes the reply to the page afterwards and to what the task does outside the page, in order.
\<close>

section \<open>Effects outside the page\<close>

datatype page_effect =
  Refresh_Unit unit_key | Push_Toast toast_kind string | Close_Editor | Clear_Session | Logged_In string

definition result_text :: "string \<Rightarrow> request_error \<Rightarrow> string" where
  "result_text prefix e = prefix @ error_display e"

definition show_i64 :: "int \<Rightarrow> string" where
  "show_i64 i = (if i < 0 then CHR ''-'' # show_nat (nat (- i)) else show_nat (nat i))"

section \<open>Toasts (\<open>toast.rs\<close>)\<close>

record toast_msg =
  tm_id :: u64
  tm_kind :: toast_kind
  tm_text :: string

record toasts =
  ts_list :: "toast_msg list"
  ts_next :: u64

definition no_toasts :: toasts where
  "no_toasts = \<lparr>ts_list = [], ts_next = first_toast_id\<rparr>"

definition push_toast :: "toast_kind \<Rightarrow> string \<Rightarrow> toasts \<Rightarrow> toasts" where
  "push_toast kind t ts =
     (let (i, next) = next_toast_id (ts_next ts)
      in \<lparr>ts_list = ts_list ts @ [\<lparr>tm_id = i, tm_kind = kind, tm_text = t\<rparr>], ts_next = next\<rparr>)"

text \<open>The timer of a card and its close button do the same.\<close>

definition dismiss_toast :: "u64 \<Rightarrow> toasts \<Rightarrow> toasts" where
  "dismiss_toast i ts = ts\<lparr>ts_list := filter (\<lambda>x. tm_id x \<noteq> i) (ts_list ts)\<rparr>"

section \<open>The confirmation dialog (\<open>confirm.rs\<close>)\<close>

record confirm_state =
  cf_open :: bool
  cf_title :: string
  cf_message :: string
  cf_confirm_text :: string
  cf_danger :: bool

definition confirm_default :: confirm_state where
  "confirm_default =
     \<lparr>cf_open = False, cf_title = [], cf_message = [], cf_confirm_text = [], cf_danger = False\<rparr>"

definition delete_question :: "string \<Rightarrow> string \<Rightarrow> confirm_state" where
  "delete_question title name =
     \<lparr>cf_open = True, cf_title = title, cf_message = confirm_before @ name @ confirm_after,
      cf_confirm_text = delete_text, cf_danger = True\<rparr>"

section \<open>Sources (\<open>sources.rs\<close>)\<close>

record sources_page =
  sp_error :: string
  sp_new_url :: string
  sp_new_name :: string
  sp_adding :: bool
  sp_confirm :: confirm_state
  sp_pending_id :: "int option"
  sp_previewing :: "int option"
  sp_editing :: "source_dto option"

definition new_sources_page :: sources_page where
  "new_sources_page =
     \<lparr>sp_error = [], sp_new_url = [], sp_new_name = [], sp_adding = False,
      sp_confirm = confirm_default, sp_pending_id = None, sp_previewing = None, sp_editing = None\<rparr>"

definition source_list :: "string \<Rightarrow> data_store \<Rightarrow> source_dto list" where
  "source_list kind d = filter (\<lambda>s. sd_kind s = kind) (unwrap_or [] (cs_data (ds_sources d)))"

definition source_body :: "web_crates \<Rightarrow> string \<Rightarrow> string \<Rightarrow> string \<Rightarrow> string" where
  "source_body W url name kind =
     json_text W (JObject [(''kind'', JString kind), (''name'', JString name), (''url'', JString url)])"

definition add_source ::
  "web_crates \<Rightarrow> string \<Rightarrow> string option \<Rightarrow> sources_page \<Rightarrow> sources_page \<times> api_request option" where
  "add_source W kind token p =
     (if sp_new_url p = [] \<or> sp_new_name p = [] then (p\<lparr>sp_error := url_and_name_needed\<rparr>, None)
      else (p\<lparr>sp_adding := True\<rparr>,
            Some (request Post ''/admin/sources''
                    (Some (source_body W (sp_new_url p) (sp_new_name p) kind)) token)))"

definition add_source_reply :: "web_reply \<Rightarrow> sources_page \<Rightarrow> sources_page \<times> page_effect list" where
  "add_source_reply r p =
     (case request_result r of
        Inr _ \<Rightarrow> (p\<lparr>sp_new_url := [], sp_new_name := [], sp_error := [], sp_adding := False\<rparr>,
                  [Refresh_Unit Sources_Unit, Push_Toast Toast_Success source_added])
      | Inl e \<Rightarrow> (p\<lparr>sp_error := result_text add_failed e, sp_adding := False\<rparr>, []))"

definition ask_delete_source :: "int \<Rightarrow> string \<Rightarrow> sources_page \<Rightarrow> sources_page" where
  "ask_delete_source i name p =
     p\<lparr>sp_pending_id := Some i, sp_confirm := delete_question delete_source_title name\<rparr>"

definition confirm_delete_source ::
  "string option \<Rightarrow> sources_page \<Rightarrow> sources_page \<times> api_request option" where
  "confirm_delete_source token p =
     (p\<lparr>sp_confirm := confirm_default\<rparr>,
      map_option (\<lambda>i. request Delete (''/admin/sources/'' @ show_i64 i) None token) (sp_pending_id p))"

definition delete_reply :: "unit_key \<Rightarrow> web_reply \<Rightarrow> page_effect list" where
  "delete_reply key r =
     (case request_result r of
        Inr _ \<Rightarrow> [Refresh_Unit key, Push_Toast Toast_Success deleted]
      | Inl e \<Rightarrow> [Push_Toast Toast_Error (result_text delete_failed e)])"

text \<open>What a page with one unit shows: its own error, or else that of the cache.\<close>

definition page_error :: "string \<Rightarrow> string \<Rightarrow> string" where
  "page_error own cached = (if own = [] then cached else own)"

text \<open>The editor, a component of its own.\<close>

record source_editor =
  ed_id :: int
  ed_url :: string
  ed_name :: string
  ed_kind :: string
  ed_saving :: bool
  ed_err :: string

definition open_editor :: "source_dto \<Rightarrow> source_editor" where
  "open_editor src =
     \<lparr>ed_id = sd_id src, ed_url = sd_url src, ed_name = sd_name src, ed_kind = sd_kind src,
      ed_saving = False, ed_err = []\<rparr>"

definition save_source ::
  "web_crates \<Rightarrow> string option \<Rightarrow> source_editor \<Rightarrow> source_editor \<times> api_request option" where
  "save_source W token p =
     (if ed_url p = [] \<or> ed_name p = [] then (p\<lparr>ed_err := url_and_name_needed\<rparr>, None)
      else (p\<lparr>ed_saving := True\<rparr>,
            Some (request Put (''/admin/sources/'' @ show_i64 (ed_id p))
                    (Some (source_body W (ed_url p) (ed_name p) (ed_kind p))) token)))"

definition save_source_reply :: "web_reply \<Rightarrow> source_editor \<Rightarrow> source_editor \<times> page_effect list" where
  "save_source_reply r p =
     (case request_result r of
        Inr _ \<Rightarrow> (p\<lparr>ed_saving := False\<rparr>,
                  [Refresh_Unit Sources_Unit, Push_Toast Toast_Success source_updated, Close_Editor])
      | Inl e \<Rightarrow> (p\<lparr>ed_err := result_text save_failed e, ed_saving := False\<rparr>, []))"

section \<open>Combined subscriptions (\<open>combineds.rs\<close>)\<close>

record form_state =
  fs_open :: bool
  fs_edit_id :: "int option"
  fs_name :: string
  fs_checked :: "int set"

definition form_default :: form_state where
  "form_default = \<lparr>fs_open = False, fs_edit_id = None, fs_name = [], fs_checked = {}\<rparr>"

record combineds_page =
  cp_error :: string
  cp_form :: form_state
  cp_saving :: bool
  cp_confirm :: confirm_state
  cp_pending_id :: "int option"
  cp_copied :: "(string \<times> string) option"
  cp_previewing :: "string option"

definition new_combineds_page :: combineds_page where
  "new_combineds_page =
     \<lparr>cp_error = [], cp_form = form_default, cp_saving = False, cp_confirm = confirm_default,
      cp_pending_id = None, cp_copied = None, cp_previewing = None\<rparr>"

definition open_create :: "combineds_page \<Rightarrow> combineds_page" where
  "open_create p =
     p\<lparr>cp_form := \<lparr>fs_open = True, fs_edit_id = None, fs_name = [], fs_checked = {}\<rparr>\<rparr>"

definition open_edit :: "int \<Rightarrow> string \<Rightarrow> int list \<Rightarrow> combineds_page \<Rightarrow> combineds_page" where
  "open_edit i name ids p =
     p\<lparr>cp_form := \<lparr>fs_open = True, fs_edit_id = Some i, fs_name = name, fs_checked = set ids\<rparr>\<rparr>"

definition toggle_member :: "int \<Rightarrow> combineds_page \<Rightarrow> combineds_page" where
  "toggle_member sid p =
     (let f = cp_form p
      in p\<lparr>cp_form := f\<lparr>fs_checked :=
             (if sid \<in> fs_checked f then fs_checked f - {sid} else insert sid (fs_checked f))\<rparr>\<rparr>)"

definition combined_body :: "web_crates \<Rightarrow> form_state \<Rightarrow> string" where
  "combined_body W f =
     json_text W (JObject [(''name'', JString (fs_name f)),
       (''source_ids'', JArray (map (\<lambda>i. JNumber (show_i64 i)) (hash_order W (fs_checked f))))])"

definition save_combined ::
  "web_crates \<Rightarrow> string option \<Rightarrow> combineds_page \<Rightarrow> combineds_page \<times> api_request option" where
  "save_combined W token p =
     (let f = cp_form p in
      if fs_name f = [] then (p\<lparr>cp_error := name_needed\<rparr>, None)
      else (p\<lparr>cp_saving := True\<rparr>,
            Some (case fs_edit_id f of
                    Some i \<Rightarrow> request Put (''/admin/combineds/'' @ show_i64 i)
                                (Some (combined_body W f)) token
                  | None \<Rightarrow> request Post ''/admin/combineds'' (Some (combined_body W f)) token)))"

definition save_combined_reply :: "web_reply \<Rightarrow> combineds_page \<Rightarrow> combineds_page \<times> page_effect list" where
  "save_combined_reply r p =
     (case request_result r of
        Inr _ \<Rightarrow> (p\<lparr>cp_form := form_default, cp_error := [], cp_saving := False\<rparr>,
                  [Refresh_Unit Combineds_Unit, Push_Toast Toast_Success combined_saved])
      | Inl e \<Rightarrow> (p\<lparr>cp_error := result_text save_failed e, cp_saving := False\<rparr>, []))"

definition ask_delete_combined :: "int \<Rightarrow> string \<Rightarrow> combineds_page \<Rightarrow> combineds_page" where
  "ask_delete_combined i name p =
     p\<lparr>cp_pending_id := Some i, cp_confirm := delete_question delete_combined_title name\<rparr>"

definition confirm_delete_combined ::
  "string option \<Rightarrow> combineds_page \<Rightarrow> combineds_page \<times> api_request option" where
  "confirm_delete_combined token p =
     (p\<lparr>cp_confirm := confirm_default\<rparr>,
      map_option (\<lambda>i. request Delete (''/admin/combineds/'' @ show_i64 i) None token) (cp_pending_id p))"

text \<open>Copying a link: the result of the clipboard, and the timer two seconds later.\<close>

definition copy_done ::
  "string \<times> string \<Rightarrow> string + unit \<Rightarrow> combineds_page \<Rightarrow> combineds_page \<times> page_effect list" where
  "copy_done key r p =
     (case r of
        Inr _ \<Rightarrow> (p\<lparr>cp_copied := Some key\<rparr>, [Push_Toast Toast_Success copied_text])
      | Inl e \<Rightarrow> (p, [Push_Toast Toast_Error (copy_failed @ e)]))"

definition copied_timeout :: "string \<times> string \<Rightarrow> combineds_page \<Rightarrow> combineds_page" where
  "copied_timeout key p = (if cp_copied p = Some key then p\<lparr>cp_copied := None\<rparr> else p)"

definition link_of :: "string \<Rightarrow> string \<Rightarrow> string \<Rightarrow> string" where
  "link_of base name format = base @ subscribe_path name format"

definition combineds_page_error :: "combineds_page \<Rightarrow> data_store \<Rightarrow> string" where
  "combineds_page_error p d =
     (if cp_error p \<noteq> [] then cp_error p
      else join ''; '' (filter (\<lambda>s. s \<noteq> []) [cs_error (ds_combineds d), cs_error (ds_sources d)]))"

section \<open>The account and the output setting (\<open>config.rs\<close>)\<close>

record config_page =
  gp_error :: string
  gp_old :: string
  gp_new :: string
  gp_new2 :: string
  gp_changing :: bool
  gp_v2ray_b64 :: bool
  gp_draft_adopted :: bool
  gp_setting_saving :: bool

definition new_config_page :: "data_store \<Rightarrow> config_page" where
  "new_config_page d =
     \<lparr>gp_error = [], gp_old = [], gp_new = [], gp_new2 = [], gp_changing = False,
      gp_v2ray_b64 = unwrap_or True (map_option ac_v2ray_base64 (cs_data (ds_config d))),
      gp_draft_adopted = False, gp_setting_saving = False\<rparr>"

definition shown_username :: "data_store \<Rightarrow> string" where
  "shown_username d = unwrap_or [] (map_option ac_username (cs_data (ds_config d)))"

definition adopt_setting :: "data_store \<Rightarrow> config_page \<Rightarrow> config_page" where
  "adopt_setting d p =
     (if \<not> gp_draft_adopted p then
        (case cs_data (ds_config d) of
           Some c \<Rightarrow> p\<lparr>gp_v2ray_b64 := ac_v2ray_base64 c, gp_draft_adopted := True\<rparr>
         | None \<Rightarrow> p)
      else p)"

definition do_change ::
  "web_crates \<Rightarrow> string option \<Rightarrow> config_page \<Rightarrow> config_page \<times> api_request option" where
  "do_change W token p =
     (if gp_new p = [] \<or> gp_old p = [] then (p\<lparr>gp_error := fill_in_all\<rparr>, None)
      else if gp_new p \<noteq> gp_new2 p then (p\<lparr>gp_error := new_passwords_differ\<rparr>, None)
      else (p\<lparr>gp_changing := True\<rparr>,
            Some (request Put ''/admin/config''
              (Some (json_text W (JObject [(''change_password'',
                 JObject [(''new'', JString (gp_new p)), (''old'', JString (gp_old p))])]))) token)))"

definition change_reply :: "web_reply \<Rightarrow> config_page \<Rightarrow> config_page \<times> page_effect list" where
  "change_reply r p =
     (case request_result r of
        Inr _ \<Rightarrow> (p\<lparr>gp_changing := False\<rparr>, [Clear_Session])
      | Inl e \<Rightarrow> (p\<lparr>gp_error := result_text change_failed e, gp_changing := False\<rparr>, []))"

definition save_setting ::
  "web_crates \<Rightarrow> string option \<Rightarrow> config_page \<Rightarrow> config_page \<times> api_request" where
  "save_setting W token p =
     (p\<lparr>gp_setting_saving := True\<rparr>,
      request Put ''/admin/config''
        (Some (json_text W (JObject [(''v2ray_base64'', JBool (gp_v2ray_b64 p))]))) token)"

definition save_setting_reply :: "web_reply \<Rightarrow> config_page \<Rightarrow> config_page \<times> page_effect list" where
  "save_setting_reply r p =
     (case request_result r of
        Inr _ \<Rightarrow> (p\<lparr>gp_error := [], gp_setting_saving := False\<rparr>,
                  [Refresh_Unit Config_Unit, Push_Toast Toast_Success setting_saved])
      | Inl e \<Rightarrow> (p\<lparr>gp_error := result_text save_failed e, gp_setting_saving := False\<rparr>, []))"

section \<open>The Clash template (\<open>clash_config.rs\<close>)\<close>

record clash_page =
  lp_draft :: string
  lp_inited :: bool
  lp_error :: string
  lp_saving :: bool

definition new_clash_page :: clash_page where
  "new_clash_page = \<lparr>lp_draft = [], lp_inited = False, lp_error = [], lp_saving = False\<rparr>"

definition adopt_template :: "data_store \<Rightarrow> clash_page \<Rightarrow> clash_page" where
  "adopt_template d p =
     (if \<not> lp_inited p then
        (case cs_data (ds_clash_config d) of
           Some t \<Rightarrow> p\<lparr>lp_draft := t, lp_inited := True\<rparr>
         | None \<Rightarrow> p)
      else p)"

definition save_template ::
  "web_crates \<Rightarrow> string option \<Rightarrow> clash_page \<Rightarrow> clash_page \<times> api_request option" where
  "save_template W token p =
     (if trim (lp_draft p) = [] then (p\<lparr>lp_error := template_needed\<rparr>, None)
      else (p\<lparr>lp_saving := True\<rparr>,
            Some (request Put ''/admin/clash-config''
              (Some (json_text W (JObject [(''template'', JString (lp_draft p))]))) token)))"

definition save_template_reply :: "web_reply \<Rightarrow> clash_page \<Rightarrow> clash_page \<times> page_effect list" where
  "save_template_reply r p =
     (case request_result r of
        Inr _ \<Rightarrow> (p\<lparr>lp_error := [], lp_saving := False\<rparr>,
                  [Refresh_Unit Clash_Config_Unit, Push_Toast Toast_Success clash_saved])
      | Inl e \<Rightarrow> (p\<lparr>lp_error := result_text save_failed e, lp_saving := False\<rparr>, []))"

end
