(* ===== verification/Web_Shell.thy ===== *)
theory Web_Shell
  imports Web_Store Web_Pages
begin

text \<open>
  The shell (\<open>MainShell\<close> of the web crate's \<open>main.rs\<close>): navigation over the cache, the drawer and
  its groups, and the pages mounted in it. A transition is one event: a click, a key, a change of
  the breakpoint, a rendering, a run of an effect, the first poll of a task or its reply.

  A rendering mounts the component the content asks for. Another content is another template, so
  its component is mounted anew and the tasks of the old one are dropped (\<open>unmount\<close>); the editor
  of a source is a component of its own inside the sources page.
\<close>

section \<open>State\<close>

datatype content =
  Page_Loading | Sources_Page string | Combineds_Page | Clash_Config_Page | Config_Page

text \<open>The tasks the pages spawn, each suspended at its request.\<close>

datatype page_call =
  Adding_Source | Deleting_Source | Saving_Source | Saving_Combined | Deleting_Combined
| Changing_Password | Saving_Setting | Saving_Template

record shell =
  sh_tab :: nat
  sh_pending :: "nat option"
  sh_store :: data_store
  sh_open_groups :: "string set"
  sh_menu_open :: bool
  sh_is_mobile :: bool
  sh_scroll_locked :: bool
  sh_toasts :: toasts
  sh_content :: "content option"
  sh_sources :: sources_page
  sh_editor :: "source_editor option"
  sh_combineds :: combineds_page
  sh_config :: config_page
  sh_clash :: clash_page
  sh_calls :: "(page_call \<times> api_request) list"

definition new_shell :: "string option \<Rightarrow> bool \<Rightarrow> shell" where
  "new_shell token mobile =
     \<lparr>sh_tab = 0, sh_pending = None, sh_store = provide token, sh_open_groups = {},
      sh_menu_open = False, sh_is_mobile = mobile, sh_scroll_locked = False,
      sh_toasts = no_toasts, sh_content = None, sh_sources = new_sources_page, sh_editor = None,
      sh_combineds = new_combineds_page, sh_config = new_config_page (provide token),
      sh_clash = new_clash_page, sh_calls = []\<rparr>"

section \<open>Navigation\<close>

definition go :: "nat \<Rightarrow> shell \<Rightarrow> shell" where
  "go i s =
     (let s = s\<lparr>sh_menu_open := False\<rparr> in
      if sh_tab s = i then s
      else if sh_pending s = Some i then s
      else
        let s = s\<lparr>sh_open_groups := insert ''subs'' (sh_open_groups s)\<rparr>;
            s = (if i < 2 then s\<lparr>sh_open_groups := insert ''single'' (sh_open_groups s)\<rparr> else s)
        in if all_ready i (sh_store s) then s\<lparr>sh_pending := None, sh_tab := i\<rparr>
           else s\<lparr>sh_store := ensure_loaded Shell_Scope i (sh_store s), sh_pending := Some i\<rparr>)"

text \<open>Part of every rendering: the units of the current tab that were never loaded.\<close>

definition auto_preload :: "shell \<Rightarrow> shell" where
  "auto_preload s =
     (if sh_pending s = None \<and> any_idle (sh_tab s) (sh_store s)
      then s\<lparr>sh_store := ensure_loaded Shell_Scope (sh_tab s) (sh_store s),
             sh_pending := Some (sh_tab s)\<rparr>
      else s)"

definition commit_effect :: "shell \<Rightarrow> shell" where
  "commit_effect s =
     (case sh_pending s of
        Some p \<Rightarrow> if all_finished p (sh_store s) then s\<lparr>sh_tab := p, sh_pending := None\<rparr> else s
      | None \<Rightarrow> s)"

definition content_of :: "shell \<Rightarrow> content" where
  "content_of s =
     (if sh_pending s = Some (sh_tab s) then Page_Loading
      else if sh_tab s = 0 then Sources_Page ''single''
      else if sh_tab s = 1 then Sources_Page ''remote''
      else if sh_tab s = 2 then Combineds_Page
      else if sh_tab s = 3 then Clash_Config_Page
      else Config_Page)"

section \<open>The drawer\<close>

definition breakpoint_effect :: "shell \<Rightarrow> shell" where
  "breakpoint_effect s =
     (if sh_is_mobile s then s\<lparr>sh_open_groups := {}\<rparr>
      else s\<lparr>sh_open_groups := sh_open_groups s \<union> {''subs'', ''single''}, sh_menu_open := False\<rparr>)"

definition media_change :: "bool \<Rightarrow> shell \<Rightarrow> shell" where
  "media_change now s = s\<lparr>sh_is_mobile := now\<rparr>"

definition toggle_group :: "string \<Rightarrow> shell \<Rightarrow> shell" where
  "toggle_group g s =
     s\<lparr>sh_open_groups := (if g \<in> sh_open_groups s then sh_open_groups s - {g}
                          else insert g (sh_open_groups s))\<rparr>"

definition escape_key :: "string \<Rightarrow> shell \<Rightarrow> shell" where
  "escape_key key s =
     (if key = ''Escape'' \<and> sh_menu_open s then s\<lparr>sh_menu_open := False\<rparr> else s)"

definition scroll_effect :: "shell \<Rightarrow> shell" where
  "scroll_effect s = s\<lparr>sh_scroll_locked := sh_menu_open s\<rparr>"

section \<open>Mounting pages\<close>

definition mount_page :: "content \<Rightarrow> shell \<Rightarrow> shell" where
  "mount_page c s =
     (let d = unmount Page_Scope (unmount Editor_Scope (sh_store s))
      in s\<lparr>sh_content := Some c, sh_store := d, sh_calls := [], sh_editor := None,
           sh_sources := new_sources_page, sh_combineds := new_combineds_page,
           sh_config := new_config_page d, sh_clash := new_clash_page\<rparr>)"

text \<open>The editor is mounted while the signal \<open>editing\<close> of the sources page holds a source.\<close>

definition mount_editor :: "shell \<Rightarrow> shell" where
  "mount_editor s =
     (case (sp_editing (sh_sources s), sh_editor s) of
        (Some src, None) \<Rightarrow> s\<lparr>sh_editor := Some (open_editor src)\<rparr>
      | (None, Some _) \<Rightarrow>
          s\<lparr>sh_editor := None, sh_store := unmount Editor_Scope (sh_store s),
            sh_calls := filter (\<lambda>(c, _). c \<noteq> Saving_Source) (sh_calls s)\<rparr>
      | _ \<Rightarrow> s)"

definition render_shell :: "shell \<Rightarrow> shell" where
  "render_shell s =
     (let s = auto_preload s; c = content_of s;
          s = (if sh_content s = Some c then s else mount_page c s)
      in mount_editor s)"

section \<open>Events of the pages\<close>

definition run_effect :: "scope \<Rightarrow> page_effect \<Rightarrow> shell \<Rightarrow> shell" where
  "run_effect sc e s =
     (case e of
        Refresh_Unit k \<Rightarrow> s\<lparr>sh_store := refresh sc k (sh_store s)\<rparr>
      | Push_Toast kind t \<Rightarrow> s\<lparr>sh_toasts := push_toast kind t (sh_toasts s)\<rparr>
      | Close_Editor \<Rightarrow> s\<lparr>sh_sources := (sh_sources s)\<lparr>sp_editing := None\<rparr>\<rparr>
      | Clear_Session \<Rightarrow> s\<lparr>sh_store := (sh_store s)\<lparr>ds_token := None\<rparr>\<rparr>
      | Logged_In _ \<Rightarrow> s)"

definition run_effects :: "scope \<Rightarrow> page_effect list \<Rightarrow> shell \<Rightarrow> shell" where
  "run_effects sc es s = fold (run_effect sc) es s"

text \<open>A submitted form: the page afterwards, and the task if there is one.\<close>

definition spawn_call :: "page_call \<Rightarrow> api_request option \<Rightarrow> shell \<Rightarrow> shell" where
  "spawn_call c q s =
     (case q of None \<Rightarrow> s | Some rq \<Rightarrow> s\<lparr>sh_calls := sh_calls s @ [(c, rq)]\<rparr>)"

definition submit :: "web_crates \<Rightarrow> page_call \<Rightarrow> shell \<Rightarrow> shell" where
  "submit W c s =
     (let token = ds_token (sh_store s) in
      case (c, sh_content s) of
        (Adding_Source, Some (Sources_Page kind)) \<Rightarrow>
          (let (p, q) = add_source W kind token (sh_sources s) in spawn_call c q (s\<lparr>sh_sources := p\<rparr>))
      | (Deleting_Source, Some (Sources_Page kind)) \<Rightarrow>
          (let (p, q) = confirm_delete_source token (sh_sources s)
           in spawn_call c q (s\<lparr>sh_sources := p\<rparr>))
      | (Saving_Source, Some (Sources_Page kind)) \<Rightarrow>
          (case sh_editor s of
             None \<Rightarrow> s
           | Some ed \<Rightarrow>
               (let (p, q) = save_source W token ed in spawn_call c q (s\<lparr>sh_editor := Some p\<rparr>)))
      | (Saving_Combined, Some Combineds_Page) \<Rightarrow>
          (let (p, q) = save_combined W token (sh_combineds s)
           in spawn_call c q (s\<lparr>sh_combineds := p\<rparr>))
      | (Deleting_Combined, Some Combineds_Page) \<Rightarrow>
          (let (p, q) = confirm_delete_combined token (sh_combineds s)
           in spawn_call c q (s\<lparr>sh_combineds := p\<rparr>))
      | (Changing_Password, Some Config_Page) \<Rightarrow>
          (let (p, q) = do_change W token (sh_config s) in spawn_call c q (s\<lparr>sh_config := p\<rparr>))
      | (Saving_Setting, Some Config_Page) \<Rightarrow>
          (let (p, q) = save_setting W token (sh_config s)
           in spawn_call c (Some q) (s\<lparr>sh_config := p\<rparr>))
      | (Saving_Template, Some Clash_Config_Page) \<Rightarrow>
          (let (p, q) = save_template W token (sh_clash s) in spawn_call c q (s\<lparr>sh_clash := p\<rparr>))
      | _ \<Rightarrow> s)"

definition page_reply :: "page_call \<Rightarrow> web_reply \<Rightarrow> shell \<Rightarrow> shell" where
  "page_reply c r s =
     (case c of
        Adding_Source \<Rightarrow>
          (let (p, es) = add_source_reply r (sh_sources s)
           in run_effects Page_Scope es (s\<lparr>sh_sources := p\<rparr>))
      | Deleting_Source \<Rightarrow> run_effects Page_Scope (delete_reply Sources_Unit r) s
      | Saving_Source \<Rightarrow>
          (case sh_editor s of
             None \<Rightarrow> s
           | Some ed \<Rightarrow>
               (let (p, es) = save_source_reply r ed
                in run_effects Editor_Scope es (s\<lparr>sh_editor := Some p\<rparr>)))
      | Saving_Combined \<Rightarrow>
          (let (p, es) = save_combined_reply r (sh_combineds s)
           in run_effects Page_Scope es (s\<lparr>sh_combineds := p\<rparr>))
      | Deleting_Combined \<Rightarrow> run_effects Page_Scope (delete_reply Combineds_Unit r) s
      | Changing_Password \<Rightarrow>
          (let (p, es) = change_reply r (sh_config s)
           in run_effects Page_Scope es (s\<lparr>sh_config := p\<rparr>))
      | Saving_Setting \<Rightarrow>
          (let (p, es) = save_setting_reply r (sh_config s)
           in run_effects Page_Scope es (s\<lparr>sh_config := p\<rparr>))
      | Saving_Template \<Rightarrow>
          (let (p, es) = save_template_reply r (sh_clash s)
           in run_effects Page_Scope es (s\<lparr>sh_clash := p\<rparr>)))"

text \<open>What the user does to the signals of a page; it neither loads nor sends.\<close>

datatype page_edit =
  Type_Source string string | Edit_Source source_dto | Cancel_Editor | Type_Editor string string string
| Ask_Delete_Source int string | Cancel_Confirm | Preview_Source "int option"
| New_Combined | Edit_Combined int string "int list" | Toggle_Member int | Type_Combined_Name string
| Cancel_Form | Ask_Delete_Combined int string | Preview_Combined "string option"
| Copied_Link "string \<times> string" "string + unit" | Copied_Timeout "string \<times> string"
| Type_Passwords string string string | Tick_Base64 bool | Adopt_Setting
| Type_Template string | Adopt_Template | Dismiss_Toast u64

definition edit_page :: "page_edit \<Rightarrow> shell \<Rightarrow> shell" where
  "edit_page e s =
     (case e of
        Type_Source u n \<Rightarrow> s\<lparr>sh_sources := (sh_sources s)\<lparr>sp_new_url := u, sp_new_name := n\<rparr>\<rparr>
      | Edit_Source src \<Rightarrow> s\<lparr>sh_sources := (sh_sources s)\<lparr>sp_editing := Some src\<rparr>\<rparr>
      | Cancel_Editor \<Rightarrow> s\<lparr>sh_sources := (sh_sources s)\<lparr>sp_editing := None\<rparr>\<rparr>
      | Type_Editor u n k \<Rightarrow>
          s\<lparr>sh_editor := map_option (\<lambda>ed. ed\<lparr>ed_url := u, ed_name := n, ed_kind := k\<rparr>) (sh_editor s)\<rparr>
      | Ask_Delete_Source i n \<Rightarrow> s\<lparr>sh_sources := ask_delete_source i n (sh_sources s)\<rparr>
      | Cancel_Confirm \<Rightarrow>
          s\<lparr>sh_sources := (sh_sources s)\<lparr>sp_confirm := confirm_default\<rparr>,
            sh_combineds := (sh_combineds s)\<lparr>cp_confirm := confirm_default\<rparr>\<rparr>
      | Preview_Source i \<Rightarrow> s\<lparr>sh_sources := (sh_sources s)\<lparr>sp_previewing := i\<rparr>\<rparr>
      | New_Combined \<Rightarrow> s\<lparr>sh_combineds := open_create (sh_combineds s)\<rparr>
      | Edit_Combined i n ids \<Rightarrow> s\<lparr>sh_combineds := open_edit i n ids (sh_combineds s)\<rparr>
      | Toggle_Member i \<Rightarrow> s\<lparr>sh_combineds := toggle_member i (sh_combineds s)\<rparr>
      | Type_Combined_Name n \<Rightarrow>
          s\<lparr>sh_combineds := (sh_combineds s)\<lparr>cp_form := (cp_form (sh_combineds s))\<lparr>fs_name := n\<rparr>\<rparr>\<rparr>
      | Cancel_Form \<Rightarrow> s\<lparr>sh_combineds := (sh_combineds s)\<lparr>cp_form := form_default\<rparr>\<rparr>
      | Ask_Delete_Combined i n \<Rightarrow> s\<lparr>sh_combineds := ask_delete_combined i n (sh_combineds s)\<rparr>
      | Preview_Combined n \<Rightarrow> s\<lparr>sh_combineds := (sh_combineds s)\<lparr>cp_previewing := n\<rparr>\<rparr>
      | Copied_Link key r \<Rightarrow>
          s\<lparr>sh_combineds := fst (copy_done key r (sh_combineds s)),
            sh_toasts := fold (\<lambda>e ts. case e of Push_Toast k t \<Rightarrow> push_toast k t ts | _ \<Rightarrow> ts)
                           (snd (copy_done key r (sh_combineds s))) (sh_toasts s)\<rparr>
      | Copied_Timeout key \<Rightarrow> s\<lparr>sh_combineds := copied_timeout key (sh_combineds s)\<rparr>
      | Type_Passwords a b c \<Rightarrow> s\<lparr>sh_config := (sh_config s)\<lparr>gp_old := a, gp_new := b, gp_new2 := c\<rparr>\<rparr>
      | Tick_Base64 b \<Rightarrow> s\<lparr>sh_config := (sh_config s)\<lparr>gp_v2ray_b64 := b\<rparr>\<rparr>
      | Adopt_Setting \<Rightarrow> s\<lparr>sh_config := adopt_setting (sh_store s) (sh_config s)\<rparr>
      | Type_Template t \<Rightarrow> s\<lparr>sh_clash := (sh_clash s)\<lparr>lp_draft := t\<rparr>\<rparr>
      | Adopt_Template \<Rightarrow> s\<lparr>sh_clash := adopt_template (sh_store s) (sh_clash s)\<rparr>
      | Dismiss_Toast i \<Rightarrow> s\<lparr>sh_toasts := dismiss_toast i (sh_toasts s)\<rparr>)"

section \<open>One event\<close>

datatype ui_event =
  Navigate nat | Toggle_Group string | Open_Menu | Close_Menu | Key_Down string | Media_Change bool
| Render | Commit_Effect | Breakpoint_Effect | Scroll_Effect | Edit page_edit | Submit page_call
| Start_Load nat | Answer_Load nat web_reply | Answer_Call nat web_reply

definition answer_call :: "nat \<Rightarrow> web_reply \<Rightarrow> shell \<Rightarrow> shell" where
  "answer_call i r s =
     (case nth_option (sh_calls s) i of
        None \<Rightarrow> s
      | Some (c, _) \<Rightarrow> page_reply c r (s\<lparr>sh_calls := take i (sh_calls s) @ drop (Suc i) (sh_calls s)\<rparr>))"

definition handle :: "web_crates \<Rightarrow> ui_event \<Rightarrow> shell \<Rightarrow> shell" where
  "handle W e s =
     (case e of
        Navigate i \<Rightarrow> if i < 5 then go i s else s
      | Toggle_Group g \<Rightarrow> toggle_group g s
      | Open_Menu \<Rightarrow> s\<lparr>sh_menu_open := True\<rparr>
      | Close_Menu \<Rightarrow> s\<lparr>sh_menu_open := False\<rparr>
      | Key_Down key \<Rightarrow> escape_key key s
      | Media_Change now \<Rightarrow> media_change now s
      | Render \<Rightarrow> render_shell s
      | Commit_Effect \<Rightarrow> commit_effect s
      | Breakpoint_Effect \<Rightarrow> breakpoint_effect s
      | Scroll_Effect \<Rightarrow> scroll_effect s
      | Edit e \<Rightarrow> edit_page e s
      | Submit c \<Rightarrow> submit W c s
      | Start_Load i \<Rightarrow> s\<lparr>sh_store := start_load i (sh_store s)\<rparr>
      | Answer_Load i r \<Rightarrow> s\<lparr>sh_store := answer_load W i r (sh_store s)\<rparr>
      | Answer_Call i r \<Rightarrow> answer_call i r s)"

definition run_events :: "web_crates \<Rightarrow> ui_event list \<Rightarrow> shell \<Rightarrow> shell" where
  "run_events W es s = fold (handle W) es s"

end
