(* ===== verification/Web_View.thy ===== *)
theory Web_View
  imports Web_Labels Web_Shell
begin

text \<open>
  The markup of the front end as a tree of elements with their attributes and handlers, and what
  the user can do with it. A handler takes the value of its event (the text of an input, the name
  of a key) to the events of the model it causes; \<open>stop_propagation\<close> is a handler that causes none.
  Here too: the icons (\<open>icon.rs\<close>) and the clipboard (\<open>components/mod.rs\<close>).
\<close>

section \<open>Trees\<close>

datatype 'e view =
    Text string
  | Element string "(string \<times> string) list" "(string \<times> (string \<Rightarrow> 'e list)) list" "'e view list"

text \<open>An element with a class, and one without; a boolean attribute is there or not.\<close>

definition el :: "string \<Rightarrow> string \<Rightarrow> 'e view list \<Rightarrow> 'e view" where
  "el tag c kids = Element tag [(''class'', c)] [] kids"

definition plain :: "string \<Rightarrow> 'e view list \<Rightarrow> 'e view" where
  "plain tag kids = Element tag [] [] kids"

definition flag :: "string \<Rightarrow> bool \<Rightarrow> (string \<times> string) list" where
  "flag name b = (if b then [(name, ''true'')] else [])"

definition button :: "string \<Rightarrow> bool \<Rightarrow> 'e list \<Rightarrow> 'e view list \<Rightarrow> 'e view" where
  "button c disabled es kids =
     Element ''button'' ((''class'', c) # flag ''disabled'' disabled) [(''onclick'', \<lambda>_. es)] kids"

definition input :: "(string \<times> string) list \<Rightarrow> string \<Rightarrow> (string \<Rightarrow> 'e) \<Rightarrow> 'e view" where
  "input attrs val e = Element ''input'' (attrs @ [(''value'', val)]) [(''oninput'', \<lambda>v. [e v])] []"

text \<open>An \<open>if\<close> without \<open>else\<close> in the markup.\<close>

definition only :: "bool \<Rightarrow> 'e view \<Rightarrow> 'e view list" where
  "only b v = (if b then [v] else [])"

definition error_text :: "string \<Rightarrow> 'e view list" where
  "error_text e = only (e \<noteq> []) (el ''p'' ''error-text'' [Text e])"

section \<open>What can be clicked and typed\<close>

text \<open>
  The handlers that a click reaches, in the order of the document: none of a disabled element. A
  component that is embedded by name offers its \<open>on_close\<close>.
\<close>

definition click_names :: "string list" where
  "click_names = [''onclick'', ''on_close'']"

primrec clicks :: "'e view \<Rightarrow> 'e list" where
  "clicks (Text t) = []"
| "clicks (Element tag attrs handlers kids) =
     (if map_of attrs ''disabled'' = Some ''true'' then []
      else concat (map (\<lambda>(n, h). if n \<in> set click_names then h [] else []) handlers) @ concat (map clicks kids))"

definition all_clicks :: "'e view list \<Rightarrow> 'e list" where
  "all_clicks vs = concat (map clicks vs)"

text \<open>What an event \<open>name\<close> with value \<open>v\<close> causes, anywhere in the tree.\<close>

primrec fired :: "string \<Rightarrow> string \<Rightarrow> 'e view \<Rightarrow> 'e list" where
  "fired name v (Text t) = []"
| "fired name v (Element tag attrs handlers kids) =
     concat (map (\<lambda>(n, h). if n = name then h v else []) handlers) @ concat (map (fired name v) kids)"

lemma clicks_map: "clicks (map_view f v) = map f (clicks v)"
proof (induction v)
  case (Element tag attrs handlers kids)
  then show ?case
    by (simp add: map_concat comp_def case_prod_beta map_prod_def if_distrib [of "map f"] cong: if_cong map_cong)
qed simp

named_theorems view_simps \<open>the elements of the markup and the events they offer\<close>

lemma clicks_plain [view_simps]:
  "clicks (el tag c kids) = all_clicks kids" "clicks (plain tag kids) = all_clicks kids"
  "clicks (button c disabled es kids) = (if disabled then [] else es @ all_clicks kids)"
  "clicks (input attrs val e) = []"
  by (simp_all add: el_def plain_def button_def input_def flag_def click_names_def all_clicks_def)

lemma all_clicks_simps [view_simps]:
  "all_clicks [] = []" "all_clicks (v # vs) = clicks v @ all_clicks vs"
  "all_clicks (vs @ ws) = all_clicks vs @ all_clicks ws"
  "all_clicks (only b v) = (if b then clicks v else [])" "all_clicks (error_text e) = []"
  by (simp_all add: all_clicks_def only_def error_text_def el_def click_names_def)

section \<open>Icons\<close>

definition path :: "string \<Rightarrow> string \<times> (string \<times> string) list" where
  "path d = (''path'', [(''d'', d)])"

definition icon_shapes :: "(string \<times> (string \<times> (string \<times> string) list) list) list" where
  "icon_shapes = [
    (''logo'', [path ''M12 2 20 6.5v11L12 22 4 17.5v-11L12 2Z'',
      path ''M12 6.5 16.5 9v6L12 17.5 7.5 15V9l4.5-2.5Z'']),
    (''sources'', [path ''M10 13a5 5 0 0 0 7.54.54l3-3a5 5 0 0 0-7.07-7.07l-1.72 1.71'',
      path ''M14 11a5 5 0 0 0-7.54-.54l-3 3a5 5 0 0 0 7.07 7.07l1.71-1.71'']),
    (''combineds'', [path ''M12.83 2.18a2 2 0 0 0-1.66 0L2.6 6.08a1 1 0 0 0 0 1.83l8.58 3.91a2 2 0 0 0 1.66 0l8.58-3.9a1 1 0 0 0 0-1.83Z'',
      path ''m22 17.65-9.17 4.16a2 2 0 0 1-1.66 0L2 17.65'',
      path ''m22 12.65-9.17 4.16a2 2 0 0 1-1.66 0L2 12.65'']),
    (''preview'', [path ''M2.062 12.348a1 1 0 0 1 0-.696 10.75 10.75 0 0 1 19.876 0 1 1 0 0 1 0 .696 10.75 10.75 0 0 1-19.876 0'',
      (''circle'', [(''cx'', ''12''), (''cy'', ''12''), (''r'', ''3'')])]),
    (''chevron'', [path ''m9 18 6-6-6-6'']),
    (''clash'', [path ''M15 2H6a2 2 0 0 0-2 2v16a2 2 0 0 0 2 2h12a2 2 0 0 0 2-2V7Z'',
      path ''M14 2v4a2 2 0 0 0 2 2h4'',
      path ''m10 13-2 2 2 2'',
      path ''m14 17 2-2-2-2'']),
    (''config'', [path ''M12.22 2h-.44a2 2 0 0 0-2 2v.18a2 2 0 0 1-1 1.73l-.43.25a2 2 0 0 1-2 0l-.15-.08a2 2 0 0 0-2.73.73l-.22.38a2 2 0 0 0 .73 2.73l.15.1a2 2 0 0 1 1 1.72v.51a2 2 0 0 1-1 1.74l-.15.09a2 2 0 0 0-.73 2.73l.22.38a2 2 0 0 0 2.73.73l.15-.08a2 2 0 0 1 2 0l.43.25a2 2 0 0 1 1 1.73V20a2 2 0 0 0 2 2h.44a2 2 0 0 0 2-2v-.18a2 2 0 0 1 1-1.73l.43-.25a2 2 0 0 1 2 0l.15.08a2 2 0 0 0 2.73-.73l.22-.39a2 2 0 0 0-.73-2.73l-.15-.08a2 2 0 0 1-1-1.74v-.5a2 2 0 0 1 1-1.74l.15-.09a2 2 0 0 0 .73-2.73l-.22-.38a2 2 0 0 0-2.73-.73l-.15.08a2 2 0 0 1-2 0l-.43-.25a2 2 0 0 1-1-1.73V4a2 2 0 0 0-2-2z'',
      (''circle'', [(''cx'', ''12''), (''cy'', ''12''), (''r'', ''3'')])]),
    (''edit'', [path ''M17 3a2.85 2.83 0 1 1 4 4L7.5 20.5 2 22l1.5-5.5Z'',
      path ''m15 5 4 4'']),
    (''logout'', [path ''M9 21H5a2 2 0 0 1-2-2V5a2 2 0 0 1 2-2h4'',
      (''polyline'', [(''points'', ''16 17 21 12 16 7'')]),
      (''line'', [(''x1'', ''21''), (''x2'', ''9''), (''y1'', ''12''), (''y2'', ''12'')])]),
    (''refresh'', [path ''M3 12a9 9 0 0 1 9-9 9.75 9.75 0 0 1 6.74 2.74L21 8'',
      path ''M21 3v5h-5'',
      path ''M21 12a9 9 0 0 1-9 9 9.75 9.75 0 0 1-6.74-2.74L3 16'',
      path ''M8 16H3v5'']),
    (''copy'', [(''rect'', [(''width'', ''14''), (''height'', ''14''), (''x'', ''8''), (''y'', ''8''), (''rx'', ''2''), (''ry'', ''2'')]),
      path ''M4 16c-1.1 0-2-.9-2-2V4c0-1.1.9-2 2-2h10c1.1 0 2 .9 2 2'']),
    (''trash'', [path ''M3 6h18'',
      path ''M19 6v14c0 1-1 2-2 2H7c-1 0-2-1-2-2V6'',
      path ''M8 6V4c0-1 1-2 2-2h4c1 0 2 1 2 2v2'']),
    (''plus'', [path ''M5 12h14'',
      path ''M12 5v14'']),
    (''x'', [path ''M18 6 6 18'',
      path ''m6 6 12 12'']),
    (''menu'', [path ''M4 6h16'',
      path ''M4 12h16'',
      path ''M4 18h16'']),
    (''alert'', [path ''m21.73 18-8-14a2 2 0 0 0-3.48 0l-8 14A2 2 0 0 0 4 21h16a2 2 0 0 0 1.73-3'',
      path ''M12 9v4'',
      path ''M12 17h.01''])
  ]"

definition svg_attrs :: "nat \<Rightarrow> (string \<times> string) list" where
  "svg_attrs n = [(''width'', show_nat n), (''height'', show_nat n), (''view_box'', ''0 0 24 24''),
     (''fill'', ''none''), (''stroke'', ''currentColor''), (''stroke_width'', ''2''), (''stroke_linecap'', ''round'')]"

text \<open>An unknown name draws nothing.\<close>

definition icon :: "string \<Rightarrow> nat \<Rightarrow> 'e view" where
  "icon name n =
     (case map_of icon_shapes name of
        Some shapes \<Rightarrow> Element ''svg'' (svg_attrs n @ [(''stroke_linejoin'', ''round'')]) []
          (map (\<lambda>(tag, attrs). Element tag attrs [] []) shapes)
      | None \<Rightarrow> Element ''span'' [] [] [])"

definition spinner :: "nat \<Rightarrow> 'e view" where
  "spinner n = Element ''svg'' (svg_attrs n @ [(''class'', ''spinner'')]) []
     [Element ''path'' [(''d'', ''M21 12a9 9 0 1 1-6.219-8.56'')] [] []]"

lemma clicks_no_handler: "clicks (Element tag attrs [] []) = []"
  by simp

lemma clicks_icon [view_simps]: "clicks (icon name n) = []" "clicks (spinner n) = []" "clicks (Text t) = []"
proof -
  have none: "concat (map (clicks \<circ> (\<lambda>(tag, attrs). Element tag attrs [] [])) shapes) = []"
    for shapes :: "(string \<times> (string \<times> string) list) list"
    by (induction shapes) (auto simp: clicks_no_handler)
  then show "clicks (icon name n) = []"
    by (auto simp: icon_def case_prod_unfold split: option.split)
qed (simp_all add: spinner_def)

section \<open>The clipboard\<close>

text \<open>What \<open>copy_text\<close> meets in the browser; an error of JavaScript is its debug text.\<close>

datatype clipboard = No_Window | Unreadable string | No_Clipboard | Written "string + unit"

definition copy_text :: "clipboard \<Rightarrow> string + unit" where
  "copy_text c =
     (case c of
        No_Window \<Rightarrow> Inl lb_no_window
      | Unreadable e \<Rightarrow> Inl (lb_clipboard_unreadable @ e)
      | No_Clipboard \<Rightarrow> Inl lb_clipboard_missing
      | Written r \<Rightarrow> r)"

end
