(* ===== verification/Web_Login.thy ===== *)
theory Web_Login
  imports Web_Pages
begin

text \<open>
  The session in the browser: the token in local storage and the login form (\<open>login.rs\<close>), and
  the root component \<open>App\<close> of the web crate's \<open>main.rs\<close>, which decides between the login form and
  the shell. Handlers are cut at their suspensions as in \<open>Web_Pages\<close>.
\<close>

section \<open>Local storage\<close>

text \<open>No storage when the browser grants none; \<open>set_item\<close> may fail, which \<open>accepted\<close> says.\<close>

type_synonym local_storage = "(string \<rightharpoonup> string) option"

definition storage_key :: string where
  "storage_key = ''submerge_admin_session''"

definition read_token :: "local_storage \<Rightarrow> string option" where
  "read_token st = Option.bind st (\<lambda>m. m storage_key)"

definition write_token :: "bool \<Rightarrow> string \<Rightarrow> local_storage \<Rightarrow> local_storage" where
  "write_token accepted t st =
     map_option (\<lambda>m. if accepted then m(storage_key \<mapsto> t) else m) st"

definition clear_token :: "local_storage \<Rightarrow> local_storage" where
  "clear_token st = map_option (\<lambda>m. m(storage_key := None)) st"

section \<open>The root component\<close>

record app =
  ap_storage :: local_storage
  ap_token :: "string option"
  ap_checking :: bool

datatype app_view = Checking_View | Shell_View | Login_View

definition app_start :: "local_storage \<Rightarrow> app" where
  "app_start st = \<lparr>ap_storage = st, ap_token = read_token st, ap_checking = True\<rparr>"

text \<open>The check at the start: without a token it ends at once.\<close>

definition app_check :: "app \<Rightarrow> app \<times> api_request option" where
  "app_check a =
     (case ap_token a of
        Some t \<Rightarrow> (a, Some (request Get ''/admin/config'' None (Some t)))
      | None \<Rightarrow> (a\<lparr>ap_checking := False\<rparr>, None))"

definition end_session :: "app \<Rightarrow> app" where
  "end_session a = a\<lparr>ap_storage := clear_token (ap_storage a), ap_token := None\<rparr>"

definition app_check_reply :: "web_reply \<Rightarrow> app \<Rightarrow> app" where
  "app_check_reply r a =
     (case request_result r of
        Inr _ \<Rightarrow> a\<lparr>ap_checking := False\<rparr>
      | Inl e \<Rightarrow>
          if re_status e = Some 401 then (end_session a)\<lparr>ap_checking := False\<rparr>
          else a\<lparr>ap_checking := False\<rparr>)"

definition app_view_of :: "app \<Rightarrow> app_view" where
  "app_view_of a =
     (if ap_checking a then Checking_View
      else (case ap_token a of Some _ \<Rightarrow> Shell_View | None \<Rightarrow> Login_View))"

definition on_login :: "bool \<Rightarrow> string \<Rightarrow> app \<Rightarrow> app" where
  "on_login accepted t a =
     a\<lparr>ap_storage := write_token accepted t (ap_storage a), ap_token := Some t\<rparr>"

text \<open>The logout button: the request, and what follows whatever comes of it.\<close>

definition logout_request :: "string option \<Rightarrow> api_request option" where
  "logout_request token = map_option (\<lambda>t. request Post ''/admin/logout'' None (Some t)) token"

definition logout_done :: "app \<Rightarrow> app" where
  "logout_done a = end_session a"

section \<open>The login form\<close>

record login_page =
  lg_needs_setup :: "bool option"
  lg_input :: string
  lg_pass :: string
  lg_setup_user :: string
  lg_setup_pass :: string
  lg_setup_pass2 :: string
  lg_error :: string
  lg_loading :: bool
  lg_probing :: bool

definition new_login_page :: login_page where
  "new_login_page =
     \<lparr>lg_needs_setup = None, lg_input = [], lg_pass = [], lg_setup_user = [], lg_setup_pass = [],
      lg_setup_pass2 = [], lg_error = [], lg_loading = False, lg_probing = False\<rparr>"

definition probe :: "login_page \<Rightarrow> login_page \<times> api_request option" where
  "probe p =
     (if lg_probing p then (p, None)
      else (p\<lparr>lg_probing := True\<rparr>, Some (request Get ''/admin/setup-status'' None None)))"

fun json_as_bool :: "json \<Rightarrow> bool option" where
  "json_as_bool (JBool b) = Some b"
| "json_as_bool _ = None"

fun json_as_str :: "json \<Rightarrow> string option" where
  "json_as_str (JString s) = Some s"
| "json_as_str _ = None"

definition probe_reply :: "web_crates \<Rightarrow> web_reply \<Rightarrow> login_page \<Rightarrow> login_page" where
  "probe_reply W r p =
     (let p' = (case request_result r of
                  Inl e \<Rightarrow> p\<lparr>lg_error := result_text setup_check_failed e\<rparr>
                | Inr body \<Rightarrow>
                    (case value_from_str W body of
                       Inl e \<Rightarrow> p\<lparr>lg_error := parse_failed @ e\<rparr>
                     | Inr v \<Rightarrow> p\<lparr>lg_needs_setup :=
                           Some (unwrap_or False (Option.bind (json_get ''needs_setup'' v) json_as_bool)),
                           lg_error := []\<rparr>))
      in p'\<lparr>lg_probing := False\<rparr>)"

definition credentials_body :: "web_crates \<Rightarrow> string \<Rightarrow> string \<Rightarrow> string" where
  "credentials_body W user pass =
     json_text W (JObject [(''password'', JString pass), (''username'', JString user)])"

definition login_request_for :: "web_crates \<Rightarrow> string \<Rightarrow> string \<Rightarrow> api_request" where
  "login_request_for W user pass =
     request Post ''/admin/login'' (Some (credentials_body W user pass)) None"

definition do_submit :: "web_crates \<Rightarrow> login_page \<Rightarrow> login_page \<times> api_request option" where
  "do_submit W p =
     (if lg_input p = [] \<or> lg_pass p = [] then (p\<lparr>lg_error := fill_in_account\<rparr>, None)
      else (p\<lparr>lg_loading := True\<rparr>, Some (login_request_for W (lg_input p) (lg_pass p))))"

text \<open>The reply to a login, after the form or after the setup.\<close>

definition login_reply :: "web_crates \<Rightarrow> web_reply \<Rightarrow> login_page \<Rightarrow> login_page \<times> page_effect list" where
  "login_reply W r p =
     (let (p', effects) =
        (case request_result r of
           Inl e \<Rightarrow> (p\<lparr>lg_error := result_text login_failed e\<rparr>, [])
         | Inr body \<Rightarrow>
             (case value_from_str W body of
                Inl e \<Rightarrow> (p\<lparr>lg_error := parse_failed @ e\<rparr>, [])
              | Inr v \<Rightarrow>
                  (case Option.bind (json_get ''token'' v) json_as_str of
                     Some t \<Rightarrow> if t \<noteq> [] then (p, [Logged_In t]) else (p\<lparr>lg_error := token_missing\<rparr>, [])
                   | None \<Rightarrow> (p\<lparr>lg_error := token_missing\<rparr>, []))))
      in (p'\<lparr>lg_loading := False\<rparr>, effects))"

definition do_setup :: "web_crates \<Rightarrow> login_page \<Rightarrow> login_page \<times> api_request option" where
  "do_setup W p =
     (let user = lg_setup_user p; pass = lg_setup_pass p; pass2 = lg_setup_pass2 p in
      if user = [] \<or> pass = [] then (p\<lparr>lg_error := fill_in_account\<rparr>, None)
      else if pass \<noteq> pass2 then (p\<lparr>lg_error := passwords_differ\<rparr>, None)
      else (p\<lparr>lg_loading := True\<rparr>,
            Some (request Post ''/admin/setup''
              (Some (json_text W (JObject [(''password'', JString pass),
                 (''password_confirm'', JString pass2), (''username'', JString user)]))) None)))"

text \<open>The reply to the setup: on success the task logs in with what it captured.\<close>

definition setup_reply ::
  "web_crates \<Rightarrow> string \<Rightarrow> string \<Rightarrow> web_reply \<Rightarrow> login_page \<Rightarrow> login_page \<times> api_request option" where
  "setup_reply W user pass r p =
     (case request_result r of
        Inr _ \<Rightarrow> (p, Some (login_request_for W user pass))
      | Inl e \<Rightarrow> (p\<lparr>lg_error := result_text setup_failed e, lg_loading := False\<rparr>, None))"

section \<open>Lemmas\<close>

lemma read_after_write:
  "read_token (write_token True t (Some m)) = Some t" "read_token (clear_token st) = None"
  by (cases st; simp add: read_token_def write_token_def clear_token_def)+

text \<open>The session ends at the start exactly when the server answers 401.\<close>

lemma app_check_reply_token:
  "ap_token (app_check_reply r a) = (if \<exists>t. r = Received 401 (Inr t) then None else ap_token a)"
  using request_result_status_iff [of r 401]
  by (auto simp: app_check_reply_def end_session_def split: sum.split)

lemma login_reply_token:
  "Logged_In t \<in> set (snd (login_reply W r p)) \<longleftrightarrow>
     t \<noteq> [] \<and> (\<exists>body v. request_result r = Inr body \<and> value_from_str W body = Inr v
                \<and> json_get ''token'' v = Some (JString t))"
proof -
  have "json_as_str j = Some s \<longleftrightarrow> j = JString s" for j s
    by (cases j) auto
  then show ?thesis
    by (auto simp: login_reply_def bind_eq_Some_conv split: sum.splits option.splits if_splits)
qed

end
