(* ===== verification/Web_Preview.thy ===== *)
theory Web_Preview
  imports Web_Pages
begin

text \<open>
  \<open>preview_modal.rs\<close>: every load takes the next sequence number, and the reply to a load whose
  number is no longer the current one is dropped. A task runs in two parts, up to its request
  and from its reply.
\<close>

record preview_task =
  pt_seq :: "32 word"
  pt_key :: string
  pt_token :: "string option"

record preview_modal =
  pv_data :: "preview_resp option"
  pv_loading :: bool
  pv_error :: string
  pv_req_seq :: "32 word"
  pv_loaded_key :: "string option"
  pv_spawned :: "preview_task list"

definition new_preview_modal :: preview_modal where
  "new_preview_modal =
     \<lparr>pv_data = None, pv_loading = True, pv_error = [], pv_req_seq = 0, pv_loaded_key = None,
      pv_spawned = []\<rparr>"

definition preview_key :: "int option \<Rightarrow> string option \<Rightarrow> string" where
  "preview_key source_id combined =
     (case source_id of
        Some i \<Rightarrow> ''sid:'' @ show_i64 i
      | None \<Rightarrow> ''c:'' @ unwrap_or [] combined)"

definition load_preview :: "string option \<Rightarrow> string \<Rightarrow> preview_modal \<Rightarrow> preview_modal" where
  "load_preview token key m =
     (let s = pv_req_seq m + 1
      in m\<lparr>pv_req_seq := s,
           pv_spawned := pv_spawned m @ [\<lparr>pt_seq = s, pt_key = key, pt_token = token\<rparr>]\<rparr>)"

definition preview_path :: "string \<Rightarrow> string" where
  "preview_path key =
     (case strip_prefix ''sid:'' key of
        Some rest \<Rightarrow> ''/admin/preview?source_id='' @ rest
      | None \<Rightarrow>
          (case strip_prefix ''c:'' key of
             Some name \<Rightarrow> if name = [] then ''/admin/preview'' else ''/admin/preview?combined='' @ name
           | None \<Rightarrow> ''/admin/preview''))"

definition start_preview :: "preview_task \<Rightarrow> preview_modal \<Rightarrow> preview_modal \<times> api_request" where
  "start_preview t m =
     (m\<lparr>pv_loading := True, pv_error := []\<rparr>,
      request Get (preview_path (pt_key t)) None (pt_token t))"

definition preview_reply ::
  "web_crates \<Rightarrow> preview_task \<Rightarrow> web_reply \<Rightarrow> preview_modal \<Rightarrow> preview_modal" where
  "preview_reply W t r m =
     (case request_result r of
        Inr body \<Rightarrow>
          if pv_req_seq m \<noteq> pt_seq t then m
          else (case preview_from_str W body of
                  Inr p \<Rightarrow> m\<lparr>pv_data := Some p, pv_loading := False\<rparr>
                | Inl e \<Rightarrow> m\<lparr>pv_error := parse_failed @ e, pv_loading := False\<rparr>)
      | Inl e \<Rightarrow>
          let m' = (if pv_req_seq m = pt_seq t then m\<lparr>pv_error := error_display e\<rparr> else m)
          in if pv_req_seq m' = pt_seq t then m'\<lparr>pv_loading := False\<rparr> else m')"

text \<open>The effect that runs when the key of the modal changes.\<close>

definition follow_key :: "string option \<Rightarrow> string \<Rightarrow> preview_modal \<Rightarrow> preview_modal" where
  "follow_key token key m =
     (if pv_loaded_key m \<noteq> Some key then load_preview token key (m\<lparr>pv_loaded_key := Some key\<rparr>) else m)"

section \<open>Lemmas\<close>

text \<open>Until the numbers wrap around, the reply to an older load changes nothing.\<close>

lemma outdated_reply_dropped:
  assumes "k < 2 ^ 32" and "0 < k" and "pt_seq t + of_nat k = pv_req_seq m"
  shows "preview_reply W t r m = m"
proof -
  have "(of_nat k :: 32 word) \<noteq> 0"
  proof
    assume "(of_nat k :: 32 word) = 0"
    then have "unat (of_nat k :: 32 word) = 0" by simp
    then have "k mod 2 ^ 32 = 0" by (simp add: unat_of_nat)
    with assms(1,2) show False by simp
  qed
  then have "pv_req_seq m \<noteq> pt_seq t" using assms(3) by (metis add.right_neutral add_left_cancel)
  then show ?thesis by (simp add: preview_reply_def Let_def split: sum.split)
qed

lemma current_reply_ends_loading:
  "pt_seq t = pv_req_seq m \<Longrightarrow> \<not> pv_loading (preview_reply W t r m)"
  by (simp add: preview_reply_def Let_def split: sum.split)

lemma preview_path_key:
  "preview_path (preview_key (Some i) name) = ''/admin/preview?source_id='' @ show_i64 i"
  "c \<noteq> [] \<Longrightarrow> preview_path (preview_key None (Some c)) = ''/admin/preview?combined='' @ c"
  "preview_path (preview_key None None) = ''/admin/preview''"
  by (simp_all add: preview_path_def preview_key_def)

end
