(* ===== verification/Web_Views.thy ===== *)
theory Web_Views
  imports Web_View Web_Login Web_Preview
begin

text \<open>
  What each component renders: the pages and dialogs of \<open>components/\<close> over their signals and the
  cache, and the shell of \<open>main.rs\<close> around them.
\<close>

section \<open>Parts\<close>

definition kind_badge :: "string \<Rightarrow> 'e view" where
  "kind_badge kind =
     el ''span'' (''badge '' @ (if kind = ''single'' then ''info'' else ''off'')) [Text (kind_label kind)]"

definition field_box :: "'e view list \<Rightarrow> 'e view" where
  "field_box kids = el ''div'' ''field'' kids"

definition headers_row :: "string list \<Rightarrow> 'e view" where
  "headers_row ls = plain ''thead'' [plain ''tr'' (map (\<lambda>l. plain ''th'' [Text l]) ls)]"

definition confirm_view :: "confirm_state \<Rightarrow> 'e \<Rightarrow> 'e \<Rightarrow> 'e view list" where
  "confirm_view st cancel confirm =
     (if \<not> cf_open st then []
      else [Element ''div'' [(''class'', ''modal-overlay'')] [(''onclick'', \<lambda>_. [cancel])]
        [Element ''div'' [(''class'', ''modal'')] [(''onclick'', \<lambda>_. [])]
          [el ''h3'' ''modal-title'' [Text (cf_title st)],
           el ''p'' ''modal-message'' [Text (cf_message st)],
           el ''div'' ''modal-actions''
             [button ''btn btn-ghost'' False [cancel] [Text lb_cancel],
              button (if cf_danger st then ''btn btn-danger'' else ''btn btn-primary'') False [confirm]
                [Text (cf_confirm_text st)]]]]])"

text \<open>A button that turns into a spinner while its request is under way.\<close>

definition busy_button :: "string \<Rightarrow> bool \<Rightarrow> 'e \<Rightarrow> string \<Rightarrow> 'e view" where
  "busy_button c busy e label = button c busy [e] [if busy then spinner 14 else Text label]"

section \<open>Sources (\<open>sources.rs\<close>)\<close>

definition source_row_view :: "source_dto \<Rightarrow> ui_event view" where
  "source_row_view s = plain ''tr''
     [Element ''td'' [(''data-label'', lb_name), (''class'', ''cell-name'')] [] [Text (sd_name s)],
      Element ''td'' [(''data-label'', lb_kind)] [] [kind_badge (sd_kind s)],
      Element ''td'' [(''data-label'', ''URL''), (''class'', ''cell-url''), (''title'', sd_url s)] [] [Text (sd_url s)],
      Element ''td'' [(''data-label'', lb_actions), (''class'', ''cell-actions'')] []
        [el ''div'' ''actions''
          [button ''btn btn-ghost btn-sm'' False [Edit (Preview_Source (Some (sd_id s)))] [icon ''preview'' 13, Text lb_preview],
           button ''btn btn-ghost btn-sm'' False [Edit (Edit_Source s)] [icon ''edit'' 13, Text lb_edit],
           button ''btn btn-danger btn-sm'' False [Edit (Ask_Delete_Source (sd_id s) (sd_name s))]
             [icon ''trash'' 13, Text delete_text]]]]"

definition add_form_view :: "string \<Rightarrow> sources_page \<Rightarrow> ui_event view" where
  "add_form_view kind p = el ''div'' ''card''
     [el ''h2'' ''card-title'' [Text lb_add_source],
      el ''div'' ''form-row''
        [field_box [plain ''label'' [Text lb_source_url],
           input [(''class'', ''mono''), (''placeholder'', if kind = ''single'' then lb_single_hint else ''https://example.com/sub'')]
             (sp_new_url p) (\<lambda>v. Edit (Type_Source v (sp_new_name p)))],
         field_box [plain ''label'' [Text lb_name],
           input [(''placeholder'', lb_name_hint)] (sp_new_name p) (\<lambda>v. Edit (Type_Source (sp_new_url p) v))],
         button ''btn btn-primary'' (sp_adding p) [Submit Adding_Source]
           [if sp_adding p then spinner 14 else icon ''plus'' 14, Text lb_add]]]"

definition source_table_view :: "source_dto list \<Rightarrow> ui_event view" where
  "source_table_view ss = el ''div'' ''card''
     [el ''h2'' ''card-title'' [Text lb_source_list],
      el ''span'' ''badge on'' [Text (show_nat (length ss) @ lb_n_sources)],
      if ss = [] then
        el ''div'' ''empty'' [icon ''sources'' 36, el ''span'' ''empty-title'' [Text lb_no_sources],
          el ''span'' ''empty-hint'' [Text lb_no_sources_hint]]
      else
        el ''div'' ''table-wrap table-wrap-sources''
          [plain ''table'' [headers_row [lb_name, lb_kind, ''URL'', lb_actions],
             plain ''tbody'' (map source_row_view ss)]]]"

text \<open>The editor of the source \<open>src\<close>, with what has been typed in \<open>ed\<close>.\<close>

definition editor_view :: "source_dto \<Rightarrow> source_editor \<Rightarrow> ui_event view" where
  "editor_view src ed = el ''div'' ''fullscreen-modal''
     [el ''div'' ''fullscreen-modal-head''
        [el ''h2'' ''fullscreen-modal-title'' [Text (lb_edit_before @ sd_name src @ lb_edit_after)],
         button ''btn btn-ghost btn-sm'' False [Edit Cancel_Editor] [icon ''x'' 16]],
      el ''div'' ''fullscreen-modal-body''
        ([field_box [plain ''label'' [Text lb_source_url],
            input [(''class'', ''mono'')] (ed_url ed) (\<lambda>v. Edit (Type_Editor v (ed_name ed) (ed_kind ed)))],
          Element ''div'' [(''class'', ''field''), (''style'', ''margin-top: 14px'')] []
            [plain ''label'' [Text lb_name],
             input [] (ed_name ed) (\<lambda>v. Edit (Type_Editor (ed_url ed) v (ed_kind ed)))],
          Element ''div'' [(''class'', ''field''), (''style'', ''margin-top: 14px'')] []
            [plain ''label'' [Text lb_kind],
             Element ''select'' [(''value'', ed_kind ed)]
               [(''onchange'', \<lambda>v. [Edit (Type_Editor (ed_url ed) (ed_name ed) v)])]
               [Element ''option'' [(''value'', ''single'')] [] [Text lb_option_single],
                Element ''option'' [(''value'', ''remote'')] [] [Text lb_option_remote]]]]
         @ error_text (ed_err ed)),
      el ''div'' ''fullscreen-modal-foot''
        [button ''btn btn-ghost'' False [Edit Cancel_Editor] [Text lb_cancel],
         busy_button ''btn btn-primary'' (ed_saving ed) (Submit Saving_Source) lb_save]]"

definition sources_view :: "string \<Rightarrow> data_store \<Rightarrow> sources_page \<Rightarrow> source_editor option \<Rightarrow> ui_event view list" where
  "sources_view kind d p ed =
     [el ''div'' ''page-head'' [el ''h1'' ''page-title'' [Text lb_sources]]]
     @ error_text (page_error (sp_error p) (cs_error (ds_sources d)))
     @ [add_form_view kind p, source_table_view (source_list kind d)]
     @ (case (sp_editing p, ed) of (Some src, Some e) \<Rightarrow> [editor_view src e] | _ \<Rightarrow> [])
     @ (case sp_previewing p of
          None \<Rightarrow> []
        | Some i \<Rightarrow> [Element ''PreviewModal'' [(''source_id'', show_i64 i)]
                     [(''on_close'', \<lambda>_. [Edit (Preview_Source None)])] []])
     @ confirm_view (sp_confirm p) (Edit Cancel_Confirm) (Submit Deleting_Source)"

section \<open>Combined subscriptions (\<open>combineds.rs\<close>)\<close>

text \<open>
  \<open>origin\<close> is the address of the page, and \<open>clip\<close> what the clipboard does with a text: the event of a
  click on a link is the result of copying it.
\<close>

definition link_button :: "string \<Rightarrow> (string \<Rightarrow> clipboard) \<Rightarrow> combineds_page \<Rightarrow> string \<Rightarrow> string \<Rightarrow> ui_event view" where
  "link_button origin clip p name format =
     button (''btn btn-ghost btn-sm'' @ (if cp_copied p = Some (name, format) then '' checked'' else [])) False
       [Edit (Copied_Link (name, format) (copy_text (clip (link_of origin name format))))] [Text format]"

definition combined_row_view ::
  "string \<Rightarrow> (string \<Rightarrow> clipboard) \<Rightarrow> combineds_page \<Rightarrow> combined_item \<Rightarrow> ui_event view" where
  "combined_row_view origin clip p c = el ''div'' ''combined-row''
     [el ''div'' ''combined-info''
        [el ''span'' ''combined-name'' [Text (ci_name c)],
         el ''span'' ''badge on'' [Text (show_nat (length (ci_source_ids c)) @ lb_n_members)]],
      el ''div'' ''combined-links'' (map (link_button origin clip p (ci_name c)) [''clash'', ''v2ray'']),
      el ''div'' ''actions''
        [button ''btn btn-ghost btn-sm'' False [Edit (Preview_Combined (Some (ci_name c)))] [icon ''preview'' 13, Text lb_preview],
         button ''btn btn-ghost btn-sm'' False [Edit (Edit_Combined (ci_id c) (ci_name c) (ci_source_ids c))]
           [icon ''config'' 13, Text lb_edit],
         button ''btn btn-danger btn-sm'' False [Edit (Ask_Delete_Combined (ci_id c) (ci_name c))]
           [icon ''trash'' 13, Text delete_text]]]"

definition member_row_view :: "form_state \<Rightarrow> source_dto \<Rightarrow> ui_event view" where
  "member_row_view f s = el ''label'' ''member-row''
     [Element ''input'' ((''type'', ''checkbox'') # flag ''checked'' (sd_id s \<in> fs_checked f))
        [(''onchange'', \<lambda>_. [Edit (Toggle_Member (sd_id s))])] [],
      plain ''span'' [Text (sd_name s)], kind_badge (sd_kind s)]"

definition form_view :: "data_store \<Rightarrow> combineds_page \<Rightarrow> ui_event view list" where
  "form_view d p =
     (let f = cp_form p; ss = unwrap_or [] (cs_data (ds_sources d)) in
      if \<not> fs_open f then []
      else [Element ''div'' [(''class'', ''modal-overlay'')] [(''onclick'', \<lambda>_. [Edit Cancel_Form])]
        [Element ''div'' [(''class'', ''modal'')] [(''onclick'', \<lambda>_. [])]
          ([el ''h3'' ''modal-title'' [Text (if fs_edit_id f \<noteq> None then lb_edit_combined else lb_new_combined)],
            field_box [plain ''label'' [Text lb_combined_name],
              input [(''class'', ''mono''), (''placeholder'', lb_combined_hint)] (fs_name f)
                (\<lambda>v. Edit (Type_Combined_Name v))],
            el ''p'' ''subtle'' [Text lb_choose]]
           @ (if ss = [] then [el ''div'' ''empty'' [el ''span'' ''empty-hint'' [Text lb_no_members]]]
              else map (member_row_view f) ss)
           @ [el ''div'' ''modal-actions''
                [button ''btn btn-ghost'' False [Edit Cancel_Form] [Text lb_cancel],
                 busy_button ''btn btn-primary'' (cp_saving p) (Submit Saving_Combined) lb_save]])]])"

definition combineds_view ::
  "string \<Rightarrow> (string \<Rightarrow> clipboard) \<Rightarrow> data_store \<Rightarrow> combineds_page \<Rightarrow> ui_event view list" where
  "combineds_view origin clip d p =
     (let cs = unwrap_or [] (cs_data (ds_combineds d)) in
     [el ''div'' ''page-head''
        [el ''h1'' ''page-title'' [Text lb_combineds],
         button ''btn btn-primary'' False [Edit New_Combined] [icon ''plus'' 14, Text lb_new_combined]]]
     @ error_text (combineds_page_error p d)
     @ [el ''div'' ''card''
          (if cs = [] then
             [el ''div'' ''empty'' [icon ''combineds'' 36, el ''span'' ''empty-title'' [Text lb_no_combineds],
                el ''span'' ''empty-hint'' [Text lb_no_combineds_hint]]]
           else map (combined_row_view origin clip p) cs)]
     @ (case cp_previewing p of
          None \<Rightarrow> []
        | Some name \<Rightarrow> [Element ''PreviewModal'' [(''combined'', name)]
                        [(''on_close'', \<lambda>_. [Edit (Preview_Combined None)])] []])
     @ form_view d p
     @ confirm_view (cp_confirm p) (Edit Cancel_Confirm) (Submit Deleting_Combined))"

section \<open>The account and the output setting (\<open>config.rs\<close>)\<close>

definition password_input :: "string \<Rightarrow> string \<Rightarrow> (string \<Rightarrow> 'e) \<Rightarrow> 'e view" where
  "password_input hint v e = field_box [input [(''type'', ''password''), (''placeholder'', hint)] v e]"

definition account_view :: "data_store \<Rightarrow> config_page \<Rightarrow> ui_event view" where
  "account_view d p = el ''div'' ''card''
     [el ''h2'' ''card-title'' [Text lb_account],
      el ''p'' ''subtle'' [Text lb_account_note],
      el ''div'' ''token-row'' [el ''span'' ''token-label'' [Text lb_username], el ''code'' ''token-value'' [Text (shown_username d)]],
      password_input lb_old_password (gp_old p) (\<lambda>v. Edit (Type_Passwords v (gp_new p) (gp_new2 p))),
      password_input lb_new_password (gp_new p) (\<lambda>v. Edit (Type_Passwords (gp_old p) v (gp_new2 p))),
      password_input lb_new_password2 (gp_new2 p) (\<lambda>v. Edit (Type_Passwords (gp_old p) (gp_new p) v)),
      busy_button ''btn btn-primary'' (gp_changing p) (Submit Changing_Password) lb_change_password]"

definition output_view :: "config_page \<Rightarrow> ui_event view" where
  "output_view p = el ''div'' ''card''
     [el ''h2'' ''card-title'' [Text lb_output],
      el ''p'' ''subtle'' [Text lb_output_note],
      field_box [el ''label'' ''switch-row''
        [Element ''input'' ((''type'', ''checkbox'') # flag ''checked'' (gp_v2ray_b64 p))
           [(''oninput'', \<lambda>v. [Edit (Tick_Base64 (v = ''true''))])] [],
         plain ''span'' [Text lb_base64]]],
      busy_button ''btn btn-primary'' (gp_setting_saving p) (Submit Saving_Setting) lb_save_setting]"

definition config_view :: "data_store \<Rightarrow> config_page \<Rightarrow> ui_event view list" where
  "config_view d p =
     [el ''div'' ''page-head'' [el ''h1'' ''page-title'' [Text lb_config]]]
     @ (if cs_data (ds_config d) \<noteq> None then [account_view d p, output_view p] else [])
     @ error_text (page_error (gp_error p) (cs_error (ds_config d)))"

section \<open>The Clash template (\<open>clash_config.rs\<close>)\<close>

definition clash_view :: "data_store \<Rightarrow> clash_page \<Rightarrow> ui_event view list" where
  "clash_view d p =
     [el ''div'' ''page-head''
        [el ''h1'' ''page-title'' [Text lb_clash],
         busy_button ''btn btn-primary'' (lp_saving p) (Submit Saving_Template) lb_save]]
     @ error_text (page_error (lp_error p) (cs_error (ds_clash_config d)))
     @ [el ''div'' ''card''
          [el ''p'' ''subtle'' [Text lb_clash_note],
           Element ''textarea'' [(''class'', ''clash-template''), (''rows'', ''24''), (''placeholder'', lb_clash_hint),
             (''value'', lp_draft p)] [(''oninput'', \<lambda>v. [Edit (Type_Template v)])] []]]"

end
