(* ===== verification/Web_Screen.thy ===== *)
theory Web_Screen
  imports Web_Views
begin

text \<open>
  The preview, the login form, the toasts and the shell with the page mounted in it: the whole
  screen, as \<open>App\<close> of \<open>main.rs\<close> renders it.
\<close>

section \<open>The preview (\<open>preview_modal.rs\<close>)\<close>

datatype preview_event = Retry_Preview | Close_Preview

definition preview_row_view :: "preview_item \<Rightarrow> 'e view" where
  "preview_row_view n = plain ''tr''
     [el ''td'' ''cell-name'' [Text (pi_name n)],
      plain ''td'' [el ''span'' (''proto '' @ proto_class (pi_protocol n)) [Text (pi_protocol n)]],
      el ''td'' ''cell-url'' [Text (pi_server n)],
      plain ''td'' [Text (show_u16 (pi_port n))]]"

definition preview_result_view :: "preview_resp \<Rightarrow> 'e view list" where
  "preview_result_view r =
     (if pr_nodes r = [] then
        [el ''div'' ''empty'' [icon ''preview'' 36, el ''span'' ''empty-title'' [Text lb_no_nodes],
           el ''span'' ''empty-hint'' [Text lb_no_nodes_hint]]]
      else
        [el ''div'' ''table-wrap''
          [plain ''table'' [headers_row [lb_name, lb_protocol, lb_server, lb_port],
             plain ''tbody'' (map preview_row_view (pr_nodes r))]]])
     @ (if pr_errors r = [] then []
        else [Element ''h2'' [(''class'', ''card-title''), (''style'', ''margin-top: 20px'')] [] [Text lb_source_errors],
              el ''div'' ''warning-box''
                (map (\<lambda>e. el ''div'' ''error-line'' [icon ''alert'' 14, plain ''span'' [Text e]]) (pr_errors r))])"

definition preview_view :: "preview_modal \<Rightarrow> preview_event view" where
  "preview_view m = el ''div'' ''fullscreen-modal''
     [el ''div'' ''fullscreen-modal-head''
        [el ''h2'' ''fullscreen-modal-title'' [Text lb_preview],
         button ''btn btn-ghost btn-sm'' False [Close_Preview] [icon ''x'' 16]],
      el ''div'' ''fullscreen-modal-body''
        (if pv_loading m then [el ''div'' ''empty'' [spinner 28]]
         else if pv_error m \<noteq> [] then
           [el ''div'' ''empty''
             [icon ''alert'' 36, el ''span'' ''empty-title'' [Text lb_load_failed],
              el ''span'' ''empty-hint'' [Text (pv_error m)],
              button ''btn btn-secondary'' False [Retry_Preview] [icon ''refresh'' 14, Text lb_retry]]]
         else (case pv_data m of None \<Rightarrow> [] | Some r \<Rightarrow> preview_result_view r)),
      el ''div'' ''fullscreen-modal-foot''
        [button ''btn btn-secondary'' False [Close_Preview] [Text lb_close]]]"

section \<open>The login form (\<open>login.rs\<close>)\<close>

datatype login_event =
  Type_User string | Type_Pass string | Type_Setup_User string | Type_Setup_Pass string | Type_Setup_Pass2 string
| Do_Probe | Do_Submit | Do_Setup

definition typed :: "login_event \<Rightarrow> login_page \<Rightarrow> login_page" where
  "typed e p =
     (case e of
        Type_User v \<Rightarrow> p\<lparr>lg_input := v\<rparr>
      | Type_Pass v \<Rightarrow> p\<lparr>lg_pass := v\<rparr>
      | Type_Setup_User v \<Rightarrow> p\<lparr>lg_setup_user := v\<rparr>
      | Type_Setup_Pass v \<Rightarrow> p\<lparr>lg_setup_pass := v\<rparr>
      | Type_Setup_Pass2 v \<Rightarrow> p\<lparr>lg_setup_pass2 := v\<rparr>
      | _ \<Rightarrow> p)"

definition login_input :: "string \<Rightarrow> string \<Rightarrow> string \<Rightarrow> (string \<Rightarrow> login_event) \<Rightarrow> login_event view" where
  "login_input type hint v e =
     field_box [input [(''type'', type), (''placeholder'', hint)] v e]"

text \<open>The last input of a form submits it when Enter is pressed.\<close>

definition last_input :: "string \<Rightarrow> string \<Rightarrow> (string \<Rightarrow> login_event) \<Rightarrow> login_event \<Rightarrow> login_event view" where
  "last_input hint v e enter = field_box
     [Element ''input'' [(''type'', ''password''), (''placeholder'', hint), (''value'', v)]
        [(''oninput'', \<lambda>v. [e v]), (''onkeydown'', \<lambda>key. if key = ''Enter'' then [enter] else [])] []]"

definition login_body :: "login_page \<Rightarrow> login_event view list" where
  "login_body p =
     (case lg_needs_setup p of
        None \<Rightarrow>
          (if lg_error p \<noteq> [] then
             [el ''p'' ''error-text'' [Text (lg_error p)],
              button ''btn btn-primary'' (lg_probing p) [Do_Probe] [Text lb_retry]]
           else [el ''div'' ''login-logo'' [spinner 40]])
      | Some True \<Rightarrow>
          [login_input ''text'' lb_username (lg_setup_user p) Type_Setup_User,
           login_input ''password'' lb_password (lg_setup_pass p) Type_Setup_Pass,
           last_input lb_password2 (lg_setup_pass2 p) Type_Setup_Pass2 Do_Setup]
          @ error_text (lg_error p) @ [busy_button ''btn btn-primary'' (lg_loading p) Do_Setup lb_create]
      | Some False \<Rightarrow>
          [login_input ''text'' lb_username (lg_input p) Type_User,
           last_input lb_password (lg_pass p) Type_Pass Do_Submit]
          @ error_text (lg_error p) @ [busy_button ''btn btn-primary'' (lg_loading p) Do_Submit lb_login])"

definition login_view :: "login_page \<Rightarrow> login_event view" where
  "login_view p = el ''div'' ''login-wrap''
     [el ''div'' ''login-card''
        ([el ''div'' ''login-logo'' [icon ''logo'' 40], el ''div'' ''login-title'' [Text ''sub-merge''],
          el ''p'' ''login-sub'' [Text lb_subtitle]] @ login_body p)]"

section \<open>Toasts (\<open>toast.rs\<close>)\<close>

definition toast_card :: "toast_msg \<Rightarrow> ui_event view" where
  "toast_card t = el ''div'' (''toast '' @ toast_class (tm_kind t))
     [icon (toast_icon (tm_kind t)) 15, plain ''span'' [Text (tm_text t)],
      button ''toast-close'' False [Edit (Dismiss_Toast (tm_id t))] [icon ''x'' 13]]"

definition toast_stack :: "toasts \<Rightarrow> ui_event view" where
  "toast_stack ts = el ''div'' ''toast-stack'' (map toast_card (ts_list ts))"

section \<open>The shell (\<open>main.rs\<close>)\<close>

datatype screen_event = Ui ui_event | Log_Out

definition nav_group :: "string \<Rightarrow> string \<Rightarrow> bool \<Rightarrow> ui_event \<Rightarrow> ui_event view list \<Rightarrow> ui_event view" where
  "nav_group label icon_name is_open e kids = el ''div'' ''nav-group''
     (button ''nav-item nav-group-head'' False [e]
        [icon icon_name 16, plain ''span'' [Text label],
         el ''span'' (''nav-chevron'' @ (if is_open then '' open'' else [])) [icon ''chevron'' 12]]
      # only is_open (el ''div'' ''nav-group-children'' kids))"

definition nav_leaf :: "string \<Rightarrow> string \<Rightarrow> nat \<Rightarrow> shell \<Rightarrow> ui_event view" where
  "nav_leaf name label i s =
     button (if sh_tab s = i then ''nav-item active'' else ''nav-item'') False [Navigate i]
       ([icon name 16, plain ''span'' [Text label]] @ only (sh_pending s = Some i) (spinner 12))"

definition nav_view :: "shell \<Rightarrow> ui_event view" where
  "nav_view s = el ''nav'' ''nav''
     [nav_group lb_manage ''sources'' (''subs'' \<in> sh_open_groups s) (Toggle_Group ''subs'')
        [nav_group lb_single_group ''combineds'' (''single'' \<in> sh_open_groups s) (Toggle_Group ''single'')
           [nav_leaf ''local'' lb_local 0 s, nav_leaf ''remote'' lb_remote 1 s],
         nav_leaf ''combineds'' lb_combineds 2 s],
      nav_leaf ''clash'' lb_clash 3 s, nav_leaf ''config'' lb_config 4 s]"

definition content_view :: "string \<Rightarrow> (string \<Rightarrow> clipboard) \<Rightarrow> shell \<Rightarrow> ui_event view list" where
  "content_view origin clip s =
     (case sh_content s of
        None \<Rightarrow> []
      | Some Page_Loading \<Rightarrow> [el ''div'' ''page-loading'' [spinner 28]]
      | Some (Sources_Page kind) \<Rightarrow> sources_view kind (sh_store s) (sh_sources s) (sh_editor s)
      | Some Combineds_Page \<Rightarrow> combineds_view origin clip (sh_store s) (sh_combineds s)
      | Some Clash_Config_Page \<Rightarrow> clash_view (sh_store s) (sh_clash s)
      | Some Config_Page \<Rightarrow> config_view (sh_store s) (sh_config s))"

definition shell_view :: "string \<Rightarrow> (string \<Rightarrow> clipboard) \<Rightarrow> shell \<Rightarrow> screen_event view" where
  "shell_view origin clip s = el ''div'' ''app-shell''
     ([el ''div'' ''topbar''
         [button ''btn btn-ghost btn-sm topbar-menu'' False [Ui Open_Menu] [icon ''menu'' 20],
          el ''div'' ''topbar-brand'' [icon ''logo'' 20, plain ''span'' [Text ''sub-merge'']]]]
      @ only (sh_menu_open s) (Element ''div'' [(''class'', ''drawer-overlay'')] [(''onclick'', \<lambda>_. [Ui Close_Menu])] [])
      @ [el ''aside'' (if sh_menu_open s then ''sidebar open'' else ''sidebar'')
           [el ''div'' ''sidebar-brand'' [icon ''logo'' 22, plain ''span'' [Text ''sub-merge'']],
            map_view Ui (nav_view s),
            el ''div'' ''sidebar-footer''
              [el ''span'' ''sidebar-version'' [Text ''v0.0.1''],
               button ''btn btn-ghost btn-sm'' False [Log_Out] [icon ''logout'' 14, Text lb_logout]]],
         el ''main'' ''main'' [el ''div'' ''page-wrap'' (map (map_view Ui) (content_view origin clip s))]])"

text \<open>What \<open>App\<close> shows inside the toasts of the shell.\<close>

definition screen :: "string \<Rightarrow> (string \<Rightarrow> clipboard) \<Rightarrow> shell \<Rightarrow> screen_event view list" where
  "screen origin clip s = [map_view Ui (toast_stack (sh_toasts s)), shell_view origin clip s]"

definition checking_view :: "'e view" where
  "checking_view = el ''div'' ''login-wrap'' [el ''div'' ''login-card'' [el ''div'' ''login-logo'' [spinner 40]]]"

section \<open>What is offered\<close>

lemma all_clicks_map: "all_clicks (map (map_view f) vs) = map f (all_clicks vs)"
  by (induction vs) (simp_all add: all_clicks_def clicks_map)

lemma all_clicks_map_simple:
  "(\<And>x. x \<in> set xs \<Longrightarrow> clicks (g x) = h x) \<Longrightarrow> all_clicks (map g xs) = concat (map h xs)"
  unfolding all_clicks_def by (induction xs) auto

lemma clicks_parts [view_simps]:
  "clicks (kind_badge k) = []" "clicks (field_box kids) = all_clicks kids"
  "clicks (busy_button c b e l) = (if b then [] else [e])"
  "clicks (Element ''option'' as [] [Text t]) = []"
  by (simp_all add: kind_badge_def field_box_def busy_button_def view_simps)

lemma clicks_headers [view_simps]: "clicks (headers_row ls) = []"
  using all_clicks_map_simple [of ls "\<lambda>l. plain ''th'' [Text l] :: 'a view" "\<lambda>_. []"]
  by (simp add: headers_row_def view_simps)

definition row_clicks :: "source_dto \<Rightarrow> ui_event list" where
  "row_clicks s = [Edit (Preview_Source (Some (sd_id s))), Edit (Edit_Source s), Edit (Ask_Delete_Source (sd_id s) (sd_name s))]"

lemma clicks_source_row: "clicks (source_row_view s) = row_clicks s"
  by (simp add: source_row_view_def row_clicks_def view_simps)

lemma clicks_source_table: "clicks (source_table_view ss) = concat (map row_clicks ss)"
  by (simp add: source_table_view_def view_simps all_clicks_map_simple [of ss source_row_view, OF clicks_source_row])

definition confirm_clicks :: "confirm_state \<Rightarrow> 'e \<Rightarrow> 'e \<Rightarrow> 'e list" where
  "confirm_clicks st cancel confirm = (if cf_open st then [cancel, cancel, confirm] else [])"

lemma clicks_confirm: "all_clicks (confirm_view st cancel confirm) = confirm_clicks st cancel confirm"
  by (simp add: confirm_view_def confirm_clicks_def view_simps click_names_def)

lemma clicks_add_form: "clicks (add_form_view kind p) = (if sp_adding p then [] else [Submit Adding_Source])"
  by (simp add: add_form_view_def view_simps)

lemma clicks_editor: "clicks (editor_view src ed) =
    [Edit Cancel_Editor, Edit Cancel_Editor] @ (if ed_saving ed then [] else [Submit Saving_Source])"
  by (simp add: editor_view_def view_simps click_names_def)

theorem sources_offers:
  "all_clicks (sources_view kind d p ed) =
     (if sp_adding p then [] else [Submit Adding_Source])
     @ concat (map row_clicks (source_list kind d))
     @ (case (sp_editing p, ed) of
          (Some _, Some e) \<Rightarrow> [Edit Cancel_Editor, Edit Cancel_Editor] @ (if ed_saving e then [] else [Submit Saving_Source])
        | _ \<Rightarrow> [])
     @ (if sp_previewing p = None then [] else [Edit (Preview_Source None)])
     @ confirm_clicks (sp_confirm p) (Edit Cancel_Confirm) (Submit Deleting_Source)"
  by (auto simp: sources_view_def view_simps clicks_add_form clicks_source_table clicks_confirm clicks_editor
      click_names_def split: option.split)

end
