(* ===== verification/Web_Forms.thy ===== *)
theory Web_Forms
  imports Web_Screen
begin

text \<open>
  The screen and the shell together: a user clicks what the screen offers, so the forms that turn
  their button into a spinner have one request under way at most.
\<close>

section \<open>Forms\<close>

definition forms :: "page_call list" where
  "forms = [Adding_Source, Saving_Source, Saving_Combined, Changing_Password, Saving_Setting, Saving_Template]"

text \<open>The form has been sent and not been answered, as its own signal says.\<close>

definition busy_form :: "page_call \<Rightarrow> shell \<Rightarrow> bool" where
  "busy_form c s =
     (case c of
        Adding_Source \<Rightarrow> sp_adding (sh_sources s)
      | Saving_Source \<Rightarrow> (case sh_editor s of None \<Rightarrow> False | Some ed \<Rightarrow> ed_saving ed)
      | Saving_Combined \<Rightarrow> cp_saving (sh_combineds s)
      | Changing_Password \<Rightarrow> gp_changing (sh_config s)
      | Saving_Setting \<Rightarrow> gp_setting_saving (sh_config s)
      | Saving_Template \<Rightarrow> lp_saving (sh_clash s)
      | _ \<Rightarrow> False)"

definition under_way :: "page_call \<Rightarrow> shell \<Rightarrow> nat" where
  "under_way c s = length (filter (\<lambda>q. fst q = c) (sh_calls s))"

section \<open>What the screen offers\<close>

lemma in_clicks_map: "e \<in> set (all_clicks (map g xs)) \<longleftrightarrow> (\<exists>x \<in> set xs. e \<in> set (clicks (g x)))"
  by (auto simp: all_clicks_def)

lemma sources_submit: "c \<in> set forms \<Longrightarrow> Submit c \<in> set (all_clicks (sources_view kind d p ed)) \<Longrightarrow>
    c = Adding_Source \<and> \<not> sp_adding p \<or> (c = Saving_Source \<and> (\<exists>e. ed = Some e \<and> \<not> ed_saving e))"
  unfolding sources_offers
  by (auto simp: forms_def row_clicks_def confirm_clicks_def split: if_splits option.splits)

lemma combined_row_submit: "Submit c \<notin> set (clicks (combined_row_view origin clip p x))"
  by (auto simp: combined_row_view_def link_button_def view_simps)

lemma member_row_submit: "Submit c \<notin> set (clicks (member_row_view f x))"
  by (auto simp: member_row_view_def view_simps flag_def click_names_def)

lemma form_submit: "Submit c \<in> set (all_clicks (form_view d p)) \<Longrightarrow> c = Saving_Combined \<and> \<not> cp_saving p"
  by (auto simp: form_view_def Let_def view_simps click_names_def in_clicks_map member_row_submit
      split: if_splits)

lemma combineds_submit: "c \<in> set forms \<Longrightarrow> Submit c \<in> set (all_clicks (combineds_view origin clip d p)) \<Longrightarrow>
    c = Saving_Combined \<and> \<not> cp_saving p"
  by (auto simp: combineds_view_def Let_def view_simps click_names_def in_clicks_map combined_row_submit
      clicks_confirm confirm_clicks_def forms_def dest!: form_submit split: if_splits option.splits)

lemma config_submit: "Submit c \<in> set (all_clicks (config_view d p)) \<Longrightarrow>
    c = Changing_Password \<and> \<not> gp_changing p \<or> c = Saving_Setting \<and> \<not> gp_setting_saving p"
  by (auto simp: config_view_def account_view_def output_view_def password_input_def view_simps flag_def
      click_names_def split: if_splits)

lemma clash_submit: "Submit c \<in> set (all_clicks (clash_view d p)) \<Longrightarrow> c = Saving_Template \<and> \<not> lp_saving p"
  by (auto simp: clash_view_def view_simps click_names_def split: if_splits)

lemma nav_submit: "Submit c \<notin> set (clicks (nav_view s))"
  by (simp add: nav_view_def nav_group_def nav_leaf_def view_simps)

lemma toast_submit: "Submit c \<notin> set (clicks (toast_stack ts))"
  by (simp add: toast_stack_def toast_card_def view_simps in_clicks_map)

lemma screen_submit:
  assumes "c \<in> set forms" and "Ui (Submit c) \<in> set (all_clicks (screen origin clip s))"
  shows "\<not> busy_form c s"
proof -
  have "Submit c \<in> set (all_clicks (content_view origin clip s))"
    using assms(2) nav_submit [of c s] toast_submit [of c "sh_toasts s"]
    by (auto simp: screen_def shell_view_def view_simps clicks_map all_clicks_map click_names_def split: if_splits)
  then have offered: "Submit c \<in> set (all_clicks (content_view origin clip s))" .
  show ?thesis
  proof (cases "sh_content s")
    case None
    with offered show ?thesis by (simp add: content_view_def view_simps)
  next
    case (Some k)
    note shown = offered [unfolded content_view_def Some option.case]
    show ?thesis
    proof (cases k)
      case Page_Loading
      with shown show ?thesis by (simp add: view_simps)
    next
      case (Sources_Page kind)
      with shown sources_submit [OF assms(1)] show ?thesis by (fastforce simp: busy_form_def)
    next
      case Combineds_Page
      with shown combineds_submit [OF assms(1)] show ?thesis by (fastforce simp: busy_form_def)
    next
      case Clash_Config_Page
      with shown clash_submit show ?thesis by (fastforce simp: busy_form_def)
    next
      case Config_Page
      with shown config_submit show ?thesis by (fastforce simp: busy_form_def)
    qed
  qed
qed

section \<open>What an event does to the forms\<close>

lemma run_effects_forms:
  "sh_calls (run_effects sc es s) = sh_calls s" "busy_form c (run_effects sc es s) = busy_form c s"
proof -
  have "sh_calls (run_effect sc e s) = sh_calls s \<and> busy_form c (run_effect sc e s) = busy_form c s" for e s
    by (cases e) (simp_all add: run_effect_def busy_form_def split: page_call.split)
  then have "sh_calls (run_effects sc es s) = sh_calls s \<and> busy_form c (run_effects sc es s) = busy_form c s"
    unfolding run_effects_def by (induction es arbitrary: s) simp_all
  then show "sh_calls (run_effects sc es s) = sh_calls s" "busy_form c (run_effects sc es s) = busy_form c s"
    by simp_all
qed

lemma busy_form_frame:
  assumes "sp_adding (sh_sources s') = sp_adding (sh_sources s)"
    "map_option ed_saving (sh_editor s') = map_option ed_saving (sh_editor s)"
    "cp_saving (sh_combineds s') = cp_saving (sh_combineds s)"
    "gp_changing (sh_config s') = gp_changing (sh_config s)"
    "gp_setting_saving (sh_config s') = gp_setting_saving (sh_config s)"
    "lp_saving (sh_clash s') = lp_saving (sh_clash s)"
  shows "busy_form c s' = busy_form c s"
proof -
  have "(case sh_editor s' of None \<Rightarrow> False | Some ed \<Rightarrow> ed_saving ed)
      = (case sh_editor s of None \<Rightarrow> False | Some ed \<Rightarrow> ed_saving ed)"
    using assms(2) by (cases "sh_editor s'"; cases "sh_editor s") simp_all
  with assms show ?thesis by (cases c) (simp_all add: busy_form_def)
qed

named_theorems edit_simps \<open>the operations behind an edit of a page\<close>

lemmas [edit_simps] = ask_delete_source_def open_create_def open_edit_def toggle_member_def
  ask_delete_combined_def copy_done_def copied_timeout_def adopt_setting_def adopt_template_def Let_def

lemma edit_page_calls: "sh_calls (edit_page e s) = sh_calls s"
  by (cases e) (simp_all add: edit_page_def)

lemma edit_page_forms: "busy_form c (edit_page e s) = busy_form c s"
  by (rule busy_form_frame; cases e; simp add: edit_page_def edit_simps option.map_comp comp_def split: option.split sum.split)


text \<open>An answer ends its own call and no other.\<close>

lemma page_reply_calls: "sh_calls (page_reply c r s) = sh_calls s"
  by (cases c) (simp_all add: page_reply_def run_effects_forms case_prod_beta split: option.split)

named_theorems form_simps \<open>the forms of a shell with one page replaced\<close>

lemma busy_form_page [form_simps]:
  "busy_form d (s\<lparr>sh_sources := p\<rparr>) = (if d = Adding_Source then sp_adding p else busy_form d s)"
  "busy_form d (s\<lparr>sh_editor := Some e\<rparr>) = (if d = Saving_Source then ed_saving e else busy_form d s)"
  "busy_form d (s\<lparr>sh_combineds := q\<rparr>) = (if d = Saving_Combined then cp_saving q else busy_form d s)"
  "busy_form d (s\<lparr>sh_config := g\<rparr>) =
     (if d = Changing_Password then gp_changing g else if d = Saving_Setting then gp_setting_saving g
      else busy_form d s)"
  "busy_form d (s\<lparr>sh_clash := l\<rparr>) = (if d = Saving_Template then lp_saving l else busy_form d s)"
  by (cases d; simp add: busy_form_def)+

lemma config_flags:
  "busy_form Changing_Password s = gp_changing (sh_config s)"
  "busy_form Saving_Setting s = gp_setting_saving (sh_config s)"
  by (simp_all add: busy_form_def)

lemma page_reply_forms: "d \<noteq> c \<Longrightarrow> busy_form d (page_reply c r s) = busy_form d s"
  by (cases c) (auto simp: page_reply_def run_effects_forms case_prod_beta form_simps config_flags
      change_reply_def save_setting_reply_def split: option.split sum.split)

section \<open>One call for a form\<close>

text \<open>A form has a call under way only while its flag is up, and one at most.\<close>

definition waits :: "page_call \<Rightarrow> shell \<Rightarrow> bool" where
  "waits c s \<longleftrightarrow> under_way c s \<le> (if busy_form c s then 1 else 0)"

lemma waits_frame:
  "sh_calls s' = sh_calls s \<Longrightarrow> busy_form c s' = busy_form c s \<Longrightarrow> waits c s \<Longrightarrow> waits c s'"
  by (simp add: waits_def under_way_def)

text \<open>A form that was idle sends a request and raises its flag, or neither.\<close>

definition sent_well :: "page_call \<Rightarrow> shell \<Rightarrow> shell \<Rightarrow> bool" where
  "sent_well c s s' \<longleftrightarrow>
     (\<forall>d. d \<noteq> c \<longrightarrow> under_way d s' = under_way d s \<and> (d \<in> set forms \<longrightarrow> busy_form d s' = busy_form d s)) \<and>
     (c \<in> set forms \<longrightarrow> \<not> busy_form c s \<longrightarrow>
        (under_way c s' = under_way c s \<and> \<not> busy_form c s') \<or> (under_way c s' = Suc (under_way c s) \<and> busy_form c s'))"

lemma spawn_call_forms:
  "busy_form d (spawn_call c q s) = busy_form d s"
  "under_way d (spawn_call c q s) = (if q \<noteq> None \<and> d = c then Suc (under_way d s) else under_way d s)"
  by (cases q; cases d; simp add: spawn_call_def busy_form_def under_way_def)+

lemma under_way_page [form_simps]:
  "under_way d (s\<lparr>sh_sources := p\<rparr>) = under_way d s" "under_way d (s\<lparr>sh_editor := e\<rparr>) = under_way d s"
  "under_way d (s\<lparr>sh_combineds := q\<rparr>) = under_way d s" "under_way d (s\<lparr>sh_config := g\<rparr>) = under_way d s"
  "under_way d (s\<lparr>sh_clash := l\<rparr>) = under_way d s"
  by (simp_all add: under_way_def)

lemma own_flag:
  "sp_adding (sh_sources s) = busy_form Adding_Source s" "cp_saving (sh_combineds s) = busy_form Saving_Combined s"
  "lp_saving (sh_clash s) = busy_form Saving_Template s"
  "gp_changing (sh_config s) = busy_form Changing_Password s"
  "gp_setting_saving (sh_config s) = busy_form Saving_Setting s"
  by (simp_all add: busy_form_def)

lemma editor_flag: "sh_editor s = Some ed \<Longrightarrow> ed_saving ed = busy_form Saving_Source s"
  by (simp add: busy_form_def)

lemmas sending = sent_well_def submit_def case_prod_beta spawn_call_forms form_simps own_flag Let_def forms_def

lemma submit_sent_well: "sent_well c s (submit W c s)"
proof (cases c)
  case Adding_Source
  then show ?thesis by (auto simp: sending add_source_def split: option.split content.split)
next
  case Deleting_Source
  then show ?thesis by (auto simp: sending confirm_delete_source_def split: option.split content.split)
next
  case Saving_Source
  then show ?thesis
    by (auto simp: sending save_source_def editor_flag split: option.split content.split)
next
  case Saving_Combined
  then show ?thesis by (auto simp: sending save_combined_def split: option.split content.split)
next
  case Deleting_Combined
  then show ?thesis by (auto simp: sending confirm_delete_combined_def split: option.split content.split)
next
  case Changing_Password
  then show ?thesis by (auto simp: sending do_change_def split: option.split content.split)
next
  case Saving_Setting
  then show ?thesis by (auto simp: sending save_setting_def split: option.split content.split)
next
  case Saving_Template
  then show ?thesis by (auto simp: sending save_template_def split: option.split content.split)
qed

lemma submit_waits:
  assumes "waits d s" "d \<in> set forms" "c \<in> set forms \<Longrightarrow> \<not> busy_form c s"
  shows "waits d (submit W c s)"
  using assms submit_sent_well [of c s W] by (cases "d = c") (auto simp: sent_well_def waits_def)


lemma mount_page_waits: "waits d (mount_page k s)"
  by (simp add: mount_page_def waits_def under_way_def Let_def)

lemma under_way_mounted: "d \<noteq> Saving_Source \<Longrightarrow> under_way d (mount_editor s) = under_way d s"
  by (auto simp: mount_editor_def under_way_def filter_filter comp_def case_prod_beta
      split: option.split intro!: arg_cong [where f = length] filter_cong)

lemma mount_editor_waits:
  assumes "waits d s" shows "waits d (mount_editor s)"
proof (cases "d = Saving_Source")
  case True
  with assms show ?thesis
    by (auto simp: mount_editor_def waits_def under_way_def busy_form_def open_editor_def case_prod_beta
        split: option.split)
next
  case False
  moreover have "busy_form d (mount_editor s) = busy_form d s"
    using False by (cases d) (simp_all add: mount_editor_def busy_form_def split: option.split)
  ultimately show ?thesis using assms by (simp add: waits_def under_way_mounted)
qed

text \<open>An event that leaves the pages and their calls alone.\<close>

lemma waits_pages:
  assumes "waits d s" "sh_calls s' = sh_calls s" "sh_sources s' = sh_sources s" "sh_editor s' = sh_editor s"
    "sh_combineds s' = sh_combineds s" "sh_config s' = sh_config s" "sh_clash s' = sh_clash s"
  shows "waits d s'"
  by (rule waits_frame [OF assms(2) _ assms(1)], rule busy_form_frame) (simp_all add: assms(2-))

lemma preload_waits: "waits d s \<Longrightarrow> waits d (auto_preload s)"
  by (erule waits_pages) (simp_all add: auto_preload_def)

lemma render_waits: "waits d s \<Longrightarrow> waits d (render_shell s)"
  by (auto simp: render_shell_def Let_def intro!: mount_editor_waits mount_page_waits preload_waits)

lemma under_way_cut:
  assumes "nth_option (sh_calls s) i = Some q"
  shows "under_way d (s\<lparr>sh_calls := take i (sh_calls s) @ drop (Suc i) (sh_calls s)\<rparr>)
    = under_way d s - (if fst q = d then 1 else 0)"
proof -
  have i: "i < length (sh_calls s)" "sh_calls s ! i = q"
    using assms by (auto simp: nth_option_def split: if_splits)
  have "filter P (sh_calls s) = filter P (take i (sh_calls s)) @ filter P [q] @ filter P (drop (Suc i) (sh_calls s))"
    for P using id_take_nth_drop [OF i(1)] i(2) by (metis append_Cons append_Nil filter_append)
  from arg_cong [OF this, of length, of "\<lambda>x. fst x = d"] show ?thesis by (simp add: under_way_def)
qed

lemma busy_form_calls: "busy_form d (s\<lparr>sh_calls := qs\<rparr>) = busy_form d s"
  by (cases d) (simp_all add: busy_form_def)

lemma answer_waits:
  assumes "waits d s" shows "waits d (answer_call i r s)"
proof (cases "nth_option (sh_calls s) i")
  case None
  with assms show ?thesis by (simp add: answer_call_def)
next
  case (Some q)
  let ?s = "s\<lparr>sh_calls := take i (sh_calls s) @ drop (Suc i) (sh_calls s)\<rparr>"
  have "under_way d (page_reply (fst q) r ?s) = under_way d s - (if fst q = d then 1 else 0)"
    using under_way_cut [OF Some, of d] by (simp add: under_way_def page_reply_calls)
  moreover have "fst q \<noteq> d \<Longrightarrow> busy_form d (page_reply (fst q) r ?s) = busy_form d s"
    by (simp add: page_reply_forms busy_form_calls)
  ultimately show ?thesis
    using assms by (cases "fst q = d") (auto simp: answer_call_def Some case_prod_beta waits_def split: if_splits)
qed

lemma go_waits: "waits d s \<Longrightarrow> waits d (go i s)"
  by (erule waits_pages) (simp_all add: go_def Let_def)

lemma handle_waits:
  assumes "waits d s" "d \<in> set forms" "\<And>c. e = Submit c \<Longrightarrow> c \<in> set forms \<Longrightarrow> \<not> busy_form c s"
  shows "waits d (handle W e s)"
proof (cases e)
  case (Edit x)
  with assms(1) show ?thesis
    using waits_frame [OF edit_page_calls edit_page_forms] by (simp add: handle_def)
next
  case (Submit c)
  with assms show ?thesis by (simp add: handle_def submit_waits)
next
  case (Navigate i)
  with assms(1) show ?thesis by (simp add: handle_def go_waits)
next
  case Render
  with assms(1) show ?thesis by (simp add: handle_def render_waits)
next
  case (Answer_Call i r)
  with assms(1) show ?thesis by (simp add: handle_def answer_waits)
qed (rule waits_pages [OF assms(1)]; simp add: handle_def toggle_group_def escape_key_def media_change_def
    commit_effect_def breakpoint_effect_def scroll_effect_def split: option.split)+

end
