(* ===== verification/Web_Properties.thy ===== *)
theory Web_Properties
  imports Web_Shell Web_Login Web_Preview
begin

text \<open>
  What the front end promises: every event of the shell keeps the invariant of the cache and the
  data it shows, and a navigation opens its tab once its units have settled, except when the load
  of one of them was dropped with the component that started it.
\<close>

section \<open>Every event works on the cache by its operations\<close>

definition stepped :: "data_store \<Rightarrow> data_store \<Rightarrow> bool" where
  "stepped d d' \<longleftrightarrow> (\<exists>f. store_operation f \<and> d' = f d)"

lemma stepped_refl [simp, intro]: "stepped d d"
  unfolding stepped_def using store_operation_id by (intro exI [of _ "\<lambda>s. s"]) simp

lemma steppedI: "store_operation f \<Longrightarrow> stepped d (f d)"
  by (auto simp: stepped_def)

lemma stepped_trans [trans]: "stepped d d' \<Longrightarrow> stepped d' d'' \<Longrightarrow> stepped d d''"
  unfolding stepped_def using store_operation_comp by blast

lemma stepped_keeps:
  assumes "stepped d d'" and "store_ok d"
  shows "store_ok d'" and "has_data k d \<Longrightarrow> has_data k d'" and "orphaned k d \<Longrightarrow> orphaned k d'"
    and "status_of k d \<noteq> Idle \<Longrightarrow> status_of k d' \<noteq> Idle"
  using assms by (auto simp: stepped_def store_operation_def)

lemmas cache_steps [intro] =
  steppedI [OF load.store_operation_axioms] steppedI [OF ensure_all.store_operation_axioms]
  steppedI [OF unmounted.store_operation_axioms] steppedI [OF start_event.store_operation_axioms]
  steppedI [OF answer_event.store_operation_axioms] steppedI [OF token.store_operation_axioms]

lemma run_effect_store: "stepped (sh_store s) (sh_store (run_effect sc e s))"
  by (cases e) (auto simp: run_effect_def refresh_def)

lemma run_effects_store: "stepped (sh_store s) (sh_store (run_effects sc es s))"
  unfolding run_effects_def
proof (induction es arbitrary: s)
  case (Cons e es)
  then show ?case using run_effect_store [of s sc e] by (auto intro: stepped_trans)
qed simp

lemma run_effects_on:
  "sh_store t = sh_store s \<Longrightarrow> stepped (sh_store s) (sh_store (run_effects sc es t))"
  using run_effects_store [of t sc es] by simp

lemma spawn_call_frame [simp]:
  "sh_store (spawn_call c q s) = sh_store s" "sh_tab (spawn_call c q s) = sh_tab s"
  "sh_pending (spawn_call c q s) = sh_pending s"
  by (simp_all add: spawn_call_def split: option.split)

lemma submit_frame [simp]:
  "sh_store (submit W c s) = sh_store s" "sh_tab (submit W c s) = sh_tab s"
  "sh_pending (submit W c s) = sh_pending s"
  by (simp_all add: submit_def Let_def split: page_call.split option.split content.split prod.split)

lemma edit_page_frame [simp]:
  "sh_store (edit_page e s) = sh_store s" "sh_tab (edit_page e s) = sh_tab s"
  "sh_pending (edit_page e s) = sh_pending s"
  by (cases e; simp add: edit_page_def)+

lemma run_effect_frame [simp]:
  "sh_tab (run_effect sc e s) = sh_tab s" "sh_pending (run_effect sc e s) = sh_pending s"
  by (cases e; simp add: run_effect_def)+

lemma run_effects_frame [simp]:
  "sh_tab (run_effects sc es s) = sh_tab s" "sh_pending (run_effects sc es s) = sh_pending s"
  by (induction es arbitrary: s) (simp_all add: run_effects_def)

lemma page_reply_store: "stepped (sh_store s) (sh_store (page_reply c r s))"
  by (cases c) (auto simp: page_reply_def split: prod.split option.split intro!: run_effects_on)

lemma page_reply_frame [simp]:
  "sh_tab (page_reply c r s) = sh_tab s" "sh_pending (page_reply c r s) = sh_pending s"
  by (cases c; simp add: page_reply_def split: prod.split option.split)+

lemma answer_call_store: "stepped (sh_store s) (sh_store (answer_call i r s))"
  using page_reply_store [of "s\<lparr>sh_calls := take i (sh_calls s) @ drop (Suc i) (sh_calls s)\<rparr>"]
  by (auto simp: answer_call_def split: option.split)

lemma answer_call_frame [simp]:
  "sh_tab (answer_call i r s) = sh_tab s" "sh_pending (answer_call i r s) = sh_pending s"
  by (simp_all add: answer_call_def split: option.split prod.split)

lemma auto_preload_store: "stepped (sh_store s) (sh_store (auto_preload s))"
  by (auto simp: auto_preload_def)

lemma mount_page_store: "stepped (sh_store s) (sh_store (mount_page c s))"
  by (auto simp: mount_page_def Let_def intro: stepped_trans)

lemma mount_page_frame [simp]:
  "sh_tab (mount_page c s) = sh_tab s" "sh_pending (mount_page c s) = sh_pending s"
  by (simp_all add: mount_page_def Let_def)

lemma mount_editor_store: "stepped (sh_store s) (sh_store (mount_editor s))"
  by (auto simp: mount_editor_def split: option.split)

lemma mount_editor_frame [simp]:
  "sh_tab (mount_editor s) = sh_tab s" "sh_pending (mount_editor s) = sh_pending s"
  by (simp_all add: mount_editor_def split: option.split)

lemma render_store: "stepped (sh_store s) (sh_store (render_shell s))"
  by (auto simp: render_shell_def Let_def
      intro: stepped_trans [OF auto_preload_store] stepped_trans [OF mount_page_store] mount_editor_store)

lemma render_nav:
  "sh_tab (render_shell s) = sh_tab s" "sh_pending (render_shell s) = sh_pending (auto_preload s)"
  by (simp_all add: render_shell_def Let_def auto_preload_def)

lemma go_store: "stepped (sh_store s) (sh_store (go i s))"
  by (auto simp: go_def Let_def)

lemma handle_store: "stepped (sh_store s) (sh_store (handle W e s))"
  by (cases e)
     (auto simp: handle_def toggle_group_def escape_key_def media_change_def commit_effect_def
       breakpoint_effect_def scroll_effect_def split: option.split
       intro: go_store render_store answer_call_store)

section \<open>The invariant of the shell\<close>

definition shell_ok :: "shell \<Rightarrow> bool" where
  "shell_ok s \<longleftrightarrow> store_ok (sh_store s) \<and> sh_tab s < 5
     \<and> (\<forall>p. sh_pending s = Some p \<longrightarrow>
          p < 5 \<and> (\<forall>k \<in> set (required_units p). status_of k (sh_store s) \<noteq> Idle))"

lemma shell_ok_frame:
  assumes "shell_ok s" and "stepped (sh_store s) (sh_store s')"
    and "sh_tab s' = sh_tab s" and "sh_pending s' = sh_pending s"
  shows "shell_ok s'"
  using assms stepped_keeps [OF assms(2)] by (auto simp: shell_ok_def)

lemma shell_ok_pending:
  assumes "shell_ok s" and "p < 5" and "sh_tab s' = sh_tab s" and "sh_pending s' = Some p"
    and "sh_store s' = ensure_loaded Shell_Scope p (sh_store s)"
  shows "shell_ok s'"
  using assms ensure_all.keeps_ok ensure_loaded_touched by (auto simp: shell_ok_def)

lemma shell_ok_go: "shell_ok s \<Longrightarrow> i < 5 \<Longrightarrow> shell_ok (go i s)"
  by (cases "sh_tab s = i \<or> sh_pending s = Some i \<or> all_ready i (sh_store s)")
     (auto simp: go_def Let_def shell_ok_def intro: ensure_all.keeps_ok dest: ensure_loaded_touched)

lemma shell_ok_auto_preload: "shell_ok s \<Longrightarrow> shell_ok (auto_preload s)"
  by (cases "sh_pending s = None \<and> any_idle (sh_tab s) (sh_store s)")
     (auto simp: auto_preload_def shell_ok_def intro: ensure_all.keeps_ok dest: ensure_loaded_touched)

lemma shell_ok_render: "shell_ok s \<Longrightarrow> shell_ok (render_shell s)"
proof -
  assume ok: "shell_ok s"
  have "stepped (sh_store (auto_preload s)) (sh_store (render_shell s))"
    by (auto simp: render_shell_def Let_def intro: stepped_trans [OF mount_page_store] mount_editor_store)
  from shell_ok_frame [OF shell_ok_auto_preload [OF ok] this] show ?thesis
    by (simp add: render_nav auto_preload_def)
qed

lemma shell_ok_commit: "shell_ok s \<Longrightarrow> shell_ok (commit_effect s)"
  by (auto simp: commit_effect_def shell_ok_def split: option.split)

text \<open>Only three events move the navigation.\<close>

lemma handle_frame:
  assumes "\<forall>i. e \<noteq> Navigate i" and "e \<noteq> Render" and "e \<noteq> Commit_Effect"
  shows "sh_tab (handle W e s) = sh_tab s \<and> sh_pending (handle W e s) = sh_pending s"
  using assms
  by (cases e) (simp_all add: handle_def toggle_group_def escape_key_def media_change_def
      breakpoint_effect_def scroll_effect_def)

lemma shell_ok_handle:
  assumes "shell_ok s"
  shows "shell_ok (handle W e s)"
proof -
  consider i where "e = Navigate i" | "e = Render" | "e = Commit_Effect"
    | "\<forall>i. e \<noteq> Navigate i" "e \<noteq> Render" "e \<noteq> Commit_Effect" by blast
  then show ?thesis
  proof cases
    case 4
    then show ?thesis using shell_ok_frame [OF assms handle_store] handle_frame by blast
  qed (use assms in \<open>simp_all add: handle_def shell_ok_go shell_ok_render shell_ok_commit\<close>)
qed

lemma new_shell_ok: "shell_ok (new_shell token mobile)"
  by (simp add: shell_ok_def new_shell_def)

lemma run_events_append: "run_events W (es @ fs) s = run_events W fs (run_events W es s)"
  by (simp add: run_events_def)

lemma run_events_ok: "shell_ok s \<Longrightarrow> shell_ok (run_events W es s)"
  by (induction es arbitrary: s) (simp_all add: run_events_def shell_ok_handle)

lemma run_events_store: "stepped (sh_store s) (sh_store (run_events W es s))"
proof (induction es arbitrary: s)
  case (Cons e es)
  then show ?case using handle_store [of s W e] by (auto simp: run_events_def intro: stepped_trans)
qed (simp add: run_events_def)

section \<open>Navigation\<close>

lemma all_ready_finished: "all_ready p d \<Longrightarrow> all_finished p d"
  by (auto simp: all_ready_def all_finished_def list_all_iff)

lemma all_finished_iff:
  "store_ok d \<Longrightarrow> all_finished p d \<longleftrightarrow> set (required_units p) \<inter> ds_in_flight d = {}"
  using unit_ok_all [of d] by (auto simp: all_finished_def list_all_iff unit_ok_def)

lemma handle_tab: "sh_tab (handle W e s) = sh_tab s \<or> all_finished (sh_tab (handle W e s)) (sh_store s)"
proof -
  consider i where "e = Navigate i" | "e = Render" | "e = Commit_Effect"
    | "\<forall>i. e \<noteq> Navigate i" "e \<noteq> Render" "e \<noteq> Commit_Effect" by blast
  then show ?thesis
  proof cases
    case 1
    then show ?thesis by (auto simp: handle_def go_def Let_def intro: all_ready_finished)
  next
    case 4
    then show ?thesis using handle_frame by blast
  qed (simp_all add: handle_def render_nav commit_effect_def split: option.split)
qed

lemma orphaned_tab_closed:
  assumes "shell_ok s" and "k \<in> set (required_units p)" and "orphaned k (sh_store s)" and "sh_tab s \<noteq> p"
  shows "sh_tab (run_events W es s) \<noteq> p"
  using assms
proof (induction es arbitrary: s)
  case Nil
  then show ?case by (simp add: run_events_def)
next
  case (Cons e es)
  have ok: "store_ok (sh_store s)" using Cons.prems(1) by (simp add: shell_ok_def)
  have "\<not> all_finished p (sh_store s)"
    using all_finished_iff [OF ok] Cons.prems(2,3) by (auto simp: orphaned_def)
  then have "sh_tab (handle W e s) \<noteq> p" using handle_tab [of W e s] Cons.prems(4) by auto
  then have "sh_tab (run_events W es (handle W e s)) \<noteq> p"
    using Cons.prems stepped_keeps(3) [OF handle_store ok] by (intro Cons.IH shell_ok_handle) auto
  then show ?case by (simp add: run_events_def)
qed

definition settle :: "web_reply list \<Rightarrow> ui_event list" where
  "settle rs = concat (map (\<lambda>r. [Start_Load 0, Answer_Load 0 r]) rs)"

lemma run_settle:
  "run_events W (settle rs) s = s\<lparr>sh_store := answer_all W rs (sh_store s)\<rparr>"
  by (induction rs arbitrary: s) (simp_all add: settle_def run_events_def answer_all_def handle_def)

lemma settled_commits:
  assumes "shell_ok s" and "sh_pending s = Some p" and "length (ds_tasks (sh_store s)) \<le> length rs"
    and "\<forall>k \<in> set (required_units p). \<not> orphaned k (sh_store s)"
  shows "sh_tab (run_events W (settle rs @ [Commit_Effect]) s) = p
    \<and> sh_pending (run_events W (settle rs @ [Commit_Effect]) s) = None"
proof -
  let ?d = "answer_all W rs (sh_store s)"
  have "store_ok (sh_store s)" using assms(1) by (simp add: shell_ok_def)
  note settled = answer_all_in_flight [OF this assms(3), of W]
  have "all_finished p ?d"
    using settled assms(4) by (auto simp: all_finished_iff orphaned_def)
  then show ?thesis
    using assms(2) by (simp add: run_events_append run_settle)
      (simp add: run_events_def handle_def commit_effect_def)
qed

text \<open>
  Saving an edit of a source orphans the unit of the sources: the editor's task starts the load
  and then closes the editor, whose unmounting drops the load.
\<close>

lemma saved_edit_orphans:
  assumes "shell_ok s" and "sh_pending s = None" and "sh_content s = Some (content_of s)"
    and "content_of s = Sources_Page kind" and "sh_editor s \<noteq> None"
    and "map_option fst (nth_option (sh_calls s) i) = Some Saving_Source"
    and "request_result r = Inr body" and "Sources_Unit \<notin> ds_in_flight (sh_store s)"
  shows "orphaned Sources_Unit (sh_store (run_events W [Answer_Call i r, Render] s))
    \<and> sh_tab (run_events W [Answer_Call i r, Render] s) = sh_tab s
    \<and> sh_pending (run_events W [Answer_Call i r, Render] s) = None"
proof -
  define t where "t = answer_call i r s"
  have tab: "sh_tab s = 0 \<or> sh_tab s = 1" using assms(4) by (auto simp: content_of_def split: if_splits)
  have t: "sh_store t = load Editor_Scope Sources_Unit (sh_store s)" "sh_tab t = sh_tab s"
      "sh_pending t = None" "sh_content t = sh_content s" "sp_editing (sh_sources t) = None"
      "\<exists>ed. sh_editor t = Some ed"
    using assms by (auto simp: t_def answer_call_def page_reply_def save_source_reply_def
        run_effects_def run_effect_def refresh_def)
  have "status_of Sources_Unit (sh_store t) = Loading"
    using assms(8) by (simp add: t load_def Let_def set_loading_def)
  then have "auto_preload t = t"
    using tab by (auto simp: auto_preload_def any_idle_def required_units.simps t(2) simp del: status_of.simps)
  moreover have "content_of t = content_of s" by (simp add: content_of_def t assms(2))
  ultimately have "sh_store (render_shell t) = unmount Editor_Scope (sh_store t)"
    using t assms(3) by (auto simp: render_shell_def mount_editor_def Let_def)
  moreover have "Sources_Unit \<notin> lt_key ` set (ds_tasks (sh_store s))"
    using assms(1,8) store_ok_task [of "sh_store s"] by (force simp: shell_ok_def)
  ultimately have "orphaned Sources_Unit (sh_store (render_shell t))"
    using assms(8) by (auto simp: t(1) load_def Let_def unmount_def orphaned_def)
  moreover have "sh_tab (render_shell t) = sh_tab s" "sh_pending (render_shell t) = None"
    using \<open>auto_preload t = t\<close> by (simp_all add: render_nav t)
  ultimately show ?thesis by (simp add: run_events_def handle_def t_def)
qed

lemma go_orphaned:
  assumes "shell_ok s" and "k \<in> set (required_units p)" and "orphaned k (sh_store s)"
    and "sh_tab s \<noteq> p" and "sh_pending s = None"
  shows "sh_pending (go p s) = Some p \<and> sh_tab (go p s) \<noteq> p \<and> orphaned k (sh_store (go p s))"
proof -
  have ok: "store_ok (sh_store s)" using assms(1) by (simp add: shell_ok_def)
  have "\<not> all_ready p (sh_store s)"
    using all_finished_iff [OF ok] assms(2,3) all_ready_finished by (auto simp: orphaned_def)
  then show ?thesis
    using assms(4,5) ensure_all.keeps_orphan [OF ok assms(3)] by (simp add: go_def Let_def)
qed

section \<open>Properties\<close>

lemma one_of_each_key: "distinct (map f ts) \<Longrightarrow> length (filter (\<lambda>t. f t = k) ts) \<le> 1"
proof (induction ts)
  case (Cons t ts)
  then have "f t = k \<Longrightarrow> filter (\<lambda>t. f t = k) ts = []" by (auto simp: filter_empty_conv image_iff)
  with Cons show ?case by auto
qed simp

text \<open>
  C39. After any sequence of clicks, renderings, effects and replies, in the order they happen to
  come: a unit of the cache is loading exactly when it is in flight, it has at most one task, a
  ready unit has data and a unit never loaded has none, the current tab and the pending one are
  among the five, and no later sequence takes the data of a unit away.
\<close>

theorem shell_invariant:
  "(status_of k (sh_store (run_events W es (new_shell token mobile))) = Loading)
     = (k \<in> ds_in_flight (sh_store (run_events W es (new_shell token mobile))))
   \<and> length (filter (\<lambda>t. lt_key t = k) (ds_tasks (sh_store (run_events W es (new_shell token mobile))))) \<le> 1
   \<and> status_of k (sh_store (run_events W es (new_shell token mobile)))
       \<in> (if has_data k (sh_store (run_events W es (new_shell token mobile)))
          then {Loading, Ready, Failed} else {Idle, Loading, Failed})
   \<and> sh_tab (run_events W es (new_shell token mobile)) < 5
   \<and> set_option (sh_pending (run_events W es (new_shell token mobile))) \<subseteq> {..<5}
   \<and> {k. has_data k (sh_store (run_events W es (new_shell token mobile)))}
       \<subseteq> {k. has_data k (sh_store (run_events W (es @ fs) (new_shell token mobile)))}"
proof -
  define s where "s = run_events W es (new_shell token mobile)"
  have ok: "shell_ok s" unfolding s_def by (intro run_events_ok new_shell_ok)
  then have d: "store_ok (sh_store s)" by (simp add: shell_ok_def)
  have unit: "unit_ok (sh_store s) k" using d by (rule unit_ok_all)
  have single: "length (filter (\<lambda>t. lt_key t = k) (ds_tasks (sh_store s))) \<le> 1"
    by (rule one_of_each_key) (rule store_ok_distinct [OF d])
  have "status_of k (sh_store s) \<in> (if has_data k (sh_store s) then {Loading, Ready, Failed} else {Idle, Loading, Failed})"
    using unit by (cases "status_of k (sh_store s)") (auto simp: unit_ok_def)
  then show ?thesis
    using unit single ok stepped_keeps(2) [OF run_events_store d]
    by (auto simp: unit_ok_def shell_ok_def run_events_append simp flip: s_def)
qed

text \<open>
  C40. While a navigation waits: if none of its units was orphaned, then once every task in
  flight is started and answered, whatever the replies, the effect opens the tab. If one of them
  was orphaned, because the component that started its load was unmounted, no sequence of events
  opens the tab again. The witness saves an edit of a source, after which the page of the remote
  sources never opens.
\<close>

theorem navigation_settles:
  assumes "s = run_events W es (new_shell token mobile)" and "sh_pending s = Some p"
  shows "(\<forall>rs. length (ds_tasks (sh_store s)) \<le> length rs \<longrightarrow>
            (\<forall>k \<in> set (required_units p). \<not> orphaned k (sh_store s)) \<longrightarrow>
            sh_tab (run_events W (settle rs @ [Commit_Effect]) s) = p)
       \<and> (\<forall>k fs. k \<in> set (required_units p) \<longrightarrow> orphaned k (sh_store s) \<longrightarrow> sh_tab s \<noteq> p \<longrightarrow>
            sh_tab (run_events W fs s) \<noteq> p)"
proof -
  have "shell_ok s" unfolding assms(1) by (intro run_events_ok new_shell_ok)
  then show ?thesis
    using settled_commits [OF _ assms(2)] orphaned_tab_closed by blast
qed

definition sample_web :: web_crates where
  "sample_web =
     \<lparr>sources_from_str = (\<lambda>_. Inr []), combineds_from_str = (\<lambda>_. Inr []),
      account_from_str = (\<lambda>_. Inl ''''), template_from_str = (\<lambda>s. Inr s),
      preview_from_str = (\<lambda>_. Inl ''''), value_from_str = (\<lambda>_. Inr JNull),
      json_text = (\<lambda>_. ''{}''), hash_order = (\<lambda>_. [])\<rparr>"

definition edit_a_source :: "ui_event list" where
  "edit_a_source =
     [Render, Start_Load 0, Answer_Load 0 (Received 200 (Inr ''[]'')), Commit_Effect, Render,
      Edit (Edit_Source \<lparr>sd_id = 1, sd_url = ''u'', sd_name = ''n'', sd_kind = ''single'', sd_created_at = []\<rparr>),
      Render, Submit Saving_Source]"

abbreviation editing_shell :: shell where
  "editing_shell \<equiv> run_events sample_web edit_a_source (new_shell (Some ''t'') False)"

definition save_and_leave :: "ui_event list" where
  "save_and_leave = [Answer_Call 0 (Received 200 (Inr ''{}'')), Render] @ [Navigate 1]"

lemma editing_shell_state:
  "sh_pending editing_shell = None" "sh_tab editing_shell = 0"
  "sh_content editing_shell = Some (Sources_Page ''single'')"
  "content_of editing_shell = Sources_Page ''single''" "sh_editor editing_shell \<noteq> None"
  "map_option fst (nth_option (sh_calls editing_shell) 0) = Some Saving_Source"
  "Sources_Unit \<notin> ds_in_flight (sh_store editing_shell)"
  by code_simp+

lemma edit_and_leave_result:
  defines "s \<equiv> run_events sample_web (edit_a_source @ save_and_leave) (new_shell (Some ''t'') False)"
  shows "sh_pending s = Some 1" and "sh_tab s \<noteq> 1" and "orphaned Sources_Unit (sh_store s)"
proof -
  have ok: "shell_ok editing_shell" by (intro run_events_ok new_shell_ok)
  let ?t = "run_events sample_web [Answer_Call 0 (Received 200 (Inr ''{}'')), Render] editing_shell"
  have "orphaned Sources_Unit (sh_store ?t) \<and> sh_tab ?t = sh_tab editing_shell \<and> sh_pending ?t = None"
    by (rule saved_edit_orphans [OF ok]) (simp_all add: editing_shell_state request_result_def)
  moreover have "shell_ok ?t" using ok by (rule run_events_ok)
  moreover have "Sources_Unit \<in> set (required_units 1)" by code_simp
  ultimately have "sh_pending (go 1 ?t) = Some 1 \<and> sh_tab (go 1 ?t) \<noteq> 1
      \<and> orphaned Sources_Unit (sh_store (go 1 ?t))"
    by (intro go_orphaned) (simp_all add: editing_shell_state)
  moreover have "s = go 1 ?t"
    unfolding s_def save_and_leave_def run_events_append by (simp add: run_events_def handle_def)
  ultimately show "sh_pending s = Some 1" and "sh_tab s \<noteq> 1" and "orphaned Sources_Unit (sh_store s)"
    by simp_all
qed

theorem navigation_settles_witness:
  "\<forall>fs. sh_tab (run_events sample_web fs
           (run_events sample_web (edit_a_source @ save_and_leave) (new_shell (Some ''t'') False))) \<noteq> 1"
proof -
  have "Sources_Unit \<in> set (required_units 1)" by code_simp
  then show ?thesis
    using navigation_settles [OF refl edit_and_leave_result(1)] edit_and_leave_result(2,3) by blast
qed

end
