(* ===== verification/Screen_Properties.thy ===== *)
theory Screen_Properties
  imports Web_Forms Web_Properties
begin

text \<open>
  The screen as the user meets it: which requests the forms can have under way, and what the key
  of the login form does that its button does not.
\<close>

section \<open>Forms send one request\<close>









text \<open>The last input of the login form sends on Enter, whether or not a request is under way.\<close>

lemma fired_icon: "fired name v (icon x n) = []"
proof -
  have "concat (map (fired name v \<circ> (\<lambda>(tag, attrs). Element tag attrs [] [])) shapes) = []"
    for shapes :: "(string \<times> (string \<times> string) list) list"
    by (induction shapes) auto
  then show ?thesis by (auto simp: icon_def split: option.split)
qed

lemma enter_while_loading:
  assumes "lg_needs_setup p = Some False" and "lg_loading p"
  shows "fired ''onkeydown'' ''Enter'' (login_view p) = [Do_Submit]" and "clicks (login_view p) = []"
proof -
  show "clicks (login_view p) = []"
    using assms by (simp add: login_view_def login_body_def login_input_def last_input_def view_simps click_names_def)
  show "fired ''onkeydown'' ''Enter'' (login_view p) = [Do_Submit]"
    using assms by (simp add: login_view_def login_body_def el_def login_input_def last_input_def field_box_def
        fired_icon input_def busy_button_def button_def spinner_def error_text_def only_def)
qed

text \<open>The leaves for the two kinds of sources ask for icons that are not there.\<close>

lemma leaves_without_icon: "icon ''local'' n = Element ''span'' [] [] [] \<and> icon ''remote'' n = Element ''span'' [] [] []"
  by (simp add: icon_def icon_shapes_def)

end
