(* ===== verification/Web_Lifetimes.thy ===== *)
theory Web_Lifetimes
  imports Web_Shell Web_Store
begin

text \<open>
  The shell inside the browser: what outlives a component. \<open>MainShell\<close> registers two listeners
  with the page and takes them back when it is dropped; the timers of \<open>schedule_timeout\<close> are
  given to the browser for good. Each of them writes signals of the component that made it, and
  a write to the signal of a dropped component panics, which in WebAssembly ends the page. Here
  too is the lock of the scrolling, a property of the body that drawer and modals share.
\<close>

section \<open>State\<close>

datatype listener = Breakpoint_Listener | Key_Listener

datatype timer = Toast_Timer u64 | Copied_Timer "string \<times> string"

datatype modal = Editor_Modal | Source_Preview | Combined_Preview

text \<open>
  The live shell with its number, the number of the mounted page, and the guards of the effects
  that run once; then the two slots of the module, what the browser holds, and the body.
\<close>

record browser =
  br_window :: bool
  br_match_media :: bool
  br_shell :: "(nat \<times> shell) option"
  br_page :: "nat option"
  br_next :: nat
  br_toast_ids :: u64
  br_mq_inited :: bool
  br_esc_inited :: bool
  br_scheduled :: "u64 set"
  br_modals :: "modal set"
  br_mq_slot :: "nat option"
  br_key_slot :: "nat option"
  br_listeners :: "(listener \<times> nat) list"
  br_timers :: "(timer \<times> nat) list"
  br_locked :: bool
  br_frozen :: bool

definition new_browser :: "bool \<Rightarrow> bool \<Rightarrow> browser" where
  "new_browser window media =
     \<lparr>br_window = window, br_match_media = media, br_shell = None, br_page = None, br_next = 0,
      br_toast_ids = first_toast_id, br_mq_inited = False, br_esc_inited = False, br_scheduled = {},
      br_modals = {}, br_mq_slot = None, br_key_slot = None, br_listeners = [], br_timers = [],
      br_locked = False, br_frozen = False\<rparr>"

definition on_shell :: "(shell \<Rightarrow> shell) \<Rightarrow> browser \<Rightarrow> browser" where
  "on_shell f b = b\<lparr>br_shell := map_option (\<lambda>(n, s). (n, f s)) (br_shell b)\<rparr>"

definition live_shell :: "nat \<Rightarrow> browser \<Rightarrow> bool" where
  "live_shell n b \<longleftrightarrow> map_option fst (br_shell b) = Some n"

text \<open>The signals a timer writes: those of the provider of the toasts, or those of its page.\<close>

definition owner_lives :: "timer \<times> nat \<Rightarrow> browser \<Rightarrow> bool" where
  "owner_lives tn b =
     (case tn of
        (Toast_Timer i, n) \<Rightarrow> live_shell n b
      | (Copied_Timer k, n) \<Rightarrow> br_shell b \<noteq> None \<and> br_page b = Some n)"

section \<open>The body\<close>

definition set_overflow :: "bool \<Rightarrow> browser \<Rightarrow> browser" where
  "set_overflow hidden b = (if br_window b then b\<lparr>br_locked := hidden\<rparr> else b)"

definition lock_effect :: "browser \<Rightarrow> browser" where
  "lock_effect b =
     (case br_shell b of
        None \<Rightarrow> b
      | Some (n, s) \<Rightarrow> set_overflow (sh_menu_open s) (on_shell scroll_effect b))"

definition modals_of :: "shell \<Rightarrow> modal set" where
  "modals_of s =
     (case sh_content s of
        Some (Sources_Page kind) \<Rightarrow>
          (if sh_editor s \<noteq> None then {Editor_Modal} else {})
          \<union> (if sp_previewing (sh_sources s) \<noteq> None then {Source_Preview} else {})
      | Some Combineds_Page \<Rightarrow> (if cp_previewing (sh_combineds s) \<noteq> None then {Combined_Preview} else {})
      | _ \<Rightarrow> {})"

text \<open>A rendering drops the modals that are gone, then the effects of the new ones run.\<close>

definition show_modals :: "modal set \<Rightarrow> browser \<Rightarrow> browser" where
  "show_modals ms b =
     (let b' = (if br_modals b - ms \<noteq> {} then set_overflow False b else b);
          b' = (if ms - br_modals b \<noteq> {} then set_overflow True b' else b')
      in b'\<lparr>br_modals := ms\<rparr>)"

section \<open>Listeners\<close>

definition mq_effect :: "browser \<Rightarrow> browser" where
  "mq_effect b =
     (case br_shell b of
        None \<Rightarrow> b
      | Some (n, s) \<Rightarrow>
          if br_mq_inited b then b
          else
            let b = b\<lparr>br_mq_inited := True\<rparr> in
            if br_window b \<and> br_match_media b
            then b\<lparr>br_listeners := br_listeners b @ [(Breakpoint_Listener, n)], br_mq_slot := Some n\<rparr>
            else b)"

definition esc_effect :: "browser \<Rightarrow> browser" where
  "esc_effect b =
     (case br_shell b of
        None \<Rightarrow> b
      | Some (n, s) \<Rightarrow>
          if br_esc_inited b then b
          else
            let b = b\<lparr>br_esc_inited := True\<rparr>;
                b = (if br_window b then b\<lparr>br_listeners := br_listeners b @ [(Key_Listener, n)]\<rparr> else b)
            in b\<lparr>br_key_slot := Some n\<rparr>)"

text \<open>A listener is called with the signals of the shell that registered it.\<close>

fun call_listeners :: "(listener \<times> nat) list \<Rightarrow> listener \<Rightarrow> (shell \<Rightarrow> shell) \<Rightarrow> browser \<Rightarrow> browser" where
  "call_listeners [] l f b = b"
| "call_listeners ((l', n) # ls) l f b =
     call_listeners ls l f
       (if l' \<noteq> l then b
        else if live_shell n b then on_shell f b
        else b\<lparr>br_frozen := True\<rparr>)"

section \<open>Mounting and dropping the shell\<close>

definition open_shell :: "string option \<Rightarrow> bool \<Rightarrow> browser \<Rightarrow> browser" where
  "open_shell token mobile b =
     (if br_shell b \<noteq> None then b
      else
        let s = (new_shell token mobile)\<lparr>sh_toasts := \<lparr>ts_list = [], ts_next = br_toast_ids b\<rparr>\<rparr>
        in b\<lparr>br_shell := Some (br_next b, s), br_page := None, br_next := br_next b + 1,
             br_mq_inited := False, br_esc_inited := False, br_scheduled := {}, br_modals := {}\<rparr>)"

text \<open>The hook of \<open>use_drop\<close>: the lock, then the listener of each slot that holds one.\<close>

definition take_mq :: "browser \<Rightarrow> browser" where
  "take_mq b =
     (case br_mq_slot b of
        None \<Rightarrow> b
      | Some n \<Rightarrow> b\<lparr>br_mq_slot := None,
                    br_listeners := filter (\<lambda>x. x \<noteq> (Breakpoint_Listener, n)) (br_listeners b)\<rparr>)"

definition take_key :: "browser \<Rightarrow> browser" where
  "take_key b =
     (case br_key_slot b of
        None \<Rightarrow> b
      | Some n \<Rightarrow> b\<lparr>br_key_slot := None,
                    br_listeners := (if br_window b then filter (\<lambda>x. x \<noteq> (Key_Listener, n)) (br_listeners b)
                                     else br_listeners b)\<rparr>)"

definition close_shell :: "browser \<Rightarrow> browser" where
  "close_shell b =
     (case br_shell b of
        None \<Rightarrow> b
      | Some (n, s) \<Rightarrow>
          let b = take_key (take_mq (set_overflow False (show_modals {} b)))
          in b\<lparr>br_shell := None, br_page := None, br_toast_ids := ts_next (sh_toasts s)\<rparr>)"

section \<open>Timers\<close>

definition schedule_timeout :: "timer \<Rightarrow> nat \<Rightarrow> browser \<Rightarrow> browser" where
  "schedule_timeout t n b = (if br_window b then b\<lparr>br_timers := br_timers b @ [(t, n)]\<rparr> else b)"

text \<open>The effect of a card of the toasts, whose guard makes it run once.\<close>

definition card_effect :: "u64 \<Rightarrow> browser \<Rightarrow> browser" where
  "card_effect i b =
     (case br_shell b of
        None \<Rightarrow> b
      | Some (n, s) \<Rightarrow>
          if i \<in> tm_id ` set (ts_list (sh_toasts s)) \<and> i \<notin> br_scheduled b
          then schedule_timeout (Toast_Timer i) n (b\<lparr>br_scheduled := insert i (br_scheduled b)\<rparr>)
          else b)"

definition timer_edit :: "timer \<Rightarrow> page_edit" where
  "timer_edit t = (case t of Toast_Timer i \<Rightarrow> Dismiss_Toast i | Copied_Timer key \<Rightarrow> Copied_Timeout key)"

definition timer_fired :: "nat \<Rightarrow> browser \<Rightarrow> browser" where
  "timer_fired i b =
     (case nth_option (br_timers b) i of
        None \<Rightarrow> b
      | Some (t, n) \<Rightarrow>
          let b = b\<lparr>br_timers := take i (br_timers b) @ drop (Suc i) (br_timers b)\<rparr>
          in if owner_lives (t, n) b then on_shell (edit_page (timer_edit t)) b
             else b\<lparr>br_frozen := True\<rparr>)"

section \<open>The events of the shell\<close>

text \<open>What reaches the shell without going through a listener, a timer or the lock.\<close>

definition direct :: "ui_event \<Rightarrow> bool" where
  "direct e =
     (case e of
        Key_Down key \<Rightarrow> False | Media_Change now \<Rightarrow> False | Scroll_Effect \<Rightarrow> False
      | Edit (Copied_Timeout key) \<Rightarrow> False | _ \<Rightarrow> True)"

definition new_page :: "ui_event \<Rightarrow> shell \<Rightarrow> bool" where
  "new_page e s \<longleftrightarrow> e = Render \<and> sh_content s \<noteq> Some (content_of (auto_preload s))"

text \<open>A link was copied: the task of the page starts the timer of its feedback.\<close>

definition copied_timer :: "ui_event \<Rightarrow> shell \<Rightarrow> browser \<Rightarrow> browser" where
  "copied_timer e s b =
     (case (e, sh_content s, br_page b) of
        (Edit (Copied_Link key (Inr r)), Some Combineds_Page, Some p) \<Rightarrow> schedule_timeout (Copied_Timer key) p b
      | _ \<Rightarrow> b)"

text \<open>A rendering that mounts another page drops the modals of the old one first.\<close>

definition shell_event :: "web_crates \<Rightarrow> ui_event \<Rightarrow> browser \<Rightarrow> browser" where
  "shell_event W e b =
     (case br_shell b of
        None \<Rightarrow> b
      | Some (n, s) \<Rightarrow>
          if \<not> direct e then b
          else
            let b = (if new_page e s then (show_modals {} b)\<lparr>br_page := Some (br_next b), br_next := br_next b + 1\<rparr> else b);
                b = b\<lparr>br_shell := Some (n, handle W e s)\<rparr>;
                b = (if e = Render then show_modals (modals_of (handle W e s)) b else b)
            in copied_timer e s b)"

datatype dom_event =
  Open_Shell "string option" bool | Close_Shell | Shell_Event ui_event
| Mq_Effect | Esc_Effect | Lock_Effect | Card_Effect u64
| Media_Fired bool | Key_Fired string | Timer_Fired nat

text \<open>A page that has panicked does nothing any more.\<close>

definition step :: "web_crates \<Rightarrow> dom_event \<Rightarrow> browser \<Rightarrow> browser" where
  "step W e b =
     (if br_frozen b then b
      else case e of
        Open_Shell token mobile \<Rightarrow> open_shell token mobile b
      | Close_Shell \<Rightarrow> close_shell b
      | Shell_Event e \<Rightarrow> shell_event W e b
      | Mq_Effect \<Rightarrow> mq_effect b
      | Esc_Effect \<Rightarrow> esc_effect b
      | Lock_Effect \<Rightarrow> lock_effect b
      | Card_Effect i \<Rightarrow> card_effect i b
      | Media_Fired now \<Rightarrow> call_listeners (br_listeners b) Breakpoint_Listener (media_change now) b
      | Key_Fired key \<Rightarrow> call_listeners (br_listeners b) Key_Listener (escape_key key) b
      | Timer_Fired i \<Rightarrow> timer_fired i b)"

definition browse :: "web_crates \<Rightarrow> dom_event list \<Rightarrow> browser \<Rightarrow> browser" where
  "browse W es b = fold (step W) es b"

end
