(* ===== verification/Lifetime_Properties.thy ===== *)
theory Lifetime_Properties
  imports Web_Lifetimes Web_Properties
begin

text \<open>
  What outlives the components of the shell: the listeners are taken back in time, the timers
  are not.
\<close>

section \<open>Frames\<close>

named_theorems frames \<open>what the parts of a step leave as it is\<close>

lemma set_overflow_frame [frames]:
  "br_window (set_overflow v b) = br_window b" "br_shell (set_overflow v b) = br_shell b"
  "br_page (set_overflow v b) = br_page b" "br_listeners (set_overflow v b) = br_listeners b"
  "br_mq_slot (set_overflow v b) = br_mq_slot b" "br_key_slot (set_overflow v b) = br_key_slot b"
  "br_mq_inited (set_overflow v b) = br_mq_inited b" "br_esc_inited (set_overflow v b) = br_esc_inited b"
  "br_frozen (set_overflow v b) = br_frozen b" "br_timers (set_overflow v b) = br_timers b"
  "br_locked (set_overflow v b) = (if br_window b then v else br_locked b)"
  "br_scheduled (set_overflow v b) = br_scheduled b" "br_modals (set_overflow v b) = br_modals b"
  by (simp_all add: set_overflow_def)

lemma show_modals_frame [frames]:
  "br_window (show_modals ms b) = br_window b" "br_shell (show_modals ms b) = br_shell b"
  "br_page (show_modals ms b) = br_page b" "br_listeners (show_modals ms b) = br_listeners b"
  "br_mq_slot (show_modals ms b) = br_mq_slot b" "br_key_slot (show_modals ms b) = br_key_slot b"
  "br_mq_inited (show_modals ms b) = br_mq_inited b" "br_esc_inited (show_modals ms b) = br_esc_inited b"
  "br_frozen (show_modals ms b) = br_frozen b" "br_timers (show_modals ms b) = br_timers b"
  "br_scheduled (show_modals ms b) = br_scheduled b" "br_modals (show_modals ms b) = ms"
  "\<not> br_window b \<Longrightarrow> br_locked (show_modals ms b) = br_locked b"
  by (simp_all add: show_modals_def frames Let_def)

lemma show_modals_locked: "br_locked (show_modals ms b) \<longrightarrow> br_locked b \<or> br_window b"
  by (cases "br_window b") (simp_all add: frames)

lemma on_shell_frame [frames]:
  "br_window (on_shell f b) = br_window b" "br_page (on_shell f b) = br_page b"
  "br_listeners (on_shell f b) = br_listeners b" "br_mq_slot (on_shell f b) = br_mq_slot b"
  "br_key_slot (on_shell f b) = br_key_slot b" "br_mq_inited (on_shell f b) = br_mq_inited b"
  "br_esc_inited (on_shell f b) = br_esc_inited b" "br_frozen (on_shell f b) = br_frozen b"
  "br_timers (on_shell f b) = br_timers b" "br_locked (on_shell f b) = br_locked b"
  "map_option fst (br_shell (on_shell f b)) = map_option fst (br_shell b)"
  by (cases "br_shell b"; auto simp: on_shell_def)+

section \<open>Listeners\<close>

definition registered :: "listener \<Rightarrow> nat option \<Rightarrow> bool \<Rightarrow> (listener \<times> nat) set" where
  "registered l slot present = (if present then Pair l ` set_option slot else {})"

text \<open>The browser holds exactly the listeners of the slots, and a slot is empty or of the live shell.\<close>

definition tidy :: "browser \<Rightarrow> bool" where
  "tidy b \<longleftrightarrow>
     distinct (br_listeners b)
     \<and> set (br_listeners b) = registered Breakpoint_Listener (br_mq_slot b) True
          \<union> registered Key_Listener (br_key_slot b) (br_window b)
     \<and> (br_mq_slot b \<noteq> None \<longrightarrow> br_mq_inited b \<and> br_mq_slot b = map_option fst (br_shell b))
     \<and> (br_key_slot b \<noteq> None \<longrightarrow> br_esc_inited b \<and> br_key_slot b = map_option fst (br_shell b))
     \<and> (br_locked b \<longrightarrow> br_window b \<and> br_shell b \<noteq> None)"

lemma tidy_frame:
  assumes "tidy b" "br_listeners b' = br_listeners b" "br_mq_slot b' = br_mq_slot b" "br_key_slot b' = br_key_slot b"
    "br_mq_inited b' = br_mq_inited b" "br_esc_inited b' = br_esc_inited b" "br_window b' = br_window b"
    "map_option fst (br_shell b') = map_option fst (br_shell b)"
    "br_locked b' \<longrightarrow> br_locked b \<or> br_window b \<and> br_shell b \<noteq> None"
  shows "tidy b'"
proof -
  have "br_shell b' = None \<longleftrightarrow> br_shell b = None" using assms(8) by (cases "br_shell b"; cases "br_shell b'") auto
  with assms show ?thesis unfolding tidy_def by auto
qed

lemma tidy_listener: "tidy b \<Longrightarrow> (l, n) \<in> set (br_listeners b) \<Longrightarrow> live_shell n b"
  by (auto simp: tidy_def registered_def live_shell_def split: if_splits)

lemma call_listeners_live:
  assumes "\<forall>(l', n) \<in> set ls. live_shell n b"
  shows "br_frozen (call_listeners ls l f b) = br_frozen b
    \<and> (tidy b \<longrightarrow> tidy (call_listeners ls l f b))"
  using assms
proof (induction ls arbitrary: b)
  case (Cons x ls)
  obtain l' n where x: "x = (l', n)" by (cases x)
  have "live_shell m (on_shell f b) = live_shell m b" for m by (simp add: live_shell_def frames)
  moreover have "tidy b \<longrightarrow> tidy (on_shell f b)" by (auto intro: tidy_frame simp: frames)
  ultimately show ?case
    using Cons.IH [of b] Cons.IH [of "on_shell f b"] Cons.prems x by (auto simp: frames)
qed simp

lemma tidy_mq: "tidy b \<Longrightarrow> tidy (mq_effect b)"
  by (auto simp: mq_effect_def tidy_def registered_def Let_def split: option.split)

lemma tidy_esc: "tidy b \<Longrightarrow> tidy (esc_effect b)"
  by (auto simp: esc_effect_def tidy_def registered_def Let_def split: option.split)

lemma tidy_open: "tidy b \<Longrightarrow> tidy (open_shell token mobile b)"
  by (cases "br_shell b") (auto simp: open_shell_def tidy_def registered_def Let_def)

lemma tidy_close: "tidy b \<Longrightarrow> tidy (close_shell b)"
  by (cases "br_mq_slot b"; cases "br_key_slot b"; cases "br_shell b")
    (auto simp: close_shell_def take_mq_def take_key_def tidy_def registered_def frames Let_def)

lemma tidy_lock: "tidy b \<Longrightarrow> tidy (lock_effect b)"
  by (cases "br_shell b")
    (auto simp: lock_effect_def, rule tidy_frame, simp_all add: frames, auto simp: on_shell_def)

lemma tidy_card: "tidy b \<Longrightarrow> tidy (card_effect i b)"
  by (erule tidy_frame) (simp_all add: card_effect_def schedule_timeout_def split: option.split)

lemma tidy_timer: "tidy b \<Longrightarrow> tidy (timer_fired i b)"
  by (erule tidy_frame) (simp_all add: timer_fired_def frames Let_def split: option.split)


lemma tidy_event: "tidy b \<Longrightarrow> tidy (shell_event W e b)"
proof (cases "br_shell b")
  case (Some ns)
  assume b: "tidy b"
  obtain n s where ns: "ns = (n, s)" by (cases ns)
  let ?b1 = "if new_page e s then (show_modals {} b)\<lparr>br_page := Some (br_next b), br_next := br_next b + 1\<rparr> else b"
  let ?b2 = "?b1\<lparr>br_shell := Some (n, handle W e s)\<rparr>"
  let ?b3 = "if e = Render then show_modals (modals_of (handle W e s)) ?b2 else ?b2"
  have "tidy ?b1" using b by (rule tidy_frame) (use show_modals_locked [of "{}" b] in \<open>auto simp: frames Some ns\<close>)
  then have "tidy ?b2" by (rule tidy_frame) (simp_all add: frames Some ns)
  then have "tidy ?b3" by (rule tidy_frame) (use show_modals_locked [of _ ?b2] in \<open>auto simp: frames\<close>)
  then have "tidy (copied_timer e s ?b3)"
    by (rule tidy_frame)
      (simp_all add: copied_timer_def schedule_timeout_def split: ui_event.split page_edit.split option.split content.split sum.split)
  with b show ?thesis by (simp add: shell_event_def Some ns Let_def)
qed (simp add: shell_event_def)

lemma tidy_step: "tidy b \<Longrightarrow> tidy (step W e b)"
  using call_listeners_live [of "br_listeners b" b] tidy_listener [of b]
  by (cases e) (auto simp: step_def tidy_mq tidy_esc tidy_open tidy_close tidy_lock tidy_card tidy_timer tidy_event)

lemma tidy_browse: "tidy b \<Longrightarrow> tidy (browse W es b)"
  unfolding browse_def by (induction es arbitrary: b) (simp_all add: tidy_step)

lemma tidy_new: "tidy (new_browser w m)"
  by (simp add: tidy_def registered_def new_browser_def)


section \<open>Timers\<close>

text \<open>The timer at \<open>i\<close> outlived the component whose signals it writes.\<close>

definition late :: "nat \<Rightarrow> browser \<Rightarrow> bool" where
  "late i b = (case nth_option (br_timers b) i of None \<Rightarrow> False | Some tn \<Rightarrow> \<not> owner_lives tn b)"

lemma owner_lives_timers: "owner_lives tn (b\<lparr>br_timers := ts\<rparr>) = owner_lives tn b"
  by (simp add: owner_lives_def live_shell_def split: prod.split timer.split)

lemma frozen_timer: "\<not> br_frozen b \<Longrightarrow> br_frozen (timer_fired i b) = late i b"
  by (auto simp: timer_fired_def late_def frames Let_def owner_lives_timers split: option.split)

lemma frozen_parts:
  "br_frozen (open_shell token mobile b) = br_frozen b" "br_frozen (close_shell b) = br_frozen b"
  "br_frozen (mq_effect b) = br_frozen b" "br_frozen (esc_effect b) = br_frozen b"
  "br_frozen (lock_effect b) = br_frozen b" "br_frozen (card_effect i b) = br_frozen b"
  "br_frozen (copied_timer e s b) = br_frozen b" "br_frozen (shell_event W e b) = br_frozen b"
proof -
  show copied: "br_frozen (copied_timer e s b) = br_frozen b" for e s b
    by (simp add: copied_timer_def schedule_timeout_def split: ui_event.split page_edit.split option.split content.split sum.split)
  show "br_frozen (shell_event W e b) = br_frozen b"
    by (simp add: shell_event_def copied frames Let_def split: option.split)
qed (simp_all add: open_shell_def close_shell_def take_mq_def take_key_def mq_effect_def esc_effect_def lock_effect_def
    card_effect_def schedule_timeout_def frames Let_def split: option.split)

lemma step_frozen:
  assumes "tidy b"
  shows "br_frozen (step W e b) \<longleftrightarrow> br_frozen b \<or> (\<exists>i. e = Timer_Fired i \<and> late i b)"
  using call_listeners_live [of "br_listeners b" b] tidy_listener [OF assms]
  by (cases e) (auto simp: step_def frozen_parts frozen_timer)

lemma browse_snoc: "browse W (es @ [e]) b = step W e (browse W es b)"
  by (simp add: browse_def)

lemma frozen_browse:
  assumes "tidy b" "\<not> br_frozen b"
  shows "br_frozen (browse W es b) \<longleftrightarrow> (\<exists>pre i post. es = pre @ Timer_Fired i # post \<and> late i (browse W pre b))"
proof (induction es rule: rev_induct)
  case Nil
  then show ?case using assms(2) by (simp add: browse_def)
next
  case (snoc e es)
  have "(\<exists>pre i post. es @ [e] = pre @ Timer_Fired i # post \<and> late i (browse W pre b)) \<longleftrightarrow>
      (\<exists>pre i post. es = pre @ Timer_Fired i # post \<and> late i (browse W pre b))
      \<or> (\<exists>i. e = Timer_Fired i \<and> late i (browse W es b))" (is "?l \<longleftrightarrow> ?r")
  proof
    assume ?l
    then obtain pre i post where *: "es @ [e] = pre @ Timer_Fired i # post" "late i (browse W pre b)" by blast
    then show ?r by (cases post rule: rev_cases) auto
  next
    assume ?r
    then show ?l by (metis append.assoc append_Cons append_Nil)
  qed
  with snoc.IH show ?case
    unfolding browse_snoc step_frozen [OF tidy_browse [OF assms(1)]] by simp
qed

text \<open>
  C14. A page never panics in a listener, however often the user logs out and in again: each of the
  two is registered once for the live shell and for no other, and after the shell is dropped none
  is left and the body scrolls. What does freeze the page, and the only thing, is a timer that
  fires after the component it writes to: the provider of the toasts, dropped at a logout within
  four seconds of a toast, or the page of the combined subscriptions, left within two seconds of
  copying a link.
\<close>

theorem page_freezes_iff:
  "(br_frozen (browse W es (new_browser w m)) \<longleftrightarrow>
      (\<exists>pre i post. es = pre @ Timer_Fired i # post \<and> late i (browse W pre (new_browser w m))))
   \<and> distinct (map fst (br_listeners (browse W es (new_browser w m))))
   \<and> (case br_shell (browse W es (new_browser w m)) of
        None \<Rightarrow> br_listeners (browse W es (new_browser w m)) = [] \<and> \<not> br_locked (browse W es (new_browser w m))
      | Some (n, s) \<Rightarrow> snd ` set (br_listeners (browse W es (new_browser w m))) \<subseteq> {n})"
proof -
  let ?b = "browse W es (new_browser w m)"
  have tidy: "tidy ?b" by (rule tidy_browse [OF tidy_new])
  have live: "live_shell n ?b" if "(l, n) \<in> set (br_listeners ?b)" for l n
    using tidy_listener [OF tidy that] .
  have "n = n'" if "(l, n) \<in> set (br_listeners ?b)" "(l', n') \<in> set (br_listeners ?b)" for l l' n n'
    using live [OF that(1)] live [OF that(2)] unfolding live_shell_def by simp
  then have "inj_on fst (set (br_listeners ?b))" by (fastforce simp: inj_on_def)
  then have "distinct (map fst (br_listeners ?b))" using tidy by (simp add: distinct_map tidy_def)
  moreover have "case br_shell ?b of None \<Rightarrow> br_listeners ?b = [] \<and> \<not> br_locked ?b
      | Some (n, s) \<Rightarrow> snd ` set (br_listeners ?b) \<subseteq> {n}"
  proof (cases "br_shell ?b")
    case None
    then have "(l, n) \<notin> set (br_listeners ?b)" for l n using live [of l n] by (auto simp: live_shell_def)
    then have "br_listeners ?b = []" by (cases "br_listeners ?b") auto
    moreover have "\<not> br_locked ?b" using tidy None by (simp add: tidy_def)
    ultimately show ?thesis using None by simp
  next
    case (Some ns)
    then have "k = fst ns" if "(l, k) \<in> set (br_listeners ?b)" for l k
      using live [OF that] by (simp add: live_shell_def)
    with Some show ?thesis by (auto split: prod.split)
  qed
  moreover have "\<not> br_frozen (new_browser w m)" by (simp add: new_browser_def)
  ultimately show ?thesis using frozen_browse [OF tidy_new] by blast
qed

text \<open>A link is copied, and another page is opened before the two seconds are over.\<close>

lemma leave_after_copy:
  assumes "\<not> br_frozen b" "br_shell b = Some (n, s)" "sh_content s = Some Combineds_Page" "sh_tab s = 2"
    "sh_pending s = None" "all_ready 0 (sh_store s)" "br_page b = Some p" "p < br_next b" "br_window b"
    "br_timers b = []"
  shows "late 0 (browse W (map Shell_Event [Edit (Copied_Link key (Inr ())), Navigate 0, Render]) b)"
proof -
  let ?e = "Edit (Copied_Link key (Inr ()))"
  define s1 where "s1 = handle W ?e s"
  define b1 where "b1 = step W (Shell_Event ?e) b"
  have s1: "sh_content s1 = Some Combineds_Page" "sh_tab s1 = 2" "sh_pending s1 = None" "sh_store s1 = sh_store s"
    by (simp_all add: s1_def handle_def edit_page_def assms(3-5))
  have b1: "br_shell b1 = Some (n, s1)" "br_page b1 = Some p" "br_next b1 = br_next b" "\<not> br_frozen b1"
    "br_timers b1 = [(Copied_Timer key, p)]"
    using assms by (simp_all add: b1_def s1_def step_def shell_event_def direct_def new_page_def copied_timer_def
        schedule_timeout_def)
  define s2 where "s2 = handle W (Navigate 0) s1"
  define b2 where "b2 = step W (Shell_Event (Navigate 0)) b1"
  have s2: "sh_content s2 = Some Combineds_Page" "sh_tab s2 = 0"
    using assms(6) by (simp_all add: s2_def handle_def go_def s1 Let_def)
  have b2: "br_shell b2 = Some (n, s2)" "br_page b2 = Some p" "br_next b2 = br_next b" "\<not> br_frozen b2"
    "br_timers b2 = [(Copied_Timer key, p)]"
    using b1 by (simp_all add: b2_def s2_def step_def shell_event_def direct_def new_page_def copied_timer_def)
  have "content_of (auto_preload s2) \<noteq> Combineds_Page"
    using s2(2) by (simp add: content_of_def auto_preload_def)
  then have "br_page (step W (Shell_Event Render) b2) = Some (br_next b)"
    "br_timers (step W (Shell_Event Render) b2) = [(Copied_Timer key, p)]"
    using b2 s2(1) by (simp_all add: step_def shell_event_def direct_def new_page_def copied_timer_def frames)
  then have "late 0 (step W (Shell_Event Render) b2)"
    using assms(8) by (simp add: late_def nth_option_def owner_lives_def)
  then show ?thesis by (simp add: browse_def b1_def b2_def)
qed

definition open_combineds :: "dom_event list" where
  "open_combineds = Open_Shell (Some ''t'') False # map Shell_Event
     [Render, Start_Load 0, Answer_Load 0 (Received 200 (Inr ''[]'')), Commit_Effect, Render,
      Navigate 2, Start_Load 0, Answer_Load 0 (Received 200 (Inr ''[]'')), Commit_Effect, Render]"

definition leave :: "dom_event list" where
  "leave = map Shell_Event [Edit (Copied_Link (''a'', ''clash'') (Inr ())), Navigate 0, Render]"

definition look :: "browser \<Rightarrow> (content option \<times> nat \<times> nat option \<times> bool) option \<times> nat option \<times> nat \<times> bool \<times> nat \<times> bool" where
  "look b = (map_option (\<lambda>(n, s). (sh_content s, sh_tab s, sh_pending s, all_ready 0 (sh_store s))) (br_shell b),
     br_page b, br_next b, br_window b, length (br_timers b), br_frozen b)"

lemma open_combineds_state:
  "look (browse sample_web open_combineds (new_browser True True))
     = (Some (Some Combineds_Page, 2, None, True), Some 3, 4, True, 0, False)"
  by code_simp

theorem page_freezes_witness:
  "br_frozen (browse sample_web (open_combineds @ leave @ [Timer_Fired 0]) (new_browser True True))"
proof -
  let ?b = "browse sample_web open_combineds (new_browser True True)"
  obtain n s where ns: "br_shell ?b = Some (n, s)" "sh_content s = Some Combineds_Page" "sh_tab s = 2"
    "sh_pending s = None" "all_ready 0 (sh_store s)"
    using open_combineds_state by (auto simp: look_def)
  have "late 0 (browse sample_web leave ?b)"
    unfolding leave_def by (rule leave_after_copy [OF _ ns, where p = 3]) (use open_combineds_state in \<open>simp_all add: look_def\<close>)
  then have "late 0 (browse sample_web (open_combineds @ leave) (new_browser True True))"
    by (simp add: browse_def)
  then have "\<exists>pre i post. open_combineds @ leave @ [Timer_Fired 0] = pre @ Timer_Fired i # post
      \<and> late i (browse sample_web pre (new_browser True True))"
    by (intro exI [of _ "open_combineds @ leave"] exI [of _ 0] exI [of _ "[]"]) simp
  then show ?thesis using page_freezes_iff by blast
qed

end
