(* ===== verification/Preview_Properties.thy ===== *)
theory Preview_Properties
  imports Web_Preview Web_Properties
begin

text \<open>
  The preview over time: loads that overlap, replies in any order. What the dialog shows is the
  answer to the newest load.
\<close>

section \<open>Runs\<close>

text \<open>
  The tasks are polled first in the order they were spawned. A task that has sent its request
  waits for the reply; \<open>pn_answered\<close> keeps those that got one. The button for another try loads
  the key of the rendering it is in, which the effect has seen.
\<close>

record preview_run =
  pn_modal :: preview_modal
  pn_waiting :: "preview_task list"
  pn_answered :: "(preview_task \<times> web_reply) list"

datatype load_event =
  Show_Key "string option" string | Retry "string option" | First_Poll | Reply nat web_reply

definition preview_step :: "web_crates \<Rightarrow> load_event \<Rightarrow> preview_run \<Rightarrow> preview_run" where
  "preview_step W e s =
     (case e of
        Show_Key token key \<Rightarrow> s\<lparr>pn_modal := follow_key token key (pn_modal s)\<rparr>
      | Retry token \<Rightarrow>
          (case pv_loaded_key (pn_modal s) of
             None \<Rightarrow> s
           | Some key \<Rightarrow> s\<lparr>pn_modal := load_preview token key (pn_modal s)\<rparr>)
      | First_Poll \<Rightarrow>
          (case pv_spawned (pn_modal s) of
             [] \<Rightarrow> s
           | t # ts \<Rightarrow> s\<lparr>pn_modal := fst (start_preview t ((pn_modal s)\<lparr>pv_spawned := ts\<rparr>)),
                         pn_waiting := pn_waiting s @ [t]\<rparr>)
      | Reply i r \<Rightarrow>
          (case nth_option (pn_waiting s) i of
             None \<Rightarrow> s
           | Some t \<Rightarrow> s\<lparr>pn_modal := preview_reply W t r (pn_modal s),
                         pn_waiting := take i (pn_waiting s) @ drop (Suc i) (pn_waiting s),
                         pn_answered := pn_answered s @ [(t, r)]\<rparr>))"

definition open_preview :: preview_run where
  "open_preview = \<lparr>pn_modal = new_preview_modal, pn_waiting = [], pn_answered = []\<rparr>"

definition run_preview :: "web_crates \<Rightarrow> load_event list \<Rightarrow> preview_run" where
  "run_preview W es = fold (preview_step W) es open_preview"

section \<open>The newest load\<close>

text \<open>The dialog shows the answer \<open>r\<close>.\<close>

definition settled :: "web_crates \<Rightarrow> web_reply \<Rightarrow> preview_modal \<Rightarrow> bool" where
  "settled W r m \<longleftrightarrow> \<not> pv_loading m \<and>
     (case request_result r of
        Inr body \<Rightarrow>
          (case preview_from_str W body of
             Inr p \<Rightarrow> pv_data m = Some p \<and> pv_error m = []
           | Inl e \<Rightarrow> pv_error m = parse_failed @ e)
      | Inl e \<Rightarrow> pv_error m = error_display e)"

definition tasks :: "preview_run \<Rightarrow> preview_task list" where
  "tasks s = map fst (pn_answered s) @ pn_waiting s @ pv_spawned (pn_modal s)"

text \<open>After \<open>n\<close> loads: their numbers, and what the dialog shows once the newest has started.\<close>

definition in_order :: "web_crates \<Rightarrow> nat \<Rightarrow> preview_run \<Rightarrow> bool" where
  "in_order W n s \<longleftrightarrow>
     distinct (map pt_seq (tasks s)) \<and> pt_seq ` set (tasks s) = of_nat ` {1..n}
     \<and> pv_req_seq (pn_modal s) = of_nat n
     \<and> (n \<noteq> 0 \<longrightarrow> pv_spawned (pn_modal s) \<noteq> [] \<longrightarrow> pt_seq (last (pv_spawned (pn_modal s))) = of_nat n)
     \<and> (\<forall>t \<in> set (tasks s). pt_seq t = of_nat n \<longrightarrow> pv_loaded_key (pn_modal s) = Some (pt_key t))
     \<and> (\<forall>t \<in> set (pn_waiting s). pt_seq t = of_nat n \<longrightarrow> pv_loading (pn_modal s) \<and> pv_error (pn_modal s) = [])
     \<and> (\<forall>(t, r) \<in> set (pn_answered s). pt_seq t = of_nat n \<longrightarrow> settled W r (pn_modal s))
     \<and> (n = 0 \<longrightarrow> pn_modal s = new_preview_modal)"

lemma of_nat_fresh:
  assumes "Suc n < 2 ^ 32" shows "(of_nat (Suc n) :: 32 word) \<notin> of_nat ` {1..n}" "(of_nat (Suc n) :: 32 word) \<noteq> of_nat n"
proof -
  have eq: "(of_nat a :: 32 word) = of_nat b \<Longrightarrow> a = b" if "a < 2 ^ 32" "b < 2 ^ 32" for a b
    using that by (simp add: word_of_nat_eq_iff take_bit_nat_eq_self)
  show "(of_nat (Suc n) :: 32 word) \<notin> of_nat ` {1..n}"
  proof
    assume "(of_nat (Suc n) :: 32 word) \<in> of_nat ` {1..n}"
    then obtain k where "k \<le> n" "(of_nat (Suc n) :: 32 word) = of_nat k" by auto
    with eq [of "Suc n" k] assms show False by simp
  qed
  show "(of_nat (Suc n) :: 32 word) \<noteq> of_nat n" using eq [of "Suc n" n] assms by auto
qed

lemma in_order_load:
  assumes "in_order W n s" "Suc n < 2 ^ 32"
    and "m = (pn_modal s)\<lparr>pv_loaded_key := Some key\<rparr>"
  shows "in_order W (Suc n) (s\<lparr>pn_modal := load_preview token key m\<rparr>)"
proof -
  let ?s = "s\<lparr>pn_modal := load_preview token key m\<rparr>"
  let ?t = "\<lparr>pt_seq = of_nat (Suc n), pt_key = key, pt_token = token\<rparr>"
  have req: "pv_req_seq (pn_modal s) = of_nat n" and seqs: "pt_seq ` set (tasks s) = of_nat ` {1..n}"
    and dist: "distinct (map pt_seq (tasks s))"
    using assms(1) by (simp_all add: in_order_def)
  have new: "tasks ?s = tasks s @ [?t]" "pv_spawned (pn_modal ?s) = pv_spawned (pn_modal s) @ [?t]"
    "pv_req_seq (pn_modal ?s) = of_nat (Suc n)" "pv_loaded_key (pn_modal ?s) = Some key"
    "pn_waiting ?s = pn_waiting s" "pn_answered ?s = pn_answered s"
    by (simp_all add: tasks_def load_preview_def assms(3) req Let_def add.commute)
  have old: "pt_seq t \<noteq> of_nat (Suc n)" if "t \<in> set (tasks s)" for t
    using of_nat_fresh(1) [OF assms(2)] that seqs by (metis image_eqI)
  have fresh: "of_nat (Suc n) \<notin> pt_seq ` set (tasks s)" using old by (metis imageE)
  have parts: "set (pn_waiting s) \<subseteq> set (tasks s)" "fst ` set (pn_answered s) \<subseteq> set (tasks s)"
    by (auto simp: tasks_def)
  have "{1..Suc n} = insert (Suc n) {1..n}" by auto
  then have "pt_seq ` set (tasks ?s) = of_nat ` {1..Suc n}"
    unfolding new(1) using seqs by (simp del: of_nat_Suc)
  moreover have "distinct (map pt_seq (tasks ?s))"
    unfolding new(1) using dist fresh by (simp del: of_nat_Suc)
  moreover have "\<forall>t \<in> set (tasks ?s). pt_seq t = of_nat (Suc n) \<longrightarrow> Some key = Some (pt_key t)"
    unfolding new(1) using old by (auto simp del: of_nat_Suc)
  moreover have "\<forall>t \<in> set (pn_waiting s). pt_seq t \<noteq> of_nat (Suc n)"
    "\<forall>(t, r) \<in> set (pn_answered s). pt_seq t \<noteq> of_nat (Suc n)"
    using old parts by fastforce+
  ultimately show ?thesis
    unfolding in_order_def new by (auto simp del: of_nat_Suc)
qed

lemma disjoint_parts:
  assumes "distinct (map f (xs @ ys @ zs))" "x \<in> f ` set zs"
  shows "x \<notin> f ` set xs" "x \<notin> f ` set ys"
proof -
  have "(f ` set xs \<union> f ` set ys) \<inter> f ` set zs = {}" using assms(1) by auto
  with assms(2) show "x \<notin> f ` set xs" "x \<notin> f ` set ys" by blast+
qed

lemma in_order_poll:
  assumes "in_order W n s" "pv_spawned (pn_modal s) = t # ts"
  shows "in_order W n (s\<lparr>pn_modal := fst (start_preview t ((pn_modal s)\<lparr>pv_spawned := ts\<rparr>)), pn_waiting := pn_waiting s @ [t]\<rparr>)"
    (is "in_order W n ?s")
proof -
  have same: "tasks ?s = tasks s" by (simp add: tasks_def start_preview_def assms(2))
  have dist: "distinct (map pt_seq (tasks s))" and seqs: "pt_seq ` set (tasks s) = of_nat ` {1..n}"
    using assms(1) by (simp_all add: in_order_def)
  have "n \<noteq> 0" using seqs assms(2) by (auto simp: tasks_def)
  then have newest: "pt_seq (last (t # ts)) = of_nat n" using assms by (simp add: in_order_def)
  then have in_ts: "of_nat n \<in> pt_seq ` set (t # ts)"
    by (metis image_eqI last_in_set list.distinct(1))
  have no: "\<forall>u \<in> set (pn_waiting s). pt_seq u \<noteq> of_nat n" "\<forall>(u, r) \<in> set (pn_answered s). pt_seq u \<noteq> of_nat n"
    using disjoint_parts [OF dist [unfolded tasks_def assms(2)] in_ts] by force+
  have "\<forall>u \<in> set (tasks s). pt_seq u = of_nat n \<longrightarrow> pv_loaded_key (pn_modal s) = Some (pt_key u)"
    "pv_req_seq (pn_modal s) = of_nat n"
    using assms(1) by (simp_all add: in_order_def)
  with no dist seqs newest \<open>n \<noteq> 0\<close> show ?thesis
    unfolding in_order_def same by (auto simp: start_preview_def split: if_splits)
qed

lemma reply_outdated: "pt_seq t \<noteq> pv_req_seq m \<Longrightarrow> preview_reply W t r m = m"
  by (auto simp: preview_reply_def Let_def split: sum.split)

lemma reply_newest:
  "pt_seq t = pv_req_seq m \<Longrightarrow> pv_error m = [] \<Longrightarrow> settled W r (preview_reply W t r m)"
  by (auto simp: preview_reply_def settled_def Let_def split: sum.split)

lemma reply_frame:
  "pv_spawned (preview_reply W t r m) = pv_spawned m" "pv_req_seq (preview_reply W t r m) = pv_req_seq m"
  "pv_loaded_key (preview_reply W t r m) = pv_loaded_key m"
  by (simp_all add: preview_reply_def Let_def split: sum.split)

lemma distinct_middle:
  assumes "distinct (map f (xs @ y # zs))"
  shows "\<forall>x \<in> set xs \<union> set zs. f x \<noteq> f y"
proof -
  have "f y \<notin> f ` set xs" "f y \<notin> f ` set zs" using assms by auto
  then show ?thesis by (metis UnE image_eqI)
qed

lemma in_order_reply:
  assumes "in_order W n s" "pn_waiting s = xs @ t # ys"
  shows "in_order W n (s\<lparr>pn_modal := preview_reply W t r (pn_modal s),
      pn_waiting := xs @ ys, pn_answered := pn_answered s @ [(t, r)]\<rparr>)"
    (is "in_order W n ?s")
proof -
  have dist: "distinct (map pt_seq (tasks s))" and req: "pv_req_seq (pn_modal s) = of_nat n"
    using assms(1) by (simp_all add: in_order_def)
  have elems: "set (tasks ?s) = set (tasks s)" by (auto simp: tasks_def reply_frame assms(2))
  have dist': "distinct (map pt_seq (tasks ?s))"
    using dist by (auto simp: tasks_def reply_frame assms(2))
  have "n \<noteq> 0" using assms by (auto simp: in_order_def tasks_def)
  have "distinct (map pt_seq ((map fst (pn_answered s) @ xs) @ t # ys @ pv_spawned (pn_modal s)))"
    using dist by (simp only: tasks_def assms(2) append_assoc append_Cons)
  from distinct_middle [OF this]
  have others: "\<forall>u \<in> set (pn_answered s). pt_seq (fst u) \<noteq> pt_seq t"
    "\<forall>u \<in> set (xs @ ys). pt_seq u \<noteq> pt_seq t"
    by (simp_all add: ball_Un)
  show ?thesis
  proof (cases "pt_seq t = of_nat n")
    case False
    then have same: "preview_reply W t r (pn_modal s) = pn_modal s" by (simp add: reply_outdated req)
    with assms False dist' elems \<open>n \<noteq> 0\<close> show ?thesis unfolding in_order_def same by auto
  next
    case True
    have "pv_error (pn_modal s) = []" using assms True by (simp add: in_order_def)
    then have "settled W r (preview_reply W t r (pn_modal s))" by (intro reply_newest) (simp_all add: req True)
    moreover have "\<forall>u \<in> set (pn_answered s). pt_seq (fst u) \<noteq> of_nat n"
      "\<forall>u \<in> set (xs @ ys). pt_seq u \<noteq> of_nat n"
      using others True by auto
    moreover have "n \<noteq> 0 \<longrightarrow> pv_spawned (pn_modal s) \<noteq> [] \<longrightarrow> pt_seq (last (pv_spawned (pn_modal s))) = of_nat n"
      "pt_seq ` set (tasks s) = of_nat ` {1..n}"
      "\<forall>u \<in> set (tasks s). pt_seq u = of_nat n \<longrightarrow> pv_loaded_key (pn_modal s) = Some (pt_key u)"
      using assms(1) by (simp_all add: in_order_def)
    ultimately show ?thesis
      using dist' req \<open>n \<noteq> 0\<close> unfolding in_order_def elems by (simp add: reply_frame case_prod_beta)
  qed
qed

text \<open>One step makes at most one load.\<close>

lemma preview_step_in_order:
  assumes "in_order W n s" "Suc n < 2 ^ 32"
  shows "in_order W n (preview_step W e s) \<or> in_order W (Suc n) (preview_step W e s)"
proof (cases e)
  case (Show_Key token key)
  then show ?thesis
    using in_order_load [OF assms refl, of token key] assms(1)
    by (auto simp: preview_step_def follow_key_def)
next
  case (Retry token)
  show ?thesis
  proof (cases "pv_loaded_key (pn_modal s)")
    case (Some key)
    then have "pn_modal s = (pn_modal s)\<lparr>pv_loaded_key := Some key\<rparr>" by simp
    from in_order_load [OF assms this, of token] show ?thesis using Retry Some by (simp add: preview_step_def)
  qed (use assms(1) Retry in \<open>simp add: preview_step_def\<close>)
next
  case First_Poll
  then show ?thesis
    using assms(1) in_order_poll [OF assms(1)] by (auto simp: preview_step_def split: list.split)
next
  case (Reply i r)
  show ?thesis
  proof (cases "i < length (pn_waiting s)")
    case True
    from in_order_reply [OF assms(1) id_take_nth_drop [OF this], of r] show ?thesis
      using Reply True by (simp add: preview_step_def nth_option_def)
  qed (use assms(1) Reply in \<open>simp add: preview_step_def nth_option_def\<close>)
qed

lemma run_preview_in_order:
  assumes "length es < 2 ^ 32"
  shows "\<exists>n \<le> length es. in_order W n (run_preview W es)"
  using assms
proof (induction es rule: rev_induct)
  case Nil
  then show ?case by (simp add: run_preview_def open_preview_def in_order_def tasks_def new_preview_modal_def)
next
  case (snoc e es)
  then obtain n where n: "n \<le> length es" "in_order W n (run_preview W es)" by auto
  have "in_order W n (run_preview W (es @ [e])) \<or> in_order W (Suc n) (run_preview W (es @ [e]))"
    using preview_step_in_order [OF n(2), of e] n(1) snoc.prems by (simp add: run_preview_def)
  then show ?case using n(1) by (metis Suc_le_mono le_SucI length_append_singleton)
qed

lemma in_order_newest:
  assumes "in_order W n s" "n \<noteq> 0"
  obtains t where "t \<in> set (tasks s)" "pt_seq t = pv_req_seq (pn_modal s)"
    "pv_loaded_key (pn_modal s) = Some (pt_key t)"
proof -
  have "pt_seq ` set (tasks s) = of_nat ` {1..n}" using assms(1) by (simp add: in_order_def)
  moreover have "n \<in> {1..n}" using assms(2) by simp
  ultimately have "of_nat n \<in> pt_seq ` set (tasks s)" by (metis image_eqI)
  then obtain t where "t \<in> set (tasks s)" "pt_seq t = of_nat n" by (metis imageE)
  then show ?thesis using assms(1) that by (simp add: in_order_def)
qed

section \<open>The property\<close>

text \<open>
  C11. Whatever keys are shown, retries pressed, and replies come in whatever order, the preview
  of fewer than \<open>2 ^ 32\<close> events is about the newest load: its key is the one shown last, and the
  load has not been polled, or is under way with the spinner on and no error shown, or has been
  answered and that answer, no older one, is what the dialog shows. Before the first load the
  dialog is as it was opened.
\<close>

theorem preview_shows_newest:
  assumes "length es < 2 ^ 32"
  shows "pn_modal (run_preview W es) = new_preview_modal
    \<or> (\<exists>t. pt_seq t = pv_req_seq (pn_modal (run_preview W es))
         \<and> pv_loaded_key (pn_modal (run_preview W es)) = Some (pt_key t)
         \<and> (t \<in> set (pv_spawned (pn_modal (run_preview W es)))
            \<or> t \<in> set (pn_waiting (run_preview W es))
              \<and> pv_loading (pn_modal (run_preview W es)) \<and> pv_error (pn_modal (run_preview W es)) = []
            \<or> (\<exists>r. (t, r) \<in> set (pn_answered (run_preview W es)) \<and> settled W r (pn_modal (run_preview W es)))))"
proof -
  let ?s = "run_preview W es"
  obtain n where n: "in_order W n ?s" using run_preview_in_order [OF assms] by blast
  show ?thesis
  proof (cases "n = 0")
    case True
    then show ?thesis using n by (simp add: in_order_def)
  next
    case False
    obtain t where t: "t \<in> set (tasks ?s)" "pt_seq t = pv_req_seq (pn_modal ?s)"
      "pv_loaded_key (pn_modal ?s) = Some (pt_key t)"
      by (rule in_order_newest [OF n False])
    have "pt_seq t = of_nat n" using n t(2) by (simp add: in_order_def)
    then have "t \<in> set (pn_waiting ?s) \<Longrightarrow> pv_loading (pn_modal ?s) \<and> pv_error (pn_modal ?s) = []"
      "(t, r) \<in> set (pn_answered ?s) \<Longrightarrow> settled W r (pn_modal ?s)" for r
      using n by (auto simp: in_order_def)
    with t show ?thesis by (fastforce simp: tasks_def)
  qed
qed

text \<open>Another subscription is chosen while the first loads, and the first answers last.\<close>

definition two_loads :: "web_reply \<Rightarrow> web_reply \<Rightarrow> load_event list" where
  "two_loads r1 r2 =
     [Show_Key None ''sid:1'', First_Poll, Show_Key None ''sid:2'', First_Poll, Reply 1 r2, Reply 0 r1]"

lemma two_loads_run:
  "pv_loaded_key (pn_modal (run_preview W (two_loads r1 r2))) = Some ''sid:2''"
  "pv_spawned (pn_modal (run_preview W (two_loads r1 r2))) = []"
  "pn_waiting (run_preview W (two_loads r1 r2)) = []"
  "pn_answered (run_preview W (two_loads r1 r2)) =
     [(\<lparr>pt_seq = 2, pt_key = ''sid:2'', pt_token = None\<rparr>, r2), (\<lparr>pt_seq = 1, pt_key = ''sid:1'', pt_token = None\<rparr>, r1)]"
  by (simp_all add: two_loads_def run_preview_def open_preview_def preview_step_def new_preview_modal_def
      follow_key_def load_preview_def start_preview_def nth_option_def reply_frame)

theorem preview_shows_newest_witness:
  "\<forall>W r1 r2. settled W r2 (pn_modal (run_preview W (two_loads r1 r2)))"
proof (intro allI)
  fix W r1 r2
  have "length (two_loads r1 r2) < 2 ^ 32" by (simp add: two_loads_def)
  from preview_shows_newest [OF this, of W]
  show "settled W r2 (pn_modal (run_preview W (two_loads r1 r2)))"
    unfolding two_loads_run by (auto simp: two_loads_run new_preview_modal_def dest: arg_cong [of _ _ pv_loaded_key])
qed

end
