(* ===== verification/Wire.thy ===== *)
theory Wire
  imports Subscribe Web_Login Web_Preview
begin

text \<open>
  What lies between the front end and the handlers: the routes (\<open>routes/mod.rs\<close> and the \<open>router\<close>
  functions), the extractors with the decoders that \<open>serde\<close> derives for the request types, and the
  JSON of the answers with the decoders derived in \<open>web-core\<close>'s \<open>dto.rs\<close>. \<open>axum\<close> and \<open>serde_json\<close>
  are arguments; which fields a type has, and of which types, is the repository's.
\<close>

section \<open>Derived decoders\<close>

text \<open>
  The fields of a struct come from an object, where unknown fields are ignored and a repeated one
  is an error, or from an array in their order. An optional field may be absent or null.
\<close>

fun struct_fields :: "string list \<Rightarrow> json \<Rightarrow> (string \<times> json) list option" where
  "struct_fields names (JObject m) =
     (let m = filter (\<lambda>(k, v). k \<in> set names) m in if distinct (map fst m) then Some m else None)"
| "struct_fields names (JArray vs) = (if length vs = length names then Some (zip names vs) else None)"
| "struct_fields names _ = None"

definition field :: "(json \<Rightarrow> 'a option) \<Rightarrow> string \<Rightarrow> (string \<times> json) list \<Rightarrow> 'a option" where
  "field decode k m = Option.bind (map_of m k) decode"

definition optional :: "(json \<Rightarrow> 'a option) \<Rightarrow> string \<Rightarrow> (string \<times> json) list \<Rightarrow> 'a option option" where
  "optional decode k m =
     (case map_of m k of
        None \<Rightarrow> Some None
      | Some v \<Rightarrow> if v = JNull then Some None else map_option Some (decode v))"

definition parse_i64 :: "string \<Rightarrow> int option" where
  "parse_i64 s =
     (case strip_prefix ''-'' s of
        Some ds \<Rightarrow>
          (case digits_value 0 ds of
             Some n \<Rightarrow> if ds \<noteq> [] \<and> n \<le> 2 ^ 63 then Some (- int n) else None
           | None \<Rightarrow> None)
      | None \<Rightarrow> map_option int (parse_unsigned (2 ^ 63) s))"

fun json_string :: "json \<Rightarrow> string option" where
  "json_string (JString s) = Some s"
| "json_string _ = None"

fun json_bool :: "json \<Rightarrow> bool option" where
  "json_bool (JBool b) = Some b"
| "json_bool _ = None"

text \<open>A number whose text is an integer; \<open>serde_json\<close> takes \<open>-0\<close> for a float.\<close>

fun json_i64 :: "json \<Rightarrow> int option" where
  "json_i64 (JNumber t) = (if t = ''-0'' then None else parse_i64 t)"
| "json_i64 _ = None"

fun json_u16 :: "json \<Rightarrow> u16 option" where
  "json_u16 (JNumber t) = parse_u16 t"
| "json_u16 _ = None"

fun json_usize :: "json \<Rightarrow> nat option" where
  "json_usize (JNumber t) = parse_u64 t"
| "json_usize _ = None"

fun json_vec :: "(json \<Rightarrow> 'a option) \<Rightarrow> json \<Rightarrow> 'a list option" where
  "json_vec decode (JArray vs) = all_some (map decode vs)"
| "json_vec decode _ = None"

section \<open>Requests\<close>

definition decode_setup :: "json \<Rightarrow> setup_request option" where
  "decode_setup v =
     Option.bind (struct_fields [''username'', ''password'', ''password_confirm''] v) (\<lambda>m.
     Option.bind (field json_string ''username'' m) (\<lambda>u.
     Option.bind (field json_string ''password'' m) (\<lambda>p.
     Option.bind (field json_string ''password_confirm'' m) (\<lambda>c.
     Some \<lparr>su_username = u, su_password = p, su_password_confirm = c\<rparr>))))"

definition decode_login :: "json \<Rightarrow> login_request option" where
  "decode_login v =
     Option.bind (struct_fields [''username'', ''password''] v) (\<lambda>m.
     Option.bind (field json_string ''username'' m) (\<lambda>u.
     Option.bind (field json_string ''password'' m) (\<lambda>p.
     Some \<lparr>li_username = u, li_password = p\<rparr>)))"

definition decode_change_password :: "json \<Rightarrow> change_password option" where
  "decode_change_password v =
     Option.bind (struct_fields [''old'', ''new''] v) (\<lambda>m.
     Option.bind (field json_string ''old'' m) (\<lambda>old.
     Option.bind (field json_string ''new'' m) (\<lambda>new.
     Some \<lparr>cp_old = old, cp_new = new\<rparr>)))"

definition decode_update_config :: "json \<Rightarrow> update_config_body option" where
  "decode_update_config v =
     Option.bind (struct_fields [''change_password'', ''v2ray_base64''] v) (\<lambda>m.
     Option.bind (optional decode_change_password ''change_password'' m) (\<lambda>c.
     Option.bind (optional json_bool ''v2ray_base64'' m) (\<lambda>b.
     Some \<lparr>uc_change_password = c, uc_v2ray_base64 = b\<rparr>)))"

definition decode_update_clash :: "json \<Rightarrow> string option" where
  "decode_update_clash v =
     Option.bind (struct_fields [''template''] v) (\<lambda>m. field json_string ''template'' m)"

definition decode_create_source :: "json \<Rightarrow> create_source_body option" where
  "decode_create_source v =
     Option.bind (struct_fields [''url'', ''name'', ''kind''] v) (\<lambda>m.
     Option.bind (field json_string ''url'' m) (\<lambda>u.
     Option.bind (field json_string ''name'' m) (\<lambda>n.
     Option.bind (optional json_string ''kind'' m) (\<lambda>k.
     Some \<lparr>cs_url = u, cs_name = n, cs_kind = k\<rparr>))))"

definition decode_update_source :: "json \<Rightarrow> update_source_body option" where
  "decode_update_source v =
     Option.bind (struct_fields [''url'', ''name'', ''kind''] v) (\<lambda>m.
     Option.bind (optional json_string ''url'' m) (\<lambda>u.
     Option.bind (optional json_string ''name'' m) (\<lambda>n.
     Option.bind (optional json_string ''kind'' m) (\<lambda>k.
     Some \<lparr>up_url = u, up_name = n, up_kind = k\<rparr>))))"

definition decode_create_combined :: "json \<Rightarrow> create_combined_body option" where
  "decode_create_combined v =
     Option.bind (struct_fields [''name'', ''source_ids''] v) (\<lambda>m.
     Option.bind (field json_string ''name'' m) (\<lambda>n.
     Option.bind (optional (json_vec json_i64) ''source_ids'' m) (\<lambda>ids.
     Some \<lparr>cc_name = n, cc_source_ids = ids\<rparr>)))"

definition decode_update_combined :: "json \<Rightarrow> update_combined_body option" where
  "decode_update_combined v =
     Option.bind (struct_fields [''name'', ''source_ids''] v) (\<lambda>m.
     Option.bind (optional json_string ''name'' m) (\<lambda>n.
     Option.bind (optional (json_vec json_i64) ''source_ids'' m) (\<lambda>ids.
     Some \<lparr>uc_name = n, uc_source_ids = ids\<rparr>)))"

text \<open>The pairs of a query; a repeated field is an error here too.\<close>

definition query_fields :: "string list \<Rightarrow> (string \<times> string) list \<Rightarrow> (string \<times> string) list option" where
  "query_fields names ps =
     (let ps = filter (\<lambda>(k, v). k \<in> set names) ps in if distinct (map fst ps) then Some ps else None)"

definition decode_preview_query :: "(string \<times> string) list \<Rightarrow> preview_query option" where
  "decode_preview_query ps =
     Option.bind (query_fields [''combined'', ''kind'', ''source_id''] ps) (\<lambda>m.
     case map_of m ''source_id'' of
       None \<Rightarrow> Some \<lparr>pq_combined = map_of m ''combined'', pq_kind = map_of m ''kind'', pq_source_id = None\<rparr>
     | Some t \<Rightarrow> map_option (\<lambda>i. \<lparr>pq_combined = map_of m ''combined'', pq_kind = map_of m ''kind'',
                                   pq_source_id = Some i\<rparr>) (parse_i64 t))"

definition decode_subscribe_query :: "(string \<times> string) list \<Rightarrow> string option option" where
  "decode_subscribe_query ps = map_option (\<lambda>m. map_of m ''format'') (query_fields [''format''] ps)"

section \<open>Extractors\<close>

text \<open>
  What \<open>axum\<close> does: which content types are JSON, the value of a body or its rejection (too long, or
  not JSON), the decoded segment of a path, the pairs of a query, and the other rejections.
\<close>

record axum =
  ax_is_json :: "string \<Rightarrow> bool"
  ax_not_json :: rejection
  ax_json :: "string \<Rightarrow> rejection + json"
  ax_bad_data :: "json \<Rightarrow> rejection"
  ax_segment :: "string \<Rightarrow> rejection + string"
  ax_bad_id :: "string \<Rightarrow> rejection"
  ax_query :: "string \<Rightarrow> (string \<times> string) list"
  ax_bad_query :: "string \<Rightarrow> rejection"

definition json_param :: "axum \<Rightarrow> (json \<Rightarrow> 'b option) \<Rightarrow> headers \<Rightarrow> string \<Rightarrow> 'b body" where
  "json_param A decode h text =
     (case h ''content-type'' of
        None \<Rightarrow> Inl (ax_not_json A)
      | Some ct \<Rightarrow>
          if \<not> ax_is_json A ct then Inl (ax_not_json A)
          else (case ax_json A text of
                  Inl r \<Rightarrow> Inl r
                | Inr v \<Rightarrow> (case decode v of None \<Rightarrow> Inl (ax_bad_data A v) | Some b \<Rightarrow> Inr b)))"

definition id_param :: "axum \<Rightarrow> string \<Rightarrow> path_id" where
  "id_param A segment =
     (case ax_segment A segment of
        Inl r \<Rightarrow> Inl r
      | Inr s \<Rightarrow> (case parse_i64 s of None \<Rightarrow> Inl (ax_bad_id A s) | Some i \<Rightarrow> Inr i))"

definition query_param :: "axum \<Rightarrow> ((string \<times> string) list \<Rightarrow> 'q option) \<Rightarrow> string \<Rightarrow> rejection + 'q" where
  "query_param A decode q =
     (case decode (ax_query A q) of None \<Rightarrow> Inl (ax_bad_query A q) | Some x \<Rightarrow> Inr x)"

section \<open>Routes\<close>

text \<open>
  Where a request goes: to a handler, to the text of \<open>/healthz\<close>, to the 405 of \<open>axum\<close>, to its
  rejection of a subscription name that is not UTF-8, or to the static fallback.
\<close>

datatype endpoint = Handler request | Health_Page | Wrong_Method | Name_Rejected rejection | Fallback

definition by_method :: "string \<Rightarrow> (string \<times> endpoint) list \<Rightarrow> endpoint" where
  "by_method m table =
     unwrap_or Wrong_Method (map_of table (if m = ''HEAD'' then ''GET'' else m))"

definition admin_route :: "axum \<Rightarrow> string \<Rightarrow> string \<Rightarrow> string \<Rightarrow> headers \<Rightarrow> string \<Rightarrow> endpoint" where
  "admin_route A m name q h body =
     (if name = ''setup-status'' then by_method m [(''GET'', Handler Setup_Status)]
      else if name = ''setup'' then by_method m [(''POST'', Handler (Setup (json_param A decode_setup h body)))]
      else if name = ''login'' then by_method m [(''POST'', Handler (Login (json_param A decode_login h body)))]
      else if name = ''logout'' then by_method m [(''POST'', Handler (Logout h))]
      else if name = ''clash-config'' then
        by_method m [(''GET'', Handler (Get_Clash_Config h)),
          (''PUT'', Handler (Put_Clash_Config h (json_param A decode_update_clash h body)))]
      else if name = ''combineds'' then
        by_method m [(''GET'', Handler (List_Combineds h)),
          (''POST'', Handler (Create_Combined h (json_param A decode_create_combined h body)))]
      else if name = ''sources'' then
        by_method m [(''GET'', Handler (List_Sources h)),
          (''POST'', Handler (Create_Source h (json_param A decode_create_source h body)))]
      else if name = ''preview'' then
        by_method m [(''GET'', Handler (Preview_Req h (query_param A decode_preview_query q)))]
      else if name = ''config'' then
        by_method m [(''GET'', Handler (Get_Config h)),
          (''PUT'', Handler (Put_Config h (json_param A decode_update_config h body)))]
      else Fallback)"

text \<open>The segments of a path after its first slash; a parameter matches one segment that is not empty.\<close>

definition route :: "axum \<Rightarrow> string \<Rightarrow> string list \<Rightarrow> string \<Rightarrow> headers \<Rightarrow> string \<Rightarrow> endpoint" where
  "route A m path q h body =
     (case path of
        [a] \<Rightarrow> if a = ''healthz'' then by_method m [(''GET'', Health_Page)] else Fallback
      | [a, b] \<Rightarrow>
          if a = ''admin'' then admin_route A m b q h body
          else if a = ''subscribe'' \<and> b \<noteq> [] then
            by_method m [(''GET'', case ax_segment A b of
              Inl r \<Rightarrow> Name_Rejected r
            | Inr name \<Rightarrow> Handler (Subscribe_Req name h (query_param A decode_subscribe_query q)))]
          else Fallback
      | [a, b, c] \<Rightarrow>
          if a = ''admin'' \<and> b = ''combineds'' \<and> c \<noteq> [] then
            by_method m
              [(''PUT'', Handler (Update_Combined h (id_param A c) (json_param A decode_update_combined h body))),
               (''DELETE'', Handler (Delete_Combined_Req h (id_param A c)))]
          else if a = ''admin'' \<and> b = ''sources'' \<and> c \<noteq> [] then
            by_method m
              [(''PUT'', Handler (Update_Source_Req h (id_param A c) (json_param A decode_update_source h body))),
               (''DELETE'', Handler (Delete_Source_Req h (id_param A c)))]
          else Fallback
      | [a, b, c, d] \<Rightarrow>
          if a = ''admin'' \<and> b = ''sources'' \<and> c \<noteq> [] \<and> d = ''refresh''
          then by_method m [(''POST'', Handler (Refresh_Source h (id_param A c)))]
          else Fallback
      | _ \<Rightarrow> Fallback)"

text \<open>\<open>target\<close> is the path with its query, as the request line has it.\<close>

definition dispatch :: "axum \<Rightarrow> string \<Rightarrow> string \<Rightarrow> headers \<Rightarrow> string \<Rightarrow> endpoint" where
  "dispatch A m target h body =
     (let (path, q) = cut CHR ''?'' target in
      case strip_prefix ''/'' path of
        None \<Rightarrow> Fallback
      | Some rest \<Rightarrow> route A m (split_on CHR ''/'' rest) (unwrap_or [] q) h body)"

section \<open>The request of the front end on the wire\<close>

fun method_name :: "http_method \<Rightarrow> string" where
  "method_name Get = ''GET''"
| "method_name Post = ''POST''"
| "method_name Put = ''PUT''"
| "method_name Delete = ''DELETE''"

text \<open>\<open>browser\<close> are the headers the browser adds of its own.\<close>

definition sent_headers :: "headers \<Rightarrow> api_request \<Rightarrow> headers" where
  "sent_headers browser rq =
     (let h = (case rq_authorization rq of None \<Rightarrow> browser | Some a \<Rightarrow> browser(''authorization'' \<mapsto> a))
      in if rq_json_body rq = None then h else h(''content-type'' \<mapsto> ''application/json''))"

definition deliver :: "axum \<Rightarrow> headers \<Rightarrow> api_request \<Rightarrow> endpoint" where
  "deliver A browser rq =
     dispatch A (method_name (rq_method rq)) (rq_path rq) (sent_headers browser rq)
       (unwrap_or [] (rq_json_body rq))"

section \<open>The answer on the wire\<close>

definition source_json :: "source_row \<Rightarrow> json" where
  "source_json s = JObject [(''id'', JNumber (show_i64 (so_id s))), (''url'', JString (so_url s)),
     (''name'', JString (so_name s)), (''kind'', JString (so_kind s)), (''created_at'', JString (so_created s))]"

definition combined_json :: "combined_dto \<Rightarrow> json" where
  "combined_json c = JObject [(''id'', JNumber (show_i64 (cd_id c))), (''name'', JString (cd_name c)),
     (''created_at'', JString (cd_created c)),
     (''source_ids'', JArray (map (\<lambda>i. JNumber (show_i64 i)) (cd_source_ids c)))]"

definition preview_json :: "string \<times> string \<times> string \<times> u16 \<Rightarrow> json" where
  "preview_json n = (case n of (name, protocol, server, port) \<Rightarrow>
     JObject [(''name'', JString name), (''port'', JNumber (show_u16 port)),
       (''protocol'', JString protocol), (''server'', JString server)])"

fun response_json :: "response \<Rightarrow> json" where
  "response_json (Needs_Setup b) = JObject [(''needs_setup'', JBool b)]"
| "response_json (Username u) = JObject [(''username'', JString u)]"
| "response_json (Token t) = JObject [(''token'', JString t)]"
| "response_json (Config_Dto u b) = JObject [(''username'', JString u), (''v2ray_base64'', JBool b)]"
| "response_json (Template t) = JObject [(''template'', JString t)]"
| "response_json (Source_List ss) = JArray (map source_json ss)"
| "response_json (Source_Created s) = source_json s"
| "response_json (Source_Dto s) = source_json s"
| "response_json (Refreshed name r) =
     (case r of
        Inr n \<Rightarrow> JObject [(''node_count'', JNumber (show_nat n)), (''ok'', JBool True), (''source'', JString name)]
      | Inl e \<Rightarrow> JObject [(''ok'', JBool False), (''reason'', JString e), (''source'', JString name)])"
| "response_json (Combined_List cs) = JArray (map combined_json cs)"
| "response_json (Combined_Created c) = combined_json c"
| "response_json (Combined_Dto c) = combined_json c"
| "response_json (Preview nodes errors n) =
     JObject [(''errors'', JArray (map JString errors)), (''nodes'', JArray (map preview_json nodes)),
       (''total'', JNumber (show_nat n))]"
| "response_json No_Content = JNull"
| "response_json (Subscription t) = JString t"

definition error_json :: "api_error \<Rightarrow> json" where
  "error_json e = JObject [(''error'',
     JObject [(''code'', JString (ae_code e)), (''message'', JString (ae_message e))])]"

text \<open>A handler that panics takes its connection with it: the browser sees a failed request.\<close>

definition wire_reply :: "(json \<Rightarrow> string) \<Rightarrow> string \<Rightarrow> (response, api_error) outcome \<Rightarrow> web_reply" where
  "wire_reply text lost r =
     (case r of
        Ok No_Content \<Rightarrow> Received 204 (Inr [])
      | Ok (Subscription t) \<Rightarrow> Received 200 (Inr t)
      | Ok (Source_Created s) \<Rightarrow> Received 201 (Inr (text (response_json (Source_Created s))))
      | Ok (Combined_Created c) \<Rightarrow> Received 201 (Inr (text (response_json (Combined_Created c))))
      | Ok x \<Rightarrow> Received 200 (Inr (text (response_json x)))
      | Err e \<Rightarrow> Received (ae_status e) (Inr (text (error_json e)))
      | Panic \<Rightarrow> Send_Error lost)"

section \<open>The decoders of the front end\<close>

definition decode_source_dto :: "json \<Rightarrow> source_dto option" where
  "decode_source_dto v =
     Option.bind (struct_fields [''id'', ''url'', ''name'', ''kind'', ''created_at''] v) (\<lambda>m.
     Option.bind (field json_i64 ''id'' m) (\<lambda>i.
     Option.bind (field json_string ''url'' m) (\<lambda>u.
     Option.bind (field json_string ''name'' m) (\<lambda>n.
     Option.bind (field json_string ''kind'' m) (\<lambda>k.
     Option.bind (field json_string ''created_at'' m) (\<lambda>c.
     Some \<lparr>sd_id = i, sd_url = u, sd_name = n, sd_kind = k, sd_created_at = c\<rparr>))))))"

definition decode_combined_dto :: "json \<Rightarrow> combined_item option" where
  "decode_combined_dto v =
     Option.bind (struct_fields [''id'', ''name'', ''created_at'', ''source_ids''] v) (\<lambda>m.
     Option.bind (field json_i64 ''id'' m) (\<lambda>i.
     Option.bind (field json_string ''name'' m) (\<lambda>n.
     Option.bind (field json_string ''created_at'' m) (\<lambda>c.
     Option.bind (field (json_vec json_i64) ''source_ids'' m) (\<lambda>ids.
     Some \<lparr>ci_id = i, ci_name = n, ci_created_at = c, ci_source_ids = ids\<rparr>)))))"

definition decode_preview_node :: "json \<Rightarrow> preview_item option" where
  "decode_preview_node v =
     Option.bind (struct_fields [''name'', ''protocol'', ''server'', ''port''] v) (\<lambda>m.
     Option.bind (field json_string ''name'' m) (\<lambda>n.
     Option.bind (field json_string ''protocol'' m) (\<lambda>p.
     Option.bind (field json_string ''server'' m) (\<lambda>s.
     Option.bind (field json_u16 ''port'' m) (\<lambda>w.
     Some \<lparr>pi_name = n, pi_protocol = p, pi_server = s, pi_port = w\<rparr>)))))"

definition decode_preview_resp :: "json \<Rightarrow> preview_resp option" where
  "decode_preview_resp v =
     Option.bind (struct_fields [''nodes'', ''errors'', ''total''] v) (\<lambda>m.
     Option.bind (field (json_vec decode_preview_node) ''nodes'' m) (\<lambda>ns.
     Option.bind (field (json_vec json_string) ''errors'' m) (\<lambda>es.
     Option.bind (field json_usize ''total'' m) (\<lambda>t.
     Some \<lparr>pr_nodes = ns, pr_errors = es, pr_total = t\<rparr>))))"

definition decode_config_dto :: "json \<Rightarrow> account_dto option" where
  "decode_config_dto v =
     Option.bind (struct_fields [''username'', ''v2ray_base64''] v) (\<lambda>m.
     Option.bind (field json_string ''username'' m) (\<lambda>u.
     Option.bind (field json_bool ''v2ray_base64'' m) (\<lambda>b.
     Some \<lparr>ac_username = u, ac_v2ray_base64 = b\<rparr>)))"

definition decode_clash_dto :: "json \<Rightarrow> string option" where
  "decode_clash_dto v =
     Option.bind (struct_fields [''template''] v) (\<lambda>m. field json_string ''template'' m)"

end
