(* ===== verification/Wire_Lemmas.thy ===== *)
theory Wire_Lemmas
  imports Wire Server_Lemmas
begin

text \<open>
  The laws of \<open>axum\<close> and \<open>serde_json\<close> that the front end and the server rely on, and what they give:
  where each path is routed and what each body and each answer is decoded to.
\<close>

section \<open>Texts\<close>

lemma digits_no_sign: "c \<in> set (show_nat n) \<Longrightarrow> c \<noteq> CHR ''-''"
  by (auto dest: show_nat_digits simp: ascii_digit_def)

definition i64 :: "int \<Rightarrow> bool" where
  "i64 i \<longleftrightarrow> - (2 ^ 63) \<le> i \<and> i < 2 ^ 63"

lemma parse_show_i64 [simp]: "i64 i \<Longrightarrow> parse_i64 (show_i64 i) = Some i"
proof (cases "i < 0")
  case True
  assume "i64 i"
  then have "nat (- i) \<le> 2 ^ 63" by (simp add: i64_def nat_le_iff)
  with True show ?thesis by (simp add: parse_i64_def show_i64_def digits_value_show_nat)
next
  case False
  assume i: "i64 i"
  obtain c cs where s: "show_nat (nat i) = c # cs" by (cases "show_nat (nat i)") auto
  then have "c \<noteq> CHR ''-''" using digits_no_sign [of c "nat i"] by simp
  then have "strip_prefix ''-'' (show_nat (nat i)) = None" using s by simp
  moreover have "nat i < 2 ^ 63" using i False by (simp add: i64_def nat_less_iff)
  ultimately show ?thesis using False by (simp add: parse_i64_def show_i64_def parse_unsigned_show_nat)
qed

lemma show_i64_minus_zero: "show_i64 i \<noteq> ''-0''"
proof
  assume "show_i64 i = ''-0''"
  then have "i < 0" "show_nat (nat (- i)) = ''0''"
    using digits_no_sign [of _ "nat i"] by (auto simp: show_i64_def split: if_splits)
  moreover have "digits_value 0 ''0'' = Some 0" by (simp add: ascii_digit_def)
  ultimately show False using digits_value_show_nat [of "nat (- i)"] by simp
qed

lemma json_i64_show [simp]: "i64 i \<Longrightarrow> json_i64 (JNumber (show_i64 i)) = Some i"
  by (simp add: show_i64_minus_zero)

lemma show_i64_name: "list_all name_char (show_i64 i)" and show_i64_not_Nil [simp]: "show_i64 i \<noteq> []"
  by (auto simp: show_i64_def list_all_iff name_char_def ascii_alphanumeric_def ascii_digit_def
      dest!: show_nat_digits)

lemma name_absent: "list_all name_char s \<Longrightarrow> \<not> name_char c \<Longrightarrow> c \<notin> set s"
  by (auto simp: list_all_iff)

lemma not_name_char [simp]:
  "\<not> name_char CHR ''/''" "\<not> name_char CHR ''?''" "\<not> name_char CHR ''=''"
  by (simp_all add: name_char_def ascii_alphanumeric_def ascii_digit_def)

section \<open>Decoding\<close>

lemma struct_fields_object:
  "set (map fst m) \<subseteq> set names \<Longrightarrow> distinct (map fst m) \<Longrightarrow> struct_fields names (JObject m) = Some m"
proof -
  assume "set (map fst m) \<subseteq> set names" and d: "distinct (map fst m)"
  then have "filter (\<lambda>(k, v). k \<in> set names) m = m" by (auto simp: filter_id_conv)
  with d show ?thesis by (simp add: Let_def)
qed

lemmas decoders = field_def optional_def struct_fields_object

lemma all_some_decode: "(\<And>x. x \<in> set xs \<Longrightarrow> f (g x) = Some (h x)) \<Longrightarrow> all_some (map f (map g xs)) = Some (map h xs)"
  by (induction xs) auto

lemma json_vec_ids: "\<forall>i \<in> set ids. i64 i \<Longrightarrow>
    json_vec json_i64 (JArray (map (\<lambda>i. JNumber (show_i64 i)) ids)) = Some ids"
  using all_some_decode [of ids json_i64 "\<lambda>i. JNumber (show_i64 i)" "\<lambda>i. i"]
  by (simp del: json_i64.simps list.map_comp map_map)

definition source_dto_of :: "source_row \<Rightarrow> source_dto" where
  "source_dto_of s = \<lparr>sd_id = so_id s, sd_url = so_url s, sd_name = so_name s, sd_kind = so_kind s,
     sd_created_at = so_created s\<rparr>"

lemma decode_source_json: "i64 (so_id s) \<Longrightarrow> decode_source_dto (source_json s) = Some (source_dto_of s)"
  by (simp add: decode_source_dto_def source_json_def decoders source_dto_of_def del: json_i64.simps)

lemma decode_source_list:
  "\<forall>s \<in> set ss. i64 (so_id s) \<Longrightarrow>
     json_vec decode_source_dto (response_json (Source_List ss)) = Some (map source_dto_of ss)"
  by (simp add: all_some_decode decode_source_json del: list.map_comp map_map)

definition combined_item_of :: "combined_dto \<Rightarrow> combined_item" where
  "combined_item_of c = \<lparr>ci_id = cd_id c, ci_name = cd_name c, ci_created_at = cd_created c,
     ci_source_ids = cd_source_ids c\<rparr>"

lemma decode_combined_json:
  "i64 (cd_id c) \<Longrightarrow> \<forall>i \<in> set (cd_source_ids c). i64 i \<Longrightarrow>
     decode_combined_dto (combined_json c) = Some (combined_item_of c)"
  by (simp add: decode_combined_dto_def combined_json_def decoders combined_item_of_def json_vec_ids
      del: json_i64.simps json_vec.simps)

section \<open>The laws\<close>

text \<open>Values as the program builds them: integers, and objects without a repeated key.\<close>

fun plain_json :: "json \<Rightarrow> bool" where
  "plain_json (JNumber t) \<longleftrightarrow> t \<in> range show_i64"
| "plain_json (JArray vs) \<longleftrightarrow> (\<forall>v \<in> set vs. plain_json v)"
| "plain_json (JObject m) \<longleftrightarrow> distinct (map fst m) \<and> (\<forall>(k, v) \<in> set m. plain_json v)"
| "plain_json _ \<longleftrightarrow> True"

text \<open>The longest body that the \<open>Json\<close> extractor of \<open>axum\<close> reads by default.\<close>

definition max_body :: nat where
  "max_body = 2097152"

locale wire_crates =
  fixes W :: web_crates and A :: axum
  assumes json_type: "ax_is_json A ''application/json''"
    and body_read: "plain_json v \<Longrightarrow> length (json_text W v) \<le> max_body \<Longrightarrow> ax_json A (json_text W v) = Inr v"
    and value_read: "plain_json v \<Longrightarrow> value_from_str W (json_text W v) = Inr v"
    and sources_read: "plain_json v \<Longrightarrow> json_vec decode_source_dto v = Some ss
      \<Longrightarrow> sources_from_str W (json_text W v) = Inr ss"
    and combineds_read: "plain_json v \<Longrightarrow> json_vec decode_combined_dto v = Some cs
      \<Longrightarrow> combineds_from_str W (json_text W v) = Inr cs"
    and account_read: "plain_json v \<Longrightarrow> decode_config_dto v = Some c
      \<Longrightarrow> account_from_str W (json_text W v) = Inr c"
    and template_read: "plain_json v \<Longrightarrow> decode_clash_dto v = Some t
      \<Longrightarrow> template_from_str W (json_text W v) = Inr t"
    and preview_read: "plain_json v \<Longrightarrow> decode_preview_resp v = Some p
      \<Longrightarrow> preview_from_str W (json_text W v) = Inr p"
    and segment_plain: "list_all name_char s \<Longrightarrow> ax_segment A s = Inr s"
    and query_none: "ax_query A [] = []"
    and query_pair: "list_all name_char k \<Longrightarrow> list_all name_char x \<Longrightarrow> ax_query A (k @ CHR ''='' # x) = [(k, x)]"
    and set_order: "finite S \<Longrightarrow> set (hash_order W S) = S"
begin

lemma json_param_read:
  assumes "h ''content-type'' = Some ''application/json''" and "plain_json v"
    and "length (json_text W v) \<le> max_body" and "decode v = Some b"
  shows "json_param A decode h (json_text W v) = Inr b"
  using assms by (simp add: json_param_def json_type body_read)

lemma id_param_show: "i64 i \<Longrightarrow> id_param A (show_i64 i) = Inr i"
  by (simp add: id_param_def segment_plain show_i64_name)

end

section \<open>Routing\<close>

lemma cut_target: "list_all name_char s \<Longrightarrow> cut CHR ''?'' (''/admin/'' @ s) = (''/admin/'' @ s, None)"
  by (rule cut_absent) (auto dest: name_absent [of s "CHR ''?''"])

lemma dispatch_admin:
  assumes "list_all name_char s"
  shows "dispatch A m (''/admin/'' @ s) h body = admin_route A m s [] h body"
proof -
  have "split_on CHR ''/'' (''admin/'' @ s) = [''admin'', s]"
    using name_absent [OF assms] split_on_append [of "CHR ''/''" "''admin''" s] by simp
  moreover have "strip_prefix ''/'' (''/admin/'' @ s) = Some (''admin/'' @ s)" by simp
  ultimately show ?thesis
    unfolding dispatch_def cut_target [OF assms] by (simp add: route_def)
qed

lemma dispatch_admin_query:
  assumes "list_all name_char s"
  shows "dispatch A m (''/admin/'' @ s @ CHR ''?'' # q) h body = admin_route A m s q h body"
proof -
  have "split_on CHR ''/'' (''admin/'' @ s) = [''admin'', s]"
    using name_absent [OF assms] split_on_append [of "CHR ''/''" "''admin''" s] by simp
  moreover have "CHR ''?'' \<notin> set (''/admin/'' @ s)" using name_absent [OF assms] by simp
  then have "cut CHR ''?'' ((''/admin/'' @ s) @ CHR ''?'' # q) = (''/admin/'' @ s, Some q)" by (rule cut_append)
  ultimately show ?thesis unfolding dispatch_def by (simp add: route_def)
qed

lemma dispatch_admin_id:
  assumes "list_all name_char a" and "list_all name_char i"
  shows "dispatch A m (''/admin/'' @ a @ CHR ''/'' # i) h body = route A m [''admin'', a, i] [] h body"
proof -
  have "split_on CHR ''/'' (a @ CHR ''/'' # i) = [a, i]"
    using name_absent [OF assms(1)] name_absent [OF assms(2)] by simp
  then have "split_on CHR ''/'' (''admin/'' @ a @ CHR ''/'' # i) = [''admin'', a, i]"
    using split_on_append [of "CHR ''/''" "''admin''" "a @ CHR ''/'' # i"] by simp
  moreover have "cut CHR ''?'' (''/admin/'' @ a @ CHR ''/'' # i) = (''/admin/'' @ a @ CHR ''/'' # i, None)"
    using name_absent [OF assms(1), of "CHR ''?''"] name_absent [OF assms(2), of "CHR ''?''"]
    by (intro cut_absent) simp
  ultimately show ?thesis unfolding dispatch_def by simp
qed

end
