(* ===== verification/Json_Text.thy ===== *)
theory Json_Text
  imports Rfc_Codecs
begin

text \<open>
  A printer and a parser of JSON values, compact as \<open>serde_json::to_string\<close> prints them: the
  concrete instance at which the laws assumed of \<open>serde_json\<close> hold. \<open>Rfc_Codecs\<close> has its strings.
\<close>

section \<open>Printing\<close>

fun json_print :: "json \<Rightarrow> string" where
  "json_print JNull = ''null''"
| "json_print (JBool b) = (if b then ''true'' else ''false'')"
| "json_print (JNumber t) = t"
| "json_print (JString s) = json_quote s"
| "json_print (JArray vs) = CHR ''['' # join '','' (map json_print vs) @ '']''"
| "json_print (JObject m) =
     CHR ''{'' # join '','' (map (\<lambda>(k, v). json_quote k @ CHR '':'' # json_print v) m) @ ''}''"

section \<open>Parsing\<close>

definition number_char :: "char \<Rightarrow> bool" where
  "number_char c \<longleftrightarrow> ascii_digit c \<or> c = CHR ''-''"

definition json_number :: "string \<Rightarrow> (json \<times> string) option" where
  "json_number s =
     (let t = takeWhile number_char s in if t = [] then None else Some (JNumber t, dropWhile number_char s))"

definition json_word :: "string \<Rightarrow> (json \<times> string) option" where
  "json_word s =
     (case strip_prefix ''null'' s of Some r \<Rightarrow> Some (JNull, r) | None \<Rightarrow>
     (case strip_prefix ''true'' s of Some r \<Rightarrow> Some (JBool True, r) | None \<Rightarrow>
     (case strip_prefix ''false'' s of Some r \<Rightarrow> Some (JBool False, r) | None \<Rightarrow> json_number s)))"

text \<open>A list in brackets, its items read by \<open>f\<close>: each call takes an item and the character after it.\<close>

fun json_items :: "(string \<Rightarrow> ('a \<times> string) option) \<Rightarrow> char \<Rightarrow> nat \<Rightarrow> string \<Rightarrow> ('a list \<times> string) option" where
  "json_items f close 0 s = None"
| "json_items f close (Suc n) s =
     Option.bind (f s) (\<lambda>(v, r).
     case r of
       [] \<Rightarrow> None
     | c # t \<Rightarrow>
         if c = close then Some ([v], t)
         else if c = CHR '','' then map_option (\<lambda>(vs, u). (v # vs, u)) (json_items f close n t)
         else None)"

definition json_list :: "(string \<Rightarrow> ('a \<times> string) option) \<Rightarrow> char \<Rightarrow> string \<Rightarrow> ('a list \<times> string) option" where
  "json_list f close s =
     (case s of
        c # r \<Rightarrow> if c = close then Some ([], r) else json_items f close (length s) s
      | [] \<Rightarrow> None)"

definition json_member :: "(string \<Rightarrow> (json \<times> string) option) \<Rightarrow> string \<Rightarrow> ((string \<times> json) \<times> string) option" where
  "json_member f s =
     Option.bind (strip_prefix [CHR 0x22] s) (\<lambda>r.
     Option.bind (json_string_body r) (\<lambda>(k, r).
     Option.bind (strip_prefix '':'' r) (\<lambda>r.
     map_option (\<lambda>(v, r). ((k, v), r)) (f r))))"

text \<open>\<open>n\<close> bounds the nesting.\<close>

fun json_value :: "nat \<Rightarrow> string \<Rightarrow> (json \<times> string) option" where
  "json_value 0 s = None"
| "json_value (Suc n) s =
     (case s of
        [] \<Rightarrow> None
      | c # r \<Rightarrow>
          if c = CHR 0x22 then map_option (\<lambda>(x, y). (JString x, y)) (json_string_body r)
          else if c = CHR ''['' then map_option (\<lambda>(vs, y). (JArray vs, y)) (json_list (json_value n) CHR '']'' r)
          else if c = CHR ''{'' then
            map_option (\<lambda>(m, y). (JObject m, y)) (json_list (json_member (json_value n)) CHR ''}'' r)
          else json_word s)"

definition json_parse :: "string \<Rightarrow> json option" where
  "json_parse s = (case json_value (length s) s of Some (v, []) \<Rightarrow> Some v | _ \<Rightarrow> None)"

section \<open>Parsing what was printed\<close>

fun number_ok :: "json \<Rightarrow> bool" where
  "number_ok (JNumber t) \<longleftrightarrow> t \<noteq> [] \<and> list_all number_char t"
| "number_ok (JArray vs) \<longleftrightarrow> (\<forall>v \<in> set vs. number_ok v)"
| "number_ok (JObject m) \<longleftrightarrow> (\<forall>(k, v) \<in> set m. number_ok v)"
| "number_ok _ \<longleftrightarrow> True"

definition ends :: "string \<Rightarrow> bool" where
  "ends s \<longleftrightarrow> (case s of [] \<Rightarrow> True | c # r \<Rightarrow> \<not> number_char c)"

lemma ends_simps [simp]:
  "ends []" "ends (CHR '','' # r)" "ends (CHR '']'' # r)" "ends (CHR ''}'' # r)"
  by (simp_all add: ends_def number_char_def ascii_digit_def)

text \<open>A reader takes a printed item off any text that does not go on with it.\<close>

definition reads :: "(string \<Rightarrow> ('a \<times> string) option) \<Rightarrow> ('a \<Rightarrow> string) \<Rightarrow> 'a \<Rightarrow> bool" where
  "reads f p v \<longleftrightarrow> (\<forall>r. ends r \<longrightarrow> f (p v @ r) = Some (v, r))"

lemma json_items_read:
  assumes "\<forall>v \<in> set vs. reads f p v" and "vs \<noteq> []" and "length vs \<le> n"
    and "close = CHR '']'' \<or> close = CHR ''}''"
  shows "json_items f close n (join '','' (map p vs) @ close # r) = Some (vs, r)"
  using assms(1-3)
proof (induction vs arbitrary: n)
  case (Cons v vs)
  then obtain m where n: "n = Suc m" by (cases n) auto
  have v: "f (p v @ s) = Some (v, s)" if "ends s" for s
    using Cons.prems(1) that by (simp add: reads_def)
  show ?case
  proof (cases vs)
    case Nil
    then show ?thesis using v [of "close # r"] assms(4) by (auto simp: n)
  next
    case (Cons w ws)
    then have "json_items f close m (join '','' (map p vs) @ close # r) = Some (vs, r)"
      using Cons.IH Cons.prems n by simp
    then show ?thesis
      using v [of "CHR '','' # join '','' (map p vs) @ close # r"] assms(4) Cons by (auto simp: n)
  qed
qed simp

lemma join_length: "length xs \<le> Suc (length (join '','' xs))"
  by (induction "'',''" xs rule: join.induct) auto

lemma json_list_read:
  assumes "\<forall>v \<in> set vs. reads f p v" and "close = CHR '']'' \<or> close = CHR ''}''"
    and "\<forall>v \<in> set vs. p v \<noteq> [] \<and> hd (p v) \<noteq> close"
  shows "json_list f close (join '','' (map p vs) @ close # r) = Some (vs, r)"
proof (cases vs)
  case Nil
  then show ?thesis by (simp add: json_list_def)
next
  case (Cons v ws)
  let ?s = "join '','' (map p vs) @ close # r"
  have "p v \<noteq> []" "hd (p v) \<noteq> close" using assms(3) Cons by simp_all
  then obtain c t where c: "p v = c # t" "c \<noteq> close" by (cases "p v") auto
  then obtain u where s: "?s = c # u" using Cons by (cases ws) auto
  have "length vs \<le> length ?s" using join_length [of "map p vs"] by simp
  then have "json_items f close (length ?s) ?s = Some (vs, r)"
    using assms(1,2) Cons by (intro json_items_read) auto
  with c(2) show ?thesis unfolding json_list_def s by simp
qed

lemma json_print_hd:
  "number_ok v \<Longrightarrow> json_print v \<noteq> [] \<and> hd (json_print v) \<noteq> CHR '']''"
  by (cases v) (auto simp: json_quote_def number_char_def ascii_digit_def neq_Nil_conv)

lemma json_word_read:
  assumes "ends r"
  shows "json_word (''null'' @ r) = Some (JNull, r)" "json_word (''true'' @ r) = Some (JBool True, r)"
    and "json_word (''false'' @ r) = Some (JBool False, r)"
    and "t \<noteq> [] \<Longrightarrow> list_all number_char t \<Longrightarrow> json_word (t @ r) = Some (JNumber t, r)"
proof -
  show "json_word (''null'' @ r) = Some (JNull, r)" "json_word (''true'' @ r) = Some (JBool True, r)"
    "json_word (''false'' @ r) = Some (JBool False, r)" by (simp_all add: json_word_def)
  assume t: "t \<noteq> []" "list_all number_char t"
  then obtain c u where c: "t = c # u" "number_char c" by (cases t) auto
  have "takeWhile number_char (t @ r) = t" "dropWhile number_char (t @ r) = r"
    using t(2) assms by (induction t) (auto simp: ends_def split: list.splits)
  then have "json_number (t @ r) = Some (JNumber t, r)" using t(1) by (simp add: json_number_def)
  moreover have "c \<noteq> CHR ''n''" "c \<noteq> CHR ''t''" "c \<noteq> CHR ''f''"
    using c(2) by (auto simp: number_char_def ascii_digit_def)
  ultimately show "json_word (t @ r) = Some (JNumber t, r)" using c(1) by (simp add: json_word_def)
qed

lemma json_member_read: "reads f json_print v \<Longrightarrow> reads (json_member f) (\<lambda>(k, v). json_quote k @ CHR '':'' # json_print v) (k, v)"
  by (simp add: reads_def json_member_def json_quote_def json_string_body_quote)

text \<open>The nesting of a value is less than the length of its text.\<close>

lemma json_value_print:
  "number_ok v \<Longrightarrow> length (json_print v) \<le> n \<Longrightarrow> reads (json_value n) json_print v"
proof (induction n arbitrary: v)
  case 0
  then show ?case using json_print_hd [of v] by simp
next
  case (Suc n)
  have inner: "length (p v) < length (join '','' (map p vs) @ r)"
    if "v \<in> set vs" "r \<noteq> []" for p :: "'b \<Rightarrow> string" and v vs r
  proof -
    have "length (p v) \<le> length (join '','' (map p vs))" using that(1)
      by (induction vs rule: induct_list012) auto
    with that(2) show ?thesis by (cases r) auto
  qed
  show ?case
  proof (cases v)
    case (JNumber t)
    then obtain c u where c: "t = c # u" "number_char c" using Suc.prems(1) by (cases t) auto
    then have "c \<noteq> CHR 0x22" "c \<noteq> CHR ''[''" "c \<noteq> CHR ''{''"
      by (auto simp: number_char_def ascii_digit_def)
    with JNumber c Suc.prems(1) json_word_read(4) [of _ t] show ?thesis by (auto simp: reads_def)
  next
    case (JArray vs)
    have "reads (json_value n) json_print w" if "w \<in> set vs" for w
      using Suc.prems JArray that inner [OF that, of "'']''" json_print] by (intro Suc.IH) auto
    then have "json_list (json_value n) CHR '']'' (join '','' (map json_print vs) @ CHR '']'' # r) = Some (vs, r)" for r
      using Suc.prems(1) JArray json_print_hd by (intro json_list_read) auto
    with JArray show ?thesis by (simp add: reads_def)
  next
    case (JObject m)
    let ?p = "\<lambda>(k, v). json_quote k @ CHR '':'' # json_print v"
    have "reads (json_value n) json_print w" if "(k, w) \<in> set m" for k w
      using Suc.prems JObject that inner [OF that, of "''}''" ?p] by (intro Suc.IH) auto
    then have "\<forall>x \<in> set m. reads (json_member (json_value n)) ?p x" using json_member_read by fast
    then have "json_list (json_member (json_value n)) CHR ''}'' (join '','' (map ?p m) @ CHR ''}'' # r) = Some (m, r)" for r
      by (intro json_list_read) (auto simp: json_quote_def)
    with JObject show ?thesis by (simp add: reads_def)
  qed (auto simp: reads_def json_word_read [simplified] json_quote_def json_string_body_quote)
qed

theorem json_parse_print: "number_ok v \<Longrightarrow> json_parse (json_print v) = Some v"
proof -
  assume "number_ok v"
  then have "reads (json_value (length (json_print v))) json_print v" by (rule json_value_print) simp
  then have "json_value (length (json_print v)) (json_print v @ []) = Some (v, [])"
    unfolding reads_def by (rule allE [of _ "[]"]) simp
  then show ?thesis by (simp add: json_parse_def)
qed

end
