(* ===== verification/Wire_Instance.thy ===== *)
theory Wire_Instance
  imports Wire_Lemmas Json_Text
begin

text \<open>
  Concrete functions at which the laws of \<open>wire_crates\<close> hold: JSON as \<open>Json_Text\<close> prints and parses
  it, the decoders of \<open>Wire\<close> on the parsed value, and the URL codes of \<open>Rfc_Codecs\<close>.
\<close>

definition rejected :: "nat \<Rightarrow> rejection" where
  "rejected status = \<lparr>rj_status = status, rj_text = []\<rparr>"

definition from_text :: "(json \<Rightarrow> 'a option) \<Rightarrow> string \<Rightarrow> string + 'a" where
  "from_text decode t =
     (case json_parse t of
        None \<Rightarrow> Inl ''syntax''
      | Some v \<Rightarrow> (case decode v of None \<Rightarrow> Inl ''data'' | Some x \<Rightarrow> Inr x))"

definition rfc_web :: web_crates where
  "rfc_web = \<lparr>sources_from_str = from_text (json_vec decode_source_dto),
     combineds_from_str = from_text (json_vec decode_combined_dto),
     account_from_str = from_text decode_config_dto, template_from_str = from_text decode_clash_dto,
     preview_from_str = from_text decode_preview_resp, value_from_str = from_text Some,
     json_text = json_print, hash_order = sorted_list_of_set\<rparr>"

definition query_pairs :: "string \<Rightarrow> (string \<times> string) list" where
  "query_pairs q =
     map (\<lambda>p. case cut CHR ''='' p of (k, v) \<Rightarrow> (url_decode k, url_decode (unwrap_or [] v)))
       (filter (\<lambda>p. p \<noteq> []) (split_on CHR ''&'' q))"

definition rfc_axum :: axum where
  "rfc_axum = \<lparr>ax_is_json = (\<lambda>t. t = ''application/json''), ax_not_json = rejected 415,
     ax_json = (\<lambda>t. if max_body < length t then Inl (rejected 413)
       else case json_parse t of None \<Rightarrow> Inl (rejected 400) | Some v \<Rightarrow> Inr v),
     ax_bad_data = (\<lambda>v. rejected 422), ax_segment = (\<lambda>s. Inr (url_decode s)), ax_bad_id = (\<lambda>s. rejected 400),
     ax_query = query_pairs, ax_bad_query = (\<lambda>q. rejected 400)\<rparr>"

lemma plain_number_ok: "plain_json v \<Longrightarrow> number_ok v"
proof (induction v rule: plain_json.induct)
  case (1 t)
  then obtain i where "t = show_i64 i" by auto
  moreover have "list_all number_char (show_i64 i)"
    by (auto simp: show_i64_def list_all_iff number_char_def dest: show_nat_digits)
  ultimately show ?case by simp
qed auto

lemma parse_plain: "plain_json v \<Longrightarrow> json_parse (json_print v) = Some v"
  by (simp add: json_parse_print plain_number_ok)

lemma url_decode_name: "list_all name_char s \<Longrightarrow> url_decode s = s"
  by (rule url_decode_plain)
    (auto simp: list_all_iff name_char_def ascii_alphanumeric_def ascii_digit_def)

lemma query_pairs_one:
  assumes "list_all name_char k" and "list_all name_char x"
  shows "query_pairs (k @ CHR ''='' # x) = [(k, x)]"
proof -
  have "\<not> name_char CHR ''&''" by (simp add: name_char_def ascii_alphanumeric_def ascii_digit_def)
  then have "CHR ''&'' \<notin> set (k @ CHR ''='' # x)" using assms by (auto simp: list_all_iff)
  moreover have "cut CHR ''='' (k @ CHR ''='' # x) = (k, Some x)"
    using name_absent [OF assms(1)] by (intro cut_append) simp
  ultimately show ?thesis by (simp add: query_pairs_def url_decode_name assms)
qed

lemma query_pairs_none: "query_pairs [] = []"
  by (simp add: query_pairs_def)

interpretation rfc_wire: wire_crates rfc_web rfc_axum
  by unfold_locales
    (simp_all add: rfc_axum_def rfc_web_def from_text_def parse_plain url_decode_name query_pairs_one query_pairs_none)

end
