(* ===== verification/Wire_Properties.thy ===== *)
theory Wire_Properties
  imports Wire_Instance Delivery_Properties
begin

text \<open>
  The properties of the whole: a request of the front end reaches the handler it is meant for,
  with the values of the form and the token of the session, and what the handler answers comes
  back to the page as the server has it.
\<close>

section \<open>The requests of the front end\<close>

text \<open>
  \<open>asks W h token rq req\<close>: the event handlers of the pages send \<open>rq\<close>, by which they mean the call
  \<open>req\<close> of the server, with headers \<open>h\<close>.
\<close>

inductive asks :: "web_crates \<Rightarrow> headers \<Rightarrow> string option \<Rightarrow> api_request \<Rightarrow> Subscribe.request \<Rightarrow> bool"
  for W :: web_crates and h :: headers and token :: "string option" where
  load_sources: "asks W h token (unit_request Sources_Unit token) (List_Sources h)"
| load_combineds: "asks W h token (unit_request Combineds_Unit token) (List_Combineds h)"
| load_config: "asks W h token (unit_request Config_Unit token) (Get_Config h)"
| load_template: "asks W h token (unit_request Clash_Config_Unit token) (Get_Clash_Config h)"
| add_source: "snd (add_source W kind token p) = Some rq
    \<Longrightarrow> asks W h token rq (Create_Source h
          (Inr \<lparr>cs_url = sp_new_url p, cs_name = sp_new_name p, cs_kind = Some kind\<rparr>))"
| save_source: "snd (save_source W token e) = Some rq \<Longrightarrow> i64 (ed_id e)
    \<Longrightarrow> asks W h token rq (Update_Source_Req h (Inr (ed_id e))
          (Inr \<lparr>up_url = Some (ed_url e), up_name = Some (ed_name e), up_kind = Some (ed_kind e)\<rparr>))"
| delete_source: "snd (confirm_delete_source token p) = Some rq \<Longrightarrow> sp_pending_id p = Some i \<Longrightarrow> i64 i
    \<Longrightarrow> asks W h token rq (Delete_Source_Req h (Inr i))"
| create_combined: "snd (save_combined W token c) = Some rq \<Longrightarrow> fs_edit_id (cp_form c) = None
    \<Longrightarrow> \<forall>i \<in> set (hash_order W (fs_checked (cp_form c))). i64 i
    \<Longrightarrow> asks W h token rq (Create_Combined h (Inr \<lparr>cc_name = fs_name (cp_form c),
          cc_source_ids = Some (hash_order W (fs_checked (cp_form c)))\<rparr>))"
| update_combined: "snd (save_combined W token c) = Some rq \<Longrightarrow> fs_edit_id (cp_form c) = Some i \<Longrightarrow> i64 i
    \<Longrightarrow> \<forall>i \<in> set (hash_order W (fs_checked (cp_form c))). i64 i
    \<Longrightarrow> asks W h token rq (Update_Combined h (Inr i) (Inr \<lparr>uc_name = Some (fs_name (cp_form c)),
          uc_source_ids = Some (hash_order W (fs_checked (cp_form c)))\<rparr>))"
| delete_combined: "snd (confirm_delete_combined token c) = Some rq \<Longrightarrow> cp_pending_id c = Some i \<Longrightarrow> i64 i
    \<Longrightarrow> asks W h token rq (Delete_Combined_Req h (Inr i))"
| change_password: "snd (do_change W token g) = Some rq
    \<Longrightarrow> asks W h token rq (Put_Config h (Inr \<lparr>uc_change_password = Some \<lparr>cp_old = gp_old g, cp_new = gp_new g\<rparr>,
          uc_v2ray_base64 = None\<rparr>))"
| save_setting: "snd (save_setting W token g) = rq
    \<Longrightarrow> asks W h token rq (Put_Config h (Inr \<lparr>uc_change_password = None,
          uc_v2ray_base64 = Some (gp_v2ray_b64 g)\<rparr>))"
| save_template: "snd (save_template W token l) = Some rq
    \<Longrightarrow> asks W h token rq (Put_Clash_Config h (Inr (lp_draft l)))"
| preview_source: "snd (start_preview \<lparr>pt_seq = n, pt_key = preview_key (Some i) name, pt_token = token\<rparr> m) = rq \<Longrightarrow> i64 i
    \<Longrightarrow> asks W h token rq (Preview_Req h (Inr \<lparr>pq_combined = None, pq_kind = None, pq_source_id = Some i\<rparr>))"
| preview_combined: "snd (start_preview \<lparr>pt_seq = n, pt_key = preview_key None (Some name), pt_token = token\<rparr> m) = rq
    \<Longrightarrow> valid_combined_name name
    \<Longrightarrow> asks W h token rq (Preview_Req h (Inr \<lparr>pq_combined = Some name, pq_kind = None, pq_source_id = None\<rparr>))"
| preview_all: "snd (start_preview \<lparr>pt_seq = n, pt_key = preview_key None None, pt_token = token\<rparr> m) = rq
    \<Longrightarrow> asks W h token rq (Preview_Req h (Inr \<lparr>pq_combined = None, pq_kind = None, pq_source_id = None\<rparr>))"
| check_session: "snd (app_check a) = Some rq \<Longrightarrow> ap_token a = token \<Longrightarrow> asks W h token rq (Get_Config h)"
| logout: "logout_request token = Some rq \<Longrightarrow> asks W h token rq (Logout h)"
| probe: "snd (probe f) = Some rq \<Longrightarrow> asks W h token rq Setup_Status"
| log_in: "snd (do_submit W f) = Some rq
    \<Longrightarrow> asks W h token rq (Login (Inr \<lparr>li_username = lg_input f, li_password = lg_pass f\<rparr>))"
| set_up: "snd (do_setup W f) = Some rq
    \<Longrightarrow> asks W h token rq (Setup (Inr \<lparr>su_username = lg_setup_user f, su_password = lg_setup_pass f,
          su_password_confirm = lg_setup_pass2 f\<rparr>))"
| set_up_login: "snd (setup_reply W user pass r f) = Some rq
    \<Longrightarrow> asks W h token rq (Login (Inr \<lparr>li_username = user, li_password = pass\<rparr>))"

section \<open>Their way to the handlers\<close>

lemma sent_json: "rq_json_body rq = Some b \<Longrightarrow> sent_headers browser rq ''content-type'' = Some ''application/json''"
  by (simp add: sent_headers_def Let_def)

lemma sent_token:
  "rq_authorization rq = Some a \<Longrightarrow> sent_headers browser rq ''authorization'' = Some a"
  by (simp add: sent_headers_def Let_def)

lemma request_simps [simp]:
  "rq_method (request m path body token) = m" "rq_path (request m path body token) = path"
  "rq_json_body (request m path body token) = body"
  "rq_authorization (request m path body token) = map_option (\<lambda>t. ''Bearer '' @ t) token"
  by (simp_all add: request_def)

lemma admin_names:
  "list_all name_char ''sources''" "list_all name_char ''combineds''" "list_all name_char ''config''"
  "list_all name_char ''clash-config''" "list_all name_char ''preview''" "list_all name_char ''login''"
  "list_all name_char ''logout''" "list_all name_char ''setup''" "list_all name_char ''setup-status''"
  "list_all name_char ''source_id''" "list_all name_char ''combined''"
  by (simp_all add: name_char_def ascii_alphanumeric_def ascii_digit_def)

lemmas admin_dispatch = dispatch_admin [OF admin_names(1), simplified] dispatch_admin [OF admin_names(2), simplified]
  dispatch_admin [OF admin_names(3), simplified] dispatch_admin [OF admin_names(4), simplified]
  dispatch_admin [OF admin_names(5), simplified] dispatch_admin [OF admin_names(6), simplified]
  dispatch_admin [OF admin_names(7), simplified] dispatch_admin [OF admin_names(8), simplified]
  dispatch_admin [OF admin_names(9), simplified] dispatch_admin_query [OF admin_names(5), simplified]
  dispatch_admin_id [OF admin_names(1), simplified] dispatch_admin_id [OF admin_names(2), simplified]

lemmas routing = deliver_def admin_dispatch admin_route_def route_def by_method_def show_i64_name

context wire_crates
begin

lemma body_params:
  assumes "h ''content-type'' = Some ''application/json''"
  shows "length (source_body W u n k) \<le> max_body
      \<Longrightarrow> json_param A decode_create_source h (source_body W u n k) = Inr \<lparr>cs_url = u, cs_name = n, cs_kind = Some k\<rparr>"
    and "length (source_body W u n k) \<le> max_body
      \<Longrightarrow> json_param A decode_update_source h (source_body W u n k) = Inr \<lparr>up_url = Some u, up_name = Some n, up_kind = Some k\<rparr>"
    and "length (credentials_body W u p) \<le> max_body
      \<Longrightarrow> json_param A decode_login h (credentials_body W u p) = Inr \<lparr>li_username = u, li_password = p\<rparr>"
  using assms unfolding source_body_def credentials_body_def
  by (auto intro!: json_param_read simp: decode_create_source_def decode_update_source_def decode_login_def decoders)

lemma combined_params:
  assumes "h ''content-type'' = Some ''application/json''" and "\<forall>i \<in> set (hash_order W (fs_checked f)). i64 i"
    and "length (combined_body W f) \<le> max_body"
  shows "json_param A decode_create_combined h (combined_body W f)
      = Inr \<lparr>cc_name = fs_name f, cc_source_ids = Some (hash_order W (fs_checked f))\<rparr>"
    and "json_param A decode_update_combined h (combined_body W f)
      = Inr \<lparr>uc_name = Some (fs_name f), uc_source_ids = Some (hash_order W (fs_checked f))\<rparr>"
  using assms unfolding combined_body_def
  by (auto intro!: json_param_read simp: decode_create_combined_def decode_update_combined_def decoders
      json_vec_ids simp del: json_vec.simps)

lemma config_params:
  assumes "h ''content-type'' = Some ''application/json''"
  shows "v = JObject [(''change_password'', JObject [(''new'', JString new), (''old'', JString old)])]
      \<Longrightarrow> length (json_text W v) \<le> max_body
      \<Longrightarrow> json_param A decode_update_config h (json_text W v)
        = Inr \<lparr>uc_change_password = Some \<lparr>cp_old = old, cp_new = new\<rparr>, uc_v2ray_base64 = None\<rparr>"
    and "v = JObject [(''v2ray_base64'', JBool b)] \<Longrightarrow> length (json_text W v) \<le> max_body
      \<Longrightarrow> json_param A decode_update_config h (json_text W v) = Inr \<lparr>uc_change_password = None, uc_v2ray_base64 = Some b\<rparr>"
    and "v = JObject [(''template'', JString t)] \<Longrightarrow> length (json_text W v) \<le> max_body
      \<Longrightarrow> json_param A decode_update_clash h (json_text W v) = Inr t"
    and "v = JObject [(''password'', JString p), (''password_confirm'', JString p2), (''username'', JString u)]
      \<Longrightarrow> length (json_text W v) \<le> max_body
      \<Longrightarrow> json_param A decode_setup h (json_text W v) = Inr \<lparr>su_username = u, su_password = p, su_password_confirm = p2\<rparr>"
  using assms by (auto intro!: json_param_read simp: decode_update_config_def decode_change_password_def
      decode_update_clash_def decode_setup_def decoders)

lemma query_params_read:
  "i64 i \<Longrightarrow> query_param A decode_preview_query (''source_id='' @ show_i64 i)
    = Inr \<lparr>pq_combined = None, pq_kind = None, pq_source_id = Some i\<rparr>"
  "list_all name_char name \<Longrightarrow> query_param A decode_preview_query (''combined='' @ name)
    = Inr \<lparr>pq_combined = Some name, pq_kind = None, pq_source_id = None\<rparr>"
  "query_param A decode_preview_query [] = Inr \<lparr>pq_combined = None, pq_kind = None, pq_source_id = None\<rparr>"
  using query_pair [OF admin_names(10) show_i64_name, of i] query_pair [OF admin_names(11), of name]
  by (simp_all add: query_param_def decode_preview_query_def query_fields_def query_none Let_def)

lemma asked_delivered:
  assumes "asks W h token rq req" and h: "h = sent_headers browser rq"
    and len: "\<forall>b. rq_json_body rq = Some b \<longrightarrow> length b \<le> max_body"
  shows "deliver A browser rq = Handler req"
  using assms(1)
proof cases
  case (add_source kind p)
  then show ?thesis using len h
    by (auto simp: add_source_def routing body_params sent_json split: if_splits)
next
  case (save_source e)
  then show ?thesis using len h
    by (auto simp: save_source_def routing body_params sent_json id_param_show split: if_splits)
next
  case (delete_source p i)
  then show ?thesis using h
    by (auto simp: confirm_delete_source_def routing id_param_show)
next
  case (create_combined c)
  then show ?thesis using len h
    by (auto simp: save_combined_def Let_def routing combined_params sent_json split: if_splits)
next
  case (update_combined c i)
  then show ?thesis using len h
    by (auto simp: save_combined_def Let_def routing combined_params sent_json id_param_show split: if_splits)
next
  case (delete_combined c i)
  then show ?thesis using h
    by (auto simp: confirm_delete_combined_def routing id_param_show)
next
  case (change_password g)
  then show ?thesis using len h
    by (auto simp: do_change_def routing config_params sent_json split: if_splits)
next
  case (save_setting g)
  then show ?thesis using len h
    by (auto simp: save_setting_def routing config_params sent_json)
next
  case (save_template l)
  then show ?thesis using len h
    by (auto simp: save_template_def routing config_params sent_json split: if_splits)
next
  case (preview_source n i name m)
  then show ?thesis using h query_params_read(1) [of i]
    by (auto simp: start_preview_def preview_path_key routing)
next
  case (preview_combined n name m)
  then show ?thesis using h query_params_read(2) [of name]
    by (auto simp: start_preview_def preview_path_key routing valid_combined_name_def)
next
  case (preview_all n m)
  then show ?thesis using h by (auto simp: start_preview_def preview_path_key routing query_params_read)
next
  case (log_in f)
  then show ?thesis using len h
    by (auto simp: do_submit_def login_request_for_def routing body_params sent_json split: if_splits)
next
  case (set_up f)
  then show ?thesis using len h
    by (auto simp: do_setup_def Let_def routing config_params sent_json split: if_splits)
next
  case (set_up_login user pass r f)
  then show ?thesis using len h
    by (auto simp: setup_reply_def login_request_for_def routing body_params sent_json split: sum.splits)
qed (use h in \<open>auto simp: routing app_check_def logout_request_def probe_def split: option.splits if_splits\<close>)

lemma asked_authorized:
  assumes "asks W h token rq req" and h: "h = sent_headers browser rq" and "token = Some t"
    and "admin_headers req \<noteq> None \<or> req = Logout h"
  shows "h ''authorization'' = Some (''Bearer '' @ t)"
  using assms(1)
  by cases (use assms(2-4) in \<open>auto simp: sent_token add_source_def save_source_def
    confirm_delete_source_def save_combined_def confirm_delete_combined_def do_change_def save_setting_def
    save_template_def start_preview_def app_check_def logout_request_def Let_def split: if_splits option.splits\<close>)

end

section \<open>The answer and the page\<close>

text \<open>A request of the front end to the server \<open>d\<close>, with the answers the environment gives its handler.\<close>

definition exchange ::
  "web_crates \<Rightarrow> axum \<Rightarrow> server_crates \<Rightarrow> app_config \<Rightarrow> headers \<Rightarrow> string \<Rightarrow> faults event list
     \<Rightarrow> api_request \<Rightarrow> database \<Rightarrow> (web_reply \<times> database) option" where
  "exchange W A C cfg browser lost es rq d =
     (case deliver A browser rq of
        Handler req \<Rightarrow>
          (case run exec es (serve C cfg req) d of
             (Return r, d') \<Rightarrow> Some (wire_reply (json_text W) lost r, d')
           | _ \<Rightarrow> None)
      | _ \<Rightarrow> None)"

definition fails :: "('a, api_error) outcome \<Rightarrow> bool" where
  "fails r \<longleftrightarrow> (\<forall>e. r = Err e \<longrightarrow> 400 \<le> ae_status e)"

lemma fails_simps [simp]: "fails (Ok a)" "fails Panic" "fails (Err e) \<longleftrightarrow> 400 \<le> ae_status e"
  by (simp_all add: fails_def)

lemma reply_success:
  "fails r \<Longrightarrow> request_result (wire_reply text lost r) = Inr b \<Longrightarrow> \<exists>x. r = Ok x"
  by (cases r) (auto simp: wire_reply_def request_result_def)

lemma wp_True: "wp G X p (\<lambda>_ _. True) d"
  by (induction p arbitrary: d) auto

lemma wp_admin: "wp any_faults exec (require_admin C cfg h) (\<lambda>r d'. sessions_only d d' \<and> fails r) d"
  unfolding wp_conj
proof
  show "wp any_faults exec (require_admin C cfg h) (\<lambda>r. sessions_only d) d"
    using wp_require_admin by (rule wp_mono) (rule gated_sessions_only)
  show "wp any_faults exec (require_admin C cfg h) (\<lambda>r d'. fails r) d"
  proof (cases "parse_bearer h")
    case (Ok t)
    have "wp any_faults exec (validate_session C t (cfg_session_ttl_days cfg))
        (\<lambda>r d'. case map_err (from_any C) r of
            Ok valid \<Rightarrow> (if valid then fails (Ok ()) else fails (Err (unauthorized ''invalid session'') :: (unit, api_error) outcome))
          | Err e \<Rightarrow> fails (Err e :: (unit, api_error) outcome) | Panic \<Rightarrow> fails (Panic :: (unit, api_error) outcome)) d"
      using wp_True
    proof (rule wp_mono)
      fix r :: "(bool, any_error) outcome"
      show "case map_err (from_any C) r of
            Ok valid \<Rightarrow> (if valid then fails (Ok ()) else fails (Err (unauthorized ''invalid session'') :: (unit, api_error) outcome))
          | Err e \<Rightarrow> fails (Err e :: (unit, api_error) outcome) | Panic \<Rightarrow> fails (Panic :: (unit, api_error) outcome)"
        by (cases r) auto
    qed
    with Ok show ?thesis by (simp add: require_admin_def wp_if cong: outcome.case_cong if_cong)
  qed (simp_all add: require_admin_def)
qed

lemma wp_behind_gate:
  assumes "\<And>d1. sessions_only d d1 \<Longrightarrow> wp any_faults exec (k ()) (\<lambda>r d'. fails r \<and> Q r d') d1"
    and "\<And>e d1. Q (Err e) d1" and "\<And>d1. Q Panic d1"
  shows "wp any_faults exec (await (require_admin C cfg h) k) (\<lambda>r d'. fails r \<and> Q r d') d"
  unfolding wp_await using wp_admin
proof (rule wp_mono)
  fix r :: "(unit, api_error) outcome" and d'
  assume "sessions_only d d' \<and> fails r"
  with assms show "case r of Ok a \<Rightarrow> wp any_faults exec (k a) (\<lambda>r d'. fails r \<and> Q r d') d'
      | Err e \<Rightarrow> fails (Err e) \<and> Q (Err e) d' | Panic \<Rightarrow> fails Panic \<and> Q Panic d'"
    by (cases r) auto
qed

lemma wp_create_source:
  "wp any_faults exec (create_source C cfg h (Inr b)) (\<lambda>r d'. fails r \<and> (\<forall>x. r = Ok x \<longrightarrow>
     (\<exists>i c. next_id (db_sources_seq d) = Some i \<and> db_sources d' = db_sources d @
        [\<lparr>so_id = i, so_url = cs_url b, so_name = cs_name b, so_kind = unwrap_or ''remote'' (cs_kind b), so_created = c\<rparr>]))) d"
  unfolding create_source_def
  by (rule wp_behind_gate)
    (auto simp: json_body_def kind_error_def now_rfc3339_def Let_def sessions_only_def split: option.splits)

lemma wp_list_sources:
  "wp any_faults exec (list_sources C cfg h) (\<lambda>r d'. fails r \<and> (\<forall>x. r = Ok x \<longrightarrow>
     x = Source_List (db_sources d))) d"
  unfolding list_sources_def
  by (rule wp_behind_gate) (auto simp: sessions_only_def)

context wire_crates
begin

lemma exchange_runs:
  assumes "exchange W A C cfg browser lost es rq d = Some (r, d')" and "deliver A browser rq = Handler req"
  obtains q where "run exec es (serve C cfg req) d = (Return q, d')" and "r = wire_reply (json_text W) lost q"
  using assms by (auto simp: exchange_def split: prod.splits prog.splits)

lemma source_list_plain: "plain_json (response_json (Source_List ss))"
  by (auto simp: source_json_def)

lemma sources_shown:
  assumes "request_result (wire_reply (json_text W) lost (Ok (Source_List ss))) = Inr b"
    and "\<forall>s \<in> set ss. i64 (so_id s)"
  shows "fetch_sources W (wire_reply (json_text W) lost (Ok (Source_List ss))) = Inr (map source_dto_of ss)"
  using sources_read [OF source_list_plain decode_source_list [OF assms(2)]]
  by (simp add: fetch_sources_def decode_reply_def wire_reply_def request_result_def)

lemma added_source_stored:
  assumes "snd (add_source W kind token p) = Some rq" and "\<forall>b. rq_json_body rq = Some b \<longrightarrow> length b \<le> max_body"
    and "exchange W A C cfg browser lost es rq d = Some (r, d')" and "request_result r = Inr b"
  shows "\<exists>i c. next_id (db_sources_seq d) = Some i \<and> db_sources d' = db_sources d @
      [\<lparr>so_id = i, so_url = sp_new_url p, so_name = sp_new_name p, so_kind = kind, so_created = c\<rparr>]"
proof -
  obtain q where q: "run exec es (serve C cfg (Create_Source (sent_headers browser rq)
        (Inr \<lparr>cs_url = sp_new_url p, cs_name = sp_new_name p, cs_kind = Some kind\<rparr>))) d = (Return q, d')"
      "r = wire_reply (json_text W) lost q"
    by (rule exchange_runs [OF assms(3) asked_delivered [OF asks.add_source [OF assms(1)] refl assms(2)]])
  from run_post [OF q(1) [unfolded serve.simps] wp_create_source] q(2) assms(4) reply_success [of q]
  show ?thesis by auto
qed

lemma sources_listed:
  assumes "exchange W A C cfg browser lost es (unit_request Sources_Unit token) d = Some (r, d')"
    and "request_result r = Inr b" and "\<forall>s \<in> set (db_sources d). i64 (so_id s)"
  shows "fetch_sources W r = Inr (map source_dto_of (db_sources d))"
proof -
  have "deliver A browser (unit_request Sources_Unit token) = Handler
      (List_Sources (sent_headers browser (unit_request Sources_Unit token)))"
    by (rule asked_delivered [OF asks.load_sources refl]) simp
  then obtain q where q: "run exec es (serve C cfg
        (List_Sources (sent_headers browser (unit_request Sources_Unit token)))) d = (Return q, d')"
      "r = wire_reply (json_text W) lost q"
    using exchange_runs [OF assms(1)] by blast
  from run_post [OF q(1) [unfolded serve.simps] wp_list_sources]
  have "fails q" "\<forall>x. q = Ok x \<longrightarrow> x = Source_List (db_sources d)" by auto
  with reply_success [of q] q(2) assms(2) have "q = Ok (Source_List (db_sources d))" by blast
  with sources_shown [of lost "db_sources d" b] assms(2,3) q(2) show ?thesis by simp
qed

end

section \<open>The properties\<close>

text \<open>
  C20. Every request that a page, the login form or the shell sends is routed to the handler it is
  meant for, and the extractors give that handler the id, the query and the body that the form
  held; the requests that need a session carry its token. The texts of the two sides thus agree
  on every path, method and field name. (A body must not exceed the limit of \<open>axum\<close>.)
\<close>

theorem requests_arrive:
  assumes "wire_crates W A" and "asks W (sent_headers browser rq) token rq req"
    and "\<forall>b. rq_json_body rq = Some b \<longrightarrow> length b \<le> max_body"
  shows "deliver A browser rq = Handler req
    \<and> (\<forall>t. token = Some t \<longrightarrow> admin_headers req \<noteq> None \<or> req = Logout (sent_headers browser rq)
          \<longrightarrow> sent_headers browser rq ''authorization'' = Some (''Bearer '' @ t))"
  using wire_crates.asked_delivered [OF assms(1,2) refl assms(3)]
    wire_crates.asked_authorized [OF assms(1,2) refl] by blast

definition sample_form :: login_page where
  "sample_form = new_login_page\<lparr>lg_input := ''admin'', lg_pass := ''password''\<rparr>"

lemma sample_form_body: "length (credentials_body rfc_web ''admin'' ''password'') = 42"
  by code_simp

theorem requests_arrive_witness:
  "deliver rfc_axum (\<lambda>_. None) (login_request_for rfc_web ''admin'' ''password'')
    = Handler (Login (Inr \<lparr>li_username = ''admin'', li_password = ''password''\<rparr>))"
proof -
  let ?rq = "login_request_for rfc_web ''admin'' ''password''"
  have "asks rfc_web (sent_headers (\<lambda>_. None) ?rq) None ?rq
      (Login (Inr \<lparr>li_username = lg_input sample_form, li_password = lg_pass sample_form\<rparr>))"
    by (rule asks.log_in) (simp add: do_submit_def sample_form_def)
  from requests_arrive [OF rfc_wire.wire_crates_axioms this] show ?thesis
    by (simp add: sample_form_def login_request_for_def sample_form_body max_body_def)
qed

text \<open>
  C7. A source that the form adds is on the page afterwards: when the server answers the request
  with success, and then the reload that the page asks for, the list of the page is the rows of
  before followed by one with a fresh id and the values of the form.
\<close>

theorem added_source_is_shown:
  assumes "wire_crates W A" and "db_ok E d" and "db_sources_seq d < 2 ^ 63 - 1"
    and "add_source W kind token p = (p', Some rq)" and "\<forall>b. rq_json_body rq = Some b \<longrightarrow> length b \<le> max_body"
    and "exchange W A C cfg browser lost es rq d = Some (r, d')" and "request_result r = Inr b"
    and "exchange W A C cfg browser lost es' (unit_request Sources_Unit token) d' = Some (r', d'')"
    and "request_result r' = Inr b'" and "lt_key t = Sources_Unit"
  shows "\<exists>i c. i \<notin> so_id ` set (db_sources d)
    \<and> source_list kind (finish_task W t r' s) = filter (\<lambda>x. sd_kind x = kind) (map source_dto_of (db_sources d)) @
        [\<lparr>sd_id = i, sd_url = sp_new_url p, sd_name = sp_new_name p, sd_kind = kind, sd_created_at = c\<rparr>]
    \<and> snd (add_source_reply r p') = [Refresh_Unit Sources_Unit, Push_Toast Toast_Success source_added]"
proof -
  have "snd (add_source W kind token p) = Some rq" using assms(4) by simp
  from wire_crates.added_source_stored [OF assms(1) this assms(5-7)]
  obtain i c where i: "next_id (db_sources_seq d) = Some i" and d': "db_sources d' = db_sources d @
      [\<lparr>so_id = i, so_url = sp_new_url p, so_name = sp_new_name p, so_kind = kind, so_created = c\<rparr>]" by blast
  have keyed: "keyed (map so_id (db_sources d)) (db_sources_seq d)"
    using assms(2) by (simp add: db_ok_def sources_ok_def)
  then have ids: "\<forall>s \<in> set (db_sources d). 0 < so_id s \<and> so_id s \<le> db_sources_seq d" and "0 \<le> db_sources_seq d"
    by (auto simp: keyed_def)
  then have "\<forall>s \<in> set (db_sources d'). i64 (so_id s)" and fresh: "i \<notin> so_id ` set (db_sources d)"
    using i assms(3) d' by (force simp: i64_def next_id_def split: if_splits)+
  from wire_crates.sources_listed [OF assms(1,8,9) this(1)]
  have "source_list kind (finish_task W t r' s) = filter (\<lambda>x. sd_kind x = kind) (map source_dto_of (db_sources d'))"
    using assms(10) by (simp add: finish_task_def store_result_def loaded_def source_list_def Let_def)
  with d' fresh show ?thesis
    using assms(7) by (intro exI [of _ i] exI [of _ c]) (simp add: source_dto_of_def add_source_reply_def)
qed

definition sample_source_form :: sources_page where
  "sample_source_form = new_sources_page\<lparr>sp_new_url := ''http://a'', sp_new_name := ''a''\<rparr>"

lemma sample_source_body: "length (source_body rfc_web ''http://a'' ''a'' ''remote'') = 45"
  by code_simp

lemma sent_bearer: "rq_authorization rq = Some ''Bearer old'' \<Longrightarrow> parse_bearer (sent_headers browser rq) = Ok ''old''"
proof -
  have "header_to_str ''Bearer old'' = Some ''Bearer old''" by code_simp
  moreover assume "rq_authorization rq = Some ''Bearer old''"
  ultimately show ?thesis by (simp add: parse_bearer_Ok_iff sent_token)
qed

theorem added_source_is_shown_witness:
  "\<exists>r d' r' d'' i c. exchange rfc_web rfc_axum sample_crates sample_config (\<lambda>_. None) []
        (gate_events @ [Time 0, Answer []]) (the (snd (add_source rfc_web ''remote'' (Some ''old'') sample_source_form)))
        sample_db = Some (r, d')
    \<and> exchange rfc_web rfc_axum sample_crates sample_config (\<lambda>_. None) [] (gate_events @ [Answer []])
        (unit_request Sources_Unit (Some ''old'')) d' = Some (r', d'')
    \<and> source_list ''remote'' (finish_task rfc_web (spawn_load Page_Scope Sources_Unit (provide (Some ''old''))) r'
          (provide (Some ''old'')))
        = [\<lparr>sd_id = i, sd_url = ''http://a'', sd_name = ''a'', sd_kind = ''remote'', sd_created_at = c\<rparr>]"
proof -
  obtain p' rq where form: "add_source rfc_web ''remote'' (Some ''old'') sample_source_form = (p', Some rq)"
    and rq: "rq = request Post ''/admin/sources'' (Some (source_body rfc_web ''http://a'' ''a'' ''remote'')) (Some ''old'')"
    by (simp add: add_source_def sample_source_form_def)
  let ?h = "sent_headers (\<lambda>_. None) rq"
  let ?list = "unit_request Sources_Unit (Some ''old'')"
  have len: "\<forall>b. rq_json_body rq = Some b \<longrightarrow> length b \<le> max_body"
    by (simp add: rq sample_source_body max_body_def)
  have dl: "deliver rfc_axum (\<lambda>_. None) rq = Handler (Create_Source ?h
      (Inr \<lparr>cs_url = ''http://a'', cs_name = ''a'', cs_kind = Some ''remote''\<rparr>))"
    using rfc_wire.asked_delivered [OF asks.add_source refl len, of "''remote''" "Some ''old''" sample_source_form] form
    by (simp add: sample_source_form_def)
  define d1 where "d1 = sample_db\<lparr>db_sources_seq := 2, db_sources := db_sources sample_db @
      [\<lparr>so_id = 2, so_url = ''http://a'', so_name = ''a'', so_kind = ''remote'', so_created = ''0''\<rparr>]\<rparr>"
  have same: "db_sessions sample_db = db_sessions admin_db" "db_sessions d1 = db_sessions admin_db"
    by (simp_all add: sample_db_def d1_def)
  have bearer: "parse_bearer ?h = Ok ''old''" "parse_bearer (sent_headers (\<lambda>_. None) ?list) = Ok ''old''"
    by (simp_all add: sent_bearer rq)
  have run1: "\<exists>x. run exec (gate_events @ [Time 0, Answer []]) (create_source sample_crates sample_config ?h
        (Inr \<lparr>cs_url = ''http://a'', cs_name = ''a'', cs_kind = Some ''remote''\<rparr>)) sample_db
      = (Return (Ok (Source_Created x)), d1)"
    unfolding create_source_def gate_run_bearer [OF bearer(1) same(1)]
    by (simp add: run_simps source_kind_def sample_db_def next_id_def d1_def)
  then obtain x where ex1: "exchange rfc_web rfc_axum sample_crates sample_config (\<lambda>_. None) []
      (gate_events @ [Time 0, Answer []]) rq sample_db = Some (wire_reply (json_text rfc_web) [] (Ok (Source_Created x)), d1)"
    by (auto simp: exchange_def dl simp del: run.simps)
  have dl2: "deliver rfc_axum (\<lambda>_. None) ?list = Handler (List_Sources (sent_headers (\<lambda>_. None) ?list))"
    by (rule rfc_wire.asked_delivered [OF asks.load_sources refl]) simp
  have run2: "run exec (gate_events @ [Answer []]) (list_sources sample_crates sample_config
      (sent_headers (\<lambda>_. None) ?list)) d1 = (Return (Ok (Source_List (db_sources d1))), d1)"
    unfolding list_sources_def gate_run_bearer [OF bearer(2) same(2)] by (simp add: run_simps)
  then have ex2: "exchange rfc_web rfc_axum sample_crates sample_config (\<lambda>_. None) []
      (gate_events @ [Answer []]) ?list d1
      = Some (wire_reply (json_text rfc_web) [] (Ok (Source_List (db_sources d1))), d1)"
    by (simp add: exchange_def dl2 del: run.simps unit_request.simps)
  have seq: "db_sources_seq sample_db < 2 ^ 63 - 1" by (simp add: sample_db_def)
  have rows: "filter (\<lambda>x. sd_kind x = ''remote'') (map source_dto_of (db_sources sample_db)) = []"
    by (simp add: sample_db_def source_dto_of_def)
  obtain b b' where ok: "request_result (wire_reply (json_text rfc_web) [] (Ok (Source_Created x))) = Inr b"
      "request_result (wire_reply (json_text rfc_web) [] (Ok (Source_List (db_sources d1)))) = Inr b'"
    by (simp add: wire_reply_def request_result_def)
  have key: "lt_key (spawn_load Page_Scope Sources_Unit (provide (Some ''old''))) = Sources_Unit"
    by (simp add: spawn_load_def)
  from added_source_is_shown [OF rfc_wire.wire_crates_axioms sample_db_ok seq form len ex1 ok(1) ex2 ok(2) key,
      where s = "provide (Some ''old'')"]
  obtain i c where "source_list ''remote'' (finish_task rfc_web (spawn_load Page_Scope Sources_Unit (provide (Some ''old'')))
      (wire_reply (json_text rfc_web) [] (Ok (Source_List (db_sources d1)))) (provide (Some ''old'')))
    = [\<lparr>sd_id = i, sd_url = ''http://a'', sd_name = ''a'', sd_kind = ''remote'', sd_created_at = c\<rparr>]"
    unfolding rows by (auto simp: sample_source_form_def)
  with ex1 ex2 form show ?thesis by auto
qed

lemma wp_validate_refused:
  "wp any_faults exec (validate_session C t n) (\<lambda>r d'. r = Ok False \<longrightarrow> \<not> has_session (sha256_hex C t) d') d"
proof (cases "find (\<lambda>s. se_hash s = sha256_hex C t) (db_sessions d)")
  case None
  then show ?thesis
    using find_session_None [of "sha256_hex C t" "db_sessions d"]
    by (simp add: validate_session_def Let_def has_session_def)
next
  case (Some s)
  then show ?thesis
    by (auto simp: validate_session_def Let_def expired_def datetime_add_def slide_session_def has_session_def
        split: option.split)
qed

lemma wp_get_config_refused:
  assumes "parse_bearer h = Ok t"
  shows "wp any_faults exec (get_config C cfg h)
    (\<lambda>r d'. (\<exists>e. r = Err e \<and> ae_status e = 401) \<longrightarrow> \<not> has_session (sha256_hex C t) d') d"
proof -
  let ?Q = "\<lambda>r d'. (\<exists>e. r = Err e \<and> ae_status e = 401) \<longrightarrow> \<not> has_session (sha256_hex C t) d'"
  have dto: "wp any_faults exec (config_dto C) ?Q d'" for d'
    by (cases "db_users d'") (simp_all add: config_dto_def get_username_def get_setting_def)
  have "wp any_faults exec (validate_session C t (cfg_session_ttl_days cfg))
      (\<lambda>r d'. case map_err (from_any C) r of
          Ok valid \<Rightarrow> (if valid then wp any_faults exec (config_dto C) ?Q d' else ?Q (Err (unauthorized ''invalid session'')) d')
        | Err e \<Rightarrow> ?Q (Err e) d' | Panic \<Rightarrow> ?Q Panic d') d"
    using wp_validate_refused
  proof (rule wp_mono)
    fix r :: "(bool, any_error) outcome" and d'
    assume "r = Ok False \<longrightarrow> \<not> has_session (sha256_hex C t) d'"
    then show "case map_err (from_any C) r of
          Ok valid \<Rightarrow> (if valid then wp any_faults exec (config_dto C) ?Q d' else ?Q (Err (unauthorized ''invalid session'')) d')
        | Err e \<Rightarrow> ?Q (Err e) d' | Panic \<Rightarrow> ?Q Panic d'"
      using dto by (cases r) auto
  qed
  with assms show ?thesis by (simp add: get_config_def require_admin_def wp_if cong: outcome.case_cong if_cong)
qed

lemma reply_401:
  "(\<exists>x. wire_reply text lost r = Received 401 (Inr x)) \<longleftrightarrow> (\<exists>e. r = Err e \<and> ae_status e = 401)"
  by (auto simp: wire_reply_def split: outcome.splits response.splits)

text \<open>
  C12. The check of the session at the start never drops a token whose session lives: the token goes
  only when the server has no session of it left, not when the database fails, the handler panics
  or the request is lost. And when the server answers without a fault and has no session of the
  token, the front end drops it, from the storage of the browser too.
\<close>

theorem session_check_agrees:
  assumes "wire_crates W A" and "app_check a = (a', Some rq)" and "ap_token a = Some t"
    and "list_all (\<lambda>c. 32 \<le> byte c \<and> byte c < 127) t"
    and "exchange W A C cfg browser lost es rq d = Some (r, d')"
  shows "(ap_token (app_check_reply r a') = None \<longrightarrow> \<not> has_session (sha256_hex C t) d')
    \<and> (\<not> has_session (sha256_hex C t) d \<and> answers_in calm es \<longrightarrow>
         ap_token (app_check_reply r a') = None \<and> read_token (ap_storage (app_check_reply r a')) = None)"
proof -
  let ?h = "sent_headers browser rq"
  have rq: "rq = request Get ''/admin/config'' None (Some t)" and a': "a' = a"
    using assms(2,3) by (simp_all add: app_check_def)
  have "asks W ?h (Some t) rq (Get_Config ?h)"
    using assms(2,3) by (intro asks.check_session [of a]) simp_all
  then have "deliver A browser rq = Handler (Get_Config ?h)"
    by (rule wire_crates.asked_delivered [OF assms(1)]) (simp_all add: rq)
  with assms(5) obtain q where run: "run exec es (get_config C cfg ?h) d = (Return q, d')"
    and r: "r = wire_reply (json_text W) lost q"
    by (auto elim!: wire_crates.exchange_runs [OF assms(1)])
  have bearer: "parse_bearer ?h = Ok t"
    using assms(4) sent_token [of rq "''Bearer '' @ t" browser]
    by (auto simp: rq parse_bearer_Ok_iff header_to_str_def list_all_iff)
  have dropped: "ap_token (app_check_reply r a') = None \<longleftrightarrow> (\<exists>e. q = Err e \<and> ae_status e = 401)"
    using assms(3) reply_401 [of "json_text W" lost q] by (simp add: app_check_reply_token a' r)
  have "\<not> has_session (sha256_hex C t) d'" if "\<exists>e. q = Err e \<and> ae_status e = 401"
    using run_post [OF run wp_get_config_refused [OF bearer]] that by blast
  moreover have "\<exists>e. q = Err e \<and> ae_status e = 401" if "\<not> has_session (sha256_hex C t) d" "answers_in calm es"
  proof -
    have "no_session C ?h d" using that(1) bearer by (simp add: no_session_def)
    from run_post_calm [OF run [unfolded get_config_def] that(2) gate_closed(2) [OF this]]
    show ?thesis by blast
  qed
  moreover have "read_token (ap_storage (app_check_reply r a')) = None"
    if "ap_token (app_check_reply r a') = None"
    using that assms(3) read_after_write(2) [of "ap_storage a"]
    by (auto simp: app_check_reply_def end_session_def a' split: sum.splits if_splits)
  ultimately show ?thesis using dropped by blast
qed

theorem session_check_agrees_witness:
  "\<exists>r d'. exchange rfc_web rfc_axum sample_crates sample_config (\<lambda>_. None) [] [Answer []]
        (request Get ''/admin/config'' None (Some ''gone'')) empty_db = Some (r, d')
      \<and> ap_token (app_check_reply r (app_start (Some [storage_key \<mapsto> ''gone'']))) = None"
proof -
  let ?a = "app_start (Some [storage_key \<mapsto> ''gone''])"
  let ?rq = "request Get ''/admin/config'' None (Some ''gone'')"
  let ?h = "sent_headers (\<lambda>_. None) ?rq"
  have tok: "ap_token ?a = Some ''gone''" by (simp add: app_start_def read_token_def)
  then have check: "app_check ?a = (?a, Some ?rq)" by (simp add: app_check_def)
  have graphic: "list_all (\<lambda>c. 32 \<le> byte c \<and> byte c < 127) ''gone''" by code_simp
  have "asks rfc_web ?h (Some ''gone'') ?rq (Get_Config ?h)"
    using check tok by (intro asks.check_session [of ?a]) simp_all
  then have dl: "deliver rfc_axum (\<lambda>_. None) ?rq = Handler (Get_Config ?h)"
    by (rule rfc_wire.asked_delivered) simp_all
  have "parse_bearer ?h = Ok ''gone''"
    using graphic sent_token [of ?rq "''Bearer gone''" "\<lambda>_. None"]
    by (auto simp: parse_bearer_Ok_iff header_to_str_def list_all_iff)
  then have "\<exists>q. run exec [Answer []] (get_config sample_crates sample_config ?h) empty_db = (Return q, empty_db)"
    by (simp add: get_config_def run_simps empty_db_def)
  then obtain r where ex: "exchange rfc_web rfc_axum sample_crates sample_config (\<lambda>_. None) [] [Answer []] ?rq empty_db
      = Some (r, empty_db)"
    by (auto simp: exchange_def dl simp del: run.simps)
  from session_check_agrees [OF rfc_wire.wire_crates_axioms check tok graphic ex]
  have "ap_token (app_check_reply r ?a) = None" by (simp add: has_session_def empty_db_def calm_def)
  with ex show ?thesis by blast
qed

end
