(* ===== verification/Node_Types.thy ===== *)
theory Node_Types
  imports Parser_Lemmas Formats Rfc_Codecs
begin

text \<open>
  Which fields of a node its protocol fills: the type that every parser of a link gives to its
  nodes, what the outputs need of it, and what a Clash document may leave out.
\<close>

section \<open>The type of a node\<close>

definition one_transport :: "transport \<Rightarrow> bool" where
  "one_transport tr \<longleftrightarrow>
     length (filter id [tr_websocket tr \<noteq> None, tr_grpc tr \<noteq> None, tr_http_upgrade tr \<noteq> None]) = 1"

definition credentials_typed :: "proxy_node \<Rightarrow> bool" where
  "credentials_typed n \<longleftrightarrow>
     (nd_crypto n \<noteq> None \<longleftrightarrow> nd_kind n \<in> {Ss, Ssr})
     \<and> (nd_kind n \<in> {Ss, Ssr, Trojan, Tuic, Wireguard} \<longrightarrow> nd_password n \<noteq> None)
     \<and> (nd_kind n \<in> {Vmess, Vless} \<longrightarrow> nd_password n = None)
     \<and> (nd_kind n \<in> {Vless, Tuic} \<longrightarrow> nd_uuid n \<noteq> None)
     \<and> (nd_uuid n \<noteq> None \<longrightarrow> nd_kind n \<in> {Vmess, Vless, Tuic, Wireguard})
     \<and> (nd_alter_id n \<noteq> None \<longrightarrow> nd_kind n = Vmess)
     \<and> (nd_kind n = Vless \<longrightarrow> nd_uuid n \<noteq> Some []) \<and> (nd_kind n = Trojan \<longrightarrow> nd_password n \<noteq> Some [])"

definition channel_typed :: "proxy_node \<Rightarrow> bool" where
  "channel_typed n \<longleftrightarrow>
     (nd_kind n \<in> {Hysteria, Hysteria2, Tuic} \<longrightarrow> nd_tls n \<noteq> None)
     \<and> (nd_tls n \<noteq> None \<longrightarrow> nd_kind n \<in> {Vmess, Vless, Trojan, Hysteria, Hysteria2, Tuic})
     \<and> (nd_transport n \<noteq> None \<longrightarrow> nd_kind n \<in> {Vmess, Vless, Trojan})
     \<and> pred_option tls_enabled (nd_tls n) \<and> pred_option one_transport (nd_transport n)"

definition node_typed :: "proxy_node \<Rightarrow> bool" where
  "node_typed n \<longleftrightarrow> credentials_typed n \<and> channel_typed n"

section \<open>Every parser gives it\<close>

named_theorems typing \<open>what a parser fills in, and of which type\<close>

lemma one_transport_links [typing]:
  "pred_option one_transport (link_transport net path host)"
  "pred_option one_transport (vmess_transport net path host)"
  "pred_option one_transport (clash_transport p)"
  by (simp_all add: link_transport_def vmess_transport_def clash_transport_def one_transport_def transport_default_def
      Let_def)

lemma enabled_tls [typing]: "tls_enabled (link_tls p)" "tls_enabled (tp_tls q)"
  by (simp_all add: link_tls_def tp_tls_def)

lemma if_Err_Ok [typing]: "(if b then Err e else x) = Ok y \<longleftrightarrow> \<not> b \<and> x = Ok y"
  by simp

lemma pred_option_if [typing]: "pred_option P (if b then None else Some x) \<longleftrightarrow> b \<or> P x"
  "pred_option P (if b then Some x else None) \<longleftrightarrow> b \<longrightarrow> P x"
  by simp_all

lemmas [typing] = node_typed_def credentials_typed_def channel_typed_def node_default_def outcome_simps
  case_prod_beta Let_def

lemma ss_typed: "parse_ss E l = Ok n \<Longrightarrow> node_typed n"
  by (auto simp: parse_ss_def typing)

lemma ssr_typed: "parse_ssr E l = Ok n \<Longrightarrow> node_typed n"
  by (auto simp: parse_ssr_def parse_ssr_decoded_def typing split: if_split_asm)

lemma vmess_typed: "parse_vmess E l = Ok n \<Longrightarrow> node_typed n"
  by (auto simp: parse_vmess_def vmess_node_def typing)

lemma vless_typed: "parse_vless E l = Ok n \<Longrightarrow> node_typed n"
  by (auto simp: parse_vless_def typing)

lemma trojan_typed: "parse_trojan E l = Ok n \<Longrightarrow> node_typed n"
  by (auto simp: parse_trojan_def typing)

lemma hysteria_typed: "parse_hysteria E l = Ok n \<Longrightarrow> node_typed n"
  by (auto simp: parse_hysteria_def typing)

lemma hysteria2_typed: "parse_hysteria2 E l = Ok n \<Longrightarrow> node_typed n"
  by (auto simp: parse_hysteria2_def typing)

lemma tuic_typed: "parse_tuic E l = Ok n \<Longrightarrow> node_typed n"
  by (auto simp: parse_tuic_def typing)

lemma wireguard_typed: "parse_wireguard E l = Ok n \<Longrightarrow> node_typed n"
  by (auto simp: parse_wireguard_def typing split: if_split_asm)

lemma socks5_typed: "parse_socks5 E l = Ok n \<Longrightarrow> node_typed n"
  by (auto simp: parse_socks5_def typing)

lemma http_typed: "parse_http E l = Ok n \<Longrightarrow> node_typed n"
  by (auto simp: parse_http_def typing)

lemma parse_line_typed: "parse_line E l = Ok n \<Longrightarrow> node_typed n"
  by (auto simp: parse_line_def Let_def split: if_split_asm
      intro: ss_typed ssr_typed vmess_typed vless_typed trojan_typed hysteria_typed hysteria2_typed tuic_typed
        wireguard_typed socks5_typed http_typed)


section \<open>Whole subscriptions\<close>

text \<open>The texts that are tried as a Clash document before they are read line by line.\<close>

definition clash_text :: "string \<Rightarrow> bool" where
  "clash_text t \<longleftrightarrow> list_ex (\<lambda>l. starts_with ''proxies:'' (trim_start l)) (lines t)"

lemma line_nodes_typed: "n \<in> set (line_nodes E ls) \<Longrightarrow> node_typed n"
  by (induction ls) (auto simp: line_node_def outcome_simps split: option.splits if_splits intro: parse_line_typed)

lemma parse_lines_typed: "parse_lines E t m = Some (ns, k) \<Longrightarrow> n \<in> set ns \<Longrightarrow> node_typed n"
  using parse_lines_nodes(1) line_nodes_typed in_set_takeD by metis

lemma subscription_typed:
  assumes "parse_subscription_text E t m = Some (ns, k)" "n \<in> set ns" "\<not> clash_text t"
  shows "node_typed n"
  using assms parse_lines_typed
  by (fastforce simp: parse_subscription_text_def clash_text_def Let_def split: if_splits option.splits)

section \<open>What the outputs need\<close>

text \<open>The printer of JSON does not fail on an object of texts, as that of \<open>serde_json\<close> does not.\<close>

definition prints_objects :: "crates \<Rightarrow> bool" where
  "prints_objects E \<longleftrightarrow> (\<forall>m. json_to_string E (string_object m) \<noteq> None)"

lemma typed_v2ray_line:
  assumes "node_typed n" "prints_objects E"
  shows "v2ray_line E n = None \<or> (\<exists>u. v2ray_line E n = Some (Ok u))"
proof -
  obtain s where "json_to_string E (string_object (vmess_entries n)) = Some s"
    using assms(2) by (auto simp: prints_objects_def)
  then show ?thesis
    using assms(1) by (cases "nd_kind n")
      (auto simp: v2ray_line_def serialize_ss_def serialize_ssr_def serialize_vmess_def serialize_vless_def
        serialize_trojan_def serialize_tuic_def typing)
qed

lemma typed_v2ray_lines:
  assumes "\<forall>n \<in> set ns. node_typed n" "prints_objects E"
  shows "\<exists>us. v2ray_lines E ns acc = Ok us"
  using assms(1)
proof (induction ns arbitrary: acc)
  case (Cons n ns)
  then show ?case using typed_v2ray_line [of n, OF _ assms(2)] by auto
qed simp

lemma typed_serialize:
  assumes "\<forall>n \<in> set ns. node_typed n" "prints_objects E"
  shows "\<exists>t. serialize_v2ray_plain E ns = Ok t" and "\<exists>t. serialize_v2ray E ns = Ok t"
  using typed_v2ray_lines [OF assms, of "[]"] by (auto simp: serialize_v2ray_plain_def serialize_v2ray_def)


section \<open>A sample\<close>

definition two_links :: string where
  "two_links = ''vless://u@h:1'' @ [CHR 0x0A] @ ''wireguard://k@h:2''"

definition vless_node :: proxy_node where
  "vless_node = node_default \<lparr>nd_kind := Vless, nd_server := ''h'', nd_port := 1, nd_uuid := Some ''u''\<rparr>"

definition keyless_node :: proxy_node where
  "keyless_node = node_default \<lparr>nd_kind := Wireguard, nd_server := ''h'', nd_port := 2, nd_password := Some ''k''\<rparr>"

lemma sample_ports: "parse_u16 ''1'' = Some 1" "parse_u16 ''2'' = Some 2"
  by (simp_all add: parse_u16_def parse_unsigned_def ascii_digit_def)

lemma sample_host_ports: "parse_host_port ''h:1'' = Ok (''h'', 1)" "parse_host_port ''h:2'' = Ok (''h'', 2)"
proof -
  have a: "rsplit_once CHR '':'' ''h:1'' = Some (''h'', ''1'')" "rsplit_once CHR '':'' ''h:2'' = Some (''h'', ''2'')"
    "strip_prefix ''['' ''h:1'' = None" "strip_prefix ''['' ''h:2'' = None"
    by code_simp+
  show "parse_host_port ''h:1'' = Ok (''h'', 1)" "parse_host_port ''h:2'' = Ok (''h'', 2)"
    by (simp_all add: parse_host_port_def a sample_ports)
qed

lemma sample_dispatched:
  "parse_line E ''vless://u@h:1'' = parse_vless E ''vless://u@h:1''"
  "parse_line E ''wireguard://k@h:2'' = parse_wireguard E ''wireguard://k@h:2''"
proof -
  have t: "trim ''vless://u@h:1'' = ''vless://u@h:1''" "trim ''wireguard://k@h:2'' = ''wireguard://k@h:2''"
    by code_simp+
  show "parse_line E ''vless://u@h:1'' = parse_vless E ''vless://u@h:1''"
    "parse_line E ''wireguard://k@h:2'' = parse_wireguard E ''wireguard://k@h:2''"
    by (simp_all add: parse_line_def t is_ss_def is_ssr_def is_vmess_def is_vless_def is_trojan_def is_socks5_def
      is_http_def is_hysteria2_def is_hysteria_def is_tuic_def is_wireguard_def starts_with_def)
qed

lemma sample_parts:
  "strip_prefix ''vless://'' ''vless://u@h:1'' = Some ''u@h:1''" "strip_prefix ''wireguard://'' ''wireguard://k@h:2'' = Some ''k@h:2''"
  "split_authority ''u@h:1'' = (''u'', ''h:1'')" "split_authority ''k@h:2'' = (''k'', ''h:2'')"
  "cut CHR ''#'' ''u@h:1'' = (''u@h:1'', None)" "cut CHR ''?'' ''h:1'' = (''h:1'', None)"
  "cut CHR ''#'' ''k@h:2'' = (''k@h:2'', None)" "cut CHR ''?'' ''k@h:2'' = (''k@h:2'', None)" "percent_decode rfc_crates ''k'' = Ok ''k''"
  "lp_security (run_query rfc_crates link_param None link_params_init) = []" 
  "link_transport (lp_net (run_query rfc_crates link_param None link_params_init)) 
     (lp_path (run_query rfc_crates link_param None link_params_init)) (lp_host (run_query rfc_crates link_param None link_params_init)) = None"
   "run_query rfc_crates wireguard_param None \<lparr>wp_public_key = Some ''k'', wp_private_key = None, wp_ips = []\<rparr>
     = \<lparr>wp_public_key = Some ''k'', wp_private_key = None, wp_ips = []\<rparr>"
  by code_simp+
lemma each_link_read:
  "parse_line rfc_crates ''vless://u@h:1'' = Ok vless_node"
  "parse_line rfc_crates ''wireguard://k@h:2'' = Ok keyless_node"
  by (simp_all add: sample_dispatched parse_vless_def parse_wireguard_def sample_parts sample_host_ports vless_node_def
      keyless_node_def node_default_def)

lemma two_links_read:
  "lines two_links = [''vless://u@h:1'', ''wireguard://k@h:2'']" "\<not> clash_text two_links"
  "contains_str ''://'' (trim two_links)"
  by code_simp+

lemma two_links_nodes: "parse_subscription_text rfc_crates two_links 5 = Some ([vless_node, keyless_node], 0)"
proof -
  have "parse_lines rfc_crates two_links 5 = Some ([vless_node, keyless_node], 0)"
    by (simp add: parse_lines_def two_links_read(1) each_link_read max_line_len_def)
  with two_links_read(2,3) show ?thesis
    by (simp add: parse_subscription_text_def clash_text_def)
qed

end
