(* ===== verification/Type_Properties.thy ===== *)
theory Type_Properties
  imports Node_Types Delivery_Properties
begin

text \<open>
  What the types of the nodes mean for the outputs: from a list of links to the answer of the
  subscription endpoint.
\<close>

section \<open>Nodes of links\<close>

lemma rfc_prints: "prints_objects rfc_crates"
  unfolding prints_objects_def string_object_def by (simp add: all_some_JString del: map_map)

text \<open>
  C10. Every node that was read from a link has the type of its protocol: which credentials it
  has, whether it has TLS, and one transport at most, none but where its protocol can carry it.
  So a subscription of links can always be written as a list of links again, and its Clash output
  leaves out exactly the vmess nodes without an id and the wireguard nodes without a private key.
\<close>

theorem link_nodes_typed:
  assumes "parse_subscription_text E t m = Some (ns, k)" and "\<not> clash_text t" and "prints_objects E"
  shows "list_all node_typed ns
    \<and> (\<exists>out. serialize_v2ray E ns = Ok out)
    \<and> filter clash_writable ns = filter (\<lambda>n. nd_kind n \<in> {Vmess, Wireguard} \<longrightarrow> nd_uuid n \<noteq> None) ns"
proof -
  have all: "\<forall>n \<in> set ns. node_typed n" using subscription_typed [OF assms(1) _ assms(2)] by blast
  have "clash_writable n \<longleftrightarrow> (nd_kind n \<in> {Vmess, Wireguard} \<longrightarrow> nd_uuid n \<noteq> None)" if "node_typed n" for n
    using that by (cases "nd_kind n") (auto simp: clash_writable_def node_typed_def credentials_typed_def)
  then have "filter clash_writable ns = filter (\<lambda>n. nd_kind n \<in> {Vmess, Wireguard} \<longrightarrow> nd_uuid n \<noteq> None) ns"
    using all by (intro filter_cong) auto
  with all typed_serialize(2) [OF all assms(3)] show ?thesis by (simp add: list_all_iff)
qed

theorem link_nodes_typed_witness:
  "list_all node_typed [vless_node, keyless_node]
    \<and> map nd_kind (filter clash_writable [vless_node, keyless_node]) = [Vless]"
  using link_nodes_typed [OF two_links_nodes two_links_read(2) rfc_prints]
  by (simp add: vless_node_def keyless_node_def node_default_def)


section \<open>The subscription of a combined subscription\<close>












end
