(* ===== verification/Spec2Isabelle.thy ===== *)
theory Spec2Isabelle
  imports Core_Properties Delivery_Properties Start_Properties Screen_Properties Lifetime_Properties
    Preview_Properties Wire_Properties Type_Properties
begin

text \<open>
  A verification development for sub-merge, a server that aggregates proxy subscriptions: it
  stores links and subscription addresses, fetches and parses them into one list of nodes, and
  serves combined subscriptions in the formats of v2ray and Clash; a web front end administers
  it.

  \<^bold>\<open>The program and its theories.\<close> The repository has three parts.

  \<^item> \<open>crates/proxy-core\<close>: nodes, share links, subscriptions. A string is a list of bytes
    (\<open>Rust_Str\<close> has the string functions of the standard library over them, \<open>Utf8\<close> the check of
    \<open>str::from_utf8\<close>); \<open>Model\<close> has the data of \<open>model.rs\<close>, \<open>error.rs\<close> and \<open>tls.rs\<close>; \<open>Uri\<close> the
    helpers of \<open>uri.rs\<close>; \<open>Links\<close>, \<open>Link_Params\<close>, \<open>Link_Protocols\<close> and \<open>B64_Protocols\<close> the parser
    and the serialiser of each protocol (\<open>protocols/\<close>); \<open>Parser\<close> the dispatch, the line loop and
    the Clash reader of \<open>parser.rs\<close>; \<open>Formats\<close> the two writers of \<open>formats/\<close>.
  \<^item> \<open>crates/server\<close>: a handler is a tree of the effects it awaits (\<open>Program\<close>): a statement of
    SQL, the clock, random bytes, a request to another host, the order in which tasks complete.
    \<open>Api\<close> has the errors, headers and names of \<open>error.rs\<close>, \<open>auth.rs\<close>, \<open>routes/mod.rs\<close> and
    \<open>static.rs\<close>; \<open>Db\<close> the tables and every statement with the errors SQLite reports;
    \<open>Settings\<close>, \<open>Accounts\<close>, \<open>Sources\<close>, \<open>Combineds\<close>, \<open>Fetch\<close> and \<open>Subscribe\<close> the handlers of
    \<open>config.rs\<close>, \<open>db.rs\<close>, \<open>service.rs\<close> and \<open>routes/\<close>, with \<open>serve\<close> for the router.
  \<^item> \<open>crates/server/web\<close> and \<open>crates/web-core\<close>: \<open>Web_Request\<close> has the DTOs, the display functions
    and \<open>api.rs\<close>; \<open>Web_Texts\<close> the messages; \<open>Web_Data\<close> the cache of \<open>data.rs\<close>; \<open>Web_Pages\<close>,
    \<open>Web_Login\<close> and \<open>Web_Preview\<close> the event handlers of \<open>components/\<close>; \<open>Web_Shell\<close> the navigation
    of \<open>main.rs\<close> with the pages mounted in it, one event at a time; \<open>Web_Labels\<close>, \<open>Web_View\<close>,
    \<open>Web_Views\<close> and \<open>Web_Screen\<close> the markup of every page, dialog and icon as a tree of elements
    with their handlers; \<open>Web_Lifetimes\<close> what outlives a component in the browser: listeners,
    timers, and the lock of the scrolling.

  Four theories stand between the parts. \<open>Migrate\<close> and \<open>Boot\<close> have \<open>init_db\<close> with the
  migrations of older files and the start of the process (\<open>db.rs\<close>, \<open>state.rs\<close>, \<open>main.rs\<close>).
  \<open>Json_Text\<close> and \<open>Wire\<close> have what lies between a request of the front end and a handler of the
  server: the text of the JSON, the routes of \<open>routes/\<close>, the extractors with their rejections,
  the derived decoders on both sides and the bodies of the answers.

  \<^bold>\<open>State.\<close> The server's state is the record \<open>database\<close> (one list of rows for each table, with the
  counters of the row ids) and, for the fetches, the pool of permits. A step of a handler is one
  statement; \<open>interleave\<close> runs any number of requests, statement by statement, and a statement
  may fail. The state of the front end is the record \<open>shell\<close>: the cache (\<open>data_store\<close>), the
  signals of the mounted page, its suspended tasks and the toasts. \<open>handle\<close> is one event: a click,
  a rendering, a run of an effect, a reply. The two meet in \<open>Wire\<close>: \<open>deliver\<close> puts a request on
  the wire, \<open>dispatch\<close> routes it to a handler and \<open>wire_reply\<close> gives the text that comes back.

  \<^bold>\<open>What is proved.\<close>

  \<^item> \<open>Core_Properties\<close>: links and subscriptions written by the program are read back in a normal
    form that is stable; what each parser accepts, counts and bounds; when the outputs fail; the
    one input on which a parser panics. The protocols are in \<open>Link_Roundtrip\<close>,
    \<open>Tls_Roundtrip\<close>, \<open>Vmess_Roundtrip\<close> and \<open>B64_Roundtrip\<close>.
  \<^item> \<open>Server_Properties\<close>: the invariant of the tables under every interleaving, termination of
    every handler, the gate, sessions, passwords, the setup.
  \<^item> \<open>Delivery_Properties\<close>: the transactions, the refinement of the catalog of combined
    subscriptions by the tables, the merge of concurrent fetches, the capped body, the public
    endpoint from a name to a text that another server reads back.
  \<^item> \<open>Type_Properties\<close>: the type that every link parser gives its nodes (\<open>Node_Types\<close>), and what
    it means for the outputs: which nodes they lose, and when the endpoint refuses.
  \<^item> \<open>Start_Properties\<close>: interrupted migrations heal, how the process comes up and why it may not,
    the semaphore shared by all fetches.
  \<^item> \<open>Web_Properties\<close>, \<open>Screen_Properties\<close>, \<open>Lifetime_Properties\<close> and \<open>Preview_Properties\<close>: the
    invariant of the cache, when a navigation settles, that a form whose button the screen offers
    has one request under way at most, when the page freezes, and that the preview shows the
    answer to its newest load.
  \<^item> \<open>Wire_Properties\<close>: every request of the front end reaches the handler it is meant for with
    its values, and two conversations followed from end to end.

  \<^bold>\<open>Interfaces.\<close> A protocol promises its round trip (\<open>link_protocol\<close> in \<open>Links\<close>), a set of
  statements its invariant (\<open>statement_invariant\<close> in \<open>Program\<close>, for the tables and for the
  migration), an operation of the cache its contract (\<open>store_operation\<close> in \<open>Web_Store\<close>). Code
  outside the repository is a record of functions (\<open>crates\<close>, \<open>server_crates\<close>, \<open>web_crates\<close>,
  \<open>axum\<close>), and its documented behaviour the assumptions of a locale: the base64, URL and codec
  crates (\<open>Crates\<close>) and the JSON and routing crates (\<open>Wire_Lemmas\<close>). \<open>Rfc_Codecs\<close> and \<open>Wire_Instance\<close> define such crates from the RFCs and interpret
  the locales on them. The YAML reader and writer, the clock, random bytes, hashes of passwords
  and hosts that are fetched have no laws but those a theorem names. A statement of SQL is atomic
  and may fail; a transaction is undone as a whole.

  \<^bold>\<open>Bounds.\<close> A line of a subscription has at most one MiB, a fetched body 16 MiB, a JSON body
  2 MiB, a base64 text and the list of nodes their own limits; all are those of the code. The only
  fuel is in the JSON reader of the interpretation: the depth it nests and the items of a list,
  each bounded by the length of the text, which \<open>json_parse_print\<close> shows to be enough.

  \<^bold>\<open>Not modelled.\<close> The set-up of the logging and the log lines, the loop of the HTTP server, the
  options of the connection pool (their effect is that a statement can fail), response headers
  other than those the handlers set, the styles, and unit tests. The rendering is
  taken to keep up with the signals: a click meets the screen of the present state.
\<close>

end
